(* ===== verification/Prelude.thy ===== *)
theory Prelude
  imports Main "HOL-Library.List_Lexorder" "HOL-Library.Char_ord" "HOL-Library.Sublist" "HOL-Library.Multiset"
begin

text \<open>
  What every component of the development shares: the exception classes of
  \<^verbatim>\<open>src/molly/core/errors.py\<close> and \<^verbatim>\<open>src/molly/acquisition/errors.py\<close> with their
  inheritance, results that are an exception or a
  value, actions that thread a state which survives an exception, and the simplification
  rules and frame rules that the component proofs use.
\<close>

named_theorems res_simps \<open>equations that decide results and actions\<close>
named_theorems frame_rules \<open>how actions compose for a relation between start and end state\<close>

section \<open>Exceptions\<close>

text \<open>
  One constructor per exception class that the Core raises, plus the Python built-ins that
  its \<^verbatim>\<open>except\<close> clauses name and \<open>HostError\<close> for any other class, which carries its
  \<^verbatim>\<open>__name__\<close>. Messages are not modelled.
\<close>

datatype error =
    MollyCoreError | CoreContractError | PathSecurityError
  | ArtifactError | ArtifactNotFoundError | ArtifactIntegrityError | ArtifactConflictError
  | LedgerError | LedgerCorruptionError | LineageError | ValidationContractError
  | ReviewError | ReviewBindingError | RunError | RunBindingError | RunStateError
  | ToolError | ToolContractError | SchemaValidationError | ToolAccessError
  | ToolPolicyError | ToolExecutionError | ApprovalError | ActionError
  | ReconciliationError | InspectionError | InspectionIntegrityError
  | AcquisitionError | AcquisitionConfigurationError | AcquisitionPolicyError
  | AcquisitionTransportError | AcquisitionTimeoutError | AcquisitionCacheError
  | AcquisitionIntegrityError | CredentialLeakError
  | ValueError | TypeError | KeyError | AttributeError | OSError | FileExistsError
  | StopIteration | HostError string

text \<open>The base class named in each class statement of the module.\<close>

fun base_class :: "error \<Rightarrow> error option" where
  "base_class MollyCoreError = Some ValueError"
| "base_class CoreContractError = Some MollyCoreError"
| "base_class PathSecurityError = Some CoreContractError"
| "base_class ArtifactError = Some MollyCoreError"
| "base_class ArtifactNotFoundError = Some ArtifactError"
| "base_class ArtifactIntegrityError = Some ArtifactError"
| "base_class ArtifactConflictError = Some ArtifactError"
| "base_class LedgerError = Some MollyCoreError"
| "base_class LedgerCorruptionError = Some LedgerError"
| "base_class LineageError = Some MollyCoreError"
| "base_class ValidationContractError = Some MollyCoreError"
| "base_class ReviewError = Some MollyCoreError"
| "base_class ReviewBindingError = Some ReviewError"
| "base_class RunError = Some MollyCoreError"
| "base_class RunBindingError = Some RunError"
| "base_class RunStateError = Some RunError"
| "base_class ToolError = Some MollyCoreError"
| "base_class ToolContractError = Some ToolError"
| "base_class SchemaValidationError = Some ToolContractError"
| "base_class ToolAccessError = Some ToolContractError"
| "base_class ToolPolicyError = Some ToolContractError"
| "base_class ToolExecutionError = Some ToolError"
| "base_class ApprovalError = Some MollyCoreError"
| "base_class ActionError = Some MollyCoreError"
| "base_class ReconciliationError = Some MollyCoreError"
| "base_class InspectionError = Some MollyCoreError"
| "base_class InspectionIntegrityError = Some InspectionError"
| "base_class AcquisitionError = Some MollyCoreError"
| "base_class AcquisitionConfigurationError = Some AcquisitionError"
| "base_class AcquisitionPolicyError = Some AcquisitionError"
| "base_class AcquisitionTransportError = Some AcquisitionError"
| "base_class AcquisitionTimeoutError = Some AcquisitionTransportError"
| "base_class AcquisitionCacheError = Some AcquisitionError"
| "base_class AcquisitionIntegrityError = Some AcquisitionError"
| "base_class CredentialLeakError = Some AcquisitionIntegrityError"
| "base_class FileExistsError = Some OSError"
| "base_class _ = None"

fun class_depth :: "error \<Rightarrow> nat" where
  "class_depth MollyCoreError = 1"
| "class_depth CoreContractError = 2"
| "class_depth PathSecurityError = 3"
| "class_depth ArtifactError = 2"
| "class_depth ArtifactNotFoundError = 3"
| "class_depth ArtifactIntegrityError = 3"
| "class_depth ArtifactConflictError = 3"
| "class_depth LedgerError = 2"
| "class_depth LedgerCorruptionError = 3"
| "class_depth LineageError = 2"
| "class_depth ValidationContractError = 2"
| "class_depth ReviewError = 2"
| "class_depth ReviewBindingError = 3"
| "class_depth RunError = 2"
| "class_depth RunBindingError = 3"
| "class_depth RunStateError = 3"
| "class_depth ToolError = 2"
| "class_depth ToolContractError = 3"
| "class_depth SchemaValidationError = 4"
| "class_depth ToolAccessError = 4"
| "class_depth ToolPolicyError = 4"
| "class_depth ToolExecutionError = 3"
| "class_depth ApprovalError = 2"
| "class_depth ActionError = 2"
| "class_depth ReconciliationError = 2"
| "class_depth InspectionError = 2"
| "class_depth InspectionIntegrityError = 3"
| "class_depth AcquisitionError = 2"
| "class_depth AcquisitionConfigurationError = 3"
| "class_depth AcquisitionPolicyError = 3"
| "class_depth AcquisitionTransportError = 3"
| "class_depth AcquisitionTimeoutError = 4"
| "class_depth AcquisitionCacheError = 3"
| "class_depth AcquisitionIntegrityError = 3"
| "class_depth CredentialLeakError = 4"
| "class_depth FileExistsError = 1"
| "class_depth _ = 0"

lemma base_class_depth: "base_class e = Some b \<Longrightarrow> class_depth b < class_depth e"
  by (cases e) auto

text \<open>\<open>is_a e c\<close> is Python's \<^verbatim>\<open>isinstance(e, c)\<close> for a raised exception.\<close>

function is_a :: "error \<Rightarrow> error \<Rightarrow> bool" where
  "is_a e c = (e = c \<or> (case base_class e of None \<Rightarrow> False | Some b \<Rightarrow> is_a b c))"
  by pat_completeness auto
termination
  by (relation "measure (\<lambda>(e, c). class_depth e)") (auto dest: base_class_depth)

declare is_a.simps [simp del]

text \<open>The clause \<^verbatim>\<open>except (KeyError, TypeError, ValueError)\<close> of every \<^verbatim>\<open>from_dict\<close>.\<close>

definition decode_error :: "error \<Rightarrow> bool" where
  "decode_error e = (is_a e KeyError \<or> is_a e TypeError \<or> is_a e ValueError)"

lemma is_a_refl [simp]: "is_a e e"
  by (simp add: is_a.simps)

lemma is_a_base: "base_class e = Some b \<Longrightarrow> is_a b c \<Longrightarrow> is_a e c"
  by (subst is_a.simps) simp

text \<open>Subclassing is a partial order: \<open>e \<le> c\<close> is \<^verbatim>\<open>issubclass(e, c)\<close>.\<close>

lemma is_a_trans: "is_a e c \<Longrightarrow> is_a c d \<Longrightarrow> is_a e d"
  by (induction e c rule: is_a.induct) (metis is_a.simps is_a_base option.case_eq_if option.collapse)

lemma is_a_depth: "is_a e c \<Longrightarrow> e \<noteq> c \<Longrightarrow> class_depth c < class_depth e"
proof (induction e c rule: is_a.induct)
  case (1 e c)
  from "1.prems" is_a.simps [of e c] obtain b where b: "base_class e = Some b" "is_a b c"
    by (auto split: option.splits)
  show ?case using base_class_depth [OF b(1)] "1.IH" [OF b] by (cases "b = c") auto
qed

instantiation error :: order
begin

definition less_eq_error :: "error \<Rightarrow> error \<Rightarrow> bool" where
  "less_eq_error e c = is_a e c"

definition less_error :: "error \<Rightarrow> error \<Rightarrow> bool" where
  "less_error e c = (is_a e c \<and> e \<noteq> c)"

instance
proof
  fix x y z :: error
  show "x \<le> y \<Longrightarrow> y \<le> x \<Longrightarrow> x = y"
    using is_a_depth [of x y] is_a_depth [of y x] by (cases "x = y") (auto simp: less_eq_error_def)
  show "x < y \<longleftrightarrow> x \<le> y \<and> \<not> y \<le> x"
    using is_a_depth [of x y] is_a_depth [of y x] by (cases "x = y") (auto simp: less_eq_error_def less_error_def)
  show "x \<le> x" by (simp add: less_eq_error_def)
  show "x \<le> y \<Longrightarrow> y \<le> z \<Longrightarrow> x \<le> z" unfolding less_eq_error_def by (rule is_a_trans)
qed

end

lemma molly_error_is_value_error [simp]:
  "is_a MollyCoreError ValueError" "is_a CoreContractError ValueError"
  "is_a PathSecurityError ValueError" "is_a LedgerError ValueError"
  "is_a LedgerCorruptionError ValueError" "is_a ToolContractError ValueError"
  "is_a ApprovalError ValueError" "is_a ReviewError ValueError"
  "is_a ValidationContractError ValueError" "is_a RunBindingError ValueError"
  "is_a LineageError ValueError" "is_a ArtifactIntegrityError ValueError"
  by (simp_all add: is_a.simps)

lemma decode_error_simps [simp]:
  "decode_error CoreContractError" "decode_error PathSecurityError" "decode_error TypeError"
  "decode_error KeyError" "decode_error ValueError" "decode_error ToolContractError"
  "decode_error ApprovalError" "decode_error RunBindingError" "decode_error LineageError"
  "decode_error ReviewError" "decode_error ValidationContractError"
  by (simp_all add: decode_error_def)

text \<open>\<^verbatim>\<open>type(error).__name__\<close>\<close>

fun error_name :: "error \<Rightarrow> string" where
  "error_name MollyCoreError = ''MollyCoreError''"
| "error_name CoreContractError = ''CoreContractError''"
| "error_name PathSecurityError = ''PathSecurityError''"
| "error_name ArtifactError = ''ArtifactError''"
| "error_name ArtifactNotFoundError = ''ArtifactNotFoundError''"
| "error_name ArtifactIntegrityError = ''ArtifactIntegrityError''"
| "error_name ArtifactConflictError = ''ArtifactConflictError''"
| "error_name LedgerError = ''LedgerError''"
| "error_name LedgerCorruptionError = ''LedgerCorruptionError''"
| "error_name LineageError = ''LineageError''"
| "error_name ValidationContractError = ''ValidationContractError''"
| "error_name ReviewError = ''ReviewError''"
| "error_name ReviewBindingError = ''ReviewBindingError''"
| "error_name RunError = ''RunError''"
| "error_name RunBindingError = ''RunBindingError''"
| "error_name RunStateError = ''RunStateError''"
| "error_name ToolError = ''ToolError''"
| "error_name ToolContractError = ''ToolContractError''"
| "error_name SchemaValidationError = ''SchemaValidationError''"
| "error_name ToolAccessError = ''ToolAccessError''"
| "error_name ToolPolicyError = ''ToolPolicyError''"
| "error_name ToolExecutionError = ''ToolExecutionError''"
| "error_name ApprovalError = ''ApprovalError''"
| "error_name ActionError = ''ActionError''"
| "error_name ReconciliationError = ''ReconciliationError''"
| "error_name InspectionError = ''InspectionError''"
| "error_name InspectionIntegrityError = ''InspectionIntegrityError''"
| "error_name AcquisitionError = ''AcquisitionError''"
| "error_name AcquisitionConfigurationError = ''AcquisitionConfigurationError''"
| "error_name AcquisitionPolicyError = ''AcquisitionPolicyError''"
| "error_name AcquisitionTransportError = ''AcquisitionTransportError''"
| "error_name AcquisitionTimeoutError = ''AcquisitionTimeoutError''"
| "error_name AcquisitionCacheError = ''AcquisitionCacheError''"
| "error_name AcquisitionIntegrityError = ''AcquisitionIntegrityError''"
| "error_name CredentialLeakError = ''CredentialLeakError''"
| "error_name ValueError = ''ValueError''"
| "error_name TypeError = ''TypeError''"
| "error_name KeyError = ''KeyError''"
| "error_name AttributeError = ''AttributeError''"
| "error_name OSError = ''OSError''"
| "error_name FileExistsError = ''FileExistsError''"
| "error_name StopIteration = ''StopIteration''"
| "error_name (HostError n) = n"

section \<open>Results\<close>

type_synonym 'a res = "error + 'a"

definition bindE :: "'a res \<Rightarrow> ('a \<Rightarrow> 'b res) \<Rightarrow> 'b res" where
  "bindE m f = (case m of Inl e \<Rightarrow> Inl e | Inr x \<Rightarrow> f x)"

definition guardE :: "bool \<Rightarrow> error \<Rightarrow> unit res" where
  "guardE b e = (if b then Inr () else Inl e)"

text \<open>\<^verbatim>\<open>try: m except P as exc: raise e from exc\<close>\<close>

definition wrapE :: "(error \<Rightarrow> bool) \<Rightarrow> error \<Rightarrow> 'a res \<Rightarrow> 'a res" where
  "wrapE P e m = (case m of Inl x \<Rightarrow> if P x then Inl e else Inl x | Inr y \<Rightarrow> Inr y)"

fun mapE :: "('a \<Rightarrow> 'b res) \<Rightarrow> 'a list \<Rightarrow> 'b list res" where
  "mapE f [] = Inr []"
| "mapE f (x # xs) = bindE (f x) (\<lambda>y. bindE (mapE f xs) (\<lambda>ys. Inr (y # ys)))"

definition okE :: "'a res \<Rightarrow> bool" where
  "okE m = (case m of Inl _ \<Rightarrow> False | Inr _ \<Rightarrow> True)"

lemma bindE_simps [simp, res_simps]:
  "bindE (Inl e) f = Inl e"
  "bindE (Inr x) f = f x"
  by (simp_all add: bindE_def)

lemma bindE_eq_Inr [simp]: "bindE m f = Inr y \<longleftrightarrow> (\<exists>x. m = Inr x \<and> f x = Inr y)"
  by (cases m) auto

lemma bindE_eq_Inl: "bindE m f = Inl e \<longleftrightarrow> m = Inl e \<or> (\<exists>x. m = Inr x \<and> f x = Inl e)"
  by (cases m) auto

lemma bindE_cong [fundef_cong]:
  "m = m' \<Longrightarrow> (\<And>x. m' = Inr x \<Longrightarrow> f x = f' x) \<Longrightarrow> bindE m f = bindE m' f'"
  by (cases m') auto

lemma guardE_simps [simp, res_simps]:
  "guardE True e = Inr ()"
  "guardE False e = Inl e"
  by (simp_all add: guardE_def)

lemma guardE_eq_Inr [simp]: "guardE b e = Inr u \<longleftrightarrow> b"
  by (simp add: guardE_def)

lemma guardE_eq_Inl [simp]: "guardE b e = Inl e' \<longleftrightarrow> \<not> b \<and> e' = e"
  by (auto simp: guardE_def)

lemma wrapE_simps [simp, res_simps]:
  "wrapE P e (Inr y) = Inr y"
  "wrapE P e (Inl x) = (if P x then Inl e else Inl x)"
  by (simp_all add: wrapE_def)

lemma wrapE_eq_Inr [simp]: "wrapE P e m = Inr y \<longleftrightarrow> m = Inr y"
  by (cases m) auto

lemma okE_simps [simp, res_simps]: "okE (Inr x)" "\<not> okE (Inl e)"
  by (simp_all add: okE_def)

lemma okE_eq: "okE m \<longleftrightarrow> (\<exists>x. m = Inr x)"
  by (cases m) auto

lemma mapE_eq_Inr: "mapE f xs = Inr ys \<longleftrightarrow> list_all2 (\<lambda>x y. f x = Inr y) xs ys"
proof (induction xs arbitrary: ys)
  case Nil
  then show ?case by (cases ys) auto
next
  case (Cons x xs)
  then show ?case by (cases ys) auto
qed

lemma mapE_id: "(\<And>x. x \<in> set xs \<Longrightarrow> f x = Inr x) \<Longrightarrow> mapE f xs = Inr xs"
  by (induction xs) auto

lemma mapE_id_iff: "(\<And>x y. f x = Inr y \<Longrightarrow> y = x) \<Longrightarrow>
    mapE f xs = Inr ys \<longleftrightarrow> ys = xs \<and> (\<forall>x \<in> set xs. okE (f x))"
  by (induction xs arbitrary: ys) (auto simp: okE_eq)

section \<open>Actions: a state that survives exceptions\<close>

text \<open>
  A method that mutates host state is an action. An exception leaves the state as the
  statements before it left it, so both outcomes carry the state.
\<close>

type_synonym ('s, 'a) act = "'s \<Rightarrow> 'a res \<times> 's"

definition returnA :: "'a \<Rightarrow> ('s, 'a) act" where
  "returnA x = (\<lambda>s. (Inr x, s))"

definition raiseA :: "error \<Rightarrow> ('s, 'a) act" where
  "raiseA e = (\<lambda>s. (Inl e, s))"

definition bindA :: "('s, 'a) act \<Rightarrow> ('a \<Rightarrow> ('s, 'b) act) \<Rightarrow> ('s, 'b) act" where
  "bindA m f = (\<lambda>s. case m s of (Inl e, s') \<Rightarrow> (Inl e, s') | (Inr x, s') \<Rightarrow> f x s')"

definition liftA :: "'a res \<Rightarrow> ('s, 'a) act" where
  "liftA r = (\<lambda>s. (r, s))"

text \<open>A computation that reads the state and may raise.\<close>

definition asksA :: "('s \<Rightarrow> 'a res) \<Rightarrow> ('s, 'a) act" where
  "asksA f = (\<lambda>s. (f s, s))"

definition modifyA :: "('s \<Rightarrow> 's) \<Rightarrow> ('s, unit) act" where
  "modifyA f = (\<lambda>s. (Inr (), f s))"

text \<open>\<^verbatim>\<open>try: m except Exception as exc: h exc\<close>\<close>

definition catchA :: "('s, 'a) act \<Rightarrow> (error \<Rightarrow> ('s, 'a) act) \<Rightarrow> ('s, 'a) act" where
  "catchA m h = (\<lambda>s. case m s of (Inl e, s') \<Rightarrow> h e s' | (Inr x, s') \<Rightarrow> (Inr x, s'))"

fun mapA :: "('a \<Rightarrow> ('s, 'b) act) \<Rightarrow> 'a list \<Rightarrow> ('s, 'b list) act" where
  "mapA f [] = returnA []"
| "mapA f (x # xs) = bindA (f x) (\<lambda>y. bindA (mapA f xs) (\<lambda>ys. returnA (y # ys)))"

lemmas act_defs = returnA_def raiseA_def bindA_def liftA_def asksA_def modifyA_def catchA_def

lemma act_simps [simp, res_simps]:
  "returnA x s = (Inr x, s)"
  "raiseA e s = (Inl e, s)"
  "liftA r s = (r, s)"
  "asksA g s = (g s, s)"
  "modifyA h s = (Inr (), h s)"
  by (simp_all add: act_defs)

lemma bindA_app: "m s = (Inl e, s') \<Longrightarrow> bindA m f s = (Inl e, s')"
    "m s = (Inr x, s') \<Longrightarrow> bindA m f s = f x s'"
  by (simp_all add: bindA_def)

lemma bindA_eq_Inr: "bindA m f s = (Inr y, s'') \<longleftrightarrow>
    (\<exists>x s'. m s = (Inr x, s') \<and> f x s' = (Inr y, s''))"
  by (cases "m s"; cases "fst (m s)") (auto simp: bindA_def)

lemma bindA_assoc: "bindA (bindA m f) g = bindA m (\<lambda>x. bindA (f x) g)"
  by (auto simp: bindA_def fun_eq_iff split: prod.split sum.split)

section \<open>Frame rules\<close>

text \<open>
  \<open>advances R m\<close>: whatever \<open>m\<close> returns or raises, its end state is related to its start
  state. For a reflexive and transitive \<open>R\<close> this composes.
\<close>

definition advances :: "('s \<Rightarrow> 's \<Rightarrow> bool) \<Rightarrow> ('s, 'a) act \<Rightarrow> bool" where
  "advances R m = (\<forall>s. R s (snd (m s)))"

lemma advancesI: "(\<And>s. R s (snd (m s))) \<Longrightarrow> advances R m"
  by (simp add: advances_def)

lemma advancesD: "advances R m \<Longrightarrow> R s (snd (m s))"
  by (simp add: advances_def)

lemma advances_pure [frame_rules]:
  assumes "reflp R"
  shows "advances R (returnA x)" "advances R (raiseA e)" "advances R (liftA r)"
    "advances R (asksA g)"
  using assms by (auto simp: advances_def reflp_def)

lemma advances_modify [frame_rules]: "(\<And>s. R s (h s)) \<Longrightarrow> advances R (modifyA h)"
  by (simp add: advances_def)

lemma advances_bind [frame_rules]:
  assumes "transp R" "advances R m" "\<And>x. advances R (f x)"
  shows "advances R (bindA m f)"
proof (rule advancesI)
  fix s
  obtain r s' where ms: "m s = (r, s')" by (cases "m s")
  from advancesD [OF assms(2), of s] ms have 1: "R s s'" by simp
  show "R s (snd (bindA m f s))"
  proof (cases r)
    case (Inl e)
    with 1 ms show ?thesis by (simp add: bindA_def)
  next
    case (Inr x)
    have "R s' (snd (f x s'))" by (rule advancesD [OF assms(3)])
    with 1 have "R s (snd (f x s'))" using assms(1) by (blast dest: transpD)
    with Inr ms show ?thesis by (simp add: bindA_def)
  qed
qed

lemma advances_catch [frame_rules]:
  assumes "transp R" "advances R m" "\<And>e. advances R (h e)"
  shows "advances R (catchA m h)"
proof (rule advancesI)
  fix s
  obtain r s' where ms: "m s = (r, s')" by (cases "m s")
  from advancesD [OF assms(2), of s] ms have 1: "R s s'" by simp
  show "R s (snd (catchA m h s))"
  proof (cases r)
    case (Inr x)
    with 1 ms show ?thesis by (simp add: catchA_def)
  next
    case (Inl e)
    have "R s' (snd (h e s'))" by (rule advancesD [OF assms(3)])
    with 1 have "R s (snd (h e s'))" using assms(1) by (blast dest: transpD)
    with Inl ms show ?thesis by (simp add: catchA_def)
  qed
qed

lemma advances_map [frame_rules]:
  assumes "reflp R" "transp R" "\<And>x. advances R (f x)"
  shows "advances R (mapA f xs)"
proof (induction xs)
  case Nil
  show ?case using assms(1) by (simp only: mapA.simps) (rule advances_pure)
next
  case (Cons x xs)
  show ?case using assms Cons.IH
    by (simp only: mapA.simps) (intro advances_bind advances_pure; assumption?)
qed

lemma advances_if [frame_rules]:
  "advances R m \<Longrightarrow> advances R n \<Longrightarrow> advances R (if b then m else n)"
  by simp

section \<open>Pre- and postconditions\<close>

text \<open>From a state with \<open>P\<close>, a returned value and its state satisfy \<open>Q\<close>, an exception and its state \<open>R\<close>.\<close>

definition ensures :: "('s \<Rightarrow> bool) \<Rightarrow> ('s, 'a) act \<Rightarrow> ('a \<Rightarrow> 's \<Rightarrow> bool) \<Rightarrow> (error \<Rightarrow> 's \<Rightarrow> bool) \<Rightarrow> bool" where
  "ensures P m Q R = (\<forall>s. P s \<longrightarrow> (case m s of (Inr x, t) \<Rightarrow> Q x t | (Inl e, t) \<Rightarrow> R e t))"

lemma ensuresI: "(\<And>s. P s \<Longrightarrow> (case m s of (Inr x, t) \<Rightarrow> Q x t | (Inl e, t) \<Rightarrow> R e t)) \<Longrightarrow> ensures P m Q R"
  by (simp add: ensures_def)

lemma ensuresD: "ensures P m Q R \<Longrightarrow> P s \<Longrightarrow> m s = (Inr x, t) \<Longrightarrow> Q x t"
    "ensures P m Q R \<Longrightarrow> P s \<Longrightarrow> m s = (Inl e, t) \<Longrightarrow> R e t"
  by (auto simp: ensures_def dest!: spec)

lemma ensures_bind:
  "ensures P m M R \<Longrightarrow> (\<And>x. ensures (M x) (f x) Q R) \<Longrightarrow> ensures P (bindA m f) Q R"
  by (fastforce simp: ensures_def bindA_def split: prod.splits sum.splits)

lemma ensures_conseq:
  "ensures P m Q R \<Longrightarrow> (\<And>s. P' s \<Longrightarrow> P s) \<Longrightarrow> (\<And>x s. Q x s \<Longrightarrow> Q' x s) \<Longrightarrow> (\<And>e s. R e s \<Longrightarrow> R' e s)
     \<Longrightarrow> ensures P' m Q' R'"
  by (fastforce simp: ensures_def split: prod.splits sum.splits)

lemma ensures_simps [simp]:
  "ensures P (returnA x) Q R \<longleftrightarrow> (\<forall>s. P s \<longrightarrow> Q x s)"
  "ensures P (raiseA e) Q R \<longleftrightarrow> (\<forall>s. P s \<longrightarrow> R e s)"
  "ensures P (liftA r) Q R \<longleftrightarrow> (\<forall>s. P s \<longrightarrow> (case r of Inr x \<Rightarrow> Q x s | Inl e \<Rightarrow> R e s))"
  "ensures P (asksA g) Q R \<longleftrightarrow> (\<forall>s. P s \<longrightarrow> (case g s of Inr x \<Rightarrow> Q x s | Inl e \<Rightarrow> R e s))"
  by (auto simp: ensures_def)

lemma ensures_modify [simp]: "ensures P (modifyA h) Q R \<longleftrightarrow> (\<forall>s. P s \<longrightarrow> Q () (h s))"
  by (auto simp: ensures_def)

section \<open>Lists\<close>

text \<open>Association lists are Python dictionaries; sorting by key is stable, so a lookup is unchanged.\<close>

lemma filter_sort_key_fst:
  "filter (\<lambda>p. fst p = k) (sort_key fst xs) = filter (\<lambda>p. fst p = k) xs"
  by (rule sort_key_stable)

lemma map_of_filter_key: "map_of (filter (\<lambda>p. fst p = k) xs) k = map_of xs k"
  by (induction xs) auto

lemma map_of_sort_key [simp]: "map_of (sort_key fst xs) k = map_of xs k"
  by (metis filter_sort_key_fst map_of_filter_key)

lemma sort_key_idem [simp]: "sort_key f (sort_key f xs) = sort_key f xs"
  by (simp add: sorted_sort_id sort_key_id_if_sorted)

lemma distinct_fst_sort_key [simp]:
  "distinct (map fst (sort_key fst xs)) = distinct (map fst xs)"
  by (metis mset_eq_imp_distinct_iff mset_map mset_sort)

text \<open>Append what is not there yet, in order: the de-duplicating loops of the Core.\<close>

fun add_new :: "'a list \<Rightarrow> 'a list \<Rightarrow> 'a list" where
  "add_new acc [] = acc"
| "add_new acc (x # xs) = add_new (if x \<in> set acc then acc else acc @ [x]) xs"

lemma set_add_new [simp]: "set (add_new acc xs) = set acc \<union> set xs"
  by (induction xs arbitrary: acc) auto

lemma distinct_add_new [simp]: "distinct acc \<Longrightarrow> distinct (add_new acc xs)"
  by (induction xs arbitrary: acc) auto

lemma prefix_add_new: "prefix acc (add_new acc xs)"
proof (induction xs arbitrary: acc)
  case Nil
  show ?case by simp
next
  case (Cons x xs)
  have "prefix acc (if x \<in> set acc then acc else acc @ [x])" by simp
  then show ?case using Cons.IH by (simp only: add_new.simps) (rule prefix_order.trans)
qed

end
