(* ===== verification/Json.thy ===== *)
theory Json
  imports PyText
begin

text \<open>
  JSON values as the Core holds them, Python's coercions of such values, and the two
  functions of the standard library's \<^verbatim>\<open>json\<close> module that the Core calls:
  \<^verbatim>\<open>dumps(..., ensure_ascii=True, sort_keys=True, separators=(",", ":"))\<close> and \<^verbatim>\<open>loads\<close>.
\<close>

section \<open>Values\<close>

text \<open>
  A float is kept as its \<^verbatim>\<open>repr\<close>. Lists and tuples are one constructor, as are dict and
  MappingProxyType. A dict is its items in insertion order. \<open>JOpaque\<close> is any other host object.
\<close>

datatype pyfloat = Finite string | NonFinite string

datatype json =
    JNull | JBool bool | JInt int | JFloat pyfloat | JStr string
  | JArr "json list" | JObj "(string \<times> json) list" | JOpaque

type_synonym fields = "(string \<times> json) list"

text \<open>\<^verbatim>\<open>d.get(k)\<close> without and with the distinction of a missing key\<close>

definition jget :: "fields \<Rightarrow> string \<Rightarrow> json" where
  "jget d k = (case map_of d k of None \<Rightarrow> JNull | Some v \<Rightarrow> v)"

definition jget_or :: "fields \<Rightarrow> string \<Rightarrow> json \<Rightarrow> json" where
  "jget_or d k dflt = (case map_of d k of None \<Rightarrow> dflt | Some v \<Rightarrow> v)"

text \<open>\<^verbatim>\<open>d[k]\<close>\<close>

definition jitem :: "fields \<Rightarrow> string \<Rightarrow> json res" where
  "jitem d k = (case map_of d k of None \<Rightarrow> Inl KeyError | Some v \<Rightarrow> Inr v)"

text \<open>\<^verbatim>\<open>d[k] = v\<close>: in place for a present key, else at the end\<close>

fun jset :: "string \<Rightarrow> json \<Rightarrow> fields \<Rightarrow> fields" where
  "jset k v [] = [(k, v)]"
| "jset k v ((k', v') # d) = (if k = k' then (k, v) # d else (k', v') # jset k v d)"

fun is_mapping :: "json \<Rightarrow> bool" where
  "is_mapping (JObj _) = True"
| "is_mapping _ = False"

definition jstr_opt :: "string option \<Rightarrow> json" where
  "jstr_opt o' = (case o' of None \<Rightarrow> JNull | Some s \<Rightarrow> JStr s)"

definition jstrs :: "string list \<Rightarrow> json" where
  "jstrs xs = JArr (map JStr xs)"

fun pyfloat_repr :: "pyfloat \<Rightarrow> string" where
  "pyfloat_repr (Finite s) = s"
| "pyfloat_repr (NonFinite s) = s"

text \<open>
  \<^verbatim>\<open>repr\<close> and \<^verbatim>\<open>str\<close>. A string is quoted with apostrophes unless it has one and no quotation mark; a
  container prints as a list or a dict, the classes that \<^verbatim>\<open>json.loads\<close> makes (a frozen one prints its
  own class name, which no caller keeps).
\<close>

definition repr_char :: "char \<Rightarrow> char \<Rightarrow> string" where
  "repr_char q c = (let n = code c in
     if c = q \<or> n = 92 then [CHR 0x5C, c]
     else if n = 10 then CHR 0x5C # ''n''
     else if n = 13 then CHR 0x5C # ''r''
     else if n = 9 then CHR 0x5C # ''t''
     else if n < 32 \<or> 127 \<le> n \<and> n \<le> 160 \<or> n = 173
       then CHR 0x5C # ''x'' @ [hex_digit (n div 16), hex_digit (n mod 16)]
     else [c])"

definition repr_string :: "string \<Rightarrow> string" where
  "repr_string s =
     (let q = (if CHR 0x27 \<in> set s \<and> CHR 0x22 \<notin> set s then CHR 0x22 else CHR 0x27)
      in q # concat (map (repr_char q) s) @ [q])"

fun py_repr :: "json \<Rightarrow> string" and repr_items :: "json list \<Rightarrow> string"
  and repr_members :: "fields \<Rightarrow> string" where
  "py_repr JNull = ''None''"
| "py_repr (JBool b) = (if b then ''True'' else ''False'')"
| "py_repr (JInt i) = dec_int i"
| "py_repr (JFloat f) = pyfloat_repr f"
| "py_repr (JStr s) = repr_string s"
| "py_repr (JArr xs) = ''['' @ repr_items xs @ '']''"
| "py_repr (JObj d) = ''{'' @ repr_members d @ ''}''"
| "py_repr JOpaque = ''<''"
| "repr_items [] = []"
| "repr_items (x # xs) = py_repr x @ (if xs = [] then [] else '', '' @ repr_items xs)"
| "repr_members [] = []"
| "repr_members ((k, v) # d) =
     repr_string k @ '': '' @ py_repr v @ (if d = [] then [] else '', '' @ repr_members d)"

fun py_str :: "json \<Rightarrow> string" where
  "py_str (JStr s) = s"
| "py_str v = py_repr v"

text \<open>
  \<^verbatim>\<open>int(v)\<close>. Of a string it takes the decimal digits with single underscores between them, a sign
  and surrounding white space; of a float it truncates, which is the argument \<open>tr\<close>.
\<close>

fun int_digits :: "bool \<Rightarrow> string \<Rightarrow> string option" where
  "int_digits prev [] = (if prev then Some [] else None)"
| "int_digits prev (c # cs) =
     (if is_ascii_digit c then map_option ((#) c) (int_digits True cs)
      else if c = CHR ''_'' \<and> prev then int_digits False cs
      else None)"

definition int_of_str :: "string \<Rightarrow> int option" where
  "int_of_str s =
     (case py_strip s of
        [] \<Rightarrow> None
      | c # cs \<Rightarrow>
          if c = CHR ''-'' then map_option (\<lambda>ds. - int (read_nat ds)) (int_digits False cs)
          else if c = CHR ''+'' then map_option (\<lambda>ds. int (read_nat ds)) (int_digits False cs)
          else map_option (\<lambda>ds. int (read_nat ds)) (int_digits False (c # cs)))"

fun py_int :: "(string \<Rightarrow> int) \<Rightarrow> json \<Rightarrow> int res" where
  "py_int tr (JInt i) = Inr i"
| "py_int tr (JBool b) = Inr (of_bool b)"
| "py_int tr (JStr s) = (case int_of_str s of None \<Rightarrow> Inl ValueError | Some i \<Rightarrow> Inr i)"
| "py_int tr (JFloat (Finite s)) = Inr (tr s)"
| "py_int tr (JFloat (NonFinite s)) =
     (if s = ''nan'' then Inl ValueError else Inl (HostError ''OverflowError''))"
| "py_int tr _ = Inl TypeError"

text \<open>\<^verbatim>\<open>None if v is None else str(v)\<close>\<close>

fun str_or_none :: "json \<Rightarrow> string option" where
  "str_or_none JNull = None"
| "str_or_none v = Some (py_str v)"

text \<open>\<^verbatim>\<open>tuple(v)\<close>: a string gives its characters, a dict its keys\<close>

fun py_tuple :: "json \<Rightarrow> json list res" where
  "py_tuple (JArr xs) = Inr xs"
| "py_tuple (JObj d) = Inr (map (JStr \<circ> fst) d)"
| "py_tuple (JStr s) = Inr (map (\<lambda>c. JStr [c]) s)"
| "py_tuple _ = Inl TypeError"

text \<open>
  \<^verbatim>\<open>dict(v)\<close>: an iterable of two-element iterables is a dict too. A key that is not a string
  is refused here; the Core refuses it in the validation that follows every such call.
\<close>

fun dict_pair :: "json \<Rightarrow> (string \<times> json) res" where
  "dict_pair v = bindE (py_tuple v) (\<lambda>xs. case xs of
       [JStr k, w] \<Rightarrow> Inr (k, w)
     | [_, _] \<Rightarrow> Inl TypeError
     | _ \<Rightarrow> Inl ValueError)"

fun py_dict :: "json \<Rightarrow> fields res" where
  "py_dict (JObj d) = Inr d"
| "py_dict v = bindE (py_tuple v) (\<lambda>xs. bindE (mapE dict_pair xs) (\<lambda>ps.
     Inr (foldl (\<lambda>d p. jset (fst p) (snd p) d) [] ps)))"

section \<open>Equality\<close>

text \<open>
  \<^verbatim>\<open>v == w\<close>: \<^verbatim>\<open>True\<close> is 1, a dict's order does not count. \<open>feq\<close> compares two numbers of which one is a
  float and which have different \<^verbatim>\<open>repr\<close>.
\<close>

fun int_val :: "json \<Rightarrow> int option" where
  "int_val (JBool b) = Some (of_bool b)"
| "int_val (JInt i) = Some i"
| "int_val _ = None"

fun is_num :: "json \<Rightarrow> bool" where
  "is_num (JBool _) = True"
| "is_num (JInt _) = True"
| "is_num (JFloat _) = True"
| "is_num _ = False"

definition num_eq :: "(json \<Rightarrow> json \<Rightarrow> bool) \<Rightarrow> json \<Rightarrow> json \<Rightarrow> bool" where
  "num_eq feq v w = (case (int_val v, int_val w) of
     (Some i, Some j) \<Rightarrow> i = j
   | _ \<Rightarrow> v = w \<or> is_num v \<and> is_num w \<and> feq v w)"

fun json_eq :: "(json \<Rightarrow> json \<Rightarrow> bool) \<Rightarrow> json \<Rightarrow> json \<Rightarrow> bool"
  and eq_items :: "(json \<Rightarrow> json \<Rightarrow> bool) \<Rightarrow> json list \<Rightarrow> json list \<Rightarrow> bool"
  and eq_members :: "(json \<Rightarrow> json \<Rightarrow> bool) \<Rightarrow> fields \<Rightarrow> fields \<Rightarrow> bool" where
  "json_eq feq (JArr xs) w = (case w of JArr ys \<Rightarrow> eq_items feq xs ys | _ \<Rightarrow> False)"
| "json_eq feq (JObj d) w = (case w of JObj d' \<Rightarrow> length d = length d' \<and> eq_members feq d d' | _ \<Rightarrow> False)"
| "json_eq feq JNull w = (w = JNull)"
| "json_eq feq (JStr s) w = (w = JStr s)"
| "json_eq feq (JBool b) w = num_eq feq (JBool b) w"
| "json_eq feq (JInt i) w = num_eq feq (JInt i) w"
| "json_eq feq (JFloat f) w = num_eq feq (JFloat f) w"
| "json_eq feq JOpaque w = False"
| "eq_items feq [] ys = (ys = [])"
| "eq_items feq (x # xs) ys = (case ys of [] \<Rightarrow> False | y # ys' \<Rightarrow> json_eq feq x y \<and> eq_items feq xs ys')"
| "eq_members feq [] d' = True"
| "eq_members feq ((k, v) # d) d' =
     ((case map_of d' k of None \<Rightarrow> False | Some w \<Rightarrow> json_eq feq v w) \<and> eq_members feq d d')"

section \<open>Printing\<close>

text \<open>Sorting the keys at every level, as \<^verbatim>\<open>sort_keys=True\<close> does\<close>

fun jnorm :: "json \<Rightarrow> json" and jnorm_list :: "json list \<Rightarrow> json list"
  and jnorm_fields :: "fields \<Rightarrow> fields" where
  "jnorm (JArr xs) = JArr (jnorm_list xs)"
| "jnorm (JObj d) = JObj (sort_key fst (jnorm_fields d))"
| "jnorm JNull = JNull"
| "jnorm (JBool b) = JBool b"
| "jnorm (JInt i) = JInt i"
| "jnorm (JFloat f) = JFloat f"
| "jnorm (JStr s) = JStr s"
| "jnorm JOpaque = JOpaque"
| "jnorm_list [] = []"
| "jnorm_list (x # xs) = jnorm x # jnorm_list xs"
| "jnorm_fields [] = []"
| "jnorm_fields ((k, v) # d) = (k, jnorm v) # jnorm_fields d"

definition norm_obj :: "fields \<Rightarrow> fields" where
  "norm_obj d = sort_key fst (jnorm_fields d)"

text \<open>\<^verbatim>\<open>py_encode_basestring_ascii\<close>\<close>

definition escape_char :: "char \<Rightarrow> string" where
  "escape_char c = (let n = code c in
     if n = 34 \<or> n = 92 then [CHR 0x5C, c]
     else if n = 10 then CHR 0x5C # ''n''
     else if n = 13 then CHR 0x5C # ''r''
     else if n = 9 then CHR 0x5C # ''t''
     else if n = 12 then CHR 0x5C # ''f''
     else if n = 8 then CHR 0x5C # ''b''
     else if 32 \<le> n \<and> n \<le> 126 then [c]
     else CHR 0x5C # ''u00'' @ [hex_digit (n div 16), hex_digit (n mod 16)])"

fun escape_string :: "string \<Rightarrow> string" where
  "escape_string [] = []"
| "escape_string (c # cs) = escape_char c @ escape_string cs"

definition print_string :: "string \<Rightarrow> string" where
  "print_string s = CHR 0x22 # escape_string s @ [CHR 0x22]"

fun print_json :: "json \<Rightarrow> string" and print_items :: "json list \<Rightarrow> string"
  and print_members :: "fields \<Rightarrow> string" where
  "print_json JNull = ''null''"
| "print_json (JBool b) = (if b then ''true'' else ''false'')"
| "print_json (JInt i) = dec_int i"
| "print_json (JFloat f) = pyfloat_repr f"
| "print_json (JStr s) = print_string s"
| "print_json (JArr xs) = (if xs = [] then ''[]'' else ''['' @ print_items xs @ '']'')"
| "print_json (JObj d) = (if d = [] then ''{}'' else ''{'' @ print_members d @ ''}'')"
| "print_json JOpaque = ''''"
| "print_items [] = ''''"
| "print_items (x # xs) =
     (if xs = [] then print_json x else print_json x @ '','' @ print_items xs)"
| "print_members [] = ''''"
| "print_members ((k, v) # d) =
     (if d = [] then print_string k @ '':'' @ print_json v
      else print_string k @ '':'' @ print_json v @ '','' @ print_members d)"

definition json_dumps :: "json \<Rightarrow> string" where
  "json_dumps v = print_json (jnorm v)"

section \<open>Parsing\<close>

text \<open>
  The scanner of \<^verbatim>\<open>json.loads\<close>. The conversion of a float literal is the argument \<open>fl\<close>;
  \<^verbatim>\<open>None\<close> stands for \<^verbatim>\<open>JSONDecodeError\<close>.
\<close>

fun skip_ws :: "string \<Rightarrow> string" where
  "skip_ws [] = []"
| "skip_ws (c # cs) = (if c \<in> {CHR '' '', CHR 0x09, CHR 0x0A, CHR 0x0D} then skip_ws cs else c # cs)"

definition hex_value :: "char \<Rightarrow> nat option" where
  "hex_value c = (let n = code c in
     if 48 \<le> n \<and> n \<le> 57 then Some (n - 48)
     else if 97 \<le> n \<and> n \<le> 102 then Some (n - 87)
     else if 65 \<le> n \<and> n \<le> 70 then Some (n - 55)
     else None)"

text \<open>The character of an escape with one letter\<close>

definition unescape :: "char \<Rightarrow> char option" where
  "unescape c = (let n = code c in
     if n = 34 \<or> n = 92 \<or> n = 47 then Some c
     else if n = 98 then Some (char_of (8 :: nat))
     else if n = 102 then Some (char_of (12 :: nat))
     else if n = 110 then Some (char_of (10 :: nat))
     else if n = 114 then Some (char_of (13 :: nat))
     else if n = 116 then Some (char_of (9 :: nat))
     else None)"

text \<open>The body of a string literal after its opening quote; code points from 256 on are out of range.\<close>

fun parse_chars :: "string \<Rightarrow> (string \<times> string) option" where
  "parse_chars [] = None"
| "parse_chars (c # cs) =
     (if c = CHR 0x22 then Some ([], cs)
      else if c = CHR 0x5C then
        (case cs of
           [] \<Rightarrow> None
         | e # rest \<Rightarrow>
             if e = CHR ''u'' then
               (case rest of
                  h1 # h2 # h3 # h4 # rest' \<Rightarrow>
                    (case (hex_value h1, hex_value h2, hex_value h3, hex_value h4) of
                       (Some 0, Some 0, Some a, Some b) \<Rightarrow>
                         map_option (\<lambda>(s, r). (char_of (16 * a + b) # s, r)) (parse_chars rest')
                     | _ \<Rightarrow> None)
                | _ \<Rightarrow> None)
             else
               (case unescape e of
                  None \<Rightarrow> None
                | Some d \<Rightarrow> map_option (\<lambda>(s, r). (d # s, r)) (parse_chars rest)))
      else if code c < 32 then None
      else map_option (\<lambda>(s, r). (c # s, r)) (parse_chars cs))"

definition scan_digits :: "string \<Rightarrow> string \<times> string" where
  "scan_digits s = (takeWhile is_ascii_digit s, dropWhile is_ascii_digit s)"

definition scan_sign :: "string \<Rightarrow> string \<times> string" where
  "scan_sign s = (case s of c # cs \<Rightarrow> if c = CHR ''-'' then ([c], cs) else ([], s) | [] \<Rightarrow> ([], s))"

definition scan_int :: "string \<Rightarrow> (string \<times> string) option" where
  "scan_int s = (case s of
     c # cs \<Rightarrow> if c = CHR ''0'' then Some ([c], cs)
       else if is_ascii_digit c then Some (scan_digits s) else None
   | [] \<Rightarrow> None)"

definition scan_frac :: "string \<Rightarrow> string \<times> string" where
  "scan_frac s = (case s of
     c # cs \<Rightarrow> if c = CHR ''.'' \<and> fst (scan_digits cs) \<noteq> []
       then (c # fst (scan_digits cs), snd (scan_digits cs)) else ([], s)
   | [] \<Rightarrow> ([], s))"

definition scan_exp_sign :: "string \<Rightarrow> string \<times> string" where
  "scan_exp_sign s = (case s of
     c # cs \<Rightarrow> if c = CHR ''-'' \<or> c = CHR ''+'' then ([c], cs) else ([], s) | [] \<Rightarrow> ([], s))"

definition scan_exp :: "string \<Rightarrow> string \<times> string" where
  "scan_exp s = (case s of
     c # cs \<Rightarrow>
       if c = CHR ''e'' \<or> c = CHR ''E'' then
         (let (sg, r) = scan_exp_sign cs in
          if fst (scan_digits r) \<noteq> [] then (c # sg @ fst (scan_digits r), snd (scan_digits r))
          else ([], s))
       else ([], s)
   | [] \<Rightarrow> ([], s))"

definition parse_number :: "(string \<Rightarrow> pyfloat) \<Rightarrow> string \<Rightarrow> (json \<times> string) option" where
  "parse_number fl s =
     (let (sg, s1) = scan_sign s in
      case scan_int s1 of
        None \<Rightarrow> None
      | Some (ip, s2) \<Rightarrow>
          (let (fr, s3) = scan_frac s2; (ex, s4) = scan_exp s3 in
           if fr = [] \<and> ex = [] then
             Some (JInt (if sg = [] then int (read_nat ip) else - int (read_nat ip)), s4)
           else Some (JFloat (fl (sg @ ip @ fr @ ex)), s4)))"

text \<open>
  The fuel bounds the nesting and the number of items. \<open>json_loads\<close> gives two units per
  character and two more, which \<open>parse_fuel_stable\<close> shows to be enough for every text.
\<close>

fun parse_value :: "(string \<Rightarrow> pyfloat) \<Rightarrow> nat \<Rightarrow> string \<Rightarrow> (json \<times> string) option"
  and parse_items :: "(string \<Rightarrow> pyfloat) \<Rightarrow> nat \<Rightarrow> string \<Rightarrow> (json list \<times> string) option"
  and parse_members :: "(string \<Rightarrow> pyfloat) \<Rightarrow> nat \<Rightarrow> string \<Rightarrow> (fields \<times> string) option" where
  "parse_value fl 0 s = None"
| "parse_value fl (Suc n) s =
     (case s of
        [] \<Rightarrow> None
      | c # cs \<Rightarrow>
          if c = CHR 0x22 then map_option (\<lambda>(t, r). (JStr t, r)) (parse_chars cs)
          else if c = CHR ''{'' then
            (case skip_ws cs of
               [] \<Rightarrow> None
             | d # ds \<Rightarrow> if d = CHR ''}'' then Some (JObj [], ds)
                 else map_option (\<lambda>(m, r). (JObj (foldl (\<lambda>d p. jset (fst p) (snd p) d) [] m), r))
                        (parse_members fl n (d # ds)))
          else if c = CHR ''['' then
            (case skip_ws cs of
               [] \<Rightarrow> None
             | d # ds \<Rightarrow> if d = CHR '']'' then Some (JArr [], ds)
                 else map_option (\<lambda>(xs, r). (JArr xs, r)) (parse_items fl n (d # ds)))
          else if py_startswith s ''null'' then Some (JNull, drop 4 s)
          else if py_startswith s ''true'' then Some (JBool True, drop 4 s)
          else if py_startswith s ''false'' then Some (JBool False, drop 5 s)
          else if py_startswith s ''NaN'' then Some (JFloat (NonFinite ''nan''), drop 3 s)
          else if py_startswith s ''Infinity'' then Some (JFloat (NonFinite ''inf''), drop 8 s)
          else if py_startswith s ''-Infinity'' then Some (JFloat (NonFinite ''-inf''), drop 9 s)
          else parse_number fl s)"
| "parse_items fl 0 s = None"
| "parse_items fl (Suc n) s =
     (case parse_value fl n s of
        None \<Rightarrow> None
      | Some (v, r) \<Rightarrow>
          (case skip_ws r of
             [] \<Rightarrow> None
           | d # ds \<Rightarrow>
               if d = CHR '']'' then Some ([v], ds)
               else if d = CHR '','' then
                 map_option (\<lambda>(vs, r'). (v # vs, r')) (parse_items fl n (skip_ws ds))
               else None))"
| "parse_members fl 0 s = None"
| "parse_members fl (Suc n) s =
     (case s of
        [] \<Rightarrow> None
      | q # qs \<Rightarrow>
          if q \<noteq> CHR 0x22 then None
          else (case parse_chars qs of
                  None \<Rightarrow> None
                | Some (k, r) \<Rightarrow>
                    (case skip_ws r of
                       [] \<Rightarrow> None
                     | d # ds \<Rightarrow>
                         if d \<noteq> CHR '':'' then None
                         else (case parse_value fl n (skip_ws ds) of
                                 None \<Rightarrow> None
                               | Some (v, r2) \<Rightarrow>
                                   (case skip_ws r2 of
                                      [] \<Rightarrow> None
                                    | e # es \<Rightarrow>
                                        if e = CHR ''}'' then Some ([(k, v)], es)
                                        else if e = CHR '','' then
                                          map_option (\<lambda>(m, r3). ((k, v) # m, r3))
                                            (parse_members fl n (skip_ws es))
                                        else None)))))"

definition json_loads :: "(string \<Rightarrow> pyfloat) \<Rightarrow> string \<Rightarrow> json option" where
  "json_loads fl s =
     (case parse_value fl (2 * length s + 2) (skip_ws s) of
        None \<Rightarrow> None
      | Some (v, r) \<Rightarrow> if skip_ws r = [] then Some v else None)"

text \<open>
  \<^verbatim>\<open>bytes.decode("utf-8")\<close> onto the code points below 256: one byte, or two bytes of which the
  first is C2 or C3. \<open>None\<close> stands for a text that is malformed or leaves that range.
\<close>

fun decode_utf8 :: "string \<Rightarrow> string option" where
  "decode_utf8 [] = Some []"
| "decode_utf8 (c # cs) =
     (if code c < 128 then map_option ((#) c) (decode_utf8 cs)
      else if code c = 194 \<or> code c = 195 then
        (case cs of
           [] \<Rightarrow> None
         | d # ds \<Rightarrow>
             if 128 \<le> code d \<and> code d < 192
             then map_option ((#) (char_of (64 * (code c - 192) + (code d - 128)))) (decode_utf8 ds)
             else None)
      else None)"

text \<open>The line decoder of the logs: \<^verbatim>\<open>json.loads(payload.decode("utf-8"))\<close>\<close>

definition loads_bytes :: "(string \<Rightarrow> pyfloat) \<Rightarrow> string \<Rightarrow> json option" where
  "loads_bytes fl payload =
     (case decode_utf8 payload of None \<Rightarrow> None | Some s \<Rightarrow> json_loads fl s)"

end
