(* ===== verification/JsonCodec.thy ===== *)
theory JsonCodec
  imports Json
begin

text \<open>
  Facts about the JSON printer and scanner: the scanner's fuel is enough for every text, a
  printed value is read back as the value itself, the printed text is plain ASCII without
  line breaks, and neither the order of a dict's items nor repeated sorting changes it.
\<close>

section \<open>Lookups and sorting\<close>

lemma map_of_jnorm_fields [simp]: "map_of (jnorm_fields d) k = map_option jnorm (map_of d k)"
  by (induction d rule: jnorm_jnorm_list_jnorm_fields.induct(3) [of "\<lambda>_. True" "\<lambda>_. True"]) auto

lemma map_of_norm_obj [simp]: "map_of (norm_obj d) k = map_option jnorm (map_of d k)"
  by (simp add: norm_obj_def)

lemma jget_norm_obj [simp]: "jget (norm_obj d) k = jnorm (jget d k)"
  by (simp add: jget_def split: option.splits)

lemma map_fst_jnorm_fields [simp]: "map fst (jnorm_fields d) = map fst d"
  by (induction d) auto

lemma jnorm_list_map: "jnorm_list xs = map jnorm xs"
  by (induction xs) auto

definition map_snd :: "('a \<Rightarrow> 'b) \<Rightarrow> 'k \<times> 'a \<Rightarrow> 'k \<times> 'b" where
  "map_snd f p = (fst p, f (snd p))"

lemma jnorm_fields_map: "jnorm_fields d = map (map_snd jnorm) d"
  by (induction d) (auto simp: map_snd_def)

lemma jnorm_obj_norm: "jnorm (JObj d) = JObj (norm_obj d)"
  by (simp add: norm_obj_def)

lemma jnorm_jstrs [simp]: "jnorm (jstrs xs) = jstrs xs"
  by (simp add: jstrs_def jnorm_list_map)

lemma jnorm_jstr_opt [simp]: "jnorm (jstr_opt x) = jstr_opt x"
  by (cases x) (simp_all add: jstr_opt_def)

lemma sort_key_map_snd: "sort_key fst (map (map_snd f) d) = map (map_snd f) (sort_key fst d)"
  for d :: "(string \<times> 'a) list"
proof -
  have ins: "insort_key fst (map_snd f p) (map (map_snd f) d)
      = map (map_snd f) (insort_key fst p d)" for p :: "string \<times> 'a" and d
    by (induction d) (auto simp: map_snd_def)
  show ?thesis by (induction d) (simp_all add: ins)
qed

lemma jnorm_idem [simp]: "jnorm (jnorm v) = jnorm v"
proof (induction v)
  case (JArr xs)
  then show ?case by (simp add: jnorm_list_map)
next
  case (JObj d)
  have "map (map_snd jnorm) (map (map_snd jnorm) d) = map (map_snd jnorm) d"
    using JObj by (auto simp: map_snd_def snds.simps prod_eq_iff)
  then have "jnorm_fields (sort_key fst (jnorm_fields d)) = sort_key fst (jnorm_fields d)"
    by (simp only: jnorm_fields_map sort_key_map_snd [symmetric])
  then show ?case by simp
qed simp_all

lemma norm_obj_idem [simp]: "norm_obj (norm_obj d) = norm_obj d"
  using jnorm_idem [of "JObj d"] by (simp add: norm_obj_def)

text \<open>The text does not depend on the insertion order of the keys.\<close>

lemma sort_key_perm_distinct:
  fixes d d' :: "(string \<times> 'a) list"
  assumes "mset d = mset d'" "distinct (map fst d)"
  shows "sort_key fst d = sort_key fst d'"
proof (rule map_sorted_distinct_set_unique [where f = fst])
  have s: "set d = set d'" using assms(1) by (metis set_mset_mset)
  have d': "distinct (map fst d')"
    using assms by (metis mset_eq_imp_distinct_iff mset_map)
  show "inj_on fst (set (sort_key fst d) \<union> set (sort_key fst d'))"
    using assms(2) s by (simp add: distinct_map)
  show "distinct (map fst (sort_key fst d))" "distinct (map fst (sort_key fst d'))"
    using assms(2) d' by (simp_all only: distinct_fst_sort_key)
  show "set (sort_key fst d) = set (sort_key fst d')" using s by simp
qed simp_all

lemma json_dumps_perm:
  assumes "mset d = mset d'" "distinct (map fst d)"
  shows "json_dumps (JObj d) = json_dumps (JObj d')"
proof -
  have "mset (jnorm_fields d) = mset (jnorm_fields d')"
    using assms(1) by (simp add: jnorm_fields_map)
  moreover have "distinct (map fst (jnorm_fields d))" using assms(2) by simp
  ultimately have "sort_key fst (jnorm_fields d) = sort_key fst (jnorm_fields d')"
    by (rule sort_key_perm_distinct)
  then show ?thesis by (simp add: json_dumps_def)
qed

lemma json_dumps_jnorm [simp]: "json_dumps (jnorm v) = json_dumps v"
  by (simp add: json_dumps_def)

section \<open>Strings\<close>

lemma hex_value_digit: "d < 16 \<Longrightarrow> hex_value (hex_digit d) = Some d"
  by (auto simp: hex_value_def hex_digit_def Let_def)

lemma code_eq_char: "code c = n \<longleftrightarrow> c = char_of n" if "n < 256" for n :: nat
  using that by (metis char_of_code code_char_of mod_less)

lemma char_consts:
  "code CHR 0x22 = 34" "code CHR 0x5C = 92" "code CHR ''u'' = 117" "code CHR ''n'' = 110"
  "code CHR ''r'' = 114" "code CHR ''t'' = 116" "code CHR ''f'' = 102" "code CHR ''b'' = 98"
  "code CHR '','' = 44" "code CHR '']'' = 93" "code CHR ''}'' = 125" "code CHR '':'' = 58"
  "code CHR ''['' = 91" "code CHR ''{'' = 123" "code CHR '' '' = 32" "code CHR 0x09 = 9"
  "code CHR 0x0A = 10" "code CHR 0x0D = 13" "code CHR ''-'' = 45" "code CHR ''0'' = 48"
  "code CHR ''I'' = 73" "code CHR ''N'' = 78" "code CHR ''.'' = 46" "code CHR ''e'' = 101"
  "code CHR ''E'' = 69" "code CHR ''+'' = 43" "code CHR ''/'' = 47"
  by (simp_all add: code_def)

lemma char_of_consts:
  "char_of (34 :: nat) = CHR 0x22" "char_of (92 :: nat) = CHR 0x5C" "char_of (10 :: nat) = CHR 0x0A"
  "char_of (13 :: nat) = CHR 0x0D" "char_of (9 :: nat) = CHR 0x09" "char_of (12 :: nat) = CHR 0x0C"
  "char_of (8 :: nat) = CHR 0x08"
  by code_simp+

lemma parse_escaped_char:
  "parse_chars (escape_char c @ t) = map_option (\<lambda>(s, r). (c # s, r)) (parse_chars t)"
proof -
  let ?n = "code c"
  have *: "char_of (16 * (?n div 16) + ?n mod 16) = c" by simp
  have h: "hex_value (hex_digit (?n div 16)) = Some (?n div 16)"
    "hex_value (hex_digit (?n mod 16)) = Some (?n mod 16)"
    using code_less [of c] by (auto intro!: hex_value_digit simp: less_mult_imp_div_less)
  have z: "hex_value CHR ''0'' = Some 0" by (simp add: hex_value_def char_consts)
  consider (q) "?n = 34" | (b) "?n = 92" | (n) "?n = 10" | (r) "?n = 13" | (t) "?n = 9"
    | (f) "?n = 12" | (bs) "?n = 8" | (plain) "32 \<le> ?n" "?n \<le> 126" "?n \<noteq> 34" "?n \<noteq> 92"
    | (u) "\<not> (32 \<le> ?n \<and> ?n \<le> 126)" "?n \<notin> {34, 92, 10, 13, 9, 12, 8}"
    by auto
  then show ?thesis
  proof cases
    case plain
    then have "c \<noteq> CHR 0x22" "c \<noteq> CHR 0x5C" by (auto simp: char_consts)
    with plain show ?thesis by (simp add: escape_char_def Let_def)
  next
    case u
    then have "escape_char c = CHR 0x5C # ''u00'' @ [hex_digit (?n div 16), hex_digit (?n mod 16)]"
      by (auto simp: escape_char_def Let_def)
    then show ?thesis by (simp add: h z *)
  qed (auto simp: escape_char_def unescape_def char_consts Let_def code_eq_char
      char_of_consts)
qed

lemma parse_escape_string: "parse_chars (escape_string s @ CHR 0x22 # r) = Some (s, r)"
  by (induction s) (simp_all add: parse_escaped_char)

text \<open>Printed strings are printable ASCII.\<close>

definition printable :: "char \<Rightarrow> bool" where
  "printable c = (32 \<le> code c \<and> code c \<le> 126)"

lemma hex_digit_printable: "d < 16 \<Longrightarrow> printable (hex_digit d)"
  by (auto simp: printable_def hex_digit_def)

lemma escape_char_printable: "list_all printable (escape_char c)"
proof -
  have "code c div 16 < 16" "code c mod 16 < 16"
    using code_less [of c] by (auto simp: less_mult_imp_div_less)
  then show ?thesis
    by (auto simp: escape_char_def Let_def hex_digit_printable) (auto simp: printable_def char_consts)
qed

lemma print_string_printable: "list_all printable (print_string s)"
proof -
  have "list_all printable (escape_string s)"
    by (induction s) (simp_all add: escape_char_printable)
  then show ?thesis by (simp add: print_string_def) (simp add: printable_def char_consts)
qed

section \<open>Numbers\<close>

text \<open>What may follow a value in canonical text or at the end of a canonical file\<close>

definition value_end :: "string \<Rightarrow> bool" where
  "value_end r = (r = [] \<or> hd r \<in> {CHR '','', CHR '']'', CHR ''}'', CHR 0x0A})"

lemma value_end_simps [simp]:
  "value_end []" "value_end (CHR '','' # r)" "value_end (CHR '']'' # r)" "value_end (CHR ''}'' # r)"
  "value_end (CHR 0x0A # r)"
  by (simp_all add: value_end_def)

definition stops :: "(char \<Rightarrow> bool) \<Rightarrow> string \<Rightarrow> bool" where
  "stops P r = (r = [] \<or> \<not> P (hd r))"

lemma value_end_stops:
  assumes "value_end r"
  shows "stops is_ascii_digit r" "stops (\<lambda>c. c = CHR ''.'') r"
    "stops (\<lambda>c. c = CHR ''e'' \<or> c = CHR ''E'') r"
  using assms by (auto simp: value_end_def stops_def is_ascii_digit_def char_consts)

lemma span_append:
  assumes "stops P r"
  shows "takeWhile P (s @ r) = takeWhile P s" "dropWhile P (s @ r) = dropWhile P s @ r"
proof -
  have "takeWhile P r = [] \<and> dropWhile P r = r"
    using assms by (cases r) (auto simp: stops_def)
  then show "takeWhile P (s @ r) = takeWhile P s" "dropWhile P (s @ r) = dropWhile P s @ r"
    by (induction s) auto
qed

lemma scan_digits_append: "stops is_ascii_digit r \<Longrightarrow>
    scan_digits (s @ r) = (fst (scan_digits s), snd (scan_digits s) @ r)"
  by (simp add: scan_digits_def span_append)

lemma scan_frac_append: "value_end r \<Longrightarrow>
    scan_frac (s @ r) = (fst (scan_frac s), snd (scan_frac s) @ r)"
  using value_end_stops [of r]
  by (cases s; cases r) (auto simp: scan_frac_def scan_digits_append stops_def)

lemma scan_exp_sign_append: "s \<noteq> [] \<Longrightarrow>
    scan_exp_sign (s @ r) = (fst (scan_exp_sign s), snd (scan_exp_sign s) @ r)"
  by (cases s) (auto simp: scan_exp_sign_def)

lemma scan_exp_append:
  assumes "value_end r"
  shows "scan_exp (s @ r) = (fst (scan_exp s), snd (scan_exp s) @ r)"
proof (cases s)
  case Nil
  with value_end_stops(3) [OF assms] show ?thesis
    by (cases r) (auto simp: scan_exp_def stops_def)
next
  case (Cons c cs)
  note dig = scan_digits_append [OF value_end_stops(1) [OF assms]]
  show ?thesis
  proof (cases cs)
    case Nil
    with Cons assms show ?thesis
      by (cases r) (auto simp: scan_exp_def scan_exp_sign_def scan_digits_def value_end_def
          is_ascii_digit_def char_consts Let_def)
  next
    case (Cons d ds)
    with \<open>s = c # cs\<close> show ?thesis
      using scan_exp_sign_append [of cs r]
      by (auto simp: scan_exp_def dig Let_def split: prod.splits)
  qed
qed

text \<open>The text of a float literal: scanned to its end, with a fraction or an exponent\<close>

definition float_literal :: "string \<Rightarrow> bool" where
  "float_literal s = (parse_number Finite s = Some (JFloat (Finite s), []))"

lemma scan_int_append: "s \<noteq> [] \<Longrightarrow> stops is_ascii_digit r \<Longrightarrow>
    scan_int (s @ r) = map_option (\<lambda>(a, b). (a, b @ r)) (scan_int s)"
  by (cases s) (auto simp: scan_int_def case_prod_beta
      scan_digits_append [of r "_ # _", simplified])

lemma parse_number_append:
  assumes p: "parse_number Finite s = Some (JFloat (Finite t), [])" and r: "value_end r"
  shows "parse_number fl (s @ r) = Some (JFloat (fl t), r)"
proof -
  obtain sg s1 where 1: "scan_sign s = (sg, s1)" by (cases "scan_sign s")
  from p 1 obtain ip s2 where 2: "scan_int s1 = Some (ip, s2)"
    by (auto simp: parse_number_def split: option.splits)
  obtain fr s3 where 3: "scan_frac s2 = (fr, s3)" by (cases "scan_frac s2")
  obtain ex s4 where 4: "scan_exp s3 = (ex, s4)" by (cases "scan_exp s3")
  from p 1 2 3 4 have 5: "\<not> (fr = [] \<and> ex = [])" "t = sg @ ip @ fr @ ex" "s4 = []"
    by (auto simp: parse_number_def split: if_splits)
  from 2 have "s1 \<noteq> []" by (auto simp: scan_int_def)
  with 1 have sign: "scan_sign (s @ r) = (sg, s1 @ r)"
    by (cases s) (auto simp: scan_sign_def split: if_splits)
  have int: "scan_int (s1 @ r) = Some (ip, s2 @ r)"
    using scan_int_append [OF \<open>s1 \<noteq> []\<close> value_end_stops(1) [OF r]] 2 by simp
  show ?thesis
    using scan_frac_append [OF r, of s2] scan_exp_append [OF r, of s3] 3 4 5
    by (auto simp: parse_number_def sign int)
qed

lemma scan_dec_nat:
  assumes "value_end r"
  shows "scan_int (dec_nat n @ r) = Some (dec_nat n, r)"
proof -
  have tw: "takeWhile is_ascii_digit (dec_nat n) = dec_nat n"
    "dropWhile is_ascii_digit (dec_nat n) = []"
    by (auto simp: takeWhile_eq_all_conv dec_nat_digits)
  obtain c cs where c: "dec_nat n = c # cs" by (cases "dec_nat n") auto
  show ?thesis
  proof (cases "n = 0")
    case True
    then show ?thesis by (simp add: scan_int_def)
  next
    case False
    with dec_nat_hd [of n] c have "c \<noteq> CHR ''0''" by simp
    moreover have "is_ascii_digit c" using dec_nat_digits [of c n] c by simp
    moreover have "scan_digits (dec_nat n @ r) = (dec_nat n, r)"
      by (simp add: scan_digits_append [OF value_end_stops(1) [OF assms]])
        (simp add: scan_digits_def tw)
    ultimately show ?thesis using c by (simp add: scan_int_def)
  qed
qed

lemma parse_dec_int:
  assumes "value_end r"
  shows "parse_number fl (dec_int i @ r) = Some (JInt i, r)"
proof -
  have fe: "scan_frac r = ([], r)" "scan_exp r = ([], r)"
    using scan_frac_append [OF assms, of "[]"] scan_exp_append [OF assms, of "[]"]
    by (simp_all add: scan_frac_def scan_exp_def)
  show ?thesis
  proof (cases "i < 0")
    case True
    then show ?thesis
      by (simp add: parse_number_def dec_int_def scan_sign_def scan_dec_nat [OF assms] fe)
  next
    case False
    obtain c cs where c: "dec_nat (nat i) = c # cs" by (cases "dec_nat (nat i)") auto
    then have "is_ascii_digit c" using dec_nat_digits [of c "nat i"] by simp
    then have "c \<noteq> CHR ''-''" by (auto simp: is_ascii_digit_def char_consts)
    with c have "scan_sign (dec_nat (nat i) @ r) = ([], dec_nat (nat i) @ r)"
      by (simp add: scan_sign_def)
    with False show ?thesis
      by (simp add: parse_number_def dec_int_def scan_dec_nat [OF assms] fe)
  qed
qed

section \<open>Round trip\<close>

text \<open>
  The values that survive a round trip: dicts without duplicate keys (which Python's dicts
  never have), floats given by the \<^verbatim>\<open>repr\<close> that reading their literal gives back.
\<close>

fun json_wf :: "(string \<Rightarrow> pyfloat) \<Rightarrow> json \<Rightarrow> bool" where
  "json_wf fl (JArr xs) = list_all (json_wf fl) xs"
| "json_wf fl (JObj d) = (distinct (map fst d) \<and> list_all (\<lambda>(k, v). json_wf fl v) d)"
| "json_wf fl (JFloat (Finite s)) = (float_literal s \<and> fl s = Finite s)"
| "json_wf fl (JFloat (NonFinite s)) = False"
| "json_wf fl JOpaque = False"
| "json_wf fl _ = True"

lemma json_wf_jnorm [simp]: "json_wf fl (jnorm v) = json_wf fl v"
proof (induction v)
  case (JArr xs)
  then show ?case by (auto simp: jnorm_list_map list_all_iff)
next
  case (JObj d)
  then have "\<And>p. p \<in> set d \<Longrightarrow> json_wf fl (jnorm (snd p)) = json_wf fl (snd p)"
    by (auto simp: snds.simps)
  then have "(\<forall>p \<in> set (jnorm_fields d). json_wf fl (snd p)) = (\<forall>p \<in> set d. json_wf fl (snd p))"
    by (simp add: jnorm_fields_map map_snd_def)
  then show ?case by (simp add: list_all_iff case_prod_beta)
next
  case (JFloat f)
  then show ?case by (cases f) simp_all
qed simp_all

lemma jset_new: "k \<notin> fst ` set d \<Longrightarrow> jset k v d = d @ [(k, v)]"
  by (induction d) auto

lemma foldl_jset_distinct:
  "distinct (map fst (acc @ d)) \<Longrightarrow> foldl (\<lambda>d p. jset (fst p) (snd p) d) acc d = acc @ d"
  by (induction d arbitrary: acc) (auto simp: jset_new)

definition value_start :: "string \<Rightarrow> bool" where
  "value_start s = (s \<noteq> [] \<and> hd s \<notin> {CHR '' '', CHR 0x09, CHR 0x0A, CHR 0x0D, CHR '']'', CHR ''}''})"

lemma skip_ws_start: "value_start s \<Longrightarrow> skip_ws (s @ r) = s @ r"
  by (cases s) (auto simp: value_start_def)

lemma digit_value_start: "is_ascii_digit (hd s) \<Longrightarrow> s \<noteq> [] \<Longrightarrow> value_start s"
  by (auto simp: value_start_def is_ascii_digit_def char_consts)

lemma dec_int_start: "value_start (dec_int i)"
proof (cases "i < 0")
  case True
  then show ?thesis by (simp add: value_start_def dec_int_def)
next
  case False
  have "is_ascii_digit (hd (dec_nat (nat i)))" by (rule dec_nat_digits) (rule hd_in_set, simp)
  with False show ?thesis by (simp add: dec_int_def digit_value_start)
qed

text \<open>What a number can start with, which selects the scanner's last branch\<close>

definition number_start :: "string \<Rightarrow> bool" where
  "number_start s = (case s of
     [] \<Rightarrow> False
   | c # cs \<Rightarrow> is_ascii_digit c \<or> c = CHR ''-'' \<and> cs \<noteq> [] \<and> is_ascii_digit (hd cs))"

lemma number_start_value: "number_start s \<Longrightarrow> value_start s"
  by (auto simp: number_start_def value_start_def is_ascii_digit_def char_consts split: list.splits)

lemma parse_value_number:
  assumes "number_start s"
  shows "parse_value fl (Suc n) (s @ r) = parse_number fl (s @ r)"
proof -
  obtain c cs where s: "s = c # cs" using assms by (cases s) (auto simp: number_start_def)
  have c: "is_ascii_digit c \<or> c = CHR ''-''"
    using assms s by (auto simp: number_start_def)
  then have ne: "c \<noteq> CHR 0x22" "c \<noteq> CHR ''{''" "c \<noteq> CHR ''[''" "c \<noteq> CHR ''n''"
    "c \<noteq> CHR ''t''" "c \<noteq> CHR ''f''" "c \<noteq> CHR ''N''" "c \<noteq> CHR ''I''"
    by (auto simp: is_ascii_digit_def char_consts)
  have "\<not> py_startswith (s @ r) ''-Infinity''"
    using assms unfolding s number_start_def
    by (cases cs) (auto simp: is_ascii_digit_def char_consts)
  with ne show ?thesis by (auto simp: s)
qed

lemma dec_int_number: "number_start (dec_int i)"
proof -
  have d: "is_ascii_digit (hd (dec_nat n))" for n by (rule dec_nat_digits) (rule hd_in_set, simp)
  obtain c cs where c: "dec_nat (nat i) = c # cs" by (cases "dec_nat (nat i)") auto
  with d [of "nat i"] have "is_ascii_digit c" by simp
  then show ?thesis by (simp add: number_start_def dec_int_def d c)
qed

lemma float_number: "float_literal s \<Longrightarrow> number_start s"
  unfolding float_literal_def
  by (auto simp: parse_number_def scan_sign_def scan_int_def number_start_def is_ascii_digit_def
      char_consts split: list.splits if_splits option.splits)

lemma print_json_start: "json_wf fl v \<Longrightarrow> value_start (print_json v)"
proof (cases v)
  case (JFloat f)
  assume "json_wf fl v"
  with JFloat show ?thesis
    by (cases f) (auto intro: number_start_value float_number)
next
  case (JInt i)
  then show ?thesis by (simp add: dec_int_start)
qed (auto simp: value_start_def print_string_def)

lemma print_json_length: "json_wf fl v \<Longrightarrow> 0 < length (print_json v)"
  using print_json_start [of fl v] by (auto simp: value_start_def)

lemma print_items_start:
  "list_all (json_wf fl) xs \<Longrightarrow> xs \<noteq> [] \<Longrightarrow> value_start (print_items xs)"
  using print_json_start [of fl "hd xs"]
  by (cases xs) (auto simp: value_start_def)

lemma print_members_start: "d \<noteq> [] \<Longrightarrow> \<exists>cs. print_members d = CHR 0x22 # cs"
  by (cases d rule: print_members.cases) (auto simp: print_string_def)

lemma parse_print:
  "json_wf fl v \<Longrightarrow> value_end r \<Longrightarrow> 2 * length (print_json v) < n \<Longrightarrow>
     parse_value fl n (print_json v @ r) = Some (v, r)"
  "list_all (json_wf fl) xs \<Longrightarrow> xs \<noteq> [] \<Longrightarrow> 2 * length (print_items xs) + 1 < n \<Longrightarrow>
     parse_items fl n (print_items xs @ CHR '']'' # r) = Some (xs, r)"
  "list_all (\<lambda>(k, v). json_wf fl v) d \<Longrightarrow> d \<noteq> [] \<Longrightarrow> 2 * length (print_members d) + 1 < n \<Longrightarrow>
     parse_members fl n (print_members d @ CHR ''}'' # r) = Some (d, r)"
proof (induction v and xs and d arbitrary: n r and n r and n r
    rule: print_json_print_items_print_members.induct)
  case 1
  then show ?case by (cases n) auto
next
  case (2 b)
  then show ?case by (cases n) auto
next
  case (3 i)
  then show ?case
    using parse_value_number [OF dec_int_number] parse_dec_int
    by (cases n) (simp_all del: parse_value.simps)
next
  case (4 f)
  then obtain s where f: "f = Finite s" "float_literal s" "fl s = Finite s" by (cases f) auto
  with 4 show ?case
    using parse_value_number [OF float_number [OF f(2)]]
      parse_number_append [OF f(2) [unfolded float_literal_def]]
    by (cases n) (simp_all del: parse_value.simps)
next
  case (5 s)
  then show ?case by (cases n) (auto simp: print_string_def parse_escape_string)
next
  case (6 xs)
  then obtain m where n: "n = Suc m" by (cases n) auto
  show ?case
  proof (cases "xs = []")
    case True
    with n show ?thesis by simp
  next
    case False
    with 6 have st: "value_start (print_items xs)" by (auto intro: print_items_start)
    then obtain c cs where c: "print_items xs = c # cs" "c \<noteq> CHR '']''"
      by (cases "print_items xs") (auto simp: value_start_def)
    have "parse_items fl m (print_items xs @ CHR '']'' # r) = Some (xs, r)"
      using 6 False n by auto
    with skip_ws_start [OF st] False n c show ?thesis by simp
  qed
next
  case (7 d)
  then obtain m where n: "n = Suc m" by (cases n) auto
  show ?case
  proof (cases "d = []")
    case True
    with n show ?thesis by simp
  next
    case False
    have "parse_members fl m (print_members d @ CHR ''}'' # r) = Some (d, r)"
      using 7 False n by auto
    moreover obtain cs where "print_members d = CHR 0x22 # cs"
      using print_members_start [OF False] by blast
    moreover have "foldl (\<lambda>d p. jset (fst p) (snd p) d) [] d = d"
      using 7 foldl_jset_distinct [of "[]" d] by simp
    ultimately show ?thesis using False n by simp
  qed
next
  case 8
  then show ?case by simp
next
  case 9
  then show ?case by simp
next
  case (10 x xs)
  then obtain m where n: "n = Suc m" by (cases n) auto
  show ?case
  proof (cases "xs = []")
    case True
    with 10 n have "parse_value fl m (print_json x @ CHR '']'' # r) = Some (x, CHR '']'' # r)" by auto
    with True n show ?thesis by simp
  next
    case False
    with 10 n have 1: "parse_value fl m (print_json x @ CHR '','' # print_items xs @ CHR '']'' # r)
        = Some (x, CHR '','' # print_items xs @ CHR '']'' # r)" by auto
    from 10 n False have 2: "parse_items fl m (print_items xs @ CHR '']'' # r) = Some (xs, r)" by auto
    have "skip_ws (print_items xs @ CHR '']'' # r) = print_items xs @ CHR '']'' # r"
      using 10 False by (auto intro!: skip_ws_start print_items_start)
    with 1 2 False n show ?thesis by simp
  qed
next
  case 11
  then show ?case by simp
next
  case (12 k v d)
  then obtain m where n: "n = Suc m" by (cases n) auto
  have v: "value_start (print_json v)" using 12 by (auto intro: print_json_start)
  show ?case
  proof (cases "d = []")
    case True
    with 12 n have "parse_value fl m (print_json v @ CHR ''}'' # r) = Some (v, CHR ''}'' # r)" by auto
    with True n show ?thesis
      by (simp add: print_string_def parse_escape_string skip_ws_start [OF v])
  next
    case False
    with 12 n have 1: "parse_value fl m (print_json v @ CHR '','' # print_members d @ CHR ''}'' # r)
        = Some (v, CHR '','' # print_members d @ CHR ''}'' # r)" by auto
    from 12 n False have 2: "parse_members fl m (print_members d @ CHR ''}'' # r) = Some (d, r)" by auto
    obtain cs where "print_members d = CHR 0x22 # cs"
      using print_members_start [OF False] by blast
    then have "skip_ws (print_members d @ CHR ''}'' # r) = print_members d @ CHR ''}'' # r" by simp
    with 1 2 False n show ?thesis
      by (simp add: print_string_def parse_escape_string skip_ws_start [OF v])
  qed
qed

lemma json_loads_dumps_end:
  assumes "json_wf fl v" "value_end r" "skip_ws r = []"
  shows "json_loads fl (json_dumps v @ r) = Some (jnorm v)"
proof -
  have wf: "json_wf fl (jnorm v)" using assms(1) by simp
  from parse_print(1) [OF this assms(2), of "2 * length (json_dumps v @ r) + 2"]
    skip_ws_start [OF print_json_start [OF wf], of r] assms(3)
  show ?thesis by (simp add: json_loads_def json_dumps_def)
qed

lemma json_loads_dumps: "json_wf fl v \<Longrightarrow> json_loads fl (json_dumps v) = Some (jnorm v)"
  using json_loads_dumps_end [of fl v "[]"] by simp

section \<open>Canonical text is one line of printable ASCII\<close>

lemma scan_printable:
  "scan_int s = Some (ip, r) \<Longrightarrow> list_all printable ip"
  "list_all printable (fst (scan_sign s))"
  "list_all printable (fst (scan_frac s))"
  "list_all printable (fst (scan_exp s))"
proof -
  have dig: "list_all printable (fst (scan_digits t))" for t
    by (auto simp: list_all_iff scan_digits_def printable_def is_ascii_digit_def
        dest!: set_takeWhileD)
  have sg: "list_all printable (fst (scan_exp_sign t))" for t
    by (auto simp: scan_exp_sign_def printable_def char_consts split: list.splits)
  show "scan_int s = Some (ip, r) \<Longrightarrow> list_all printable ip"
    using dig [of s] by (auto simp: scan_int_def printable_def char_consts split: list.splits if_splits)
  show "list_all printable (fst (scan_sign s))"
    by (auto simp: scan_sign_def printable_def char_consts split: list.splits)
  show "list_all printable (fst (scan_frac s))"
    using dig by (auto simp: scan_frac_def printable_def char_consts split: list.splits)
  show "list_all printable (fst (scan_exp s))"
    using dig sg by (auto simp: scan_exp_def Let_def printable_def char_consts case_prod_beta
        split: list.splits)
qed

lemma float_literal_printable:
  assumes "float_literal s"
  shows "list_all printable s"
proof -
  obtain sg s1 where 1: "scan_sign s = (sg, s1)" by (cases "scan_sign s")
  with assms obtain ip s2 where 2: "scan_int s1 = Some (ip, s2)"
    by (auto simp: float_literal_def parse_number_def split: option.splits)
  obtain fr s3 where 3: "scan_frac s2 = (fr, s3)" by (cases "scan_frac s2")
  obtain ex s4 where 4: "scan_exp s3 = (ex, s4)" by (cases "scan_exp s3")
  from assms 1 2 3 4 have "s = sg @ ip @ fr @ ex"
    by (auto simp: float_literal_def parse_number_def split: if_splits)
  with scan_printable(1) [OF 2] scan_printable(2) [of s] scan_printable(3) [of s2]
    scan_printable(4) [of s3] 1 3 4
  show ?thesis by simp
qed

lemma dec_int_printable: "list_all printable (dec_int i)"
  by (auto simp: list_all_iff dec_int_def printable_def char_consts is_ascii_digit_def
      dest!: dec_nat_digits)

lemma print_json_printable:
  "json_wf fl v \<Longrightarrow> list_all printable (print_json v)"
  "list_all (json_wf fl) xs \<Longrightarrow> list_all printable (print_items xs)"
  "list_all (\<lambda>(k, v). json_wf fl v) d \<Longrightarrow> list_all printable (print_members d)"
proof (induction v and xs and d rule: print_json_print_items_print_members.induct)
  case (4 f)
  then show ?case by (cases f) (simp_all add: float_literal_printable)
qed (simp_all add: dec_int_printable print_string_printable, simp_all add: printable_def code_def)

lemma json_dumps_printable: "json_wf fl v \<Longrightarrow> list_all printable (json_dumps v)"
  by (simp add: json_dumps_def) (rule print_json_printable(1) [of fl], simp)

lemma decode_utf8_ascii: "list_all (\<lambda>c. code c < 128) s \<Longrightarrow> decode_utf8 s = Some s"
  by (induction s) auto

lemma dumps_ascii: "json_wf fl v \<Longrightarrow> list_all (\<lambda>c. code c < 128) (json_dumps v)"
  using json_dumps_printable [of fl v] by (auto simp: list_all_iff printable_def)

lemma loads_bytes_dumps: "json_wf fl v \<Longrightarrow> loads_bytes fl (json_dumps v) = Some (jnorm v)"
  by (simp add: loads_bytes_def decode_utf8_ascii dumps_ascii json_loads_dumps)

lemma loads_bytes_dumps_line:
  "json_wf fl v \<Longrightarrow> loads_bytes fl (json_dumps v @ [CHR 0x0A]) = Some (jnorm v)"
  using dumps_ascii [of fl v]
  by (simp add: loads_bytes_def decode_utf8_ascii json_loads_dumps_end code_def)

lemma json_dumps_no_newline: "json_wf fl v \<Longrightarrow> CHR 0x0A \<notin> set (json_dumps v)"
  using json_dumps_printable [of fl v] by (auto simp: list_all_iff printable_def char_consts)

lemma json_dumps_nonempty: "json_wf fl v \<Longrightarrow> json_dumps v \<noteq> []"
  using print_json_length [of fl "jnorm v"] by (auto simp: json_dumps_def)

lemma printable_not_newline: "printable c \<Longrightarrow> c \<noteq> CHR 0x0A"
  by (auto simp: printable_def char_consts)

section \<open>The scanner's fuel is enough\<close>

declare parse_chars.simps(2) [simp del]

lemma parse_chars_step:
  assumes "parse_chars (c # cs) = Some (t, r)"
  shows "r = cs \<or> (\<exists>s' t'. length s' \<le> length cs \<and> parse_chars s' = Some (t', r))"
proof (cases "c = CHR 0x5C")
  case False
  with assms show ?thesis by (auto simp: parse_chars.simps(2) split: if_splits)
next
  case True
  with assms obtain e rest where cs: "cs = e # rest"
    by (cases cs) (auto simp: parse_chars.simps(2))
  show ?thesis
  proof (cases "e = CHR ''u''")
    case False
    with assms True cs show ?thesis
      by (auto simp: parse_chars.simps(2) split: option.splits intro: le_SucI)
  next
    case u: True
    then obtain h1 h2 h3 h4 rest' where rest: "rest = h1 # h2 # h3 # h4 # rest'"
      using assms True cs by (auto simp: parse_chars.simps(2) split: list.splits)
    have "\<exists>t'. parse_chars rest' = Some (t', r)"
      using assms True cs u rest
      by (auto simp: parse_chars.simps(2) split: option.splits nat.splits)
    with cs rest show ?thesis by (auto intro: le_SucI)
  qed
qed

lemma parse_chars_shorter: "parse_chars s = Some (t, r) \<Longrightarrow> length r < length s"
proof (induction s arbitrary: t rule: length_induct)
  case (1 s)
  then obtain c cs where s: "s = c # cs" by (cases s) auto
  from parse_chars_step [OF 1(2) [unfolded s]] show ?case
  proof
    assume "r = cs"
    with s show ?thesis by simp
  next
    assume "\<exists>s' t'. length s' \<le> length cs \<and> parse_chars s' = Some (t', r)"
    then obtain s' t' where s': "length s' \<le> length cs" "parse_chars s' = Some (t', r)" by blast
    with s have "length s' < length s" by simp
    with 1(1) s'(2) have "length r < length s'" by blast
    with \<open>length s' < length s\<close> show ?thesis by simp
  qed
qed

lemma skip_ws_length: "length (skip_ws s) \<le> length s"
  by (induction s) auto

lemma scan_shorter:
  "scan_int s = Some (ip, r) \<Longrightarrow> length r < length s"
  "length (snd (scan_sign s)) \<le> length s"
  "length (snd (scan_frac s)) \<le> length s"
  "length (snd (scan_exp s)) \<le> length s"
proof -
  have dig: "length (snd (scan_digits t)) \<le> length t" for t
    by (simp add: scan_digits_def length_dropWhile_le)
  have sg: "length (snd (scan_exp_sign t)) \<le> length t" for t
    by (auto simp: scan_exp_sign_def split: list.splits)
  show "scan_int s = Some (ip, r) \<Longrightarrow> length r < length s"
    using length_dropWhile_le [of is_ascii_digit "tl s"]
    by (auto simp: scan_int_def scan_digits_def split: list.splits if_splits)
  show "length (snd (scan_sign s)) \<le> length s"
    by (auto simp: scan_sign_def split: list.splits)
  show "length (snd (scan_frac s)) \<le> length s"
    using dig by (auto simp: scan_frac_def split: list.splits intro: le_SucI)
  show "length (snd (scan_exp s)) \<le> length s"
    using order_trans [OF dig sg]
    by (auto simp: scan_exp_def Let_def case_prod_beta split: list.splits intro: le_SucI)
qed

lemma parse_number_shorter: "parse_number fl s = Some (v, r) \<Longrightarrow> length r < length s"
proof -
  assume p: "parse_number fl s = Some (v, r)"
  obtain sg s1 where 1: "scan_sign s = (sg, s1)" by (cases "scan_sign s")
  from p 1 obtain ip s2 where 2: "scan_int s1 = Some (ip, s2)"
    by (auto simp: parse_number_def split: option.splits)
  from p 1 2 have "r = snd (scan_exp (snd (scan_frac s2)))"
    by (auto simp: parse_number_def case_prod_beta Let_def split: if_splits)
  with scan_shorter(1) [OF 2] scan_shorter(2) [of s] scan_shorter(3) [of s2]
    scan_shorter(4) [of "snd (scan_frac s2)"] 1
  show ?thesis by simp
qed

lemma parse_shorter:
  "parse_value fl n s = Some (v, r) \<Longrightarrow> length r < length s"
  "parse_items fl n s = Some (xs, r) \<Longrightarrow> length r < length s"
  "parse_members fl n s = Some (d, r) \<Longrightarrow> length r < length s"
proof (induction n arbitrary: s r v xs d)
  case 0
  { case 1 then show ?case by simp }
  { case 2 then show ?case by simp }
  { case 3 then show ?case by simp }
next
  case (Suc n)
  { case 1
    then obtain c cs where s: "s = c # cs" by (cases s) auto
    have sub: "length r < Suc (length cs)" if "parse_items fl n (skip_ws cs) = Some (xs, r)" for xs
      using Suc.IH(2) [OF that] skip_ws_length [of cs] by simp
    have sub': "length r < Suc (length cs)"
      if "parse_members fl n (skip_ws cs) = Some (d, r)" for d
      using Suc.IH(3) [OF that] skip_ws_length [of cs] by simp
    show ?case
    proof (cases "skip_ws cs")
      case Nil
      with 1 s show ?thesis
        by (auto split: if_splits dest!: parse_chars_shorter parse_number_shorter)
    next
      case (Cons e es)
      with skip_ws_length [of cs] have "length es < length cs" by simp
      with 1 s sub sub' Cons show ?thesis
        by (auto split: if_splits dest!: parse_chars_shorter parse_number_shorter)
    qed }
  { case 2
    then obtain w q where w: "parse_value fl n s = Some (w, q)" by (auto split: option.splits)
    with 2 obtain e es where e: "skip_ws q = e # es" by (auto split: list.splits)
    from Suc.IH(1) [OF w] skip_ws_length [of q] e have "Suc (length es) < length s" by simp
    with 2 w e skip_ws_length [of es] show ?case
      by (auto split: if_splits dest!: Suc.IH(2)) }
  { case 3
    then obtain qs k q where q: "s = CHR 0x22 # qs" "parse_chars qs = Some (k, q)"
      by (auto split: list.splits if_splits option.splits)
    with 3 obtain ds where ds: "skip_ws q = CHR '':'' # ds" by (auto split: list.splits if_splits)
    with 3 q obtain w q2 where w: "parse_value fl n (skip_ws ds) = Some (w, q2)"
      by (auto split: option.splits)
    with 3 q ds obtain e es where e: "skip_ws q2 = e # es" by (auto split: list.splits)
    from parse_chars_shorter [OF q(2)] skip_ws_length [of q] ds skip_ws_length [of ds]
      Suc.IH(1) [OF w] skip_ws_length [of q2] e q(1)
    have "length es < length s" by simp
    with 3 q ds w e skip_ws_length [of es] show ?case
      by (auto split: if_splits dest!: Suc.IH(3)) }
qed

text \<open>From two units per character on, the fuel does not matter.\<close>

lemma parse_fuel_stable:
  "2 * length s < n \<Longrightarrow> 2 * length s < m \<Longrightarrow> parse_value fl n s = parse_value fl m s"
  "2 * length s + 1 < n \<Longrightarrow> 2 * length s + 1 < m \<Longrightarrow> parse_items fl n s = parse_items fl m s"
  "2 * length s + 1 < n \<Longrightarrow> 2 * length s + 1 < m \<Longrightarrow> parse_members fl n s = parse_members fl m s"
proof (induction n arbitrary: s m)
  case 0
  { case 1 then show ?case by simp }
  { case 2 then show ?case by simp }
  { case 3 then show ?case by simp }
next
  case (Suc n)
  { case 1
    then obtain m' where m: "m = Suc m'" by (cases m) auto
    show ?case
    proof (cases s)
      case (Cons c cs)
      with 1 m have "parse_items fl n (skip_ws cs) = parse_items fl m' (skip_ws cs)"
        "parse_members fl n (skip_ws cs) = parse_members fl m' (skip_ws cs)"
        using skip_ws_length [of cs] by (intro Suc.IH; simp)+
      with Cons m show ?thesis by (cases "skip_ws cs") simp_all
    qed (simp add: m) }
  { case 2
    then obtain m' where m: "m = Suc m'" by (cases m) auto
    with 2 have v: "parse_value fl n s = parse_value fl m' s" by (intro Suc.IH(1)) auto
    have "parse_items fl n (skip_ws es) = parse_items fl m' (skip_ws es)"
      if "parse_value fl m' s = Some (w, q)" "skip_ws q = e # es" for w q e es
      using parse_shorter(1) [OF that(1)] skip_ws_length [of q] that(2) skip_ws_length [of es] 2 m
      by (intro Suc.IH(2)) auto
    with m v show ?case by (simp split: option.splits list.splits) }
  { case 3
    then obtain m' where m: "m = Suc m'" by (cases m) auto
    have v: "parse_value fl n (skip_ws ds) = parse_value fl m' (skip_ws ds)"
      if "s = c # qs" "parse_chars qs = Some (k, q)" "skip_ws q = e # ds" for c qs k q e ds
      using parse_chars_shorter [OF that(2)] skip_ws_length [of q] that skip_ws_length [of ds] 3 m
      by (intro Suc.IH(1)) auto
    have d: "parse_members fl n (skip_ws es) = parse_members fl m' (skip_ws es)"
      if "s = c # qs" "parse_chars qs = Some (k, q)" "skip_ws q = e # ds"
        "parse_value fl m' (skip_ws ds) = Some (w, q2)" "skip_ws q2 = e2 # es"
      for c qs k q e ds w q2 e2 es
      using parse_chars_shorter [OF that(2)] skip_ws_length [of q] that(1,3,5)
        skip_ws_length [of ds] parse_shorter(1) [OF that(4)] skip_ws_length [of q2]
        skip_ws_length [of es] 3 m
      by (intro Suc.IH(3)) auto
    show ?case
    proof (cases s)
      case (Cons c qs)
      then show ?thesis using v [OF Cons] d [OF Cons] m
        by (auto split: option.splits list.splits)
    qed (simp add: m) }
qed

section \<open>Equality does not see the order of keys\<close>

lemma eq_members_iff: "eq_members feq d d' \<longleftrightarrow>
    (\<forall>(k, v) \<in> set d. \<exists>w. map_of d' k = Some w \<and> json_eq feq v w)"
  by (induction d) (auto split: option.splits)

lemma eq_items_map: "(\<And>x. x \<in> set xs \<Longrightarrow> json_eq feq (f x) x) \<Longrightarrow> eq_items feq (map f xs) xs"
  by (induction xs) auto

lemma num_eq_refl [simp]: "num_eq feq v v"
  by (cases v) (simp_all add: num_eq_def)

lemma json_eq_jnorm: "json_wf fl v \<Longrightarrow> json_eq feq (jnorm v) v"
proof (induction v)
  case (JArr xs)
  then show ?case by (auto simp: jnorm_list_map list_all_iff intro: eq_items_map)
next
  case (JObj d)
  then have "\<And>k v. (k, v) \<in> set d \<Longrightarrow> json_eq feq (jnorm v) v \<and> map_of d k = Some v"
    by (fastforce simp: list_all_iff snds.simps)
  then have "eq_members feq (sort_key fst (jnorm_fields d)) d"
    by (auto simp: eq_members_iff jnorm_fields_map map_snd_def)
  then show ?case by (simp add: jnorm_fields_map)
qed simp_all

lemma json_eq_refl: "json_wf fl v \<Longrightarrow> json_eq feq v v"
proof (induction v)
  case (JArr xs)
  then have "eq_items feq (map (\<lambda>x. x) xs) xs" by (intro eq_items_map) (auto simp: list_all_iff)
  then show ?case by simp
next
  case (JObj d)
  then have "\<And>k v. (k, v) \<in> set d \<Longrightarrow> json_eq feq v v \<and> map_of d k = Some v"
    by (fastforce simp: list_all_iff snds.simps)
  then show ?case by (auto simp: eq_members_iff)
qed simp_all

section \<open>Simplification of sorted dicts\<close>

text \<open>From here on a sorted dict is kept folded as \<open>norm_obj\<close>.\<close>

declare jnorm.simps(2) [simp del]
declare jnorm_obj_norm [simp]

lemma norm_obj_cong: "jnorm_fields d = jnorm_fields d' \<Longrightarrow> norm_obj d = norm_obj d'"
  by (simp add: norm_obj_def)

end
