(* ===== verification/Ids.thy ===== *)
theory Ids
  imports JsonCodec
begin

text \<open>
  \<^verbatim>\<open>src/molly/core/ids.py\<close>: identifiers, references, timestamps, digests, the refusal of
  credential-like keys and canonical JSON. What the Core takes from outside its own source
  (hashing, datetime parsing and printing, float literals, JSON schema validation, writing to
  an open file) is the
  record \<open>host\<close>, an argument of every definition that uses it.
\<close>

record host =
  sha256 :: "string \<Rightarrow> string"                       \<comment> \<open>\<^verbatim>\<open>hashlib.sha256(b).hexdigest()\<close>\<close>
  float_of :: "string \<Rightarrow> pyfloat"                    \<comment> \<open>\<^verbatim>\<open>repr(float(text))\<close>\<close>
  int_of_float :: "string \<Rightarrow> int"                   \<comment> \<open>\<^verbatim>\<open>int(x)\<close> of the float with this \<^verbatim>\<open>repr\<close>\<close>
  float_eq :: "json \<Rightarrow> json \<Rightarrow> bool"                 \<comment> \<open>\<^verbatim>\<open>==\<close> of two numbers, one a float\<close>
  fromisoformat :: "string \<Rightarrow> (bool \<times> int) option"  \<comment> \<open>zone known?, instant in microseconds\<close>
  isoformat_utc :: "int \<Rightarrow> string"                   \<comment> \<open>\<^verbatim>\<open>isoformat(timespec="microseconds")\<close> in UTC\<close>
  schema_wellformed :: "json \<Rightarrow> bool"                \<comment> \<open>\<^verbatim>\<open>Draft202012Validator.check_schema\<close>\<close>
  schema_accepts :: "json \<Rightarrow> json \<Rightarrow> bool"           \<comment> \<open>\<^verbatim>\<open>Draft202012Validator(schema).validate\<close>\<close>
  os_write :: "string \<Rightarrow> nat"                        \<comment> \<open>bytes that one \<^verbatim>\<open>os.write\<close> of a buffer accepts\<close>

section \<open>Timestamps\<close>

definition utc_timestamp :: "host \<Rightarrow> bool \<times> int \<Rightarrow> string res" where
  "utc_timestamp H moment =
     (if \<not> fst moment then Inl CoreContractError
      else Inr (py_replace ''+00:00'' ''Z'' (isoformat_utc H (snd moment))))"

definition normalize_timestamp :: "host \<Rightarrow> string \<Rightarrow> string res" where
  "normalize_timestamp H value =
     (if py_strip value = [] then Inl CoreContractError
      else let raw = py_strip value;
               parse_value = (if py_endswith raw ''Z'' then butlast raw @ ''+00:00'' else raw)
           in case fromisoformat H parse_value of
                None \<Rightarrow> Inl CoreContractError
              | Some parsed \<Rightarrow> utc_timestamp H parsed)"

section \<open>Identifiers and references\<close>

definition identifier_char :: "char \<Rightarrow> bool" where
  "identifier_char c = (is_ascii_alnum c \<or> c \<in> {CHR ''.'', CHR ''_'', CHR '':'', CHR ''-''})"

definition is_identifier :: "string \<Rightarrow> bool" where
  "is_identifier s = (case s of
     [] \<Rightarrow> False
   | c # cs \<Rightarrow> is_ascii_alnum c \<and> length cs \<le> 127 \<and> list_all identifier_char cs)"

definition validate_identifier :: "string \<Rightarrow> string res" where
  "validate_identifier value = (if is_identifier value then Inr value else Inl CoreContractError)"

text \<open>\<^verbatim>\<open>uuid.uuid4().hex\<close> is the second argument.\<close>

definition new_server_id :: "string \<Rightarrow> string \<Rightarrow> string res" where
  "new_server_id pfx uuid_hex =
     bindE (validate_identifier pfx) (\<lambda>_. Inr (pfx @ ''_'' @ uuid_hex))"

definition validate_reference :: "string \<Rightarrow> string res" where
  "validate_reference value =
     (if value = [] \<or> length value > 512 then Inl CoreContractError
      else if list_ex py_isspace value \<or> CHR 0x00 \<in> set value then Inl CoreContractError
      else if py_startswith value ''/'' \<or> py_startswith value [CHR 0x5C] \<or> py_startswith value ''~''
              \<or> CHR 0x5C \<in> set value then Inl PathSecurityError
      else if list_ex (\<lambda>part. part = ''..'') (py_split (CHR ''/'') value) then Inl PathSecurityError
      else Inr value)"

section \<open>Digests and artifact IDs\<close>

definition is_sha256 :: "string \<Rightarrow> bool" where
  "is_sha256 s = (length s = 64 \<and> list_all is_hex_lower s)"

definition validate_sha256 :: "string \<Rightarrow> string res" where
  "validate_sha256 value = (if is_sha256 value then Inr value else Inl CoreContractError)"

definition validate_digest_reference :: "string \<Rightarrow> string res" where
  "validate_digest_reference value =
     (if py_startswith value ''sha256:'' then validate_sha256 (py_removeprefix value ''sha256:'')
      else validate_sha256 value)"

definition artifact_id_for_sha256 :: "string \<Rightarrow> string res" where
  "artifact_id_for_sha256 digest = bindE (validate_sha256 digest) (\<lambda>d. Inr (''sha256:'' @ d))"

definition validate_artifact_id :: "string \<Rightarrow> string res" where
  "validate_artifact_id value =
     (if \<not> py_startswith value ''sha256:'' then Inl CoreContractError
      else bindE (validate_sha256 (py_removeprefix value ''sha256:'')) (\<lambda>_. Inr value))"

definition artifact_sha256 :: "string \<Rightarrow> string res" where
  "artifact_sha256 value =
     bindE (validate_artifact_id value) (\<lambda>v. Inr (py_removeprefix v ''sha256:''))"

definition validate_artifact_ids :: "string list \<Rightarrow> string list res" where
  "validate_artifact_ids values =
     bindE (mapE validate_artifact_id values) (\<lambda>result.
     if distinct result then Inr result else Inl CoreContractError)"

definition sha256_bytes :: "host \<Rightarrow> string \<Rightarrow> string" where
  "sha256_bytes H payload = sha256 H payload"

section \<open>Credential-like keys\<close>

definition sensitive_key_parts :: "string list" where
  "sensitive_key_parts =
     [''access_key'', ''api_key'', ''apikey'', ''authorization'', ''cookie'', ''credential'',
      ''password'', ''passwd'', ''private_key'', ''secret'', ''token'']"

text \<open>\<^verbatim>\<open>re.sub(r"[^a-z0-9]+", "_", s)\<close>; the flag says that the scan is inside a run.\<close>

fun collapse_runs :: "bool \<Rightarrow> string \<Rightarrow> string" where
  "collapse_runs in_run [] = []"
| "collapse_runs in_run (c # cs) =
     (if is_ascii_lower c \<or> is_ascii_digit c then c # collapse_runs False cs
      else if in_run then collapse_runs True cs
      else CHR ''_'' # collapse_runs True cs)"

definition normalize_key :: "string \<Rightarrow> string" where
  "normalize_key key = strip_by (\<lambda>c. c = CHR ''_'') (collapse_runs False (py_casefold key))"

definition sensitive_key :: "string \<Rightarrow> bool" where
  "sensitive_key key =
     (let normalized = normalize_key key; parts = py_split (CHR ''_'') normalized
      in normalized \<in> set sensitive_key_parts
         \<or> list_ex (\<lambda>p. p \<in> set sensitive_key_parts) parts)"

section \<open>Freezing\<close>

text \<open>Every failure of \<^verbatim>\<open>_freeze_json\<close> raises the same class; success returns the value itself.\<close>

fun freeze_json :: "json \<Rightarrow> json res" and freeze_list :: "json list \<Rightarrow> json list res"
  and freeze_fields :: "fields \<Rightarrow> fields res" where
  "freeze_json JNull = Inr JNull"
| "freeze_json (JStr s) = Inr (JStr s)"
| "freeze_json (JBool b) = Inr (JBool b)"
| "freeze_json (JInt i) = Inr (JInt i)"
| "freeze_json (JFloat (NonFinite s)) = Inl CoreContractError"
| "freeze_json (JFloat (Finite s)) = Inr (JFloat (Finite s))"
| "freeze_json (JObj d) = bindE (freeze_fields d) (\<lambda>frozen. Inr (JObj frozen))"
| "freeze_json (JArr xs) = bindE (freeze_list xs) (\<lambda>frozen. Inr (JArr frozen))"
| "freeze_json JOpaque = Inl CoreContractError"
| "freeze_list [] = Inr []"
| "freeze_list (x # xs) =
     bindE (freeze_json x) (\<lambda>y. bindE (freeze_list xs) (\<lambda>ys. Inr (y # ys)))"
| "freeze_fields [] = Inr []"
| "freeze_fields ((key, item) # d) =
     (if key = [] then Inl CoreContractError
      else if sensitive_key key then Inl CoreContractError
      else bindE (freeze_json item) (\<lambda>v. bindE (freeze_fields d) (\<lambda>frozen. Inr ((key, v) # frozen))))"

definition freeze_json_mapping :: "json \<Rightarrow> fields res" where
  "freeze_json_mapping value =
     (let v = (if value = JNull then JObj [] else value) in
      bindE (freeze_json v) (\<lambda>frozen. case frozen of
          JObj d \<Rightarrow> Inr d
        | _ \<Rightarrow> Inl CoreContractError))"

definition canonical_json_bytes :: "json \<Rightarrow> string res" where
  "canonical_json_bytes value =
     wrapE (\<lambda>e. is_a e TypeError \<or> is_a e ValueError) CoreContractError
       (bindE (freeze_json value) (\<lambda>normalized. Inr (json_dumps normalized)))"

definition json_sha256 :: "host \<Rightarrow> json \<Rightarrow> string res" where
  "json_sha256 H value = bindE (canonical_json_bytes value) (\<lambda>b. Inr (sha256_bytes H b))"

section \<open>Shared pieces of the record constructors\<close>

text \<open>\<^verbatim>\<open>if value is not None: validate(value)\<close>\<close>

definition check_opt :: "('a \<Rightarrow> 'b res) \<Rightarrow> 'a option \<Rightarrow> unit res" where
  "check_opt f o' = (case o' of None \<Rightarrow> Inr () | Some x \<Rightarrow> bindE (f x) (\<lambda>_. Inr ()))"

text \<open>\<^verbatim>\<open>x or default\<close> of an optional string\<close>

fun str_or :: "string option \<Rightarrow> string res \<Rightarrow> string res" where
  "str_or (Some (c # cs)) dflt = Inr (c # cs)"
| "str_or _ dflt = dflt"

text \<open>An element of a list of artifact IDs: anything but a string fails validation.\<close>

fun artifact_str :: "json \<Rightarrow> string res" where
  "artifact_str (JStr s) = Inr s"
| "artifact_str _ = Inl CoreContractError"

definition artifact_strs :: "json \<Rightarrow> string list res" where
  "artifact_strs v = bindE (py_tuple v) (mapE artifact_str)"

section \<open>The host's documented behaviour\<close>

text \<open>
  \<open>hexdigest\<close> answers 64 lower-case hexadecimal digits. \<^verbatim>\<open>isoformat\<close> with microseconds of a
  moment in UTC answers 26 characters of date and time and then \<^verbatim>\<open>+00:00\<close>, and \<^verbatim>\<open>fromisoformat\<close>
  reads such a text back as a moment that prints the same. \<^verbatim>\<open>os.write\<close> accepts at least one byte.
\<close>

definition iso_char :: "char \<Rightarrow> bool" where
  "iso_char c = (is_ascii_digit c \<or> c \<in> {CHR ''-'', CHR '':'', CHR ''T'', CHR ''.''})"

definition iso_lawful :: "host \<Rightarrow> bool" where
  "iso_lawful H = (\<forall>t. \<exists>body t'. isoformat_utc H t = body @ ''+00:00'' \<and> length body = 26
     \<and> list_all iso_char body \<and> fromisoformat H (isoformat_utc H t) = Some (True, t')
     \<and> isoformat_utc H t' = isoformat_utc H t)"

definition os_lawful :: "host \<Rightarrow> bool" where
  "os_lawful H = (\<forall>p. p \<noteq> [] \<longrightarrow> 0 < os_write H p)"

definition sha_lawful :: "host \<Rightarrow> bool" where
  "sha_lawful H = (\<forall>b. is_sha256 (sha256 H b))"

section \<open>Lemmas\<close>

lemma validate_identifier_eq [simp]: "validate_identifier s = Inr t \<longleftrightarrow> t = s \<and> is_identifier s"
  by (auto simp: validate_identifier_def)

lemma validate_sha256_eq [simp]: "validate_sha256 s = Inr t \<longleftrightarrow> t = s \<and> is_sha256 s"
  by (auto simp: validate_sha256_def)

lemma validate_reference_id: "validate_reference s = Inr t \<Longrightarrow> t = s"
  by (auto simp: validate_reference_def split: if_splits)

definition is_artifact_id :: "string \<Rightarrow> bool" where
  "is_artifact_id s = okE (validate_artifact_id s)"

lemma validate_artifact_id_eq [simp]:
  "validate_artifact_id s = Inr t \<longleftrightarrow> t = s \<and> is_artifact_id s"
  by (auto simp: is_artifact_id_def validate_artifact_id_def okE_eq split: if_splits)

lemma validate_ok [simp]:
  "is_identifier s \<Longrightarrow> validate_identifier s = Inr s"
  "is_sha256 s \<Longrightarrow> validate_sha256 s = Inr s"
  "is_artifact_id s \<Longrightarrow> validate_artifact_id s = Inr s"
  by simp_all

definition is_reference :: "string \<Rightarrow> bool" where
  "is_reference s = okE (validate_reference s)"

lemma validate_reference_eq [simp]: "validate_reference s = Inr t \<longleftrightarrow> t = s \<and> is_reference s"
  by (auto simp: is_reference_def okE_eq dest: validate_reference_id)

lemma validate_reference_ok [simp]: "is_reference s \<Longrightarrow> validate_reference s = Inr s"
  by simp

lemma is_artifact_id_iff: "is_artifact_id s \<longleftrightarrow> (\<exists>d. s = ''sha256:'' @ d \<and> is_sha256 d)"
proof
  assume "is_artifact_id s"
  then have "py_startswith s ''sha256:''" "is_sha256 (py_removeprefix s ''sha256:'')"
    by (auto simp: is_artifact_id_def validate_artifact_id_def okE_eq split: if_splits)
  then show "\<exists>d. s = ''sha256:'' @ d \<and> is_sha256 d" by (metis py_removeprefix_eq)
next
  assume "\<exists>d. s = ''sha256:'' @ d \<and> is_sha256 d"
  then obtain d where d: "s = ''sha256:'' @ d" "is_sha256 d" by blast
  have "py_startswith s ''sha256:''" "py_removeprefix s ''sha256:'' = d"
    unfolding d by (rule py_startswith_append, rule py_removeprefix_append)
  with d show "is_artifact_id s" by (simp add: is_artifact_id_def validate_artifact_id_def validate_sha256_def)
qed

lemma artifact_sha256_append [simp]: "is_sha256 d \<Longrightarrow> artifact_sha256 (''sha256:'' @ d) = Inr d"
proof -
  assume "is_sha256 d"
  then have "is_artifact_id (''sha256:'' @ d)" unfolding is_artifact_id_iff by blast
  then have "validate_artifact_id (''sha256:'' @ d) = Inr (''sha256:'' @ d)" by simp
  then show ?thesis using py_removeprefix_append [of "''sha256:''" d]
    by (simp add: artifact_sha256_def)
qed

lemma validate_artifact_ids_eq [simp]: "validate_artifact_ids xs = Inr ys \<longleftrightarrow>
    ys = xs \<and> distinct xs \<and> list_all is_artifact_id xs"
proof -
  have m: "mapE validate_artifact_id xs = Inr zs \<longleftrightarrow> zs = xs \<and> list_all is_artifact_id xs" for zs
    using mapE_id_iff [of validate_artifact_id xs zs] by (auto simp: list_all_iff okE_eq)
  show ?thesis by (auto simp: validate_artifact_ids_def m split: if_splits)
qed

lemma validate_artifact_ids_ok [simp]:
  "distinct xs \<Longrightarrow> list_all is_artifact_id xs \<Longrightarrow> validate_artifact_ids xs = Inr xs"
  by simp

lemma hex_not_s: "\<not> is_hex_lower (CHR ''s'')"
  by code_simp

lemma digest_not_prefixed: "is_sha256 d \<Longrightarrow> \<not> py_startswith d ''sha256:''"
  using hex_not_s by (auto simp: py_startswith_iff prefix_def is_sha256_def)

lemma validate_digest_sha [simp]: "is_sha256 d \<Longrightarrow> validate_digest_reference d = Inr d"
  by (simp add: validate_digest_reference_def digest_not_prefixed)

lemma validate_digest_result: "validate_digest_reference v = Inr d \<Longrightarrow> is_sha256 d"
  by (auto simp: validate_digest_reference_def split: if_splits)

text \<open>Freezing is the identity on what it accepts.\<close>

lemma freeze_id:
  "freeze_json v = Inr w \<Longrightarrow> w = v"
  "freeze_list xs = Inr ys \<Longrightarrow> ys = xs"
  "freeze_fields d = Inr d' \<Longrightarrow> d' = d"
  by (induction v and xs and d arbitrary: w and ys and d'
      rule: freeze_json_freeze_list_freeze_fields.induct) (auto split: if_splits)

lemma freeze_error:
  "freeze_json v = Inl e \<Longrightarrow> e = CoreContractError"
  "freeze_list xs = Inl e \<Longrightarrow> e = CoreContractError"
  "freeze_fields d = Inl e \<Longrightarrow> e = CoreContractError"
  by (induction v and xs and d rule: freeze_json_freeze_list_freeze_fields.induct)
    (auto simp: bindE_eq_Inl split: if_splits)

definition json_ok :: "json \<Rightarrow> bool" where
  "json_ok v = okE (freeze_json v)"

definition fields_ok :: "fields \<Rightarrow> bool" where
  "fields_ok d = okE (freeze_fields d)"

lemma freeze_json_eq: "freeze_json v = (if json_ok v then Inr v else Inl CoreContractError)"
  using freeze_id(1) [of v] freeze_error(1) [of v]
  by (cases "freeze_json v") (auto simp: json_ok_def)

lemma freeze_fields_eq: "freeze_fields d = (if fields_ok d then Inr d else Inl CoreContractError)"
  using freeze_id(3) [of d] freeze_error(3) [of d]
  by (cases "freeze_fields d") (auto simp: fields_ok_def)

lemma freeze_list_eq: "freeze_list xs = (if list_all json_ok xs then Inr xs else Inl CoreContractError)"
  by (induction xs) (auto simp: freeze_json_eq)

lemma json_ok_simps [simp]:
  "json_ok JNull" "json_ok (JStr s)" "json_ok (JBool b)" "json_ok (JInt i)"
  "json_ok (JFloat (Finite s))" "\<not> json_ok (JFloat (NonFinite s))" "\<not> json_ok JOpaque"
  "json_ok (JObj d) = fields_ok d" "json_ok (JArr xs) = list_all json_ok xs"
  by (simp_all add: json_ok_def freeze_fields_eq freeze_list_eq)

lemma fields_ok_Nil [simp]: "fields_ok []"
  by (simp add: fields_ok_def)

lemma fields_ok_Cons [simp]: "fields_ok ((k, v) # d) \<longleftrightarrow>
    k \<noteq> [] \<and> \<not> sensitive_key k \<and> json_ok v \<and> fields_ok d"
  by (cases "freeze_fields d") (simp_all add: fields_ok_def freeze_json_eq)

lemma fields_ok_iff: "fields_ok d \<longleftrightarrow> (\<forall>(k, v) \<in> set d. k \<noteq> [] \<and> \<not> sensitive_key k \<and> json_ok v)"
  by (induction d) auto

lemma json_ok_jstrs [simp]: "json_ok (jstrs xs)"
  by (simp add: jstrs_def list_all_iff)

lemma json_ok_jstr_opt [simp]: "json_ok (jstr_opt x)"
  by (cases x) (simp_all add: jstr_opt_def)

lemma freeze_json_mapping_obj [simp]:
  "freeze_json_mapping (JObj d) = (if fields_ok d then Inr d else Inl CoreContractError)"
  by (simp add: freeze_json_mapping_def freeze_fields_eq)

lemma freeze_json_mapping_Inr: "freeze_json_mapping v = Inr d \<Longrightarrow> fields_ok d"
  by (cases v) (auto simp: freeze_json_mapping_def freeze_json_eq Let_def split: if_splits)

lemma canonical_json_bytes_eq:
  "canonical_json_bytes v = (if json_ok v then Inr (json_dumps v) else Inl CoreContractError)"
  by (simp add: canonical_json_bytes_def freeze_json_eq)

lemma json_ok_jnorm [simp]: "json_ok (jnorm v) = json_ok v"
proof (induction v)
  case (JArr xs)
  then show ?case by (auto simp: jnorm_list_map list_all_iff)
next
  case (JObj d)
  then have "\<And>p. p \<in> set d \<Longrightarrow> json_ok (jnorm (snd p)) = json_ok (snd p)"
    by (auto simp: snds.simps)
  then have "fields_ok (jnorm_fields d) = fields_ok d"
    by (induction d) force+
  moreover have "fields_ok (sort_key fst (jnorm_fields d)) = fields_ok (jnorm_fields d)"
    by (simp add: fields_ok_iff)
  ultimately show ?case by (simp add: norm_obj_def)
qed simp_all

lemma fields_ok_norm_obj [simp]: "fields_ok (norm_obj d) = fields_ok d"
  using json_ok_jnorm [of "JObj d"] by simp

lemma fields_ok_lookup: "fields_ok d \<Longrightarrow> map_of d k = Some v \<Longrightarrow> json_ok v \<and> \<not> sensitive_key k"
  by (auto simp: fields_ok_iff dest!: map_of_SomeD)

lemma check_opt_eq [simp]: "check_opt f o' = Inr u \<longleftrightarrow> (\<forall>x. o' = Some x \<longrightarrow> okE (f x))"
  by (auto simp: check_opt_def okE_eq split: option.splits)

lemma okE_validate_identifier [simp]: "okE (validate_identifier s) = is_identifier s"
  by (auto simp: okE_eq)

lemma pred_option_alt: "pred_option P o' \<longleftrightarrow> (\<forall>x. o' = Some x \<longrightarrow> P x)"
  by (cases o') auto

lemma jget_jstr_opt [simp]: "str_or_none (jstr_opt x) = x"
  by (cases x) (simp_all add: jstr_opt_def)

lemma jstr_inject [simp]: "jstr_opt x = jstr_opt y \<longleftrightarrow> x = y" "jstrs xs = jstrs ys \<longleftrightarrow> xs = ys"
proof -
  show "jstr_opt x = jstr_opt y \<longleftrightarrow> x = y" by (cases x; cases y) (simp_all add: jstr_opt_def)
  have "inj JStr" by (simp add: inj_def)
  then show "jstrs xs = jstrs ys \<longleftrightarrow> xs = ys" by (simp add: jstrs_def inj_map_eq_map)
qed

lemma artifact_strs_jstrs [simp]: "artifact_strs (jstrs xs) = Inr xs"
proof -
  have "mapE artifact_str (map JStr xs) = Inr xs" by (induction xs) simp_all
  then show ?thesis by (simp add: artifact_strs_def jstrs_def)
qed

lemma canonical_json_bytes_cong:
  "jnorm v = jnorm w \<Longrightarrow> canonical_json_bytes v = canonical_json_bytes w"
  by (metis canonical_json_bytes_eq json_dumps_jnorm json_ok_jnorm)

lemma json_wf_strs [simp]: "json_wf fl (jstr_opt x)" "json_wf fl (jstrs xs)"
  by (cases x) (simp_all add: jstr_opt_def jstrs_def list_all_iff)

text \<open>\<open>normalize_timestamp\<close> is a projection: its results are its fixed points.\<close>

lemma py_replace_suffix:
  "CHR ''+'' \<notin> set body \<Longrightarrow> py_replace ''+00:00'' new (body @ ''+00:00'') = body @ new"
proof (induction body)
  case Nil
  show ?case by (simp add: py_replace.simps)
next
  case (Cons c cs)
  then show ?case by (subst py_replace.simps) auto
qed

lemma iso_body:
  assumes "iso_lawful H"
  obtains body t' where "isoformat_utc H t = body @ ''+00:00''" "length body = 26"
    "list_all iso_char body" "fromisoformat H (isoformat_utc H t) = Some (True, t')"
    "isoformat_utc H t' = isoformat_utc H t"
  using assms unfolding iso_lawful_def by blast

lemma utc_timestamp_fixed:
  assumes "iso_lawful H" "utc_timestamp H m = Inr s"
  shows "normalize_timestamp H s = Inr s"
proof -
  from assms(2) have s: "s = py_replace ''+00:00'' ''Z'' (isoformat_utc H (snd m))"
    by (auto simp: utc_timestamp_def split: if_splits)
  from iso_body [OF assms(1)] obtain body t' where b: "isoformat_utc H (snd m) = body @ ''+00:00''"
    "length body = 26" "list_all iso_char body"
    "fromisoformat H (isoformat_utc H (snd m)) = Some (True, t')"
    "isoformat_utc H t' = isoformat_utc H (snd m)" .
  from b(3) have nospace: "\<And>c. c \<in> set (body @ ''Z'') \<Longrightarrow> \<not> py_isspace c"
    by (auto simp: list_all_iff iso_char_def is_ascii_digit_def py_isspace_def Let_def code_def)
  from b(3) have "CHR ''+'' \<notin> set body"
    by (auto simp: list_all_iff iso_char_def is_ascii_digit_def code_def)
  then have s': "s = body @ ''Z''" using s b(1) by (simp add: py_replace_suffix)
  then have strip: "py_strip s = s" by (simp only: py_strip_def strip_by_none [OF nospace])
  have "utc_timestamp H (True, t') = Inr s" by (simp add: utc_timestamp_def b(5) s)
  moreover have "py_endswith s ''Z''" "butlast s @ ''+00:00'' = isoformat_utc H (snd m)" "s \<noteq> []"
    using s' b(1) by (simp_all add: py_endswith_def)
  ultimately show ?thesis using b(4) strip by (simp add: normalize_timestamp_def)
qed

lemma normalize_timestamp_fixed:
  assumes "iso_lawful H" "normalize_timestamp H v = Inr s"
  shows "normalize_timestamp H s = Inr s"
proof -
  from assms(2) obtain m where "utc_timestamp H m = Inr s"
    unfolding normalize_timestamp_def by (auto simp: Let_def split: if_splits option.splits)
  with assms(1) show ?thesis by (rule utc_timestamp_fixed)
qed

lemma normalize_timestamp_decode: "normalize_timestamp H v = Inl e \<Longrightarrow> e = CoreContractError"
  by (auto simp: normalize_timestamp_def utc_timestamp_def Let_def split: if_splits option.splits)

text \<open>What it takes to evaluate the key check on a literal key\<close>

lemmas sensitive_key_eval = sensitive_key_def normalize_key_def sensitive_key_parts_def py_casefold_def
  casefold_char_def Let_def is_ascii_upper_def is_ascii_lower_def is_ascii_digit_def strip_by_def
  py_split_def code_def

section \<open>A concrete host\<close>

text \<open>
  A host for the witnesses: it knows one instant, hashes the bytes \<open>data\<close> to a
  digest of their own and others to the number of bytes modulo 15, and accepts every schema.
\<close>

definition demo_time :: string where
  "demo_time = ''2026-01-01T00:00:00.000000Z''"

definition demo_host :: host where
  "demo_host = \<lparr>sha256 = (\<lambda>b. replicate 63 (CHR ''0'') @ [hex_digit (if b = ''data'' then 15 else length b mod 15)]),
     float_of = Finite, int_of_float = (\<lambda>_. 0), float_eq = (=),
     fromisoformat = (\<lambda>s. if s = ''2026-01-01T00:00:00.000000+00:00'' then Some (True, 0) else None),
     isoformat_utc = (\<lambda>_. ''2026-01-01T00:00:00.000000+00:00''),
     schema_wellformed = (\<lambda>_. True), schema_accepts = (\<lambda>_ _. True), os_write = length\<rparr>"

lemma demo_iso_lawful: "iso_lawful demo_host"
proof -
  have "list_all iso_char ''2026-01-01T00:00:00.000000''" by code_simp
  then show ?thesis
    unfolding iso_lawful_def demo_host_def
    by (intro allI exI [of _ "''2026-01-01T00:00:00.000000''"] exI [of _ 0]) simp
qed

lemma demo_os_lawful: "os_lawful demo_host"
  by (simp add: os_lawful_def demo_host_def)

lemma hex_digit_lower: "d < 16 \<Longrightarrow> is_hex_lower (hex_digit d)"
  by (auto simp: is_hex_lower_def hex_digit_def is_ascii_digit_def)

lemma demo_sha_lawful: "sha_lawful demo_host"
proof -
  have "is_hex_lower (CHR ''0'')" by code_simp
  then show ?thesis
    by (simp add: sha_lawful_def demo_host_def is_sha256_def hex_digit_lower list_all_iff)
qed

lemma demo_time_fixed: "normalize_timestamp demo_host demo_time = Inr demo_time"
proof -
  have "utc_timestamp demo_host (True, 0) = Inr demo_time"
    by (simp add: utc_timestamp_def demo_host_def demo_time_def)
      (simp add: py_replace_suffix [of "''2026-01-01T00:00:00.000000''", simplified])
  then show ?thesis by (rule utc_timestamp_fixed [OF demo_iso_lawful])
qed

section \<open>Properties\<close>

text \<open>
  C33. Canonical JSON. The canonical bytes of a value are one line that reads back as the value
  with sorted keys, and another value has the same bytes exactly if it is the same up to the
  order of its dicts' keys.
\<close>

theorem canonical_json_determines:
  assumes "json_wf fl v" "json_wf fl w" "canonical_json_bytes v = Inr b"
  shows "loads_bytes fl b = Some (jnorm v) \<and> CHR 0x0A \<notin> set b
    \<and> (canonical_json_bytes w = Inr b \<longleftrightarrow> jnorm w = jnorm v)"
proof -
  have b: "json_ok v" "b = json_dumps v" using assms(3) by (auto simp: canonical_json_bytes_eq split: if_splits)
  have "json_dumps w = json_dumps v \<Longrightarrow> jnorm w = jnorm v"
    using loads_bytes_dumps [OF assms(1)] loads_bytes_dumps [OF assms(2)] by simp
  moreover have "jnorm w = jnorm v \<Longrightarrow> json_ok w \<and> json_dumps w = json_dumps v"
    using b(1) by (metis json_dumps_jnorm json_ok_jnorm)
  ultimately show ?thesis
    using b loads_bytes_dumps [OF assms(1)] json_dumps_no_newline [OF assms(1)]
    by (auto simp: canonical_json_bytes_eq)
qed

theorem canonical_json_determines_witness:
  "canonical_json_bytes (JObj [(''b'', JInt 1), (''a'', JNull)]) = canonical_json_bytes (JObj [(''a'', JNull), (''b'', JInt 1)])"
proof -
  let ?v = "JObj [(''b'', JInt 1), (''a'', JNull)]"
  let ?w = "JObj [(''a'', JNull), (''b'', JInt 1)]"
  have "\<not> sensitive_key ''a''" "\<not> sensitive_key ''b''" by (simp_all add: sensitive_key_eval)
  then have "canonical_json_bytes ?v = Inr (json_dumps ?v)" by (simp add: canonical_json_bytes_eq)
  moreover have "jnorm ?w = jnorm ?v" by code_simp
  ultimately show ?thesis
    using canonical_json_determines [of Finite ?v ?w "json_dumps ?v"] by simp
qed


end
