(* ===== verification/Interfaces.thy ===== *)
theory Interfaces
  imports Ids
begin

text \<open>
  The contracts between the components, each a locale whose operations are what a client
  calls and whose assumptions are what the provider promises. The providers' theories
  interpret them on the model's own operations.
\<close>

section \<open>Record codecs\<close>

text \<open>
  A persisted record: \<^verbatim>\<open>to_dict\<close>, \<^verbatim>\<open>from_dict\<close>, the records that its constructor accepts, and what
  is left of a record after its dicts went through sorted JSON text (\<open>canon\<close>).
\<close>

locale record_codec =
  fixes enc :: "'r \<Rightarrow> json" and dec :: "json \<Rightarrow> 'r res" and wf :: "'r \<Rightarrow> bool"
    and canon :: "'r \<Rightarrow> 'r"
  assumes dec_enc: "wf r \<Longrightarrow> dec (enc r) = Inr r"
    and dec_norm: "wf r \<Longrightarrow> dec (jnorm (enc r)) = Inr (canon r)"
    and enc_canon: "jnorm (enc (canon r)) = jnorm (enc r)"
begin

lemma enc_inj: "wf r \<Longrightarrow> wf q \<Longrightarrow> enc r = enc q \<Longrightarrow> r = q"
  by (metis dec_enc sum.inject(2))

lemma dumps_canon: "json_dumps (enc (canon r)) = json_dumps (enc r)"
  by (simp add: json_dumps_def enc_canon)

lemma persisted:
  "wf r \<Longrightarrow> json_wf fl (enc r) \<Longrightarrow>
     loads_bytes fl (json_dumps (enc r)) = Some (jnorm (enc r)) \<and> dec (jnorm (enc r)) = Inr (canon r)"
  by (simp add: loads_bytes_dumps dec_norm)

text \<open>Two records with the same canonical text are the same up to the order of their dicts' keys.\<close>

lemma dumps_inj:
  assumes "wf r" "wf q" "json_wf fl (enc r)" "json_wf fl (enc q)"
    and "json_dumps (enc r) = json_dumps (enc q)"
  shows "canon r = canon q"
  by (metis assms option.inject persisted sum.inject(2))

end

section \<open>Hash chains\<close>

text \<open>The check of the log readers: no repeated ID, each entry naming its predecessor's digest\<close>

fun chain_from :: "('e \<Rightarrow> string) \<Rightarrow> ('e \<Rightarrow> string option) \<Rightarrow> ('e \<Rightarrow> string option) \<Rightarrow>
    string option \<Rightarrow> string list \<Rightarrow> 'e list \<Rightarrow> bool" where
  "chain_from item_id prev_of stored prev seen [] = True"
| "chain_from item_id prev_of stored prev seen (e # es) =
     (item_id e \<notin> set seen \<and> prev_of e = prev
      \<and> chain_from item_id prev_of stored (stored e) (item_id e # seen) es)"

text \<open>\<^verbatim>\<open>existing[-1].digest if existing else None\<close>\<close>

definition last_digest :: "('e \<Rightarrow> string option) \<Rightarrow> 'e list \<Rightarrow> string option" where
  "last_digest stored es = (if es = [] then None else stored (last es))"

lemma last_digest_simps [simp]:
  "last_digest stored [] = None"
  "last_digest stored (es @ [e]) = stored e"
  by (simp_all add: last_digest_def)

lemma chain_from_append:
  "chain_from item_id prev_of stored prev seen (es @ fs) \<longleftrightarrow>
     chain_from item_id prev_of stored prev seen es
     \<and> chain_from item_id prev_of stored (if es = [] then prev else stored (last es))
         (rev (map item_id es) @ seen) fs"
  by (induction es arbitrary: prev seen) auto

lemma chain_from_distinct:
  "chain_from item_id prev_of stored prev seen es \<Longrightarrow>
     distinct (map item_id es) \<and> set (map item_id es) \<inter> set seen = {}"
  by (induction es arbitrary: prev seen) fastforce+

text \<open>
  \<open>link p e\<close> is the entry that an append after a log with last digest \<open>p\<close> persists; \<open>sealed\<close> says
  that the stored digest is the digest of the entry's body.
\<close>

locale hash_chain =
  fixes item_id :: "'e \<Rightarrow> string" and prev_of :: "'e \<Rightarrow> string option"
    and stored :: "'e \<Rightarrow> string option" and sealed :: "'e \<Rightarrow> bool"
    and link :: "string option \<Rightarrow> 'e \<Rightarrow> 'e res"
  assumes link_id: "link p e = Inr e' \<Longrightarrow> item_id e' = item_id e"
    and link_prev: "link p e = Inr e' \<Longrightarrow> prev_of e' = p"
    and link_sealed: "link p e = Inr e' \<Longrightarrow> sealed e'"
    and sealed_stored: "sealed e \<Longrightarrow> stored e \<noteq> None"
begin

lemma append_chain:
  assumes "chain_from item_id prev_of stored None [] es" "item_id e \<notin> set (map item_id es)"
    and "link (last_digest stored es) e = Inr e'"
  shows "chain_from item_id prev_of stored None [] (es @ [e'])"
  using assms link_id [OF assms(3)] link_prev [OF assms(3)]
  by (auto simp: chain_from_append last_digest_def)

lemma prefix_chain:
  "chain_from item_id prev_of stored None [] (es @ fs) \<Longrightarrow> chain_from item_id prev_of stored None [] es"
  by (simp add: chain_from_append)

text \<open>
  Tamper evidence. If no two different entries of two sealed logs share a stored digest, then the
  last digest determines the whole log.
\<close>

lemma last_digest_determines:
  assumes "chain_from item_id prev_of stored None [] es" "chain_from item_id prev_of stored None [] fs"
    and "list_all sealed es" "list_all sealed fs"
    and "\<And>a b. a \<in> set es \<Longrightarrow> b \<in> set fs \<Longrightarrow> stored a = stored b \<Longrightarrow> a = b"
    and "last_digest stored es = last_digest stored fs"
  shows "es = fs"
  using assms
proof (induction es arbitrary: fs rule: rev_induct)
  case Nil
  then show ?case
    by (cases fs rule: rev_cases) (auto dest: sealed_stored)
next
  case (snoc e es)
  show ?case
  proof (cases fs rule: rev_cases)
    case Nil
    with snoc.prems show ?thesis by (auto dest: sealed_stored)
  next
    case (snoc fs' f)
    with snoc.prems(5,6) have "e = f" by simp
    have "last_digest stored es = prev_of e" "last_digest stored fs' = prev_of f"
      using snoc.prems(1,2) snoc by (auto simp: chain_from_append last_digest_def)
    with \<open>e = f\<close> have "last_digest stored es = last_digest stored fs'" by simp
    moreover have "chain_from item_id prev_of stored None [] fs'"
      using snoc.prems(2) snoc prefix_chain by blast
    ultimately have "es = fs'"
      using snoc.prems snoc by (intro snoc.IH) (auto intro: prefix_chain)
    with \<open>e = f\<close> snoc show ?thesis by simp
  qed
qed

end

section \<open>Append-only logs\<close>

text \<open>
  \<open>append\<close> adds one entry, as it will be read back, or refuses and leaves the log; the log stays
  valid either way.
\<close>

locale append_log =
  fixes append :: "'x \<Rightarrow> ('e list, 'e) act" and stored :: "'e \<Rightarrow> 'e" and valid :: "'e list \<Rightarrow> bool"
  assumes append_adds: "append x es = (Inr e, fs) \<Longrightarrow> fs = es @ [stored e]"
    and append_refuses: "append x es = (Inl f, fs) \<Longrightarrow> fs = es"
    and append_valid: "valid es \<Longrightarrow> valid (snd (append x es))"
begin

text \<open>The log keeps what it has, stays valid, and every new entry satisfies \<open>P\<close>.\<close>

definition grows_by :: "('e \<Rightarrow> bool) \<Rightarrow> 'e list \<Rightarrow> 'e list \<Rightarrow> bool" where
  "grows_by P es fs = ((\<exists>gs. fs = es @ gs \<and> list_all P gs) \<and> (valid es \<longrightarrow> valid fs))"

lemma grows_by_order: "grows_by P es es" "grows_by P es fs \<Longrightarrow> grows_by P fs gs \<Longrightarrow> grows_by P es gs"
  by (auto simp: grows_by_def)

lemma append_grows:
  assumes "\<And>e fs. append x es = (Inr e, fs) \<Longrightarrow> P (stored e)"
  shows "grows_by P es (snd (append x es))"
proof (cases "append x es")
  case (Pair o' fs)
  with assms append_valid [of es x] append_adds [of x es] append_refuses [of x es] show ?thesis
    by (cases o') (auto simp: grows_by_def)
qed

lemma appends_grow:
  assumes "\<And>x es e fs. x \<in> set xs \<Longrightarrow> append x es = (Inr e, fs) \<Longrightarrow> P (stored e)"
  shows "grows_by P es (snd (mapA append xs es))"
  using assms
proof (induction xs arbitrary: es)
  case Nil
  show ?case by (simp add: grows_by_order)
next
  case (Cons x xs)
  obtain o' fs where fs: "append x es = (o', fs)" by (cases "append x es")
  have "grows_by P es (snd (append x es))" by (rule append_grows, rule Cons.prems [of x]) simp_all
  with fs have 1: "grows_by P es fs" by simp
  have 2: "grows_by P fs (snd (mapA append xs fs))" by (rule Cons.IH, rule Cons.prems) simp_all
  from 1 grows_by_order(2) [OF 1 2] fs show ?case
    by (auto simp: bindA_def split: prod.splits sum.splits)
qed

lemma grows_by_filter: "grows_by P es fs \<Longrightarrow> (\<And>e. P e \<Longrightarrow> \<not> Q e) \<Longrightarrow> filter Q fs = filter Q es"
  by (auto simp: grows_by_def filter_empty_conv list_all_iff)

end

section \<open>Content stores\<close>

text \<open>
  \<open>put\<close> publishes content and answers its record, or raises; \<open>verify\<close> answers the record of an
  identity whose bytes are intact. Publication never changes what was verifiable before.
\<close>

locale content_store =
  fixes put :: "'c \<Rightarrow> ('s, 'r) act" and verify :: "'s \<Rightarrow> string \<Rightarrow> 'r res" and rec_id :: "'r \<Rightarrow> string"
    and intact :: "'s \<Rightarrow> bool"
  assumes put_verify: "intact s \<Longrightarrow> put c s = (Inr r, s') \<Longrightarrow> verify s' (rec_id r) = Inr r"
    and put_keeps: "intact s \<Longrightarrow> verify s a = Inr r \<Longrightarrow> verify (snd (put c s)) a = Inr r"
    and put_intact: "intact s \<Longrightarrow> intact (snd (put c s))"
begin

lemma puts_intact: "intact s \<Longrightarrow> intact (snd (mapA put cs s))"
proof (induction cs arbitrary: s)
  case Nil
  then show ?case by simp
next
  case (Cons c cs)
  obtain o' t where p: "put c s = (o', t)" by (cases "put c s")
  from put_intact [OF Cons.prems, of c] p Cons.IH [of t] show ?case
    by (auto simp: bindA_def p split: prod.splits sum.splits)
qed

lemma puts_keep: "intact s \<Longrightarrow> verify s a = Inr r \<Longrightarrow> verify (snd (mapA put cs s)) a = Inr r"
proof (induction cs arbitrary: s)
  case Nil
  then show ?case by simp
next
  case (Cons c cs)
  obtain o' t where p: "put c s = (o', t)" by (cases "put c s")
  from put_intact [OF Cons.prems(1), of c] put_keeps [OF Cons.prems, of c] p Cons.IH [of t]
  show ?case by (auto simp: bindA_def p split: prod.splits sum.splits)
qed

text \<open>After a sequence of publications every one of their records verifies.\<close>

lemma puts_verify:
  "intact s \<Longrightarrow> mapA put cs s = (Inr rs, s') \<Longrightarrow> r \<in> set rs \<Longrightarrow> verify s' (rec_id r) = Inr r"
proof (induction cs arbitrary: s rs)
  case Nil
  then show ?case by simp
next
  case (Cons c cs)
  from Cons.prems(2) obtain q t qs where put: "put c s = (Inr q, t)"
    and rest: "mapA put cs t = (Inr qs, s')" and rs: "rs = q # qs"
    by (auto simp: bindA_eq_Inr)
  have t: "intact t" using put_intact [OF Cons.prems(1), of c] put by simp
  show ?case
  proof (cases "r \<in> set qs")
    case True
    with Cons.IH [OF t rest] show ?thesis by simp
  next
    case False
    with Cons.prems(3) rs have "r = q" by simp
    with put_verify [OF Cons.prems(1) put] have "verify t (rec_id r) = Inr r" by simp
    with puts_keep [OF t, of _ r cs] rest show ?thesis by simp
  qed
qed

end

end
