(* ===== verification/Persistence.thy ===== *)
theory Persistence
  imports Interfaces
begin

text \<open>
  \<^verbatim>\<open>src/molly/core/_persistence.py\<close> and the part of the file system that the append-only logs
  see: what lies at a path, opening a log for appending, writing all bytes of a line, and
  reading a log line by line.
\<close>

datatype fsnode = FSFile string | FSDir | FSSymlink

text \<open>A log file: whether some ancestor directory is a symlink, and what lies at the path\<close>

record log_file =
  ancestor_symlink :: bool
  log_node :: "fsnode option"

text \<open>
  \<^verbatim>\<open>locked_append\<close> up to its \<^verbatim>\<open>yield\<close>: symlinked ancestors and a path that is not a regular file
  are refused (\<^verbatim>\<open>O_NOFOLLOW\<close>, \<^verbatim>\<open>O_WRONLY\<close>), a missing file is created empty. The lock makes the
  block atomic for the other appenders, so the block is one action of the model.
\<close>

definition locked_append :: "(log_file, unit) act" where
  "locked_append lf =
     (if ancestor_symlink lf then (Inl PathSecurityError, lf)
      else case log_node lf of
          None \<Rightarrow> (Inr (), lf\<lparr>log_node := Some (FSFile [])\<rparr>)
        | Some (FSFile b) \<Rightarrow> (Inr (), lf)
        | Some FSDir \<Rightarrow> (Inl PathSecurityError, lf)
        | Some FSSymlink \<Rightarrow> (Inl PathSecurityError, lf))"

function write_loop :: "(string \<Rightarrow> nat) \<Rightarrow> string \<Rightarrow> string \<Rightarrow> unit res \<times> string" where
  "write_loop w bytes view =
     (if view = [] then (Inr (), bytes)
      else if w view = 0 then (Inl OSError, bytes)
      else write_loop w (bytes @ take (w view) view) (drop (w view) view))"
  by pat_completeness auto
termination
  by (relation "measure (\<lambda>(w, bytes, view). length view)") auto

declare write_loop.simps [simp del]

definition append_all :: "host \<Rightarrow> string \<Rightarrow> (log_file, unit) act" where
  "append_all H payload lf =
     (case log_node lf of
        Some (FSFile b) \<Rightarrow>
          (let (r, b') = write_loop (os_write H) b payload in (r, lf\<lparr>log_node := Some (FSFile b')\<rparr>))
      | _ \<Rightarrow> (Inl OSError, lf))"

text \<open>Iterating over a binary file handle: the lines with their terminators\<close>

fun lines_acc :: "string \<Rightarrow> string \<Rightarrow> string list" where
  "lines_acc acc [] = (if acc = [] then [] else [rev acc])"
| "lines_acc acc (c # cs) =
     (if c = CHR 0x0A then rev (c # acc) # lines_acc [] cs else lines_acc (c # acc) cs)"

definition file_lines :: "string \<Rightarrow> string list" where
  "file_lines b = lines_acc [] b"

section \<open>Lemmas\<close>

lemma write_loop_lawful: "os_lawful H \<Longrightarrow> write_loop (os_write H) b view = (Inr (), b @ view)"
proof (induction "os_write H" b view rule: write_loop.induct)
  case (1 b view)
  show ?case
  proof (cases "view = []")
    case True
    then show ?thesis by (simp add: write_loop.simps)
  next
    case False
    with "1.prems" have "0 < os_write H view" by (simp add: os_lawful_def)
    with 1 False show ?thesis by (subst write_loop.simps) simp
  qed
qed

text \<open>Whatever the host does, the old bytes stay and only a prefix of the payload is added.\<close>

lemma write_loop_prefix: "\<exists>p. prefix p view \<and> snd (write_loop w b view) = b @ p"
proof (induction w b view rule: write_loop.induct)
  case (1 w b view)
  show ?case
  proof (cases "view = [] \<or> w view = 0")
    case True
    then show ?thesis by (subst write_loop.simps) auto
  next
    case False
    with 1 obtain p where p: "prefix p (drop (w view) view)"
      "snd (write_loop w (b @ take (w view) view) (drop (w view) view)) = (b @ take (w view) view) @ p"
      by auto
    from p(1) have "prefix (take (w view) view @ p) view"
      by (metis append_take_drop_id same_prefix_prefix)
    with p(2) False show ?thesis by (subst write_loop.simps) auto
  qed
qed

lemma append_all_lawful:
  "os_lawful H \<Longrightarrow> log_node lf = Some (FSFile b) \<Longrightarrow>
     append_all H payload lf = (Inr (), lf\<lparr>log_node := Some (FSFile (b @ payload))\<rparr>)"
  by (simp add: append_all_def write_loop_lawful)

lemma lines_acc_append:
  "CHR 0x0A \<notin> set l \<Longrightarrow> lines_acc acc (l @ CHR 0x0A # b) = (rev acc @ l @ [CHR 0x0A]) # lines_acc [] b"
  by (induction l arbitrary: acc) auto

lemma lines_acc_partial:
  "CHR 0x0A \<notin> set l \<Longrightarrow> lines_acc acc l = (if acc = [] \<and> l = [] then [] else [rev acc @ l])"
  by (induction l arbitrary: acc) auto

text \<open>A file whose last byte is a line end\<close>

definition complete_lines :: "string \<Rightarrow> bool" where
  "complete_lines b = (b = [] \<or> last b = CHR 0x0A)"

lemma lines_acc_complete:
  "b = [] \<and> acc = [] \<or> b \<noteq> [] \<and> last b = CHR 0x0A \<Longrightarrow> lines_acc acc (b @ b') = lines_acc acc b @ lines_acc [] b'"
proof (induction b arbitrary: acc)
  case Nil
  then show ?case by simp
next
  case (Cons c cs)
  then show ?case by (cases cs) auto
qed

lemma file_lines_append: "complete_lines b \<Longrightarrow> file_lines (b @ b') = file_lines b @ file_lines b'"
  using lines_acc_complete [of b "[]" b'] by (auto simp: file_lines_def complete_lines_def)

lemma file_lines_line: "CHR 0x0A \<notin> set l \<Longrightarrow> file_lines (l @ [CHR 0x0A]) = [l @ [CHR 0x0A]]"
  using lines_acc_append [of l "[]" "[]"] by (simp add: file_lines_def)

lemma file_lines_partial: "CHR 0x0A \<notin> set l \<Longrightarrow> l \<noteq> [] \<Longrightarrow> file_lines l = [l]"
  by (simp add: file_lines_def lines_acc_partial)

lemma lines_acc_concat: "concat (lines_acc acc b) = rev acc @ b"
  by (induction acc b rule: lines_acc.induct) auto

lemma file_lines_concat: "concat (file_lines b) = b"
  by (simp add: file_lines_def lines_acc_concat)

lemma lines_acc_nonempty: "l \<in> set (lines_acc acc b) \<Longrightarrow> l \<noteq> []"
  by (induction acc b arbitrary: l rule: lines_acc.induct) (auto split: if_splits)

text \<open>If every line is terminated, so is the file.\<close>

lemma terminated_complete:
  "(\<And>l. l \<in> set (file_lines b) \<Longrightarrow> last l = CHR 0x0A) \<Longrightarrow> complete_lines b"
proof -
  assume t: "\<And>l. l \<in> set (file_lines b) \<Longrightarrow> last l = CHR 0x0A"
  show ?thesis
  proof (cases "file_lines b" rule: rev_cases)
    case Nil
    then show ?thesis using file_lines_concat [of b] by (simp add: complete_lines_def)
  next
    case (snoc ls l)
    then have "l \<noteq> []" using lines_acc_nonempty [of l "[]" b] by (simp add: file_lines_def)
    with snoc t [of l] file_lines_concat [of b] show ?thesis
      by (metis complete_lines_def concat_append concat.simps append_Nil2 in_set_conv_decomp last_appendR)
  qed
qed

section \<open>Chained logs\<close>

text \<open>
  The reading loop that the ledger and the lineage share: every line ends in a line end, decodes to
  an entry with a new ID that names its predecessor's digest, and passes one more check.
\<close>

fun read_chain :: "('e \<Rightarrow> string) \<Rightarrow> ('e \<Rightarrow> string option) \<Rightarrow> ('e \<Rightarrow> string option) \<Rightarrow> (string \<Rightarrow> 'e res) \<Rightarrow>
    ('e \<Rightarrow> unit res) \<Rightarrow> error \<Rightarrow> string option \<Rightarrow> string list \<Rightarrow> string list \<Rightarrow> 'e list res" where
  "read_chain item_id prev_of stored decode check err previous_digest seen_ids [] = Inr []"
| "read_chain item_id prev_of stored decode check err previous_digest seen_ids (raw_line # rest) =
     (if \<not> py_endswith raw_line [CHR 0x0A] then Inl err
      else bindE (decode (butlast raw_line)) (\<lambda>e.
        if item_id e \<in> set seen_ids then Inl err
        else if prev_of e \<noteq> previous_digest then Inl err
        else bindE (check e) (\<lambda>_.
          bindE (read_chain item_id prev_of stored decode check err (stored e) (item_id e # seen_ids) rest)
            (\<lambda>es. Inr (e # es)))))"

text \<open>
  A log whose entries are linked into a hash chain: \<open>encode\<close> gives the line of an entry, without
  its line end, for the entries with \<open>clean\<close>; reading the line back gives the entry in its
  persisted form \<open>canon\<close>.
\<close>

locale chained_log = hash_chain item_id prev_of stored sealed link
  for item_id :: "'e \<Rightarrow> string" and prev_of stored sealed link +
  fixes canon :: "'e \<Rightarrow> 'e" and decode :: "string \<Rightarrow> 'e res" and encode :: "'e \<Rightarrow> string"
    and check :: "'e \<Rightarrow> unit res" and clean :: "'e \<Rightarrow> bool" and err :: error
  assumes canon_id: "item_id (canon e) = item_id e" and canon_prev: "prev_of (canon e) = prev_of e"
    and canon_stored: "stored (canon e) = stored e"
    and decode_encode: "sealed e \<Longrightarrow> clean e \<Longrightarrow> decode (encode e) = Inr (canon e)"
    and encode_line: "clean e \<Longrightarrow> CHR 0x0A \<notin> set (encode e)"
    and decode_sealed: "decode l = Inr e \<Longrightarrow> sealed e"
begin

lemma read_append:
  "read_chain item_id prev_of stored decode check err prev seen (ls @ ls') =
     bindE (read_chain item_id prev_of stored decode check err prev seen ls) (\<lambda>es.
     bindE (read_chain item_id prev_of stored decode check err (if es = [] then prev else stored (last es))
       (rev (map item_id es) @ seen) ls') (\<lambda>es'. Inr (es @ es')))"
proof (induction ls arbitrary: prev seen)
  case Nil
  show ?case by (cases "read_chain item_id prev_of stored decode check err prev seen ls'") auto
next
  case (Cons l ls)
  show ?case
  proof (cases "\<exists>e. py_endswith l [CHR 0x0A] \<and> decode (butlast l) = Inr e \<and> item_id e \<notin> set seen
      \<and> prev_of e = prev \<and> check e = Inr ()")
    case True
    then obtain e where *: "py_endswith l [CHR 0x0A]" "decode (butlast l) = Inr e"
      "item_id e \<notin> set seen" "prev_of e = prev" "check e = Inr ()" by blast
    show ?thesis
      by (cases "read_chain item_id prev_of stored decode check err (stored e) (item_id e # seen) ls")
        (auto simp: * Cons.IH bindE_def split: sum.split)
  next
    case False
    then show ?thesis by (auto simp: bindE_def split: sum.splits)
  qed
qed

lemma read_valid:
  "read_chain item_id prev_of stored decode check err prev seen ls = Inr es \<Longrightarrow>
     chain_from item_id prev_of stored prev seen es \<and> list_all sealed es
     \<and> list_all (\<lambda>e. okE (check e)) es \<and> (\<forall>l \<in> set ls. l \<noteq> [] \<and> last l = CHR 0x0A)"
proof (induction ls arbitrary: prev seen es)
  case Nil
  then show ?case by simp
next
  case (Cons l ls)
  then obtain e es' where *: "py_endswith l [CHR 0x0A]" "decode (butlast l) = Inr e"
    "item_id e \<notin> set seen" "prev_of e = prev" "check e = Inr ()"
    "read_chain item_id prev_of stored decode check err (stored e) (item_id e # seen) ls = Inr es'"
    "es = e # es'"
    by (auto split: if_splits)
  have "last l = CHR 0x0A \<and> l \<noteq> []"
    using *(1) by (cases l rule: rev_cases) (simp_all add: py_endswith_def)
  with * Cons.IH [OF *(6)] decode_sealed [OF *(2)] show ?case by auto
qed

lemma read_complete:
  "read_chain item_id prev_of stored decode check err prev seen (file_lines b) = Inr es \<Longrightarrow> complete_lines b"
  using read_valid by (intro terminated_complete) blast

text \<open>A line appended to a readable log is read back as the entry that it encodes.\<close>

lemma read_extended:
  assumes read: "read_chain item_id prev_of stored decode check err None [] (file_lines b) = Inr es"
    and p: "link (last_digest stored es) e = Inr p" "item_id e \<notin> item_id ` set es" "clean p"
    and checked: "check (canon p) = Inr ()"
  shows "read_chain item_id prev_of stored decode check err None []
    (file_lines (b @ encode p @ [CHR 0x0A])) = Inr (es @ [canon p])"
proof -
  have "py_endswith (encode p @ [CHR 0x0A]) [CHR 0x0A]" by (simp add: py_endswith_def)
  then have "read_chain item_id prev_of stored decode check err (last_digest stored es)
      (rev (map item_id es)) [encode p @ [CHR 0x0A]] = Inr [canon p]"
    using p checked link_id [OF p(1)] link_prev [OF p(1)] link_sealed [OF p(1)]
    by (simp add: decode_encode canon_id canon_prev)
  moreover have "file_lines (b @ encode p @ [CHR 0x0A]) = file_lines b @ [encode p @ [CHR 0x0A]]"
    using read_complete [OF read] encode_line [OF p(3)]
    by (simp add: file_lines_append file_lines_line)
  ultimately show ?thesis
    by (simp add: read_append read last_digest_def del: read_chain.simps(2))
qed

text \<open>A piece of a line after a readable log makes it unreadable.\<close>

lemma read_torn:
  assumes "read_chain item_id prev_of stored decode check err None [] (file_lines b) = Inr es"
    and "torn \<noteq> []" "CHR 0x0A \<notin> set torn"
  shows "read_chain item_id prev_of stored decode check err None [] (file_lines (b @ torn)) = Inl err"
proof -
  have "\<not> py_endswith torn [CHR 0x0A]"
    using assms(2,3) by (cases torn rule: rev_cases) (auto simp: py_endswith_def)
  with assms read_complete [OF assms(1)] show ?thesis
    by (simp add: file_lines_append file_lines_partial read_append bindE_eq_Inl)
qed

lemma appended_chain:
  assumes "chain_from item_id prev_of stored None [] es" "item_id e \<notin> item_id ` set es"
    and "link (last_digest stored es) e = Inr p"
  shows "chain_from item_id prev_of stored None [] (es @ [canon p])"
  using append_chain [OF assms(1) _ assms(3)] assms(2)
  by (simp add: chain_from_append canon_id canon_prev)

end

end
