(* ===== verification/Artifacts.thy ===== *)
theory Artifacts
  imports Persistence
begin

text \<open>
  \<^verbatim>\<open>src/molly/core/artifacts.py\<close>: the artifact record, the content-addressed store with its
  no-replace publication under interference by other processes, and the abstract store (a map
  from identities to a record and its bytes) that it implements.
\<close>

section \<open>Records\<close>

record artifact_record =
  ar_artifact_id :: string
  ar_sha256 :: string
  ar_media_type :: string
  ar_schema_name :: "string option"
  ar_schema_version :: "string option"
  ar_size_bytes :: int
  ar_stored_at :: string

text \<open>\<^verbatim>\<open>ArtifactRecord.__post_init__\<close>\<close>

definition artifact_init :: "host \<Rightarrow> artifact_record \<Rightarrow> artifact_record res" where
  "artifact_init H r =
     bindE (validate_artifact_id (ar_artifact_id r)) (\<lambda>_.
     bindE (validate_sha256 (ar_sha256 r)) (\<lambda>_.
     bindE (artifact_id_for_sha256 (ar_sha256 r)) (\<lambda>expected_id.
     bindE (guardE (ar_artifact_id r = expected_id) CoreContractError) (\<lambda>_.
     bindE (guardE (py_strip (ar_media_type r) \<noteq> []) CoreContractError) (\<lambda>_.
     bindE (guardE (\<not> list_ex (\<lambda>c. c \<in> set (ar_media_type r)) [CHR 0x0D, CHR 0x0A, CHR 0x00])
       CoreContractError) (\<lambda>_.
     bindE (check_opt validate_identifier (ar_schema_name r)) (\<lambda>_.
     bindE (check_opt validate_identifier (ar_schema_version r)) (\<lambda>_.
     bindE (normalize_timestamp H (ar_stored_at r)) (\<lambda>ts.
     bindE (guardE (0 \<le> ar_size_bytes r) CoreContractError) (\<lambda>_.
     Inr (r\<lparr>ar_stored_at := ts\<rparr>)))))))))))"

definition artifact_fields :: "artifact_record \<Rightarrow> fields" where
  "artifact_fields r =
     [(''artifact_id'', JStr (ar_artifact_id r)),
      (''sha256'', JStr (ar_sha256 r)),
      (''media_type'', JStr (ar_media_type r)),
      (''schema_name'', jstr_opt (ar_schema_name r)),
      (''schema_version'', jstr_opt (ar_schema_version r)),
      (''size_bytes'', JInt (ar_size_bytes r)),
      (''stored_at'', JStr (ar_stored_at r))]"

definition artifact_to_dict :: "artifact_record \<Rightarrow> json" where
  "artifact_to_dict r = JObj (artifact_fields r)"

text \<open>\<^verbatim>\<open>from_dict\<close>; a null digest or size falls back to the older key.\<close>

definition jget_fallback :: "fields \<Rightarrow> string \<Rightarrow> string \<Rightarrow> json res" where
  "jget_fallback d k k' = (if jget d k = JNull then jitem d k' else Inr (jget d k))"

definition artifact_decode :: "host \<Rightarrow> fields \<Rightarrow> artifact_record res" where
  "artifact_decode H d =
     bindE (jget_fallback d ''sha256'' ''content_sha256'') (\<lambda>digest.
     bindE (jget_fallback d ''size_bytes'' ''size'') (\<lambda>size.
     bindE (jitem d ''artifact_id'') (\<lambda>aid.
     bindE (jitem d ''media_type'') (\<lambda>mt.
     bindE (py_int (int_of_float H) size) (\<lambda>n.
     bindE (jitem d ''stored_at'') (\<lambda>ts.
     artifact_init H
       \<lparr>ar_artifact_id = py_str aid, ar_sha256 = py_str digest, ar_media_type = py_str mt,
        ar_schema_name = str_or_none (jget d ''schema_name''),
        ar_schema_version = str_or_none (jget d ''schema_version''),
        ar_size_bytes = n, ar_stored_at = py_str ts\<rparr>))))))"

definition artifact_from_dict :: "host \<Rightarrow> json \<Rightarrow> artifact_record res" where
  "artifact_from_dict H value =
     (case value of
        JObj d \<Rightarrow> wrapE decode_error ArtifactIntegrityError (artifact_decode H d)
      | _ \<Rightarrow> Inl ArtifactIntegrityError)"

section \<open>The store's directories\<close>

text \<open>
  What lies at the root, at \<^verbatim>\<open>objects\<close> and at \<^verbatim>\<open>metadata\<close>. \<^verbatim>\<open>mkdir(parents=True, exist_ok=True)\<close> keeps a
  directory and raises \<^verbatim>\<open>FileExistsError\<close> on any other node.
\<close>

definition mkdir_exist_ok :: "(fsnode option, unit) act" where
  "mkdir_exist_ok n =
     (case n of None \<Rightarrow> (Inr (), Some FSDir) | Some FSDir \<Rightarrow> (Inr (), n) | _ \<Rightarrow> (Inl FileExistsError, n))"

definition ensure_directory :: "(fsnode option, unit) act" where
  "ensure_directory n =
     (if n = Some FSSymlink then (Inl PathSecurityError, n) else mkdir_exist_ok n)"

record store_dirs =
  dir_root :: "fsnode option"
  dir_objects :: "fsnode option"
  dir_metadata :: "fsnode option"

text \<open>\<^verbatim>\<open>ArtifactStore.__init__\<close>\<close>

definition open_store :: "(store_dirs, unit) act" where
  "open_store s =
     (case ensure_directory (dir_root s) of
        (Inl e, n) \<Rightarrow> (Inl e, s\<lparr>dir_root := n\<rparr>)
      | (Inr _, n) \<Rightarrow>
         (case ensure_directory (dir_objects s) of
            (Inl e, n') \<Rightarrow> (Inl e, s\<lparr>dir_root := n, dir_objects := n'\<rparr>)
          | (Inr _, n') \<Rightarrow>
              (let (r, n'') = ensure_directory (dir_metadata s)
               in (r, s\<lparr>dir_root := n, dir_objects := n', dir_metadata := n''\<rparr>))))"

section \<open>The opened store\<close>

text \<open>
  The nodes at \<^verbatim>\<open>objects/<two digits>\<close>, at \<^verbatim>\<open>objects/<two digits>/<digest>\<close> and at
  \<^verbatim>\<open>metadata/<digest>.json\<close>. The three directories above them stay directories after
  \<open>open_store\<close>; a digest has no separator in it, so no path leaves the root.
\<close>

record store =
  st_prefixes :: "string \<Rightarrow> fsnode option"
  st_objects :: "string \<Rightarrow> fsnode option"
  st_metadata :: "string \<Rightarrow> fsnode option"

definition prefix_node :: "store \<Rightarrow> string \<Rightarrow> fsnode option" where
  "prefix_node s digest = st_prefixes s (take 2 digest)"

definition object_node :: "store \<Rightarrow> string \<Rightarrow> fsnode option" where
  "object_node s digest = (if prefix_node s digest = Some FSDir then st_objects s digest else None)"

definition metadata_node :: "store \<Rightarrow> string \<Rightarrow> fsnode option" where
  "metadata_node s digest = st_metadata s digest"

text \<open>\<^verbatim>\<open>_paths\<close>: the digest stands for both paths.\<close>

definition check_paths :: "string \<Rightarrow> store \<Rightarrow> string res" where
  "check_paths digest s =
     (if object_node s digest = Some FSSymlink \<or> metadata_node s digest = Some FSSymlink
      then Inl PathSecurityError else Inr digest)"

definition store_paths :: "string \<Rightarrow> store \<Rightarrow> string res" where
  "store_paths artifact_id s =
     bindE (artifact_sha256 artifact_id) (\<lambda>digest.
     if prefix_node s digest = Some FSSymlink then Inl PathSecurityError
     else check_paths digest s)"

definition create_prefix :: "string \<Rightarrow> (store, unit) act" where
  "create_prefix digest s =
     (let (r, n) = ensure_directory (prefix_node s digest)
      in (r, s\<lparr>st_prefixes := (st_prefixes s)(take 2 digest := n)\<rparr>))"

definition create_paths :: "string \<Rightarrow> (store, string) act" where
  "create_paths artifact_id =
     bindA (liftA (artifact_sha256 artifact_id)) (\<lambda>digest.
     bindA (create_prefix digest) (\<lambda>_. asksA (check_paths digest)))"

text \<open>
  \<^verbatim>\<open>_publish_no_replace\<close>: the hard link fails on any node that is there. The temporary file needs
  its directory.
\<close>

definition publish_object :: "string \<Rightarrow> string \<Rightarrow> (store, bool) act" where
  "publish_object digest payload s =
     (if object_node s digest = Some FSSymlink then (Inl PathSecurityError, s)
      else if prefix_node s digest \<noteq> Some FSDir then (Inl OSError, s)
      else if st_objects s digest \<noteq> None then (Inr False, s)
      else (Inr True, s\<lparr>st_objects := (st_objects s)(digest := Some (FSFile payload))\<rparr>))"

definition publish_metadata :: "string \<Rightarrow> string \<Rightarrow> (store, bool) act" where
  "publish_metadata digest payload s =
     (if metadata_node s digest = Some FSSymlink then (Inl PathSecurityError, s)
      else if metadata_node s digest \<noteq> None then (Inr False, s)
      else (Inr True, s\<lparr>st_metadata := (st_metadata s)(digest := Some (FSFile payload))\<rparr>))"

definition read_verified_bytes :: "host \<Rightarrow> string \<Rightarrow> fsnode option \<Rightarrow> string res" where
  "read_verified_bytes H expected_sha256 node =
     (case node of
        Some FSSymlink \<Rightarrow> Inl PathSecurityError
      | None \<Rightarrow> Inl ArtifactNotFoundError
      | Some FSDir \<Rightarrow> Inl ArtifactIntegrityError
      | Some (FSFile payload) \<Rightarrow>
          if sha256_bytes H payload \<noteq> expected_sha256 then Inl ArtifactIntegrityError
          else Inr payload)"

definition read_record :: "host \<Rightarrow> fsnode option \<Rightarrow> artifact_record res" where
  "read_record H node =
     (case node of
        Some FSSymlink \<Rightarrow> Inl PathSecurityError
      | None \<Rightarrow> Inl ArtifactNotFoundError
      | Some FSDir \<Rightarrow> Inl ArtifactIntegrityError
      | Some (FSFile text) \<Rightarrow>
          (case loads_bytes (float_of H) text of
             None \<Rightarrow> Inl ArtifactIntegrityError
           | Some value \<Rightarrow> artifact_from_dict H value))"

definition compatible_field :: "string option \<Rightarrow> string option \<Rightarrow> bool" where
  "compatible_field existing requested = (existing = None \<or> requested = None \<or> existing = requested)"

definition assert_compatible_intrinsic_metadata ::
    "artifact_record \<Rightarrow> artifact_record \<Rightarrow> unit res" where
  "assert_compatible_intrinsic_metadata existing requested =
     (if ar_sha256 existing \<noteq> ar_sha256 requested
         \<or> ar_artifact_id existing \<noteq> ar_artifact_id requested then Inl ArtifactConflictError
      else if ar_media_type existing \<noteq> ar_media_type requested then Inl ArtifactConflictError
      else if \<not> compatible_field (ar_schema_name existing) (ar_schema_name requested)
        then Inl ArtifactConflictError
      else if \<not> compatible_field (ar_schema_version existing) (ar_schema_version requested)
        then Inl ArtifactConflictError
      else Inr ())"

definition existing_record :: "host \<Rightarrow> artifact_record \<Rightarrow> store \<Rightarrow> artifact_record res" where
  "existing_record H requested s =
     bindE (read_record H (metadata_node s (ar_sha256 requested))) (\<lambda>existing.
     bindE (assert_compatible_intrinsic_metadata existing requested) (\<lambda>_.
     bindE (read_verified_bytes H (ar_sha256 requested) (object_node s (ar_sha256 requested)))
       (\<lambda>existing_payload.
     if ar_size_bytes existing \<noteq> int (length existing_payload) then Inl ArtifactIntegrityError
     else Inr existing)))"

section \<open>Operations\<close>

text \<open>The arguments of \<^verbatim>\<open>put\<close>, and the clock that \<^verbatim>\<open>utc_timestamp()\<close> reads\<close>

record put_args =
  pa_content :: string
  pa_media_type :: "string option"
  pa_content_type :: "string option"
  pa_schema_name :: "string option"
  pa_schema_version :: "string option"
  pa_stored_at :: "string option"
  pa_now :: int

definition put_stored_at :: "host \<Rightarrow> put_args \<Rightarrow> string res" where
  "put_stored_at H a = (case pa_stored_at a of
     Some (c # cs) \<Rightarrow> Inr (c # cs)
   | _ \<Rightarrow> utc_timestamp H (True, pa_now a))"

definition put_media_type :: "put_args \<Rightarrow> string res" where
  "put_media_type a = (case (pa_media_type a, pa_content_type a) of
     (None, None) \<Rightarrow> Inl CoreContractError
   | (None, Some ct) \<Rightarrow> Inr ct
   | (Some mt, None) \<Rightarrow> Inr mt
   | (Some mt, Some ct) \<Rightarrow> if mt \<noteq> ct then Inl CoreContractError else Inr mt)"

definition put_request :: "host \<Rightarrow> put_args \<Rightarrow> artifact_record res" where
  "put_request H a =
     bindE (put_media_type a) (\<lambda>media_type.
     bindE (artifact_id_for_sha256 (sha256_bytes H (pa_content a))) (\<lambda>aid.
     bindE (put_stored_at H a) (\<lambda>stored_at.
     artifact_init H
       \<lparr>ar_artifact_id = aid, ar_sha256 = sha256_bytes H (pa_content a), ar_media_type = media_type,
        ar_schema_name = pa_schema_name a, ar_schema_version = pa_schema_version a,
        ar_size_bytes = int (length (pa_content a)), ar_stored_at = stored_at\<rparr>)))"

text \<open>
  \<open>E n\<close> is what other processes do to the store before the \<open>n\<close>th system call of this one;
  \<open>quiet\<close> is a store that no other process uses.
\<close>

type_synonym interference = "nat \<Rightarrow> store \<Rightarrow> store"

definition quiet :: interference where
  "quiet n s = s"

definition after :: "interference \<Rightarrow> nat \<Rightarrow> (store, 'a) act \<Rightarrow> (store, 'a) act" where
  "after E n m = bindA (modifyA (E n)) (\<lambda>_. m)"

definition put_object :: "host \<Rightarrow> interference \<Rightarrow> artifact_record \<Rightarrow> string \<Rightarrow> (store, string) act" where
  "put_object H E rec payload =
     bindA (after E 1 (asksA (\<lambda>s. Inr (object_node s (ar_sha256 rec) \<noteq> None)))) (\<lambda>present.
     bindA (if present then returnA False
            else after E 2 (publish_object (ar_sha256 rec) payload)) (\<lambda>_.
     after E 3 (asksA (\<lambda>s. read_verified_bytes H (ar_sha256 rec) (object_node s (ar_sha256 rec))))))"

definition put_metadata :: "host \<Rightarrow> interference \<Rightarrow> artifact_record \<Rightarrow> (store, artifact_record) act" where
  "put_metadata H E rec =
     bindA (after E 4 (asksA (\<lambda>s. Inr (metadata_node s (ar_sha256 rec) \<noteq> None)))) (\<lambda>present.
     bindA (if present then returnA False
            else bindA (liftA (canonical_json_bytes (artifact_to_dict rec))) (\<lambda>line.
              after E 5 (publish_metadata (ar_sha256 rec) (line @ [CHR 0x0A])))) (\<lambda>_.
     after E 6 (asksA (existing_record H rec))))"

definition put_in :: "host \<Rightarrow> interference \<Rightarrow> put_args \<Rightarrow> (store, artifact_record) act" where
  "put_in H E a =
     bindA (liftA (put_request H a)) (\<lambda>rec.
     bindA (after E 0 (create_paths (ar_artifact_id rec))) (\<lambda>_.
     bindA (put_object H E rec (pa_content a)) (\<lambda>_.
     put_metadata H E rec)))"

definition put :: "host \<Rightarrow> put_args \<Rightarrow> (store, artifact_record) act" where
  "put H = put_in H quiet"

text \<open>\<^verbatim>\<open>put_json\<close>: canonical JSON, with the media type defaulted\<close>

definition put_json :: "host \<Rightarrow> json \<Rightarrow> put_args \<Rightarrow> (store, artifact_record) act" where
  "put_json H value a =
     bindA (liftA (canonical_json_bytes value)) (\<lambda>payload.
     put H (a\<lparr>pa_content := payload,
       pa_media_type := (case pa_media_type a of None \<Rightarrow> Some ''application/json'' | Some m \<Rightarrow> Some m)\<rparr>))"

definition verify :: "host \<Rightarrow> store \<Rightarrow> string \<Rightarrow> artifact_record res" where
  "verify H s artifact_id =
     bindE (validate_artifact_id artifact_id) (\<lambda>_.
     bindE (store_paths artifact_id s) (\<lambda>digest.
     bindE (read_record H (metadata_node s digest)) (\<lambda>rec.
     bindE (guardE (ar_artifact_id rec = artifact_id) ArtifactIntegrityError) (\<lambda>_.
     bindE (read_verified_bytes H digest (object_node s digest)) (\<lambda>payload.
     if int (length payload) \<noteq> ar_size_bytes rec then Inl ArtifactIntegrityError
     else Inr rec)))))"

definition read_artifact :: "host \<Rightarrow> store \<Rightarrow> string \<Rightarrow> string res" where
  "read_artifact H s artifact_id =
     bindE (verify H s artifact_id) (\<lambda>rec.
     bindE (store_paths (ar_artifact_id rec) s) (\<lambda>digest.
     read_verified_bytes H (ar_sha256 rec) (object_node s digest)))"

definition read_metadata :: "host \<Rightarrow> store \<Rightarrow> string \<Rightarrow> artifact_record res" where
  "read_metadata H s artifact_id =
     bindE (validate_artifact_id artifact_id) (\<lambda>_.
     bindE (store_paths artifact_id s) (\<lambda>digest.
     bindE (read_record H (metadata_node s digest)) (\<lambda>rec.
     if ar_artifact_id rec \<noteq> artifact_id then Inl ArtifactIntegrityError
     else case object_node s digest of
         Some FSSymlink \<Rightarrow> Inl PathSecurityError
       | None \<Rightarrow> Inl ArtifactNotFoundError
       | Some FSDir \<Rightarrow> Inl ArtifactIntegrityError
       | Some (FSFile _) \<Rightarrow> Inr rec)))"

fun is_file :: "fsnode option \<Rightarrow> bool" where
  "is_file (Some (FSFile _)) = True"
| "is_file _ = False"

definition exists_artifact :: "host \<Rightarrow> store \<Rightarrow> string \<Rightarrow> bool \<Rightarrow> bool res" where
  "exists_artifact H s artifact_id verify_bytes =
     bindE (validate_artifact_id artifact_id) (\<lambda>_.
     bindE (store_paths artifact_id s) (\<lambda>digest.
     if \<not> is_file (object_node s digest) \<or> \<not> is_file (metadata_node s digest) then Inr False
     else if verify_bytes then bindE (verify H s artifact_id) (\<lambda>_. Inr True)
     else Inr True))"

section \<open>Lemmas: the record codec\<close>

lemma validate_artifact_id_sha: "artifact_id_for_sha256 d = Inr a \<longleftrightarrow> a = ''sha256:'' @ d \<and> is_sha256 d"
  by (auto simp: artifact_id_for_sha256_def)

definition artifact_checks :: "artifact_record \<Rightarrow> bool" where
  "artifact_checks r =
     (is_sha256 (ar_sha256 r) \<and> ar_artifact_id r = ''sha256:'' @ ar_sha256 r
      \<and> py_strip (ar_media_type r) \<noteq> []
      \<and> list_all (\<lambda>c. c \<notin> set (ar_media_type r)) [CHR 0x0D, CHR 0x0A, CHR 0x00]
      \<and> pred_option is_identifier (ar_schema_name r) \<and> pred_option is_identifier (ar_schema_version r)
      \<and> 0 \<le> ar_size_bytes r)"

lemma artifact_init_eq: "artifact_init H r = Inr r' \<longleftrightarrow>
    artifact_checks r \<and> (\<exists>ts. normalize_timestamp H (ar_stored_at r) = Inr ts \<and> r' = r\<lparr>ar_stored_at := ts\<rparr>)"
  by (auto simp: artifact_init_def artifact_checks_def validate_artifact_id_sha pred_option_alt
      is_artifact_id_iff)

lemma artifact_checks_timestamp [simp]: "artifact_checks (r\<lparr>ar_stored_at := ts\<rparr>) = artifact_checks r"
  by (simp add: artifact_checks_def)

lemma artifact_checks_id:
  assumes "artifact_checks r"
  shows "artifact_sha256 (ar_artifact_id r) = Inr (ar_sha256 r)" "is_artifact_id (ar_artifact_id r)"
proof -
  from assms have c: "is_sha256 (ar_sha256 r)" "ar_artifact_id r = ''sha256:'' @ ar_sha256 r"
    unfolding artifact_checks_def by blast+
  show "artifact_sha256 (ar_artifact_id r) = Inr (ar_sha256 r)"
    unfolding c(2) using c(1) by (rule artifact_sha256_append)
  show "is_artifact_id (ar_artifact_id r)" unfolding is_artifact_id_iff using c by blast
qed

definition artifact_wf :: "host \<Rightarrow> artifact_record \<Rightarrow> bool" where
  "artifact_wf H r = (artifact_init H r = Inr r)"

lemma artifact_init_wf: "iso_lawful H \<Longrightarrow> artifact_init H r = Inr r' \<Longrightarrow> artifact_wf H r'"
  by (auto simp: artifact_wf_def artifact_init_eq dest: normalize_timestamp_fixed)

lemma artifact_wf_checks: "artifact_wf H r \<Longrightarrow> artifact_checks r"
  by (auto simp: artifact_wf_def artifact_init_eq)

lemma artifact_init_keeps:
  assumes "artifact_init H r = Inr r'"
  shows "artifact_checks r'" "ar_artifact_id r' = ar_artifact_id r" "ar_sha256 r' = ar_sha256 r"
    "ar_media_type r' = ar_media_type r" "ar_size_bytes r' = ar_size_bytes r"
    "ar_schema_name r' = ar_schema_name r" "ar_schema_version r' = ar_schema_version r"
  using assms by (auto simp: artifact_init_eq)

lemma artifact_fields_lookup [simp]:
  "map_of (artifact_fields r) ''artifact_id'' = Some (JStr (ar_artifact_id r))"
  "map_of (artifact_fields r) ''sha256'' = Some (JStr (ar_sha256 r))"
  "map_of (artifact_fields r) ''media_type'' = Some (JStr (ar_media_type r))"
  "map_of (artifact_fields r) ''schema_name'' = Some (jstr_opt (ar_schema_name r))"
  "map_of (artifact_fields r) ''schema_version'' = Some (jstr_opt (ar_schema_version r))"
  "map_of (artifact_fields r) ''size_bytes'' = Some (JInt (ar_size_bytes r))"
  "map_of (artifact_fields r) ''stored_at'' = Some (JStr (ar_stored_at r))"
  by (simp_all add: artifact_fields_def)

lemma artifact_decode_fields:
  "artifact_decode H (artifact_fields r) = artifact_init H r"
  "artifact_decode H (norm_obj (artifact_fields r)) = artifact_init H r"
  by (cases r; simp add: artifact_decode_def jget_fallback_def jitem_def jget_def)+

interpretation artifact_codec: record_codec artifact_to_dict "artifact_from_dict H" "artifact_wf H" "\<lambda>r. r"
  for H
  by unfold_locales
    (simp_all add: artifact_from_dict_def artifact_to_dict_def artifact_decode_fields artifact_wf_def)

lemma artifact_keys_ok [simp]:
  "\<not> sensitive_key ''artifact_id''" "\<not> sensitive_key ''sha256''" "\<not> sensitive_key ''media_type''"
  "\<not> sensitive_key ''schema_name''" "\<not> sensitive_key ''schema_version''"
  "\<not> sensitive_key ''size_bytes''" "\<not> sensitive_key ''stored_at''"
  by (simp_all add: sensitive_key_eval)

lemma artifact_canonical: "canonical_json_bytes (artifact_to_dict r) = Inr (json_dumps (artifact_to_dict r))"
  by (simp add: canonical_json_bytes_eq artifact_to_dict_def artifact_fields_def)

lemma artifact_json_wf: "json_wf fl (artifact_to_dict r)"
  by (simp add: artifact_to_dict_def artifact_fields_def)

text \<open>A metadata file as \<^verbatim>\<open>put\<close> writes it, and what any readable metadata file guarantees\<close>

definition metadata_file :: "artifact_record \<Rightarrow> fsnode" where
  "metadata_file r = FSFile (json_dumps (artifact_to_dict r) @ [CHR 0x0A])"

lemma read_record_written: "artifact_wf H r \<Longrightarrow> read_record H (Some (metadata_file r)) = Inr r"
  by (simp add: read_record_def metadata_file_def loads_bytes_dumps_line artifact_json_wf
      artifact_codec.dec_norm)

lemma read_record_checks:
  assumes "read_record H n = Inr r"
  shows "artifact_checks r" "\<exists>text. n = Some (FSFile text)"
  using assms
  by (auto simp: read_record_def artifact_from_dict_def artifact_decode_def artifact_init_keeps
      split: option.splits fsnode.splits json.splits)

lemma read_verified_eq [simp]: "read_verified_bytes H d n = Inr b \<longleftrightarrow> n = Some (FSFile b) \<and> sha256 H b = d"
  by (auto simp: read_verified_bytes_def sha256_bytes_def split: option.splits fsnode.splits)

section \<open>Lemmas: nothing published is replaced\<close>

definition extends :: "store \<Rightarrow> store \<Rightarrow> bool" where
  "extends s t = ((\<forall>p. st_prefixes s p \<noteq> None \<longrightarrow> st_prefixes t p = st_prefixes s p)
     \<and> (\<forall>d. st_objects s d \<noteq> None \<longrightarrow> st_objects t d = st_objects s d)
     \<and> (\<forall>d. st_metadata s d \<noteq> None \<longrightarrow> st_metadata t d = st_metadata s d))"

lemma extends_refl [simp]: "extends s s"
  by (simp add: extends_def)

lemma extends_order: "reflp extends" "transp extends"
  by (auto simp: reflp_def transp_def extends_def)

lemma extends_nodes:
  assumes "extends s t"
  shows "prefix_node s d \<noteq> None \<Longrightarrow> prefix_node t d = prefix_node s d"
    "object_node s d \<noteq> None \<Longrightarrow> object_node t d = object_node s d"
    "metadata_node s d \<noteq> None \<Longrightarrow> metadata_node t d = metadata_node s d"
  using assms by (auto simp: extends_def prefix_node_def object_node_def metadata_node_def split: if_splits)

lemma ensure_directory_keeps: "n \<noteq> None \<Longrightarrow> snd (ensure_directory n) = n"
  by (auto simp: ensure_directory_def mkdir_exist_ok_def split: option.splits fsnode.splits)

lemma publish_extends [frame_rules]:
  "advances extends (publish_object d b)" "advances extends (publish_metadata d b)"
  "advances extends (create_prefix d)"
  by (auto simp: advances_def publish_object_def publish_metadata_def create_prefix_def extends_def
      prefix_node_def metadata_node_def ensure_directory_keeps case_prod_beta)

text \<open>Interference that only adds\<close>

definition additive :: "interference \<Rightarrow> bool" where
  "additive E = (\<forall>n s. extends s (E n s))"

lemma quiet_additive [simp]: "additive quiet"
  by (simp add: additive_def quiet_def)

lemmas extends_rules = advances_bind [OF extends_order(2)] advances_pure [OF extends_order(1)]
  advances_modify advances_if publish_extends

lemma after_extends: "additive E \<Longrightarrow> advances extends m \<Longrightarrow> advances extends (after E n m)"
  unfolding after_def by (intro extends_rules) (simp_all add: additive_def)

lemma put_extends:
  assumes "additive E"
  shows "advances extends (put_in H E a)"
  unfolding put_in_def put_object_def put_metadata_def create_paths_def
  by (intro extends_rules after_extends assms)

lemma verify_file:
  assumes "verify H s a = Inr r"
  obtains d b where "artifact_sha256 a = Inr d" "is_sha256 d" "ar_artifact_id r = a" "ar_sha256 r = d"
    "read_record H (metadata_node s d) = Inr r" "object_node s d = Some (FSFile b)" "sha256 H b = d"
    "ar_size_bytes r = int (length b)" "prefix_node s d = Some FSDir"
proof -
  from assms obtain d b where d: "validate_artifact_id a = Inr a" "artifact_sha256 a = Inr d"
    "read_record H (metadata_node s d) = Inr r" "ar_artifact_id r = a"
    "object_node s d = Some (FSFile b)" "sha256 H b = d" "ar_size_bytes r = int (length b)"
    by (auto simp: verify_def store_paths_def check_paths_def split: if_splits)
  note c = artifact_checks_id [OF read_record_checks(1) [OF d(3)]]
  with d(2,4) have "ar_sha256 r = d" by simp
  moreover have "is_sha256 (ar_sha256 r)"
    using read_record_checks(1) [OF d(3)] by (simp add: artifact_checks_def)
  moreover have "prefix_node s d = Some FSDir" using d(5) by (simp add: object_node_def split: if_splits)
  ultimately show ?thesis using d c by (intro that) auto
qed

lemma verifyI:
  assumes "read_record H (metadata_node s (ar_sha256 r)) = Inr r"
    and "object_node s (ar_sha256 r) = Some (FSFile b)" "sha256 H b = ar_sha256 r"
    and "ar_size_bytes r = int (length b)"
  shows "verify H s (ar_artifact_id r) = Inr r" "read_artifact H s (ar_artifact_id r) = Inr b"
proof -
  note c = read_record_checks [OF assms(1)]
  note a = artifact_checks_id [OF c(1)]
  have "prefix_node s (ar_sha256 r) = Some FSDir" using assms(2) by (simp add: object_node_def split: if_splits)
  with a c(2) assms(2) have p: "store_paths (ar_artifact_id r) s = Inr (ar_sha256 r)"
    by (auto simp: store_paths_def check_paths_def)
  with a assms show v: "verify H s (ar_artifact_id r) = Inr r"
    by (auto simp: verify_def)
  with p assms show "read_artifact H s (ar_artifact_id r) = Inr b"
    by (simp add: read_artifact_def)
qed

lemma verify_extends:
  assumes "verify H s a = Inr r" "extends s t"
  shows "verify H t a = Inr r" "read_artifact H t a = read_artifact H s a"
proof -
  from verify_file [OF assms(1)] obtain d b where v: "ar_artifact_id r = a" "ar_sha256 r = d"
    "read_record H (metadata_node s d) = Inr r" "object_node s d = Some (FSFile b)" "sha256 H b = d"
    "ar_size_bytes r = int (length b)" by metis
  moreover have "metadata_node t d = metadata_node s d" "object_node t d = object_node s d"
    using extends_nodes(2,3) [OF assms(2), of d] v(4) read_record_checks(2) [OF v(3)] by auto
  ultimately show "verify H t a = Inr r" "read_artifact H t a = read_artifact H s a"
    using verifyI [of H t r b] verifyI [of H s r b] by auto
qed

section \<open>Lemmas: what a successful publication establishes\<close>

lemma put_request_props:
  assumes "put_request H a = Inr rec"
  shows "artifact_checks rec" "ar_sha256 rec = sha256 H (pa_content a)"
    "ar_artifact_id rec = ''sha256:'' @ sha256 H (pa_content a)" "is_sha256 (sha256 H (pa_content a))"
    "ar_size_bytes rec = int (length (pa_content a))"
  using assms by (auto simp: put_request_def sha256_bytes_def validate_artifact_id_sha artifact_init_keeps)

lemma put_request_wf: "iso_lawful H \<Longrightarrow> put_request H a = Inr rec \<Longrightarrow> artifact_wf H rec"
  by (auto simp: put_request_def intro: artifact_init_wf)

lemma compatible_eq: "assert_compatible_intrinsic_metadata r q = Inr () \<longleftrightarrow>
    ar_sha256 r = ar_sha256 q \<and> ar_artifact_id r = ar_artifact_id q \<and> ar_media_type r = ar_media_type q
    \<and> compatible_field (ar_schema_name r) (ar_schema_name q)
    \<and> compatible_field (ar_schema_version r) (ar_schema_version q)"
  by (auto simp: assert_compatible_intrinsic_metadata_def)

lemma compatible_error: "assert_compatible_intrinsic_metadata r q = Inl e \<Longrightarrow> e = ArtifactConflictError"
  by (auto simp: assert_compatible_intrinsic_metadata_def split: if_splits)

lemma compatible_refl [simp]: "assert_compatible_intrinsic_metadata r r = Inr ()"
  by (simp add: compatible_eq compatible_field_def)

lemma existing_record_verify:
  assumes "existing_record H q s = Inr r"
  shows "verify H s (ar_artifact_id r) = Inr r" "ar_artifact_id r = ar_artifact_id q"
    "ar_sha256 r = ar_sha256 q" "ar_media_type r = ar_media_type q"
    "\<exists>b. read_artifact H s (ar_artifact_id r) = Inr b \<and> sha256 H b = ar_sha256 q"
proof -
  from assms obtain b where *: "read_record H (metadata_node s (ar_sha256 q)) = Inr r"
    "assert_compatible_intrinsic_metadata r q = Inr ()" "object_node s (ar_sha256 q) = Some (FSFile b)"
    "sha256 H b = ar_sha256 q" "ar_size_bytes r = int (length b)"
    by (auto simp: existing_record_def split: if_splits)
  from *(2) show same: "ar_artifact_id r = ar_artifact_id q" "ar_sha256 r = ar_sha256 q"
    "ar_media_type r = ar_media_type q" by (simp_all add: compatible_eq)
  with verifyI [of H s r b] * show "verify H s (ar_artifact_id r) = Inr r"
    "\<exists>b. read_artifact H s (ar_artifact_id r) = Inr b \<and> sha256 H b = ar_sha256 q" by auto
qed

lemma put_returns:
  assumes "put_in H E a s = (Inr r, s')"
  obtains rec where "put_request H a = Inr rec" "existing_record H rec s' = Inr r"
  using assms
  by (auto simp: put_in_def put_metadata_def after_def bindA_eq_Inr)

interpretation artifact_store: content_store "put H" "verify H" ar_artifact_id "\<lambda>_. True"
  for H
proof
  fix a :: put_args and s s' :: store and r :: artifact_record
  assume "put H a s = (Inr r, s')"
  then obtain rec where "existing_record H rec s' = Inr r" unfolding put_def by (rule put_returns)
  then show "verify H s' (ar_artifact_id r) = Inr r" by (rule existing_record_verify)
next
  fix a :: put_args and s :: store and x r
  assume "verify H s x = Inr r"
  moreover have "extends s (snd (put H a s))"
    unfolding put_def by (rule advancesD [OF put_extends]) simp
  ultimately show "verify H (snd (put H a s)) x = Inr r" by (rule verify_extends)
qed simp

section \<open>Lemmas: intact stores\<close>

text \<open>
  What the store guarantees as long as only its own operations touch its files: real directories,
  objects under their digests, and metadata only for objects that are there.
\<close>

definition metadata_intact :: "host \<Rightarrow> store \<Rightarrow> string \<Rightarrow> bool" where
  "metadata_intact H s d = (st_metadata s d = None \<or>
     (\<exists>r b. read_record H (st_metadata s d) = Inr r \<and> ar_sha256 r = d
       \<and> st_objects s d = Some (FSFile b) \<and> ar_size_bytes r = int (length b)))"

definition object_intact :: "host \<Rightarrow> store \<Rightarrow> string \<Rightarrow> bool" where
  "object_intact H s d = (st_objects s d = None \<or>
     prefix_node s d = Some FSDir \<and> (\<exists>b. st_objects s d = Some (FSFile b) \<and> sha256 H b = d))"

definition store_intact :: "host \<Rightarrow> store \<Rightarrow> bool" where
  "store_intact H s = ((\<forall>p. st_prefixes s p \<in> {None, Some FSDir})
     \<and> (\<forall>d. object_intact H s d) \<and> (\<forall>d. metadata_intact H s d))"

lemma object_node_intact: "object_intact H s d \<Longrightarrow> object_node s d = st_objects s d"
  by (auto simp: object_intact_def object_node_def)

lemma store_intact_object: "store_intact H s \<Longrightarrow> object_node s d = st_objects s d"
  unfolding store_intact_def by (blast intro: object_node_intact)

lemma metadata_intact_cases:
  assumes "store_intact H s"
  obtains "st_metadata s d = None"
  | r b where "st_metadata s d \<noteq> None" "read_record H (st_metadata s d) = Inr r" "ar_sha256 r = d"
      "st_objects s d = Some (FSFile b)" "sha256 H b = d" "ar_size_bytes r = int (length b)"
      "prefix_node s d = Some FSDir"
proof -
  from assms have "metadata_intact H s d" "object_intact H s d" by (simp_all add: store_intact_def)
  then show ?thesis using that unfolding metadata_intact_def object_intact_def by fastforce
qed

lemma read_record_wf: "iso_lawful H \<Longrightarrow> read_record H n = Inr r \<Longrightarrow> artifact_wf H r"
  by (auto simp: read_record_def artifact_from_dict_def artifact_decode_def
      split: option.splits fsnode.splits json.splits intro: artifact_init_wf)

lemma after_quiet [simp]: "after quiet n m = m"
  by (simp add: after_def quiet_def bindA_def)

text \<open>The store after publication of a request without interference\<close>

definition with_object :: "string \<Rightarrow> string \<Rightarrow> store \<Rightarrow> store" where
  "with_object d b s = s\<lparr>st_prefixes := (st_prefixes s)(take 2 d := Some FSDir),
     st_objects := (st_objects s)(d := Some (FSFile b))\<rparr>"

definition with_metadata :: "artifact_record \<Rightarrow> store \<Rightarrow> store" where
  "with_metadata r s = s\<lparr>st_metadata := (st_metadata s)(ar_sha256 r := Some (metadata_file r))\<rparr>"

lemma with_object_intact:
  assumes "store_intact H s" "sha256 H b = d" "\<And>b'. st_objects s d = Some (FSFile b') \<Longrightarrow> b' = b"
  shows "store_intact H (with_object d b s)"
proof -
  have "object_intact H (with_object d b s) d'" for d'
    using assms(1,2) by (auto simp: store_intact_def object_intact_def with_object_def prefix_node_def)
  moreover have "metadata_intact H (with_object d b s) d'" for d'
    using assms by (cases rule: metadata_intact_cases [OF assms(1), of d'])
      (auto simp: metadata_intact_def with_object_def)
  ultimately show ?thesis using assms(1) by (auto simp: store_intact_def with_object_def)
qed

lemma with_metadata_intact:
  assumes "store_intact H s" "artifact_wf H r" "st_objects s (ar_sha256 r) = Some (FSFile b)"
    and "ar_size_bytes r = int (length b)"
  shows "store_intact H (with_metadata r s)"
  using assms read_record_written [OF assms(2)]
  by (auto simp: store_intact_def with_metadata_def metadata_intact_def object_intact_def prefix_node_def)

lemma put_object_quiet:
  assumes "store_intact H s" "put_request H a = Inr rec"
    and no_collision: "\<And>b. st_objects s (ar_sha256 rec) = Some (FSFile b) \<Longrightarrow> b = pa_content a"
  shows "bindA (create_paths (ar_artifact_id rec)) (\<lambda>_. put_object H quiet rec (pa_content a)) s
    = (Inr (pa_content a), with_object (ar_sha256 rec) (pa_content a) s)"
proof -
  let ?d = "ar_sha256 rec"
  let ?s = "s\<lparr>st_prefixes := (st_prefixes s)(take 2 ?d := Some FSDir)\<rparr>"
  note r = put_request_props [OF assms(2)]
  have prefix: "st_prefixes s (take 2 ?d) = None \<or> st_prefixes s (take 2 ?d) = Some FSDir"
    and oi: "object_intact H s ?d" and mi: "metadata_intact H s ?d"
    using assms(1) by (auto simp: store_intact_def)
  have cp: "create_prefix ?d s = (Inr (), ?s)"
    using prefix by (auto simp: create_prefix_def ensure_directory_def mkdir_exist_ok_def prefix_node_def)
  have on: "object_node ?s ?d = st_objects s ?d" by (simp add: object_node_def prefix_node_def)
  have "st_objects s ?d \<noteq> Some FSSymlink" "st_metadata s ?d \<noteq> Some FSSymlink"
    using oi mi by (auto simp: object_intact_def metadata_intact_def read_record_def)
  then have paths: "create_paths (ar_artifact_id rec) s = (Inr ?d, ?s)"
    using artifact_checks_id [OF r(1)] cp on
    by (simp add: create_paths_def bindA_def check_paths_def metadata_node_def)
  show ?thesis
  proof (cases "st_objects s ?d")
    case None
    then show ?thesis using paths on r(2)
      by (simp add: bindA_def put_object_def after_def quiet_def publish_object_def prefix_node_def
          object_node_def with_object_def)
  next
    case (Some n)
    with oi no_collision have n: "n = FSFile (pa_content a)" by (auto simp: object_intact_def)
    with Some have "(st_objects s)(?d := Some (FSFile (pa_content a))) = st_objects s" by auto
    then show ?thesis using paths on r(2) Some n
      by (simp add: bindA_def put_object_def after_def quiet_def with_object_def)
  qed
qed

lemma put_metadata_quiet:
  assumes "store_intact H s" "artifact_wf H rec" "st_objects s (ar_sha256 rec) = Some (FSFile b)"
    and "ar_size_bytes rec = int (length b)"
  shows "put_metadata H quiet rec s =
    (case st_metadata s (ar_sha256 rec) of
       None \<Rightarrow> (Inr rec, with_metadata rec s)
     | Some n \<Rightarrow> (bindE (read_record H (Some n)) (\<lambda>r.
         bindE (assert_compatible_intrinsic_metadata r rec) (\<lambda>_. Inr r)), s))"
proof -
  let ?d = "ar_sha256 rec"
  have oi: "object_intact H s ?d" using assms(1) by (simp add: store_intact_def)
  with assms(3) have on: "object_node s ?d = Some (FSFile b)" "sha256 H b = ?d" "prefix_node s ?d = Some FSDir"
    by (auto simp: object_node_intact) (auto simp: object_intact_def)
  show ?thesis
  proof (cases "st_metadata s ?d")
    case None
    have "existing_record H rec (with_metadata rec s) = Inr rec"
      using on assms(2-4) read_record_written [OF assms(2)]
      by (auto simp: existing_record_def with_metadata_def metadata_node_def object_node_def prefix_node_def)
    with None show ?thesis
      by (simp add: put_metadata_def after_def quiet_def bindA_def metadata_node_def artifact_canonical
          publish_metadata_def with_metadata_def metadata_file_def)
  next
    case (Some n)
    then obtain r where r: "read_record H (Some n) = Inr r" "ar_size_bytes r = int (length b)"
      using assms(3) metadata_intact_cases [OF assms(1), of ?d] by (metis option.inject fsnode.inject option.distinct(1))
    have "existing_record H rec s = bindE (assert_compatible_intrinsic_metadata r rec) (\<lambda>_. Inr r)"
      using Some r on by (simp add: existing_record_def metadata_node_def read_verified_bytes_def sha256_bytes_def)
    with Some r show ?thesis
      by (simp add: put_metadata_def after_def quiet_def bindA_def metadata_node_def)
  qed
qed

section \<open>The abstract store\<close>

text \<open>
  A map from identities to the first record and the bytes. Publication adds an entry for a new
  identity, answers the entry of a known one, and refuses contradictory metadata.
\<close>

type_synonym astore = "string \<Rightarrow> (artifact_record \<times> string) option"

definition abs_put :: "host \<Rightarrow> put_args \<Rightarrow> (astore, artifact_record) act" where
  "abs_put H a m =
     (case put_request H a of
        Inl e \<Rightarrow> (Inl e, m)
      | Inr rec \<Rightarrow>
         (case m (ar_artifact_id rec) of
            None \<Rightarrow> (Inr rec, m(ar_artifact_id rec \<mapsto> (rec, pa_content a)))
          | Some (r, b) \<Rightarrow>
              (bindE (assert_compatible_intrinsic_metadata r rec) (\<lambda>_. Inr r), m)))"

definition abs_store :: "host \<Rightarrow> store \<Rightarrow> astore" where
  "abs_store H s x =
     (case verify H s x of
        Inl _ \<Rightarrow> None
      | Inr r \<Rightarrow> (case read_artifact H s x of Inl _ \<Rightarrow> None | Inr b \<Rightarrow> Some (r, b)))"

lemma abs_store_eq: "abs_store H s x = Some (r, b) \<longleftrightarrow>
    ar_artifact_id r = x \<and> read_record H (metadata_node s (ar_sha256 r)) = Inr r
    \<and> object_node s (ar_sha256 r) = Some (FSFile b) \<and> sha256 H b = ar_sha256 r
    \<and> ar_size_bytes r = int (length b)" (is "?L \<longleftrightarrow> ?R")
proof
  assume ?R
  then show ?L using verifyI [of H s r b] by (auto simp: abs_store_def)
next
  assume ?L
  then have v: "verify H s x = Inr r" "read_artifact H s x = Inr b"
    by (auto simp: abs_store_def split: sum.splits)
  from verify_file [OF v(1)] obtain d c where *: "ar_artifact_id r = x" "ar_sha256 r = d"
    "read_record H (metadata_node s d) = Inr r" "object_node s d = Some (FSFile c)" "sha256 H c = d"
    "ar_size_bytes r = int (length c)" by metis
  with verifyI(2) [of H s r c] v(2) have "c = b" by simp
  with * show ?R by simp
qed

lemma map_eqI: "(\<And>x v. m x = Some v \<longleftrightarrow> m' x = Some v) \<Longrightarrow> m = m'" for m m' :: "'a \<Rightarrow> 'b option"
proof
  fix x
  assume "\<And>x v. m x = Some v \<longleftrightarrow> m' x = Some v"
  then show "m x = m' x" by (metis not_None_eq)
qed

lemma abs_with_object:
  assumes "store_intact H s" "sha256 H b = d" "\<And>b'. st_objects s d = Some (FSFile b') \<Longrightarrow> b' = b"
  shows "abs_store H (with_object d b s) = abs_store H s"
proof (rule map_eqI, clarify)
  fix x :: string and r :: artifact_record and c :: string
  note i = with_object_intact [OF assms]
  let ?t = "with_object d b s"
  let ?e = "ar_sha256 r"
  have on: "object_node s ?e = st_objects s ?e" "object_node ?t ?e = st_objects ?t ?e"
    by (rule store_intact_object [OF assms(1)], rule store_intact_object [OF i])
  have mn: "metadata_node ?t ?e = metadata_node s ?e"
    by (simp add: metadata_node_def with_object_def)
  show "abs_store H ?t x = Some (r, c) \<longleftrightarrow> abs_store H s x = Some (r, c)"
  proof (cases "read_record H (metadata_node s ?e) = Inr r")
    case True
    then obtain c' where "st_objects s ?e = Some (FSFile c')"
      by (cases rule: metadata_intact_cases [OF assms(1), of ?e])
        (simp_all add: metadata_node_def read_record_def)
    with assms(3) have "st_objects ?t ?e = st_objects s ?e" by (auto simp: with_object_def)
    then show ?thesis by (simp add: abs_store_eq on mn)
  next
    case False
    then show ?thesis by (simp add: abs_store_eq mn)
  qed
qed

lemma abs_with_metadata:
  assumes "store_intact H s" "artifact_wf H r" "st_objects s (ar_sha256 r) = Some (FSFile b)"
    and "ar_size_bytes r = int (length b)"
  shows "abs_store H (with_metadata r s) = (abs_store H s)(ar_artifact_id r \<mapsto> (r, b))"
proof (rule map_eqI, clarify)
  fix x :: string and q :: artifact_record and c :: string
  let ?t = "with_metadata r s"
  have oi: "object_intact H s (ar_sha256 r)" using assms(1) by (simp add: store_intact_def)
  with assms(3) have o1: "object_node s (ar_sha256 r) = Some (FSFile b)" "sha256 H b = ar_sha256 r"
    by (auto simp: object_node_intact) (auto simp: object_intact_def)
  have on: "object_node ?t d = object_node s d" for d
    by (simp add: object_node_def prefix_node_def with_metadata_def)
  have mn: "metadata_node ?t d = (if d = ar_sha256 r then Some (metadata_file r) else metadata_node s d)" for d
    by (simp add: metadata_node_def with_metadata_def)
  have id: "ar_artifact_id q = ar_artifact_id r \<longleftrightarrow> ar_sha256 q = ar_sha256 r"
    if "artifact_checks q" using that artifact_wf_checks [OF assms(2)] by (simp add: artifact_checks_def)
  show "abs_store H ?t x = Some (q, c) \<longleftrightarrow> ((abs_store H s)(ar_artifact_id r \<mapsto> (r, b))) x = Some (q, c)"
  proof (cases "x = ar_artifact_id r")
    case True
    then have "abs_store H ?t x = Some (r, b)"
      using o1 assms(4) read_record_written [OF assms(2)] by (simp add: abs_store_eq on mn)
    with True show ?thesis by simp
  next
    case False
    then show ?thesis
      using id read_record_checks(1) by (auto simp: abs_store_eq on mn)
  qed
qed

lemma put_quiet_refines:
  assumes "iso_lawful H" "store_intact H s"
    and "\<And>b. st_objects s (sha256 H (pa_content a)) = Some (FSFile b) \<Longrightarrow> b = pa_content a"
  shows "fst (put H a s) = fst (abs_put H a (abs_store H s))"
    "abs_store H (snd (put H a s)) = snd (abs_put H a (abs_store H s))"
    "store_intact H (snd (put H a s))"
proof -
  have "fst (put H a s) = fst (abs_put H a (abs_store H s))
    \<and> abs_store H (snd (put H a s)) = snd (abs_put H a (abs_store H s))
    \<and> store_intact H (snd (put H a s))" (is ?goal)
  proof (cases "put_request H a")
    case (Inl e)
    with assms(2) show ?thesis by (simp add: put_def put_in_def abs_put_def bindA_def)
  next
    case (Inr rec)
    note r = put_request_props [OF Inr] and wf = put_request_wf [OF assms(1) Inr]
    let ?d = "ar_sha256 rec"
    let ?s = "with_object ?d (pa_content a) s"
    have nc: "\<And>b. st_objects s ?d = Some (FSFile b) \<Longrightarrow> b = pa_content a" using assms(3) r(2) by simp
    have i: "store_intact H ?s" by (rule with_object_intact [OF assms(2)]) (use r(2) nc in auto)
    have ob: "st_objects ?s ?d = Some (FSFile (pa_content a))" by (simp add: with_object_def)
    have ab: "abs_store H ?s = abs_store H s" by (rule abs_with_object [OF assms(2)]) (use r(2) nc in auto)
    have "put H a s = put_metadata H quiet rec ?s"
      using put_object_quiet [OF assms(2) Inr nc]
      by (simp add: put_def put_in_def Inr bindA_app(2) [of "liftA (Inr rec)"] after_quiet
          flip: bindA_assoc) (simp add: bindA_def)
    note p = this [unfolded put_metadata_quiet [OF i wf ob r(5)]]
    show ?thesis
    proof (cases rule: metadata_intact_cases [OF i, of ?d])
      case 1
      then have "abs_store H s (ar_artifact_id rec) = None"
        using read_record_checks(1) r(1)
        by (auto simp: ab [symmetric] abs_store_eq not_Some_eq [symmetric] metadata_node_def
            artifact_checks_def read_record_def simp del: not_Some_eq)
      with 1 p show ?thesis
        using with_metadata_intact [OF i wf ob r(5)] abs_with_metadata [OF i wf ob r(5)]
        by (simp add: abs_put_def Inr ab)
    next
      case (2 q b)
      then have "abs_store H ?s (ar_artifact_id q) = Some (q, b)"
        by (simp add: abs_store_eq metadata_node_def store_intact_object [OF i])
      moreover have "ar_artifact_id q = ar_artifact_id rec"
        using read_record_checks(1) [OF 2(2)] r(1) 2(3) by (simp add: artifact_checks_def)
      ultimately show ?thesis using 2 p i by (auto simp: abs_put_def Inr ab)
    qed
  qed
  then show "fst (put H a s) = fst (abs_put H a (abs_store H s))"
    "abs_store H (snd (put H a s)) = snd (abs_put H a (abs_store H s))"
    "store_intact H (snd (put H a s))" by blast+
qed

section \<open>Lemmas: publication among other publishers\<close>

text \<open>
  The others only add, and they keep the store intact. The three stages of a publication are
  stable under them: the directory is there, the object is there, the metadata is there.
\<close>

definition well_behaved :: "host \<Rightarrow> interference \<Rightarrow> bool" where
  "well_behaved H E = (additive E \<and> (\<forall>n s. store_intact H s \<longrightarrow> store_intact H (E n s)))"

definition has_prefix :: "host \<Rightarrow> artifact_record \<Rightarrow> store \<Rightarrow> bool" where
  "has_prefix H rec s = (store_intact H s \<and> prefix_node s (ar_sha256 rec) = Some FSDir)"

definition has_object :: "host \<Rightarrow> artifact_record \<Rightarrow> string \<Rightarrow> store \<Rightarrow> bool" where
  "has_object H rec b s = (has_prefix H rec s \<and> st_objects s (ar_sha256 rec) = Some (FSFile b))"

definition has_metadata :: "host \<Rightarrow> artifact_record \<Rightarrow> string \<Rightarrow> store \<Rightarrow> bool" where
  "has_metadata H rec b s = (has_object H rec b s \<and> st_metadata s (ar_sha256 rec) \<noteq> None)"

lemmas stage_defs = has_prefix_def has_object_def has_metadata_def

lemma stages_stable:
  assumes "well_behaved H E"
  shows "store_intact H s \<Longrightarrow> store_intact H (E n s)" "has_prefix H rec s \<Longrightarrow> has_prefix H rec (E n s)"
    "has_object H rec b s \<Longrightarrow> has_object H rec b (E n s)"
    "has_metadata H rec b s \<Longrightarrow> has_metadata H rec b (E n s)"
proof -
  have "extends s (E n s)" using assms by (simp add: well_behaved_def additive_def)
  with assms show "store_intact H s \<Longrightarrow> store_intact H (E n s)"
    "has_prefix H rec s \<Longrightarrow> has_prefix H rec (E n s)"
    "has_object H rec b s \<Longrightarrow> has_object H rec b (E n s)"
    "has_metadata H rec b s \<Longrightarrow> has_metadata H rec b (E n s)"
    by (auto simp: well_behaved_def stage_defs extends_nodes(1)) (auto simp: extends_def)
qed

lemma ensures_after:
  "(\<And>s. P s \<Longrightarrow> P (E n s)) \<Longrightarrow> ensures P m Q R \<Longrightarrow> ensures P (after E n m) Q R"
  unfolding after_def by (rule ensures_bind [of _ _ "\<lambda>_. P"]) auto

lemma ensures_if: "(b \<Longrightarrow> ensures P m Q R) \<Longrightarrow> (\<not> b \<Longrightarrow> ensures P n Q R) \<Longrightarrow> ensures P (if b then m else n) Q R"
  by simp

lemma create_paths_stage:
  assumes "artifact_checks rec"
  shows "ensures (store_intact H) (create_paths (ar_artifact_id rec)) (\<lambda>_. has_prefix H rec) (\<lambda>_ _. False)"
proof (rule ensuresI)
  fix s
  assume i: "store_intact H s"
  let ?d = "ar_sha256 rec"
  let ?s = "s\<lparr>st_prefixes := (st_prefixes s)(take 2 ?d := Some FSDir)\<rparr>"
  have oi: "object_intact H s ?d" and mi: "metadata_intact H s ?d"
    and p: "st_prefixes s (take 2 ?d) = None \<or> st_prefixes s (take 2 ?d) = Some FSDir"
    using i by (auto simp: store_intact_def)
  have "st_objects s ?d \<noteq> Some FSSymlink" "st_metadata s ?d \<noteq> Some FSSymlink"
    using oi mi by (auto simp: object_intact_def metadata_intact_def read_record_def)
  moreover have "create_prefix ?d s = (Inr (), ?s)"
    using p by (auto simp: create_prefix_def ensure_directory_def mkdir_exist_ok_def prefix_node_def)
  ultimately have "create_paths (ar_artifact_id rec) s = (Inr ?d, ?s)"
    using artifact_checks_id [OF assms]
    by (simp add: create_paths_def bindA_def check_paths_def metadata_node_def object_node_def prefix_node_def)
  moreover have "has_prefix H rec ?s"
    using i by (auto simp: has_prefix_def store_intact_def object_intact_def metadata_intact_def prefix_node_def)
  ultimately show "case create_paths (ar_artifact_id rec) s of (Inr x, t) \<Rightarrow> has_prefix H rec t | (Inl e, t) \<Rightarrow> False"
    by simp
qed

lemma put_object_stage:
  assumes "well_behaved H E" "ar_sha256 rec = sha256 H b" and unique: "\<And>b'. sha256 H b' = sha256 H b \<Longrightarrow> b' = b"
  shows "ensures (has_prefix H rec) (put_object H E rec b) (\<lambda>_. has_object H rec b) (\<lambda>_ _. False)"
proof -
  note stable = stages_stable [OF assms(1)]
  have there: "has_object H rec b s" if "has_prefix H rec s" "object_node s (ar_sha256 rec) \<noteq> None" for s
  proof -
    have "object_intact H s (ar_sha256 rec)" using that(1) by (simp add: has_prefix_def store_intact_def)
    with that(2) unique [folded assms(2)] show ?thesis
      using that(1) by (auto simp: has_object_def object_intact_def object_node_def split: if_splits)
  qed
  have publish: "ensures (has_prefix H rec) (publish_object (ar_sha256 rec) b) (\<lambda>_. has_object H rec b) (\<lambda>_ _. False)"
  proof (rule ensuresI)
    fix s
    assume p: "has_prefix H rec s"
    show "case publish_object (ar_sha256 rec) b s of (Inr x, t) \<Rightarrow> has_object H rec b t | (Inl e, t) \<Rightarrow> False"
    proof (cases "object_node s (ar_sha256 rec)")
      case None
      have "(st_prefixes s)(take 2 (ar_sha256 rec) := Some FSDir) = st_prefixes s"
        using p by (auto simp: has_prefix_def prefix_node_def)
      with None p have "publish_object (ar_sha256 rec) b s = (Inr True, with_object (ar_sha256 rec) b s)"
        by (cases s) (auto simp: publish_object_def has_prefix_def object_node_def with_object_def prefix_node_def)
      moreover have "store_intact H (with_object (ar_sha256 rec) b s)"
        using p assms(2) None by (intro with_object_intact) (auto simp: has_prefix_def object_node_def)
      ultimately show ?thesis by (simp add: stage_defs with_object_def prefix_node_def)
    next
      case (Some n)
      with there [OF p] have "has_object H rec b s" by simp
      then show ?thesis
        by (auto simp: publish_object_def stage_defs object_node_def)
    qed
  qed
  let ?M = "\<lambda>present s. has_prefix H rec s \<and> (present \<longrightarrow> has_object H rec b s)"
  show ?thesis unfolding put_object_def
  proof (rule ensures_bind [where M = ?M])
    show "ensures (has_prefix H rec)
        (after E 1 (asksA (\<lambda>s. Inr (object_node s (ar_sha256 rec) \<noteq> None)))) ?M (\<lambda>_ _. False)"
      by (rule ensures_after) (auto simp: stable there)
  next
    fix present
    show "ensures (?M present)
        (bindA (if present then returnA False else after E 2 (publish_object (ar_sha256 rec) b)) (\<lambda>_.
         after E 3 (asksA (\<lambda>s. read_verified_bytes H (ar_sha256 rec) (object_node s (ar_sha256 rec))))))
        (\<lambda>_. has_object H rec b) (\<lambda>_ _. False)"
    proof (rule ensures_bind [where M = "\<lambda>_. has_object H rec b"])
      have "ensures (has_prefix H rec) (after E 2 (publish_object (ar_sha256 rec) b)) (\<lambda>_. has_object H rec b) (\<lambda>_ _. False)"
        by (rule ensures_after [OF stable(2) publish])
      then show "ensures (?M present) (if present then returnA False
          else after E 2 (publish_object (ar_sha256 rec) b)) (\<lambda>_. has_object H rec b) (\<lambda>_ _. False)"
        by (auto intro: ensures_conseq)
    next
      show "ensures (has_object H rec b)
        (after E 3 (asksA (\<lambda>s. read_verified_bytes H (ar_sha256 rec) (object_node s (ar_sha256 rec)))))
        (\<lambda>_. has_object H rec b) (\<lambda>_ _. False)"
        by (rule ensures_after, rule stable(3), assumption)
          (auto simp: assms(2) stage_defs object_node_def read_verified_bytes_def sha256_bytes_def)
    qed
  qed
qed

lemma put_metadata_stage:
  assumes "well_behaved H E" "artifact_wf H rec" "ar_size_bytes rec = int (length b)"
  shows "ensures (has_object H rec b) (put_metadata H E rec)
    (\<lambda>r s. has_metadata H rec b s \<and> existing_record H rec s = Inr r)
    (\<lambda>e s. has_metadata H rec b s \<and> e = ArtifactConflictError)"
proof -
  note stable = stages_stable [OF assms(1)]
  have publish: "ensures (has_object H rec b)
      (publish_metadata (ar_sha256 rec) (json_dumps (artifact_to_dict rec) @ [CHR 0x0A]))
      (\<lambda>_. has_metadata H rec b) (\<lambda>_ _. False)"
  proof (rule ensuresI)
    fix s
    assume p: "has_object H rec b s"
    let ?m = "publish_metadata (ar_sha256 rec) (json_dumps (artifact_to_dict rec) @ [CHR 0x0A])"
    have "st_metadata s (ar_sha256 rec) \<noteq> Some FSSymlink"
      using p by (auto simp: stage_defs store_intact_def metadata_intact_def read_record_def dest: spec [of _ "ar_sha256 rec"])
    moreover have "st_metadata s (ar_sha256 rec) = None \<Longrightarrow> has_metadata H rec b (with_metadata rec s)"
      using p with_metadata_intact [OF _ assms(2), of s b] assms(3)
      by (simp add: stage_defs with_metadata_def prefix_node_def)
    ultimately show "case ?m s of (Inr x, t) \<Rightarrow> has_metadata H rec b t | (Inl e, t) \<Rightarrow> False"
      using p by (auto simp: publish_metadata_def metadata_node_def with_metadata_def metadata_file_def has_metadata_def)
  qed
  have final: "case existing_record H rec s of Inr r \<Rightarrow> True | Inl e \<Rightarrow> e = ArtifactConflictError"
    if m: "has_metadata H rec b s" for s
  proof -
    have i: "store_intact H s" using m by (simp add: stage_defs)
    have o': "object_node s (ar_sha256 rec) = Some (FSFile b)"
      using m by (simp add: store_intact_object [OF i] stage_defs)
    have there: "st_metadata s (ar_sha256 rec) \<noteq> None" "st_objects s (ar_sha256 rec) = Some (FSFile b)"
      using m by (simp_all add: has_metadata_def has_object_def)
    obtain r where "read_record H (st_metadata s (ar_sha256 rec)) = Inr r" "ar_size_bytes r = int (length b)"
      "sha256 H b = ar_sha256 rec"
      by (cases rule: metadata_intact_cases [OF i, of "ar_sha256 rec"]) (use there in simp_all)
    with o' show ?thesis
      by (cases "assert_compatible_intrinsic_metadata r rec")
        (auto simp: existing_record_def metadata_node_def read_verified_bytes_def sha256_bytes_def
          dest: compatible_error)
  qed
  let ?M = "\<lambda>present s. has_object H rec b s \<and> (present \<longrightarrow> has_metadata H rec b s)"
  show ?thesis unfolding put_metadata_def
  proof (rule ensures_bind [where M = ?M])
    show "ensures (has_object H rec b)
        (after E 4 (asksA (\<lambda>s. Inr (metadata_node s (ar_sha256 rec) \<noteq> None)))) ?M
        (\<lambda>e s. has_metadata H rec b s \<and> e = ArtifactConflictError)"
      by (rule ensures_after) (simp_all add: stable has_metadata_def metadata_node_def)
  next
    fix present
    show "ensures (?M present)
        (bindA (if present then returnA False
           else bindA (liftA (canonical_json_bytes (artifact_to_dict rec))) (\<lambda>line.
             after E 5 (publish_metadata (ar_sha256 rec) (line @ [CHR 0x0A])))) (\<lambda>_.
         after E 6 (asksA (existing_record H rec))))
        (\<lambda>r s. has_metadata H rec b s \<and> existing_record H rec s = Inr r)
        (\<lambda>e s. has_metadata H rec b s \<and> e = ArtifactConflictError)"
    proof (rule ensures_bind [where M = "\<lambda>_. has_metadata H rec b"])
      have "ensures (has_object H rec b) (after E 5
          (publish_metadata (ar_sha256 rec) (json_dumps (artifact_to_dict rec) @ [CHR 0x0A])))
          (\<lambda>_. has_metadata H rec b) (\<lambda>_ _. False)"
        by (rule ensures_after [OF stable(3) publish])
      then show "ensures (?M present) (if present then returnA False
           else bindA (liftA (canonical_json_bytes (artifact_to_dict rec))) (\<lambda>line.
             after E 5 (publish_metadata (ar_sha256 rec) (line @ [CHR 0x0A]))))
          (\<lambda>_. has_metadata H rec b) (\<lambda>e s. has_metadata H rec b s \<and> e = ArtifactConflictError)"
        by (auto simp: artifact_canonical bindA_def intro: ensures_conseq)
    next
      show "ensures (has_metadata H rec b) (after E 6 (asksA (existing_record H rec)))
          (\<lambda>r s. has_metadata H rec b s \<and> existing_record H rec s = Inr r)
          (\<lambda>e s. has_metadata H rec b s \<and> e = ArtifactConflictError)"
        by (rule ensures_after, rule stable(4), assumption) (use final in \<open>fastforce split: sum.splits\<close>)
    qed
  qed
qed

lemma put_in_stages:
  assumes "well_behaved H E" "iso_lawful H" "put_request H a = Inr rec"
    and "\<And>b. sha256 H b = sha256 H (pa_content a) \<Longrightarrow> b = pa_content a"
  shows "ensures (store_intact H) (put_in H E a)
    (\<lambda>r s. has_metadata H rec (pa_content a) s \<and> existing_record H rec s = Inr r)
    (\<lambda>e s. has_metadata H rec (pa_content a) s \<and> e = ArtifactConflictError)"
proof -
  note r = put_request_props [OF assms(3)] and stable = stages_stable [OF assms(1)]
  note c = ensures_after [of "store_intact H" E 0, OF stable(1) create_paths_stage [OF r(1)]]
    and o' = put_object_stage [OF assms(1) r(2) assms(4)]
    and m = put_metadata_stage [OF assms(1) put_request_wf [OF assms(2,3)] r(5)]
  have "ensures (store_intact H) (bindA (after E 0 (create_paths (ar_artifact_id rec))) (\<lambda>_.
      bindA (put_object H E rec (pa_content a)) (\<lambda>_. put_metadata H E rec)))
      (\<lambda>r s. has_metadata H rec (pa_content a) s \<and> existing_record H rec s = Inr r)
      (\<lambda>e s. has_metadata H rec (pa_content a) s \<and> e = ArtifactConflictError)"
  proof (rule ensures_bind [where M = "\<lambda>_. has_prefix H rec"], rule ensures_conseq [OF c])
    show "ensures (has_prefix H rec) (bindA (put_object H E rec (pa_content a)) (\<lambda>_. put_metadata H E rec))
      (\<lambda>r s. has_metadata H rec (pa_content a) s \<and> existing_record H rec s = Inr r)
      (\<lambda>e s. has_metadata H rec (pa_content a) s \<and> e = ArtifactConflictError)"
      by (rule ensures_bind [where M = "\<lambda>_. has_object H rec (pa_content a)"], rule ensures_conseq [OF o'])
        (use m in auto)
  qed auto
  then show ?thesis by (simp add: put_in_def assms(3) bindA_app(2) [of "liftA (Inr rec)"] ensures_def)
qed

section \<open>A concrete store\<close>

definition empty_store :: store where
  "empty_store = \<lparr>st_prefixes = (\<lambda>_. None), st_objects = (\<lambda>_. None), st_metadata = (\<lambda>_. None)\<rparr>"

definition demo_put :: put_args where
  "demo_put = \<lparr>pa_content = ''data'', pa_media_type = Some ''text/plain'', pa_content_type = None,
     pa_schema_name = None, pa_schema_version = None, pa_stored_at = None, pa_now = 0\<rparr>"

definition demo_record :: artifact_record where
  "demo_record = \<lparr>ar_artifact_id = ''sha256:'' @ sha256 demo_host ''data'', ar_sha256 = sha256 demo_host ''data'',
     ar_media_type = ''text/plain'', ar_schema_name = None, ar_schema_version = None,
     ar_size_bytes = 4, ar_stored_at = demo_time\<rparr>"

lemma empty_store_intact: "store_intact H empty_store"
  by (simp add: store_intact_def empty_store_def object_intact_def metadata_intact_def)

lemma demo_unique: "sha256 demo_host b = sha256 demo_host ''data'' \<Longrightarrow> b = ''data''"
proof -
  have "hex_digit d \<noteq> hex_digit 15" if "d < 15" for d
    using that by (auto simp: hex_digit_def split: if_splits)
  moreover have "length b mod 15 < 15" by simp
  moreover assume "sha256 demo_host b = sha256 demo_host ''data''"
  ultimately show ?thesis by (auto simp: demo_host_def split: if_splits)
qed

lemma demo_utc: "utc_timestamp demo_host (True, t) = Inr demo_time"
  by (simp add: utc_timestamp_def demo_host_def demo_time_def)
    (simp add: py_replace_suffix [of "''2026-01-01T00:00:00.000000''", simplified])

lemma demo_put_request: "put_request demo_host demo_put = Inr demo_record"
proof -
  have sha: "is_sha256 (sha256 demo_host ''data'')"
    using demo_sha_lawful by (simp add: sha_lawful_def)
  have "py_strip ''text/plain'' \<noteq> []" by code_simp
  with sha have "artifact_checks demo_record" by (simp add: artifact_checks_def demo_record_def)
  moreover have "normalize_timestamp demo_host (ar_stored_at demo_record) = Inr demo_time"
    "demo_record = demo_record\<lparr>ar_stored_at := demo_time\<rparr>"
    using demo_time_fixed by (simp_all add: demo_record_def)
  ultimately have "artifact_init demo_host demo_record = Inr demo_record"
    unfolding artifact_init_eq by blast
  with sha show ?thesis
    by (simp add: put_request_def demo_put_def put_media_type_def put_stored_at_def demo_utc
        artifact_id_for_sha256_def sha256_bytes_def validate_sha256_def demo_record_def)
qed

lemma demo_put_runs:
  obtains s where "put demo_host demo_put empty_store = (Inr demo_record, s)"
    "store_intact demo_host s" "abs_store demo_host s = [ar_artifact_id demo_record \<mapsto> (demo_record, ''data'')]"
proof -
  have e: "abs_store demo_host empty_store = Map.empty"
    by (rule map_eqI) (auto simp: abs_store_eq metadata_node_def empty_store_def read_record_def)
  have "pa_content demo_put = ''data''" by (simp add: demo_put_def)
  then have "abs_put demo_host demo_put (abs_store demo_host empty_store)
      = (Inr demo_record, [ar_artifact_id demo_record \<mapsto> (demo_record, ''data'')])"
    by (simp add: abs_put_def demo_put_request e)
  moreover have "st_objects empty_store (sha256 demo_host (pa_content demo_put)) = None"
    by (simp add: empty_store_def)
  ultimately show ?thesis
    using put_quiet_refines [OF demo_iso_lawful empty_store_intact, of demo_put]
    by (intro that [of "snd (put demo_host demo_put empty_store)"]) (simp_all add: prod_eq_iff)
qed

section \<open>Properties\<close>

text \<open>
  C6. The store implements the abstract store. On an intact store that no other process uses,
  \<^verbatim>\<open>put\<close> raises or returns what publication into the map does (the first record of a known
  identity, the requested record of a new one, \<^verbatim>\<open>ArtifactConflictError\<close> for contradictory
  metadata), the map afterwards is the store's, and the store is intact again, unless the digest
  collides with that of other bytes already stored.
\<close>

theorem put_refines_map:
  assumes "iso_lawful H" "store_intact H s"
    and "\<And>b. st_objects s (sha256 H (pa_content a)) = Some (FSFile b) \<Longrightarrow> b = pa_content a"
  shows "fst (put H a s) = fst (abs_put H a (abs_store H s))
    \<and> abs_store H (snd (put H a s)) = snd (abs_put H a (abs_store H s))
    \<and> store_intact H (snd (put H a s))"
  using put_quiet_refines [OF assms] by blast

theorem put_refines_map_witness:
  "fst (put demo_host demo_put empty_store) = fst (abs_put demo_host demo_put (abs_store demo_host empty_store))
    \<and> abs_store demo_host (snd (put demo_host demo_put empty_store))
      = snd (abs_put demo_host demo_put (abs_store demo_host empty_store))
    \<and> store_intact demo_host (snd (put demo_host demo_put empty_store))"
  by (rule put_refines_map [OF demo_iso_lawful empty_store_intact]) (simp add: empty_store_def)



text \<open>
  Immutability. Whatever is published later, under any interference that only adds, an
  artifact that verifies keeps verifying with the same record and reads as the same bytes.
\<close>

theorem published_is_immutable:
  assumes "additive E" "verify H s x = Inr r"
  shows "verify H (snd (put_in H E a s)) x = Inr r
    \<and> read_artifact H (snd (put_in H E a s)) x = read_artifact H s x"
proof -
  have "extends s (snd (put_in H E a s))" by (rule advancesD [OF put_extends [OF assms(1)]])
  with verify_extends [OF assms(2)] show ?thesis by blast
qed

theorem published_is_immutable_witness:
  "\<exists>s x r. verify demo_host s x = Inr r \<and> verify demo_host (snd (put_in demo_host quiet demo_put s)) x = Inr r"
proof -
  obtain s where s: "put demo_host demo_put empty_store = (Inr demo_record, s)" using demo_put_runs by blast
  have v: "verify demo_host s (ar_artifact_id demo_record) = Inr demo_record"
    by (rule artifact_store.put_verify [OF _ s]) simp
  from v published_is_immutable [OF quiet_additive v, of demo_put] show ?thesis by blast
qed

text \<open>
  C30. Tampering is detected. When the bytes at an artifact's object path have another digest, or
  the number of bytes differs from the recorded one, \<^verbatim>\<open>verify\<close> and \<^verbatim>\<open>read\<close> raise
  \<^verbatim>\<open>ArtifactIntegrityError\<close>, and so does a second \<^verbatim>\<open>put\<close> of the original content, which leaves the
  tampered file as it is.
\<close>

theorem tampering_detected:
  assumes "verify H s x = Inr r" "object_node t (ar_sha256 r) = Some (FSFile b)"
    and "prefix_node t (ar_sha256 r) = Some FSDir" "metadata_node t (ar_sha256 r) = metadata_node s (ar_sha256 r)"
    and "sha256 H b \<noteq> ar_sha256 r" "sha256 H (pa_content a) = ar_sha256 r" "put_request H a = Inr rec"
  shows "verify H t x = Inl ArtifactIntegrityError \<and> read_artifact H t x = Inl ArtifactIntegrityError
    \<and> put H a t = (Inl ArtifactIntegrityError, t)"
proof -
  from verify_file [OF assms(1)] have v: "artifact_sha256 x = Inr (ar_sha256 r)" "ar_artifact_id r = x"
    "read_record H (metadata_node s (ar_sha256 r)) = Inr r" by metis+
  have "validate_artifact_id x = Inr x" using assms(1) by (auto simp: verify_def)
  moreover have nosym: "metadata_node t (ar_sha256 r) \<noteq> Some FSSymlink"
    using v(3) assms(4) by (auto simp: read_record_def)
  ultimately have verify: "verify H t x = Inl ArtifactIntegrityError"
    using v assms(2-5)
    by (simp add: verify_def store_paths_def check_paths_def read_verified_bytes_def sha256_bytes_def)
  note q = put_request_props [OF assms(7)]
  have d: "ar_sha256 rec = ar_sha256 r" using q(2) assms(6) by simp
  have "(st_prefixes t)(take 2 (ar_sha256 r) := Some FSDir) = st_prefixes t"
    using assms(3) by (auto simp: prefix_node_def)
  then have "create_paths (ar_artifact_id rec) t = (Inr (ar_sha256 r), t)"
    using artifact_checks_id(1) [OF q(1)] d assms(2,3) nosym
    by (cases t) (simp add: create_paths_def bindA_def create_prefix_def ensure_directory_def mkdir_exist_ok_def
        check_paths_def)
  then have "put H a t = (Inl ArtifactIntegrityError, t)"
    using assms(2,5,7) d
    by (simp add: put_def put_in_def bindA_def put_object_def read_verified_bytes_def sha256_bytes_def)
  with verify show ?thesis by (simp add: read_artifact_def)
qed

theorem tampering_detected_witness:
  "\<exists>t. verify demo_host t (ar_artifact_id demo_record) = Inl ArtifactIntegrityError
    \<and> put demo_host demo_put t = (Inl ArtifactIntegrityError, t)"
proof -
  obtain s where s: "put demo_host demo_put empty_store = (Inr demo_record, s)" using demo_put_runs by blast
  have v: "verify demo_host s (ar_artifact_id demo_record) = Inr demo_record"
    by (rule artifact_store.put_verify [OF _ s]) simp
  let ?t = "with_object (ar_sha256 demo_record) ''tampered'' s"
  have "sha256 demo_host ''tampered'' \<noteq> sha256 demo_host ''data''" using demo_unique [of "''tampered''"] by auto
  then show ?thesis
    using tampering_detected [OF v, of ?t "''tampered''" demo_put demo_record] demo_put_request
    by (auto simp: with_object_def object_node_def prefix_node_def metadata_node_def demo_record_def demo_put_def)
qed

end
