(* ===== verification/Reviews.thy ===== *)
theory Reviews
  imports Artifacts
begin

text \<open>
  \<^verbatim>\<open>src/molly/core/reviews.py\<close> and \<^verbatim>\<open>src/molly/core/validation.py\<close>: a human decision about one
  artifact digest, and the result of a validator over a bounded scope.
\<close>

section \<open>A word of a closed vocabulary\<close>

text \<open>\<^verbatim>\<open>_decision_value\<close> and \<^verbatim>\<open>_enum_value\<close>, with the exception they raise\<close>

definition enum_value :: "error \<Rightarrow> string list \<Rightarrow> string \<Rightarrow> string res" where
  "enum_value e allowed value =
     (let normalized = py_upper (py_strip value) in
      if normalized \<notin> set allowed then Inl e else Inr normalized)"

text \<open>A value that must be a string already\<close>

fun enum_str :: "error \<Rightarrow> json \<Rightarrow> string res" where
  "enum_str e (JStr s) = Inr s"
| "enum_str e _ = Inl e"

section \<open>Reviews\<close>

definition review_decisions :: "string list" where
  "review_decisions = [''APPROVED'', ''REJECTED'', ''NEEDS_REVISION'']"

definition decision_value :: "string \<Rightarrow> string res" where
  "decision_value = enum_value ReviewError review_decisions"

record review_record =
  rv_review_id :: string
  rv_artifact_id :: string
  rv_artifact_sha256 :: string
  rv_decision :: string
  rv_reviewer :: string
  rv_reason :: string
  rv_created_at :: string
  rv_review_schema_version :: string

text \<open>\<^verbatim>\<open>ReviewRecord.__post_init__\<close>\<close>

definition review_init :: "host \<Rightarrow> review_record \<Rightarrow> review_record res" where
  "review_init H r =
     bindE (validate_identifier (rv_review_id r)) (\<lambda>_.
     bindE (validate_artifact_id (rv_artifact_id r)) (\<lambda>_.
     bindE (validate_sha256 (rv_artifact_sha256 r)) (\<lambda>_.
     bindE (artifact_id_for_sha256 (rv_artifact_sha256 r)) (\<lambda>expected.
     bindE (guardE (rv_artifact_id r = expected) ReviewError) (\<lambda>_.
     bindE (decision_value (rv_decision r)) (\<lambda>decision.
     bindE (guardE (py_strip (rv_reviewer r) \<noteq> []) ReviewError) (\<lambda>_.
     bindE (guardE (\<not> list_ex (\<lambda>c. c \<in> set [CHR 0x0D, CHR 0x0A, CHR 0x00]) (rv_reviewer r)) ReviewError) (\<lambda>_.
     bindE (validate_identifier (rv_review_schema_version r)) (\<lambda>_.
     bindE (normalize_timestamp H (rv_created_at r)) (\<lambda>ts.
     Inr (r\<lparr>rv_decision := decision, rv_created_at := ts\<rparr>)))))))))))"

definition review_fields :: "review_record \<Rightarrow> fields" where
  "review_fields r =
     [(''review_id'', JStr (rv_review_id r)),
      (''artifact_id'', JStr (rv_artifact_id r)),
      (''artifact_sha256'', JStr (rv_artifact_sha256 r)),
      (''decision'', JStr (rv_decision r)),
      (''reviewer'', JStr (rv_reviewer r)),
      (''reviewer_ref'', JStr (rv_reviewer r)),
      (''reason'', JStr (rv_reason r)),
      (''notes'', JStr (rv_reason r)),
      (''created_at'', JStr (rv_created_at r)),
      (''review_schema_version'', JStr (rv_review_schema_version r))]"

definition review_to_dict :: "review_record \<Rightarrow> json" where
  "review_to_dict r = JObj (review_fields r)"

definition review_digest :: "host \<Rightarrow> review_record \<Rightarrow> string res" where
  "review_digest H r = json_sha256 H (review_to_dict r)"

definition review_for_artifact ::
    "host \<Rightarrow> int \<Rightarrow> artifact_record \<Rightarrow> string \<Rightarrow> string \<Rightarrow> string \<Rightarrow> string \<Rightarrow> string option \<Rightarrow> string \<Rightarrow> review_record res" where
  "review_for_artifact H now artifact review_id decision reviewer reason created_at version =
     bindE (str_or created_at (utc_timestamp H (True, now))) (\<lambda>ts.
     review_init H \<lparr>rv_review_id = review_id, rv_artifact_id = ar_artifact_id artifact,
       rv_artifact_sha256 = ar_sha256 artifact, rv_decision = decision, rv_reviewer = reviewer,
       rv_reason = reason, rv_created_at = ts, rv_review_schema_version = version\<rparr>)"

text \<open>\<^verbatim>\<open>matches\<close> for a record, and for an ID with an optional digest\<close>

definition matches_record :: "review_record \<Rightarrow> artifact_record \<Rightarrow> bool" where
  "matches_record r a = (rv_artifact_id r = ar_artifact_id a \<and> rv_artifact_sha256 r = ar_sha256 a)"

definition matches_id :: "review_record \<Rightarrow> string \<Rightarrow> string option \<Rightarrow> bool" where
  "matches_id r artifact digest = (rv_artifact_id r = artifact \<and> digest = Some (rv_artifact_sha256 r))"

definition assert_matches_record :: "review_record \<Rightarrow> artifact_record \<Rightarrow> unit res" where
  "assert_matches_record r a = guardE (matches_record r a) ReviewBindingError"

definition assert_matches_id :: "review_record \<Rightarrow> string \<Rightarrow> string option \<Rightarrow> unit res" where
  "assert_matches_id r artifact digest = guardE (matches_id r artifact digest) ReviewBindingError"

text \<open>\<^verbatim>\<open>from_dict\<close>, with the older names of two fields\<close>

definition review_decode :: "host \<Rightarrow> fields \<Rightarrow> review_record res" where
  "review_decode H d =
     (let reviewer = jget_or d ''reviewer'' (jget d ''reviewer_ref'');
          reason = jget_or d ''reason'' (jget_or d ''notes'' (JStr '''')) in
      bindE (jitem d ''review_id'') (\<lambda>rid.
      bindE (jitem d ''artifact_id'') (\<lambda>aid.
      bindE (jitem d ''artifact_sha256'') (\<lambda>sha.
      bindE (bindE (jitem d ''decision'') (enum_str ReviewError)) (\<lambda>decision.
      bindE (jitem d ''created_at'') (\<lambda>ts.
      review_init H \<lparr>rv_review_id = py_str rid, rv_artifact_id = py_str aid, rv_artifact_sha256 = py_str sha,
        rv_decision = decision, rv_reviewer = py_str reviewer, rv_reason = py_str reason,
        rv_created_at = py_str ts,
        rv_review_schema_version = py_str (jget_or d ''review_schema_version'' (JStr ''1''))\<rparr>))))))"

fun review_from_dict :: "host \<Rightarrow> json \<Rightarrow> review_record res" where
  "review_from_dict H (JObj d) = wrapE decode_error ReviewError (review_decode H d)"
| "review_from_dict H _ = Inl ReviewError"

section \<open>Validation results\<close>

definition validation_scopes :: "string list" where
  "validation_scopes = [''ARTIFACT'', ''RELATION'', ''BUNDLE'']"

definition validation_statuses :: "string list" where
  "validation_statuses = [''PASS'', ''FAIL'', ''REVIEW'']"

record validation_result =
  vr_validator_id :: string
  vr_validator_version :: string
  vr_scope :: string
  vr_subject_ids :: "string list"
  vr_status :: string
  vr_reason :: string
  vr_evidence_artifact_ids :: "string list"
  vr_source_references :: "string list"
  vr_timestamp :: string
  vr_metadata :: fields

text \<open>\<^verbatim>\<open>ValidationResult.__post_init__\<close>\<close>

definition validation_init :: "host \<Rightarrow> validation_result \<Rightarrow> validation_result res" where
  "validation_init H r =
     bindE (validate_identifier (vr_validator_id r)) (\<lambda>_.
     bindE (validate_identifier (vr_validator_version r)) (\<lambda>_.
     bindE (enum_value ValidationContractError validation_scopes (vr_scope r)) (\<lambda>scope.
     bindE (enum_value ValidationContractError validation_statuses (vr_status r)) (\<lambda>status.
     bindE (mapE validate_reference (vr_subject_ids r)) (\<lambda>subjects.
     bindE (guardE (subjects \<noteq> []) ValidationContractError) (\<lambda>_.
     bindE (guardE (distinct subjects) ValidationContractError) (\<lambda>_.
     bindE (validate_artifact_ids (vr_evidence_artifact_ids r)) (\<lambda>evidence.
     bindE (mapE validate_reference (vr_source_references r)) (\<lambda>references.
     bindE (guardE (distinct references) ValidationContractError) (\<lambda>_.
     bindE (normalize_timestamp H (vr_timestamp r)) (\<lambda>ts.
     bindE (freeze_json_mapping (JObj (vr_metadata r))) (\<lambda>md.
     Inr (r\<lparr>vr_scope := scope, vr_status := status, vr_subject_ids := subjects,
            vr_evidence_artifact_ids := evidence, vr_source_references := references,
            vr_timestamp := ts, vr_metadata := md\<rparr>)))))))))))))"

definition validation_fields :: "validation_result \<Rightarrow> fields" where
  "validation_fields r =
     [(''validator_id'', JStr (vr_validator_id r)),
      (''validator_version'', JStr (vr_validator_version r)),
      (''scope'', JStr (vr_scope r)),
      (''subject_ids'', jstrs (vr_subject_ids r)),
      (''status'', JStr (vr_status r)),
      (''reason'', JStr (vr_reason r)),
      (''message'', JStr (vr_reason r)),
      (''evidence_artifact_ids'', jstrs (vr_evidence_artifact_ids r)),
      (''source_references'', jstrs (vr_source_references r)),
      (''timestamp'', JStr (vr_timestamp r)),
      (''metadata'', JObj (vr_metadata r))]"

definition validation_to_dict :: "validation_result \<Rightarrow> json" where
  "validation_to_dict r = JObj (validation_fields r)"

definition validation_canonical_bytes :: "validation_result \<Rightarrow> string res" where
  "validation_canonical_bytes r = canonical_json_bytes (validation_to_dict r)"

definition validation_digest :: "host \<Rightarrow> validation_result \<Rightarrow> string res" where
  "validation_digest H r = json_sha256 H (validation_to_dict r)"

definition validation_decode :: "host \<Rightarrow> fields \<Rightarrow> validation_result res" where
  "validation_decode H d =
     (let reason = jget_or d ''reason'' (jget_or d ''message'' (JStr '''')) in
      bindE (jitem d ''validator_id'') (\<lambda>vid.
      bindE (jitem d ''validator_version'') (\<lambda>version.
      bindE (bindE (jitem d ''scope'') (enum_str ValidationContractError)) (\<lambda>scope.
      bindE (bindE (jitem d ''subject_ids'') artifact_strs) (\<lambda>subjects.
      bindE (bindE (jitem d ''status'') (enum_str ValidationContractError)) (\<lambda>status.
      bindE (artifact_strs (jget_or d ''evidence_artifact_ids'' (JArr []))) (\<lambda>evidence.
      bindE (artifact_strs (jget_or d ''source_references'' (JArr []))) (\<lambda>references.
      bindE (jitem d ''timestamp'') (\<lambda>ts.
      bindE (py_dict (jget_or d ''metadata'' (JObj []))) (\<lambda>md.
      validation_init H \<lparr>vr_validator_id = py_str vid, vr_validator_version = py_str version,
        vr_scope = scope, vr_subject_ids = subjects, vr_status = status, vr_reason = py_str reason,
        vr_evidence_artifact_ids = evidence, vr_source_references = references,
        vr_timestamp = py_str ts, vr_metadata = md\<rparr>))))))))))"

fun validation_from_dict :: "host \<Rightarrow> json \<Rightarrow> validation_result res" where
  "validation_from_dict H (JObj d) = wrapE decode_error ValidationContractError (validation_decode H d)"
| "validation_from_dict H _ = Inl ValidationContractError"

section \<open>Lemmas\<close>

lemma enum_value_eq: "enum_value e ws s = Inr t \<longleftrightarrow> t = py_upper (py_strip s) \<and> t \<in> set ws"
  by (auto simp: enum_value_def Let_def)

lemma enum_value_member: "enum_value e ws s = Inr t \<Longrightarrow> t \<in> set ws"
  unfolding enum_value_eq by blast

lemma enum_value_words:
  assumes "ws \<in> {review_decisions, validation_scopes, validation_statuses}" "t \<in> set ws"
  shows "enum_value e ws t = Inr t"
proof -
  have "list_all (\<lambda>t. py_upper (py_strip t) = t) (review_decisions @ validation_scopes @ validation_statuses)"
    by code_simp
  with assms show ?thesis by (auto simp: enum_value_eq list_all_iff)
qed

lemma review_init_eq: "review_init H r = Inr q \<longleftrightarrow>
    is_identifier (rv_review_id r) \<and> is_sha256 (rv_artifact_sha256 r)
    \<and> rv_artifact_id r = ''sha256:'' @ rv_artifact_sha256 r \<and> py_strip (rv_reviewer r) \<noteq> []
    \<and> \<not> list_ex (\<lambda>c. c \<in> set [CHR 0x0D, CHR 0x0A, CHR 0x00]) (rv_reviewer r)
    \<and> is_identifier (rv_review_schema_version r)
    \<and> (\<exists>t ts. enum_value ReviewError review_decisions (rv_decision r) = Inr t
        \<and> normalize_timestamp H (rv_created_at r) = Inr ts \<and> q = r\<lparr>rv_decision := t, rv_created_at := ts\<rparr>)"
  by (auto simp: review_init_def decision_value_def validate_artifact_id_sha is_artifact_id_iff)

definition review_wf :: "host \<Rightarrow> review_record \<Rightarrow> bool" where
  "review_wf H r = (review_init H r = Inr r)"

lemma review_init_wf:
  assumes "iso_lawful H" "review_init H r = Inr q"
  shows "review_wf H q"
proof -
  from assms(2) obtain t ts where *: "enum_value ReviewError review_decisions (rv_decision r) = Inr t"
    "normalize_timestamp H (rv_created_at r) = Inr ts" "q = r\<lparr>rv_decision := t, rv_created_at := ts\<rparr>"
    by (auto simp: review_init_eq)
  from *(1) have "t \<in> set review_decisions" by (rule enum_value_member)
  then have "enum_value ReviewError review_decisions t = Inr t" by (intro enum_value_words) simp_all
  with assms(2) * normalize_timestamp_fixed [OF assms(1) *(2)] show ?thesis
    by (auto simp: review_wf_def review_init_eq)
qed

lemma review_wf_sha: "review_wf H r \<Longrightarrow> rv_artifact_id r = ''sha256:'' @ rv_artifact_sha256 r \<and> is_sha256 (rv_artifact_sha256 r)"
  by (simp add: review_wf_def review_init_eq)

lemma review_fields_lookup [simp]:
  "map_of (review_fields r) ''review_id'' = Some (JStr (rv_review_id r))"
  "map_of (review_fields r) ''artifact_id'' = Some (JStr (rv_artifact_id r))"
  "map_of (review_fields r) ''artifact_sha256'' = Some (JStr (rv_artifact_sha256 r))"
  "map_of (review_fields r) ''decision'' = Some (JStr (rv_decision r))"
  "map_of (review_fields r) ''reviewer'' = Some (JStr (rv_reviewer r))"
  "map_of (review_fields r) ''reason'' = Some (JStr (rv_reason r))"
  "map_of (review_fields r) ''created_at'' = Some (JStr (rv_created_at r))"
  "map_of (review_fields r) ''review_schema_version'' = Some (JStr (rv_review_schema_version r))"
  by (simp_all add: review_fields_def)

lemma review_decode_fields:
  "review_decode H (review_fields r) = review_init H r"
  "review_decode H (norm_obj (review_fields r)) = review_init H r"
  by (cases r; simp add: review_decode_def jitem_def jget_or_def Let_def)+

interpretation review_codec: record_codec review_to_dict "review_from_dict H" "review_wf H" "\<lambda>r. r"
  for H
  by unfold_locales (simp_all add: review_to_dict_def review_decode_fields review_wf_def)

lemma mapE_references: "mapE validate_reference xs = Inr ys \<longleftrightarrow> ys = xs \<and> list_all is_reference xs"
  using mapE_id_iff [of validate_reference xs ys] by (auto simp: list_all_iff okE_eq)

definition validation_checks :: "validation_result \<Rightarrow> bool" where
  "validation_checks r =
     (is_identifier (vr_validator_id r) \<and> is_identifier (vr_validator_version r)
      \<and> vr_subject_ids r \<noteq> [] \<and> distinct (vr_subject_ids r) \<and> list_all is_reference (vr_subject_ids r)
      \<and> distinct (vr_evidence_artifact_ids r) \<and> list_all is_artifact_id (vr_evidence_artifact_ids r)
      \<and> distinct (vr_source_references r) \<and> list_all is_reference (vr_source_references r)
      \<and> fields_ok (vr_metadata r))"

lemma validation_init_eq: "validation_init H r = Inr q \<longleftrightarrow> validation_checks r
    \<and> (\<exists>sc st ts. enum_value ValidationContractError validation_scopes (vr_scope r) = Inr sc
        \<and> enum_value ValidationContractError validation_statuses (vr_status r) = Inr st
        \<and> normalize_timestamp H (vr_timestamp r) = Inr ts
        \<and> q = r\<lparr>vr_scope := sc, vr_status := st, vr_timestamp := ts\<rparr>)"
  by (auto simp: validation_init_def validation_checks_def mapE_references)

definition validation_wf :: "host \<Rightarrow> validation_result \<Rightarrow> bool" where
  "validation_wf H r = (validation_init H r = Inr r)"

definition canon_validation :: "validation_result \<Rightarrow> validation_result" where
  "canon_validation r = r\<lparr>vr_metadata := norm_obj (vr_metadata r)\<rparr>"

lemma validation_init_canon:
  "validation_init H r = Inr q \<Longrightarrow> validation_init H (canon_validation r) = Inr (canon_validation q)"
  by (auto simp: validation_init_eq canon_validation_def validation_checks_def)

lemma validation_init_wf:
  assumes "iso_lawful H" "validation_init H r = Inr q"
  shows "validation_wf H q"
proof -
  from assms(2) obtain sc st ts where *: "validation_checks r"
    "enum_value ValidationContractError validation_scopes (vr_scope r) = Inr sc"
    "enum_value ValidationContractError validation_statuses (vr_status r) = Inr st"
    "normalize_timestamp H (vr_timestamp r) = Inr ts" "q = r\<lparr>vr_scope := sc, vr_status := st, vr_timestamp := ts\<rparr>"
    by (auto simp: validation_init_eq)
  from *(2,3) have "sc \<in> set validation_scopes" "st \<in> set validation_statuses"
    by (auto intro: enum_value_member)
  then have "enum_value ValidationContractError validation_scopes sc = Inr sc"
    "enum_value ValidationContractError validation_statuses st = Inr st"
    by (auto intro!: enum_value_words)
  moreover have "validation_checks q" using *(1) by (simp add: *(5) validation_checks_def)
  ultimately show ?thesis
    using *(5) normalize_timestamp_fixed [OF assms(1) *(4)] by (simp add: validation_wf_def validation_init_eq)
qed

lemma validation_fields_lookup [simp]:
  "map_of (validation_fields r) ''validator_id'' = Some (JStr (vr_validator_id r))"
  "map_of (validation_fields r) ''validator_version'' = Some (JStr (vr_validator_version r))"
  "map_of (validation_fields r) ''scope'' = Some (JStr (vr_scope r))"
  "map_of (validation_fields r) ''subject_ids'' = Some (jstrs (vr_subject_ids r))"
  "map_of (validation_fields r) ''status'' = Some (JStr (vr_status r))"
  "map_of (validation_fields r) ''reason'' = Some (JStr (vr_reason r))"
  "map_of (validation_fields r) ''evidence_artifact_ids'' = Some (jstrs (vr_evidence_artifact_ids r))"
  "map_of (validation_fields r) ''source_references'' = Some (jstrs (vr_source_references r))"
  "map_of (validation_fields r) ''timestamp'' = Some (JStr (vr_timestamp r))"
  "map_of (validation_fields r) ''metadata'' = Some (JObj (vr_metadata r))"
  by (simp_all add: validation_fields_def)

lemma validation_decode_fields:
  "validation_decode H (validation_fields r) = validation_init H r"
  "validation_decode H (norm_obj (validation_fields r)) = validation_init H (canon_validation r)"
  by (cases r; simp add: validation_decode_def jitem_def jget_or_def canon_validation_def Let_def)+

lemma validation_dict_canon: "jnorm (validation_to_dict (canon_validation r)) = jnorm (validation_to_dict r)"
  by (simp add: validation_to_dict_def) (rule norm_obj_cong, simp add: validation_fields_def canon_validation_def)

interpretation validation_codec: record_codec validation_to_dict "validation_from_dict H" "validation_wf H" canon_validation
  for H
  by unfold_locales
    (auto simp: validation_to_dict_def validation_decode_fields validation_wf_def validation_init_canon
      validation_dict_canon [unfolded validation_to_dict_def, simplified])

lemma validation_keys_ok:
  "\<not> sensitive_key ''validator_id''" "\<not> sensitive_key ''validator_version''" "\<not> sensitive_key ''scope''"
  "\<not> sensitive_key ''subject_ids''" "\<not> sensitive_key ''status''" "\<not> sensitive_key ''reason''"
  "\<not> sensitive_key ''message''" "\<not> sensitive_key ''evidence_artifact_ids''"
  "\<not> sensitive_key ''source_references''" "\<not> sensitive_key ''timestamp''" "\<not> sensitive_key ''metadata''"
  by (simp_all add: sensitive_key_eval)

lemma validation_json_ok: "validation_wf H r \<Longrightarrow> json_ok (validation_to_dict r)"
  by (auto simp: validation_wf_def validation_init_eq validation_checks_def validation_to_dict_def
      validation_fields_def validation_keys_ok)

section \<open>Concrete records\<close>

definition demo_review :: review_record where
  "demo_review = \<lparr>rv_review_id = ''r1'', rv_artifact_id = ar_artifact_id demo_record,
     rv_artifact_sha256 = ar_sha256 demo_record, rv_decision = ''APPROVED'', rv_reviewer = ''alice'',
     rv_reason = '''', rv_created_at = demo_time, rv_review_schema_version = ''1''\<rparr>"

definition demo_validation :: validation_result where
  "demo_validation = \<lparr>vr_validator_id = ''v1'', vr_validator_version = ''1'', vr_scope = ''BUNDLE'',
     vr_subject_ids = [''s1''], vr_status = ''PASS'', vr_reason = '''', vr_evidence_artifact_ids = [],
     vr_source_references = [], vr_timestamp = demo_time, vr_metadata = [(''b'', JInt 1), (''a'', JNull)]\<rparr>"

lemma demo_validation_wf: "validation_wf demo_host demo_validation"
proof -
  have "is_identifier ''v1''" "is_identifier ''1''" "is_reference ''s1''"
    "enum_value ValidationContractError validation_scopes ''BUNDLE'' = Inr ''BUNDLE''"
    "enum_value ValidationContractError validation_statuses ''PASS'' = Inr ''PASS''" by code_simp+
  moreover have "\<not> sensitive_key ''a''" "\<not> sensitive_key ''b''" by (simp_all add: sensitive_key_eval)
  ultimately show ?thesis
    using demo_time_fixed by (simp add: validation_wf_def validation_init_eq validation_checks_def demo_validation_def)
qed

section \<open>Properties\<close>

text \<open>
  C38. A review binds bytes. A review made for a verified artifact record matches, in every store, the
  verified record of that artifact and of no other, and whatever that store reads for the artifact
  has the digest that was reviewed.
\<close>

theorem review_binds_bytes:
  assumes "verify H s x = Inr rec"
    and "review_for_artifact H now rec review_id decision reviewer reason created_at version = Inr r"
  shows "(\<forall>t y q. verify H t y = Inr q \<longrightarrow> (assert_matches_record r q = Inr () \<longleftrightarrow> y = x))
    \<and> (\<forall>t b. read_artifact H t x = Inr b \<longrightarrow> sha256 H b = rv_artifact_sha256 r)"
proof -
  from verify_file [OF assms(1)] have rec: "artifact_sha256 x = Inr (ar_sha256 rec)" "ar_artifact_id rec = x" by metis+
  from assms(2) have r: "rv_artifact_id r = x" "rv_artifact_sha256 r = ar_sha256 rec"
    using rec by (auto simp: review_for_artifact_def review_init_eq)
  have "assert_matches_record r q = Inr () \<longleftrightarrow> y = x" if "verify H t y = Inr q" for t y q
  proof -
    from verify_file [OF that] have "artifact_sha256 y = Inr (ar_sha256 q)" "ar_artifact_id q = y" by metis+
    with rec r show ?thesis by (auto simp: assert_matches_record_def matches_record_def)
  qed
  moreover have "sha256 H b = rv_artifact_sha256 r" if "read_artifact H t x = Inr b" for t b
  proof -
    from that obtain q where q: "verify H t x = Inr q" "read_artifact H t (ar_artifact_id q) = Inr b"
      using verify_file by (auto simp: read_artifact_def) metis
    from verify_file [OF q(1)] obtain b' where b': "object_node t (ar_sha256 q) = Some (FSFile b')"
      "sha256 H b' = ar_sha256 q" "artifact_sha256 x = Inr (ar_sha256 q)" "ar_artifact_id q = x"
      "read_record H (metadata_node t (ar_sha256 q)) = Inr q" "ar_size_bytes q = int (length b')" by metis
    from verifyI(2) [OF b'(5,1,2,6)] q(2) b' rec r show ?thesis by simp
  qed
  ultimately show ?thesis by blast
qed

theorem review_binds_bytes_witness:
  "\<exists>t r. verify demo_host t (ar_artifact_id demo_record) = Inr demo_record
    \<and> review_for_artifact demo_host 0 demo_record ''r1'' '' approved'' ''alice'' '''' None ''1'' = Inr r
    \<and> assert_matches_record r demo_record = Inr ()"
proof -
  obtain s where s: "put demo_host demo_put empty_store = (Inr demo_record, s)" using demo_put_runs by blast
  have v: "verify demo_host s (ar_artifact_id demo_record) = Inr demo_record"
    by (rule artifact_store.put_verify [OF _ s]) simp
  have "is_identifier ''r1''" "is_identifier ''1''" "py_strip ''alice'' \<noteq> []"
    "\<not> list_ex (\<lambda>c. c \<in> set [CHR 0x0D, CHR 0x0A, CHR 0x00]) ''alice''"
    "enum_value ReviewError review_decisions '' approved'' = Inr ''APPROVED''" by code_simp+
  moreover have "utc_timestamp demo_host (True, 0) = Inr demo_time" by (rule demo_utc)
  moreover have "is_sha256 (ar_sha256 demo_record)" "ar_artifact_id demo_record = ''sha256:'' @ ar_sha256 demo_record"
    using demo_sha_lawful by (simp_all add: demo_record_def sha_lawful_def)
  ultimately have r: "review_for_artifact demo_host 0 demo_record ''r1'' '' approved'' ''alice'' '''' None ''1'' = Inr demo_review"
    using demo_time_fixed by (simp add: review_for_artifact_def review_init_eq demo_review_def)
  from review_binds_bytes [OF v r] v r show ?thesis by blast
qed

text \<open>
  C39. A missing reviewer is not noticed. The constructor requires a reviewer reference, but \<^verbatim>\<open>from_dict\<close> of
  a review from which both names of the reviewer are absent returns that review with the reviewer
  \<^verbatim>\<open>"None"\<close>.
\<close>

theorem missing_reviewer_accepted:
  assumes "review_wf H r"
  shows "review_from_dict H (JObj (filter (\<lambda>p. fst p \<notin> {''reviewer'', ''reviewer_ref''}) (review_fields r)))
    = Inr (r\<lparr>rv_reviewer := ''None''\<rparr>)"
proof -
  have n: "py_strip ''None'' \<noteq> []" "\<not> list_ex (\<lambda>c. c \<in> set [CHR 0x0D, CHR 0x0A, CHR 0x00]) ''None''" by code_simp+
  from assms obtain t ts where t: "enum_value ReviewError review_decisions (rv_decision r) = Inr t"
    "normalize_timestamp H (rv_created_at r) = Inr ts" "r = r\<lparr>rv_decision := t, rv_created_at := ts\<rparr>"
    unfolding review_wf_def review_init_eq by blast
  have "r\<lparr>rv_reviewer := ''None'', rv_decision := t, rv_created_at := ts\<rparr> = r\<lparr>rv_reviewer := ''None''\<rparr>"
    by (subst (2) t(3)) simp
  with assms n t(1,2) have "review_init H (r\<lparr>rv_reviewer := ''None''\<rparr>) = Inr (r\<lparr>rv_reviewer := ''None''\<rparr>)"
    by (simp add: review_wf_def review_init_eq)
  then show ?thesis
    by (cases r) (simp add: review_decode_def review_fields_def jitem_def jget_or_def jget_def Let_def)
qed

theorem missing_reviewer_accepted_witness:
  "\<exists>d r. map_of d ''reviewer'' = None \<and> map_of d ''reviewer_ref'' = None
    \<and> review_from_dict demo_host (JObj d) = Inr r \<and> rv_reviewer r = ''None''"
proof -
  have "is_identifier ''r1''" "is_identifier ''1''" "py_strip ''alice'' \<noteq> []"
    "\<not> list_ex (\<lambda>c. c \<in> set [CHR 0x0D, CHR 0x0A, CHR 0x00]) ''alice''"
    "enum_value ReviewError review_decisions ''APPROVED'' = Inr ''APPROVED''" by code_simp+
  moreover have "is_sha256 (ar_sha256 demo_record)" "ar_artifact_id demo_record = ''sha256:'' @ ar_sha256 demo_record"
    using demo_sha_lawful by (simp_all add: demo_record_def sha_lawful_def)
  ultimately have "review_wf demo_host demo_review"
    using demo_time_fixed by (simp add: review_wf_def review_init_eq demo_review_def)
  from missing_reviewer_accepted [OF this] show ?thesis
    by (intro exI [of _ "filter (\<lambda>p. fst p \<notin> {''reviewer'', ''reviewer_ref''}) (review_fields demo_review)"]
        exI [of _ "demo_review\<lparr>rv_reviewer := ''None''\<rparr>"]) (simp add: review_fields_def)
qed

text \<open>
  Validation results persist. A validation result written as canonical JSON is read back as the
  same result up to the order of its metadata's keys, and has the same digest.
\<close>

theorem validation_roundtrip:
  assumes "validation_wf H r" "json_wf (float_of H) (JObj (vr_metadata r))"
  shows "\<exists>b q. validation_canonical_bytes r = Inr b
    \<and> loads_bytes (float_of H) b = Some (jnorm (validation_to_dict r))
    \<and> validation_from_dict H (jnorm (validation_to_dict r)) = Inr q
    \<and> q\<lparr>vr_metadata := vr_metadata r\<rparr> = r \<and> vr_metadata q = norm_obj (vr_metadata r)
    \<and> validation_digest H q = validation_digest H r"
proof (intro exI conjI)
  have "json_wf (float_of H) (validation_to_dict r)"
    using assms(2) by (simp add: validation_to_dict_def validation_fields_def)
  from validation_codec.persisted [OF assms(1) this]
  show "loads_bytes (float_of H) (json_dumps (validation_to_dict r)) = Some (jnorm (validation_to_dict r))"
    "validation_from_dict H (jnorm (validation_to_dict r)) = Inr (canon_validation r)" by simp_all
  show "validation_canonical_bytes r = Inr (json_dumps (validation_to_dict r))"
    using validation_json_ok [OF assms(1)] by (simp add: validation_canonical_bytes_def canonical_json_bytes_eq)
  show "(canon_validation r)\<lparr>vr_metadata := vr_metadata r\<rparr> = r"
    "vr_metadata (canon_validation r) = norm_obj (vr_metadata r)" by (simp_all add: canon_validation_def)
  show "validation_digest H (canon_validation r) = validation_digest H r"
    by (simp add: validation_digest_def json_sha256_def canonical_json_bytes_cong [OF validation_dict_canon])
qed

theorem validation_roundtrip_witness:
  "\<exists>q. validation_from_dict demo_host (jnorm (validation_to_dict demo_validation)) = Inr q
    \<and> q \<noteq> demo_validation \<and> validation_digest demo_host q = validation_digest demo_host demo_validation"
proof -
  have "json_wf (float_of demo_host) (JObj (vr_metadata demo_validation))" by (simp add: demo_validation_def)
  from validation_roundtrip [OF demo_validation_wf this] obtain q where
    q: "validation_from_dict demo_host (jnorm (validation_to_dict demo_validation)) = Inr q"
    "vr_metadata q = norm_obj (vr_metadata demo_validation)"
    "validation_digest demo_host q = validation_digest demo_host demo_validation" by blast
  have "norm_obj (vr_metadata demo_validation) \<noteq> vr_metadata demo_validation"
    unfolding demo_validation_def by code_simp
  with q show ?thesis by metis
qed

end
