(* ===== verification/Ledger.thy ===== *)
theory Ledger
  imports Persistence
begin

text \<open>
  \<^verbatim>\<open>src/molly/core/ledger.py\<close>: the event record with its validation and its JSON form, the
  reader of the JSONL file with its integrity checks, the append under the lock, and the
  abstract ledger (a list of events) that the file implements.
\<close>

section \<open>Events\<close>

record ledger_event =
  ev_event_id :: string
  ev_run_id :: string
  ev_event_type :: string
  ev_step_id :: "string option"
  ev_status :: "string option"
  ev_tool_name :: "string option"
  ev_tool_version :: "string option"
  ev_input_artifact_ids :: "string list"
  ev_output_artifact_ids :: "string list"
  ev_model_profile :: fields
  ev_provider_profile :: fields
  ev_prompt_digest :: "string option"
  ev_config_digest :: "string option"
  ev_seed_metadata :: fields
  ev_timestamp :: string
  ev_metadata :: fields
  ev_previous_event_sha256 :: "string option"
  ev_event_sha256 :: "string option"

text \<open>\<^verbatim>\<open>LedgerEvent.__post_init__\<close>\<close>

definition event_init :: "host \<Rightarrow> ledger_event \<Rightarrow> ledger_event res" where
  "event_init H e =
     bindE (validate_identifier (ev_event_id e)) (\<lambda>_.
     bindE (validate_identifier (ev_run_id e)) (\<lambda>_.
     bindE (validate_identifier (ev_event_type e)) (\<lambda>_.
     bindE (check_opt validate_identifier (ev_step_id e)) (\<lambda>_.
     bindE (check_opt validate_identifier (ev_tool_name e)) (\<lambda>_.
     bindE (check_opt validate_identifier (ev_tool_version e)) (\<lambda>_.
     bindE (check_opt validate_identifier (ev_status e)) (\<lambda>_.
     bindE (validate_artifact_ids (ev_input_artifact_ids e)) (\<lambda>inputs.
     bindE (validate_artifact_ids (ev_output_artifact_ids e)) (\<lambda>outputs.
     bindE (freeze_json_mapping (JObj (ev_model_profile e))) (\<lambda>mp.
     bindE (freeze_json_mapping (JObj (ev_provider_profile e))) (\<lambda>pp.
     bindE (freeze_json_mapping (JObj (ev_seed_metadata e))) (\<lambda>sm.
     bindE (freeze_json_mapping (JObj (ev_metadata e))) (\<lambda>md.
     bindE (check_opt validate_digest_reference (ev_prompt_digest e)) (\<lambda>_.
     bindE (check_opt validate_digest_reference (ev_config_digest e)) (\<lambda>_.
     bindE (check_opt validate_digest_reference (ev_previous_event_sha256 e)) (\<lambda>_.
     bindE (check_opt validate_digest_reference (ev_event_sha256 e)) (\<lambda>_.
     bindE (normalize_timestamp H (ev_timestamp e)) (\<lambda>ts.
     Inr (e\<lparr>ev_input_artifact_ids := inputs, ev_output_artifact_ids := outputs,
            ev_model_profile := mp, ev_provider_profile := pp, ev_seed_metadata := sm,
            ev_metadata := md, ev_timestamp := ts\<rparr>)))))))))))))))))))"

text \<open>\<^verbatim>\<open>to_dict(include_digest=...)\<close>\<close>

definition event_body :: "ledger_event \<Rightarrow> fields" where
  "event_body e =
     [(''event_id'', JStr (ev_event_id e)),
      (''run_id'', JStr (ev_run_id e)),
      (''step_id'', jstr_opt (ev_step_id e)),
      (''event_type'', JStr (ev_event_type e)),
      (''status'', jstr_opt (ev_status e)),
      (''tool_name'', jstr_opt (ev_tool_name e)),
      (''tool_version'', jstr_opt (ev_tool_version e)),
      (''input_artifact_ids'', jstrs (ev_input_artifact_ids e)),
      (''output_artifact_ids'', jstrs (ev_output_artifact_ids e)),
      (''model_profile'', JObj (ev_model_profile e)),
      (''provider_profile'', JObj (ev_provider_profile e)),
      (''prompt_digest'', jstr_opt (ev_prompt_digest e)),
      (''config_digest'', jstr_opt (ev_config_digest e)),
      (''seed_metadata'', JObj (ev_seed_metadata e)),
      (''timestamp'', JStr (ev_timestamp e)),
      (''metadata'', JObj (ev_metadata e)),
      (''previous_event_sha256'', jstr_opt (ev_previous_event_sha256 e))]"

definition event_fields :: "ledger_event \<Rightarrow> fields" where
  "event_fields e = event_body e @ [(''event_sha256'', jstr_opt (ev_event_sha256 e))]"

definition event_to_dict :: "ledger_event \<Rightarrow> json" where
  "event_to_dict e = JObj (event_fields e)"

definition event_computed_sha256 :: "host \<Rightarrow> ledger_event \<Rightarrow> string res" where
  "event_computed_sha256 H e =
     bindE (canonical_json_bytes (JObj (event_body e))) (\<lambda>b. Inr (sha256_bytes H b))"

definition event_canonical_bytes :: "ledger_event \<Rightarrow> string res" where
  "event_canonical_bytes e = canonical_json_bytes (event_to_dict e)"

text \<open>\<^verbatim>\<open>LedgerEvent.from_dict\<close>\<close>

definition event_decode :: "host \<Rightarrow> fields \<Rightarrow> ledger_event res" where
  "event_decode H d =
     bindE (jitem d ''event_id'') (\<lambda>eid.
     bindE (jitem d ''run_id'') (\<lambda>rid.
     bindE (jitem d ''event_type'') (\<lambda>et.
     bindE (artifact_strs (jget_or d ''input_artifact_ids'' (JArr []))) (\<lambda>inputs.
     bindE (artifact_strs (jget_or d ''output_artifact_ids'' (JArr []))) (\<lambda>outputs.
     bindE (py_dict (jget_or d ''model_profile'' (JObj []))) (\<lambda>mp.
     bindE (py_dict (jget_or d ''provider_profile'' (JObj []))) (\<lambda>pp.
     bindE (py_dict (jget_or d ''seed_metadata'' (JObj []))) (\<lambda>sm.
     bindE (jitem d ''timestamp'') (\<lambda>ts.
     bindE (py_dict (jget_or d ''metadata'' (JObj []))) (\<lambda>md.
     event_init H
       \<lparr>ev_event_id = py_str eid, ev_run_id = py_str rid, ev_event_type = py_str et,
        ev_step_id = str_or_none (jget d ''step_id''),
        ev_status = str_or_none (jget d ''status''),
        ev_tool_name = str_or_none (jget d ''tool_name''),
        ev_tool_version = str_or_none (jget d ''tool_version''),
        ev_input_artifact_ids = inputs, ev_output_artifact_ids = outputs,
        ev_model_profile = mp, ev_provider_profile = pp,
        ev_prompt_digest = str_or_none (jget d ''prompt_digest''),
        ev_config_digest = str_or_none (jget d ''config_digest''),
        ev_seed_metadata = sm, ev_timestamp = py_str ts, ev_metadata = md,
        ev_previous_event_sha256 = str_or_none (jget d ''previous_event_sha256''),
        ev_event_sha256 = str_or_none (jget d ''event_sha256'')\<rparr>))))))))))"

definition event_from_dict :: "host \<Rightarrow> json \<Rightarrow> ledger_event res" where
  "event_from_dict H value =
     (case value of
        JObj d \<Rightarrow>
          bindE (wrapE decode_error LedgerCorruptionError (event_decode H d)) (\<lambda>event.
          case ev_event_sha256 event of
            None \<Rightarrow> Inl LedgerCorruptionError
          | Some recorded \<Rightarrow>
              bindE (event_computed_sha256 H event) (\<lambda>computed.
              if computed \<noteq> recorded then Inl LedgerCorruptionError else Inr event))
      | _ \<Rightarrow> Inl LedgerCorruptionError)"

section \<open>Reading the file\<close>

text \<open>One line of the file, and the loop of \<^verbatim>\<open>_read_events\<close>\<close>

definition event_of_line :: "host \<Rightarrow> string \<Rightarrow> ledger_event res" where
  "event_of_line H payload =
     (if payload = [] then Inl LedgerCorruptionError
      else case loads_bytes (float_of H) payload of
          None \<Rightarrow> Inl LedgerCorruptionError
        | Some value \<Rightarrow> event_from_dict H value)"

definition read_lines :: "host \<Rightarrow> string option \<Rightarrow> string list \<Rightarrow> string list \<Rightarrow> ledger_event list res" where
  "read_lines H = read_chain ev_event_id ev_previous_event_sha256 ev_event_sha256 (event_of_line H)
     (\<lambda>_. Inr ()) LedgerCorruptionError"

definition read_events :: "host \<Rightarrow> log_file \<Rightarrow> ledger_event list res" where
  "read_events H lf =
     (case log_node lf of
        Some FSSymlink \<Rightarrow> Inl LedgerCorruptionError
      | None \<Rightarrow> Inr []
      | Some FSDir \<Rightarrow> Inl LedgerCorruptionError
      | Some (FSFile b) \<Rightarrow> read_lines H None [] (file_lines b))"

text \<open>\<^verbatim>\<open>for_run\<close>, \<^verbatim>\<open>last_event\<close>\<close>

definition events_of :: "string \<Rightarrow> ledger_event list \<Rightarrow> ledger_event list" where
  "events_of run_id events = filter (\<lambda>e. ev_run_id e = run_id) events"

definition for_run :: "host \<Rightarrow> string \<Rightarrow> log_file \<Rightarrow> ledger_event list res" where
  "for_run H run_id lf =
     bindE (validate_identifier run_id) (\<lambda>_.
     bindE (read_events H lf) (\<lambda>events. Inr (events_of run_id events)))"

definition last_event :: "host \<Rightarrow> log_file \<Rightarrow> ledger_event option res" where
  "last_event H lf =
     bindE (read_events H lf) (\<lambda>events. Inr (if events = [] then None else Some (last events)))"

section \<open>Appending\<close>

text \<open>Two calls of \<^verbatim>\<open>replace\<close>: bind the previous digest, then the digest of the body\<close>

definition seal_event :: "host \<Rightarrow> string option \<Rightarrow> ledger_event \<Rightarrow> ledger_event res" where
  "seal_event H previous_digest event =
     bindE (event_init H (event\<lparr>ev_previous_event_sha256 := previous_digest, ev_event_sha256 := None\<rparr>))
       (\<lambda>prepared.
     bindE (event_computed_sha256 H prepared) (\<lambda>digest.
     event_init H (prepared\<lparr>ev_event_sha256 := Some digest\<rparr>)))"

text \<open>What is checked and built against the events already there\<close>

definition prepare_append :: "host \<Rightarrow> ledger_event list \<Rightarrow> ledger_event \<Rightarrow> ledger_event res" where
  "prepare_append H existing event =
     (if list_ex (\<lambda>item. ev_event_id item = ev_event_id event) existing then Inl LedgerError
      else seal_event H (last_digest ev_event_sha256 existing) event)"

text \<open>\<^verbatim>\<open>RunLedger.append\<close> of an event: the body of the locked block\<close>

definition append_event :: "host \<Rightarrow> ledger_event \<Rightarrow> (log_file, ledger_event) act" where
  "append_event H event =
     bindA locked_append (\<lambda>_.
     bindA (asksA (read_events H)) (\<lambda>existing.
     bindA (liftA (prepare_append H existing event)) (\<lambda>persisted.
     bindA (liftA (event_canonical_bytes persisted)) (\<lambda>line.
     bindA (append_all H (line @ [CHR 0x0A])) (\<lambda>_.
     returnA persisted)))))"

text \<open>\<^verbatim>\<open>append(**fields)\<close> builds the event first; \<^verbatim>\<open>append(mapping)\<close> decodes it first.\<close>

definition append_fields :: "host \<Rightarrow> ledger_event \<Rightarrow> (log_file, ledger_event) act" where
  "append_fields H flds = bindA (liftA (event_init H flds)) (append_event H)"

definition append_mapping :: "host \<Rightarrow> json \<Rightarrow> (log_file, ledger_event) act" where
  "append_mapping H value = bindA (liftA (event_from_dict H value)) (append_event H)"

section \<open>The abstract ledger\<close>

text \<open>
  A list of events, as a reader sees them: the dicts of an event come back from the file with
  their keys sorted.
\<close>

definition canon_event :: "ledger_event \<Rightarrow> ledger_event" where
  "canon_event e = e\<lparr>ev_model_profile := norm_obj (ev_model_profile e),
     ev_provider_profile := norm_obj (ev_provider_profile e),
     ev_seed_metadata := norm_obj (ev_seed_metadata e), ev_metadata := norm_obj (ev_metadata e)\<rparr>"

definition ledger_append :: "host \<Rightarrow> ledger_event \<Rightarrow> (ledger_event list, ledger_event) act" where
  "ledger_append H flds existing =
     (case bindE (event_init H flds) (prepare_append H existing) of
        Inl e \<Rightarrow> (Inl e, existing)
      | Inr persisted \<Rightarrow> (Inr persisted, existing @ [canon_event persisted]))"

section \<open>Lemmas: validation\<close>

text \<open>The checks of the constructor that do not change anything\<close>

definition event_checks :: "ledger_event \<Rightarrow> bool" where
  "event_checks e =
     (is_identifier (ev_event_id e) \<and> is_identifier (ev_run_id e) \<and> is_identifier (ev_event_type e)
      \<and> pred_option is_identifier (ev_step_id e) \<and> pred_option is_identifier (ev_tool_name e)
      \<and> pred_option is_identifier (ev_tool_version e) \<and> pred_option is_identifier (ev_status e)
      \<and> distinct (ev_input_artifact_ids e) \<and> list_all is_artifact_id (ev_input_artifact_ids e)
      \<and> distinct (ev_output_artifact_ids e) \<and> list_all is_artifact_id (ev_output_artifact_ids e)
      \<and> fields_ok (ev_model_profile e) \<and> fields_ok (ev_provider_profile e)
      \<and> fields_ok (ev_seed_metadata e) \<and> fields_ok (ev_metadata e)
      \<and> pred_option (\<lambda>x. okE (validate_digest_reference x)) (ev_prompt_digest e)
      \<and> pred_option (\<lambda>x. okE (validate_digest_reference x)) (ev_config_digest e)
      \<and> pred_option (\<lambda>x. okE (validate_digest_reference x)) (ev_previous_event_sha256 e)
      \<and> pred_option (\<lambda>x. okE (validate_digest_reference x)) (ev_event_sha256 e))"

lemma event_init_eq: "event_init H e = Inr e' \<longleftrightarrow>
    event_checks e \<and> (\<exists>ts. normalize_timestamp H (ev_timestamp e) = Inr ts \<and> e' = e\<lparr>ev_timestamp := ts\<rparr>)"
  by (auto simp: event_init_def event_checks_def pred_option_alt)

lemma event_checks_timestamp [simp]: "event_checks (e\<lparr>ev_timestamp := ts\<rparr>) = event_checks e"
  by (simp add: event_checks_def)

lemma event_init_fixed: "iso_lawful H \<Longrightarrow> event_init H e = Inr e' \<Longrightarrow> event_init H e' = Inr e'"
  by (auto simp: event_init_eq dest: normalize_timestamp_fixed)

lemma event_init_timestamp:
  assumes "event_init H e = Inr e'"
  shows "normalize_timestamp H (ev_timestamp e) = Inr (ev_timestamp e')"
  using assms by (auto simp: event_init_eq)

lemma event_init_keeps:
  assumes "event_init H e = Inr e'"
  shows "ev_event_id e' = ev_event_id e" "ev_run_id e' = ev_run_id e"
    "ev_event_type e' = ev_event_type e" "ev_step_id e' = ev_step_id e" "ev_status e' = ev_status e"
    "ev_tool_name e' = ev_tool_name e" "ev_tool_version e' = ev_tool_version e"
    "ev_input_artifact_ids e' = ev_input_artifact_ids e"
    "ev_output_artifact_ids e' = ev_output_artifact_ids e" "ev_metadata e' = ev_metadata e"
    "ev_previous_event_sha256 e' = ev_previous_event_sha256 e"
    "ev_event_sha256 e' = ev_event_sha256 e"
  using assms by (auto simp: event_init_eq)

lemma canon_event_simps [simp]:
  "ev_event_id (canon_event e) = ev_event_id e" "ev_run_id (canon_event e) = ev_run_id e"
  "ev_event_type (canon_event e) = ev_event_type e" "ev_step_id (canon_event e) = ev_step_id e"
  "ev_status (canon_event e) = ev_status e" "ev_tool_name (canon_event e) = ev_tool_name e"
  "ev_tool_version (canon_event e) = ev_tool_version e"
  "ev_input_artifact_ids (canon_event e) = ev_input_artifact_ids e"
  "ev_output_artifact_ids (canon_event e) = ev_output_artifact_ids e"
  "ev_metadata (canon_event e) = norm_obj (ev_metadata e)"
  "ev_previous_event_sha256 (canon_event e) = ev_previous_event_sha256 e"
  "ev_event_sha256 (canon_event e) = ev_event_sha256 e"
  "ev_timestamp (canon_event e) = ev_timestamp e"
  by (simp_all add: canon_event_def)

lemma canon_event_checks [simp]: "event_checks (canon_event e) = event_checks e"
  by (simp add: event_checks_def canon_event_def)

lemma event_init_canon: "event_init H e = Inr e' \<Longrightarrow> event_init H (canon_event e) = Inr (canon_event e')"
  by (auto simp: event_init_eq) (auto simp: canon_event_def)

lemma canon_event_idem [simp]: "canon_event (canon_event e) = canon_event e"
  by (simp add: canon_event_def)

section \<open>Lemmas: the JSON form\<close>

lemma event_fields_lookup [simp]:
  "map_of (event_fields e) ''event_id'' = Some (JStr (ev_event_id e))"
  "map_of (event_fields e) ''run_id'' = Some (JStr (ev_run_id e))"
  "map_of (event_fields e) ''step_id'' = Some (jstr_opt (ev_step_id e))"
  "map_of (event_fields e) ''event_type'' = Some (JStr (ev_event_type e))"
  "map_of (event_fields e) ''status'' = Some (jstr_opt (ev_status e))"
  "map_of (event_fields e) ''tool_name'' = Some (jstr_opt (ev_tool_name e))"
  "map_of (event_fields e) ''tool_version'' = Some (jstr_opt (ev_tool_version e))"
  "map_of (event_fields e) ''input_artifact_ids'' = Some (jstrs (ev_input_artifact_ids e))"
  "map_of (event_fields e) ''output_artifact_ids'' = Some (jstrs (ev_output_artifact_ids e))"
  "map_of (event_fields e) ''model_profile'' = Some (JObj (ev_model_profile e))"
  "map_of (event_fields e) ''provider_profile'' = Some (JObj (ev_provider_profile e))"
  "map_of (event_fields e) ''prompt_digest'' = Some (jstr_opt (ev_prompt_digest e))"
  "map_of (event_fields e) ''config_digest'' = Some (jstr_opt (ev_config_digest e))"
  "map_of (event_fields e) ''seed_metadata'' = Some (JObj (ev_seed_metadata e))"
  "map_of (event_fields e) ''timestamp'' = Some (JStr (ev_timestamp e))"
  "map_of (event_fields e) ''metadata'' = Some (JObj (ev_metadata e))"
  "map_of (event_fields e) ''previous_event_sha256'' = Some (jstr_opt (ev_previous_event_sha256 e))"
  "map_of (event_fields e) ''event_sha256'' = Some (jstr_opt (ev_event_sha256 e))"
  by (simp_all add: event_fields_def event_body_def)

text \<open>Reading back what was written, directly and with the keys sorted\<close>

lemma event_decode_fields: "event_decode H (event_fields e) = event_init H e"
  by (cases e) (simp add: event_decode_def jitem_def jget_def jget_or_def)

lemma event_decode_norm: "event_decode H (norm_obj (event_fields e)) = event_init H (canon_event e)"
  by (cases e) (simp add: event_decode_def jitem_def jget_def jget_or_def canon_event_def)

lemma event_fields_canon: "norm_obj (event_fields (canon_event e)) = norm_obj (event_fields e)"
  by (rule norm_obj_cong) (simp add: event_fields_def event_body_def canon_event_def)

lemma event_body_canon: "norm_obj (event_body (canon_event e)) = norm_obj (event_body e)"
  by (rule norm_obj_cong) (simp add: event_body_def canon_event_def)

lemma event_dict_canon: "jnorm (event_to_dict (canon_event e)) = jnorm (event_to_dict e)"
  by (simp add: event_to_dict_def event_fields_canon)

lemma event_computed_canon [simp]:
  "event_computed_sha256 H (canon_event e) = event_computed_sha256 H e"
  unfolding event_computed_sha256_def
  by (subst canonical_json_bytes_cong [of _ "JObj (event_body e)"]) (simp_all add: event_body_canon)

text \<open>The stored digest is the digest of the body.\<close>

definition event_sealed :: "host \<Rightarrow> ledger_event \<Rightarrow> bool" where
  "event_sealed H e = (case ev_event_sha256 e of
     None \<Rightarrow> False | Some d \<Rightarrow> event_computed_sha256 H e = Inr d)"

lemma event_sealed_stored: "event_sealed H e \<Longrightarrow> ev_event_sha256 e \<noteq> None"
  by (auto simp: event_sealed_def split: option.splits)

definition event_wf :: "host \<Rightarrow> ledger_event \<Rightarrow> bool" where
  "event_wf H e = (event_init H e = Inr e \<and> event_sealed H e)"

lemma event_sealed_canon [simp]: "event_sealed H (canon_event e) = event_sealed H e"
  by (simp add: event_sealed_def split: option.split)

lemma event_wf_canon: "event_wf H e \<Longrightarrow> event_wf H (canon_event e)"
  by (simp add: event_wf_def event_init_canon)

lemma event_from_dict_fields: "event_wf H e \<Longrightarrow> event_from_dict H (event_to_dict e) = Inr e"
  by (auto simp: event_from_dict_def event_to_dict_def event_decode_fields event_wf_def
      event_sealed_def split: option.splits)

lemma event_from_dict_norm:
  "event_wf H e \<Longrightarrow> event_from_dict H (jnorm (event_to_dict e)) = Inr (canon_event e)"
  using event_wf_canon [of H e]
  by (auto simp: event_from_dict_def event_to_dict_def event_decode_norm event_wf_def
      event_sealed_def split: option.splits)

interpretation event_codec: record_codec event_to_dict "event_from_dict H" "event_wf H" canon_event
  for H
  by unfold_locales (simp_all add: event_from_dict_fields event_from_dict_norm event_dict_canon)

text \<open>What the decoder accepts is well-formed and sealed, if timestamps normalise to fixed points.\<close>

lemma event_from_dict_wf:
  assumes "iso_lawful H" "event_from_dict H v = Inr e"
  shows "event_wf H e"
proof -
  from assms(2) obtain d where v: "v = JObj d" by (cases v) (simp_all add: event_from_dict_def)
  with assms(2) have d: "event_decode H d = Inr e" "event_sealed H e"
    by (auto simp: event_from_dict_def event_sealed_def split: option.splits if_splits)
  from d(1) obtain e0 where "event_init H e0 = Inr e" by (auto simp: event_decode_def)
  with assms(1) d(2) show ?thesis by (simp add: event_wf_def event_init_fixed)
qed

lemma event_from_dict_sealed: "event_from_dict H v = Inr e \<Longrightarrow> event_sealed H e"
  by (auto simp: event_from_dict_def event_sealed_def split: json.splits option.splits if_splits)

section \<open>Lemmas: sealing and the chain\<close>

lemma event_keys_ok [simp]:
  "\<not> sensitive_key ''event_id''" "\<not> sensitive_key ''run_id''" "\<not> sensitive_key ''step_id''"
  "\<not> sensitive_key ''event_type''" "\<not> sensitive_key ''status''" "\<not> sensitive_key ''tool_name''"
  "\<not> sensitive_key ''tool_version''" "\<not> sensitive_key ''input_artifact_ids''"
  "\<not> sensitive_key ''output_artifact_ids''" "\<not> sensitive_key ''model_profile''"
  "\<not> sensitive_key ''provider_profile''" "\<not> sensitive_key ''prompt_digest''"
  "\<not> sensitive_key ''config_digest''" "\<not> sensitive_key ''seed_metadata''"
  "\<not> sensitive_key ''timestamp''" "\<not> sensitive_key ''metadata''"
  "\<not> sensitive_key ''previous_event_sha256''" "\<not> sensitive_key ''event_sha256''"
  by (simp_all add: sensitive_key_eval)

lemma event_json_ok:
  assumes "event_checks e"
  shows "json_ok (JObj (event_body e))" "json_ok (event_to_dict e)"
  using assms by (simp_all add: event_to_dict_def event_fields_def event_body_def event_checks_def)

lemma event_computed_eq: "event_checks e \<Longrightarrow>
    event_computed_sha256 H e = Inr (sha256 H (json_dumps (JObj (event_body e))))"
  using event_json_ok(1) [of e]
  by (simp add: event_computed_sha256_def canonical_json_bytes_eq sha256_bytes_def)

lemma event_canonical_eq: "event_checks e \<Longrightarrow>
    event_canonical_bytes e = Inr (json_dumps (event_to_dict e))"
  using event_json_ok(2) [of e] by (simp add: event_canonical_bytes_def canonical_json_bytes_eq)

lemma event_body_digest [simp]: "event_body (e\<lparr>ev_event_sha256 := d\<rparr>) = event_body e"
  by (simp add: event_body_def)

lemma event_computed_digest [simp]:
  "event_computed_sha256 H (e\<lparr>ev_event_sha256 := d\<rparr>) = event_computed_sha256 H e"
  by (simp add: event_computed_sha256_def)

lemma seal_event_keeps:
  assumes "seal_event H p e = Inr e'"
  shows "ev_event_id e' = ev_event_id e" "ev_run_id e' = ev_run_id e"
    "ev_event_type e' = ev_event_type e" "ev_step_id e' = ev_step_id e"
    "ev_status e' = ev_status e" "ev_tool_name e' = ev_tool_name e"
    "ev_tool_version e' = ev_tool_version e"
    "ev_input_artifact_ids e' = ev_input_artifact_ids e"
    "ev_output_artifact_ids e' = ev_output_artifact_ids e" "ev_metadata e' = ev_metadata e"
    "ev_previous_event_sha256 e' = p" "ev_event_sha256 e' \<noteq> None"
  using assms by (auto simp: seal_event_def event_init_keeps)

lemma seal_event_wf:
  assumes "iso_lawful H" "seal_event H p e = Inr e'"
  shows "event_wf H e'"
proof -
  from assms(2) obtain q d where q: "event_init H (e\<lparr>ev_previous_event_sha256 := p, ev_event_sha256 := None\<rparr>) = Inr q"
    "event_computed_sha256 H q = Inr d" "event_init H (q\<lparr>ev_event_sha256 := Some d\<rparr>) = Inr e'"
    by (auto simp: seal_event_def)
  have "event_init H q = Inr q" by (rule event_init_fixed [OF assms(1) q(1)])
  then have ts: "normalize_timestamp H (ev_timestamp q) = Inr (ev_timestamp q)"
    by (rule event_init_timestamp)
  with q(3) have "e' = q\<lparr>ev_event_sha256 := Some d\<rparr>" by (auto simp: event_init_eq)
  with q(2) have "event_sealed H e'" by (simp add: event_sealed_def)
  with event_init_fixed [OF assms(1) q(3)] show ?thesis by (simp add: event_wf_def)
qed

section \<open>Lemmas: the file and the abstract ledger\<close>

text \<open>The dicts of an event survive the file: distinct keys and floats given by their \<^verbatim>\<open>repr\<close>.\<close>

definition event_json_wf :: "host \<Rightarrow> ledger_event \<Rightarrow> bool" where
  "event_json_wf H e = (json_wf (float_of H) (JObj (ev_model_profile e))
     \<and> json_wf (float_of H) (JObj (ev_provider_profile e))
     \<and> json_wf (float_of H) (JObj (ev_seed_metadata e)) \<and> json_wf (float_of H) (JObj (ev_metadata e)))"

lemma event_json_wf_dict: "event_json_wf H e \<Longrightarrow> json_wf (float_of H) (event_to_dict e)"
  by (simp add: event_json_wf_def event_to_dict_def event_fields_def event_body_def)

lemma seal_event_json_wf: "seal_event H p e = Inr e' \<Longrightarrow> event_json_wf H e \<Longrightarrow> event_json_wf H e'"
  by (auto simp: seal_event_def event_init_eq event_json_wf_def)

lemma event_line:
  assumes "event_wf H e" "event_json_wf H e"
  shows "event_of_line H (json_dumps (event_to_dict e)) = Inr (canon_event e)"
  using event_codec.persisted [OF assms(1) event_json_wf_dict [OF assms(2)]]
    json_dumps_nonempty [OF event_json_wf_dict [OF assms(2)]]
  by (simp add: event_of_line_def)

text \<open>An entry is sealed when it carries a digest and, for a lawful clock, is well-formed.\<close>

definition entry_sealed :: "host \<Rightarrow> ledger_event \<Rightarrow> bool" where
  "entry_sealed H e = (ev_event_sha256 e \<noteq> None \<and> (iso_lawful H \<longrightarrow> event_wf H e))"

lemma event_of_line_sealed: "event_of_line H l = Inr e \<Longrightarrow> entry_sealed H e"
  using event_from_dict_wf [of H _ e] event_sealed_stored [OF event_from_dict_sealed [of H _ e]]
  by (auto simp: event_of_line_def entry_sealed_def split: if_splits option.splits)

interpretation ledger_log: chained_log ev_event_id ev_previous_event_sha256 ev_event_sha256
    "entry_sealed H" "seal_event H" canon_event "event_of_line H" "\<lambda>e. json_dumps (event_to_dict e)"
    "\<lambda>_. Inr ()" "\<lambda>e. iso_lawful H \<and> event_json_wf H e" LedgerCorruptionError
  for H
proof unfold_locales
  fix l e
  assume "event_of_line H l = Inr e"
  then show "entry_sealed H e" by (rule event_of_line_sealed)
next
  fix e
  assume "entry_sealed H e" "iso_lawful H \<and> event_json_wf H e"
  then show "event_of_line H (json_dumps (event_to_dict e)) = Inr (canon_event e)"
    by (intro event_line) (auto simp: entry_sealed_def)
next
  fix e
  assume "iso_lawful H \<and> event_json_wf H e"
  then show "CHR 0x0A \<notin> set (json_dumps (event_to_dict e))"
    using json_dumps_no_newline [OF event_json_wf_dict] by blast
qed (auto simp: entry_sealed_def seal_event_keeps dest: seal_event_wf)

text \<open>The chain predicate at the ledger's own accessors, and the invariant of a readable ledger\<close>

definition event_chain :: "string option \<Rightarrow> string list \<Rightarrow> ledger_event list \<Rightarrow> bool" where
  "event_chain = chain_from ev_event_id ev_previous_event_sha256 ev_event_sha256"

definition ledger_valid :: "host \<Rightarrow> ledger_event list \<Rightarrow> bool" where
  "ledger_valid H events = (event_chain None [] events \<and> list_all (event_wf H) events)"

lemma read_events_valid:
  assumes "iso_lawful H" "read_events H lf = Inr es"
  shows "ledger_valid H es"
  using assms ledger_log.read_valid [of H None "[]" _ es]
  by (auto simp: read_events_def read_lines_def ledger_valid_def event_chain_def list_all_iff entry_sealed_def
      split: option.splits fsnode.splits)

lemma event_chain_map_canon:
  "event_chain prev seen (map canon_event es) = event_chain prev seen es"
  by (induction es arbitrary: prev seen) (simp_all add: event_chain_def)

lemma prepare_append_props:
  assumes "prepare_append H existing e = Inr p"
  shows "ev_event_id e \<notin> ev_event_id ` set existing"
    "seal_event H (last_digest ev_event_sha256 existing) e = Inr p"
  using assms by (auto simp: prepare_append_def list_ex_iff split: if_splits)

text \<open>Appending keeps the ledger valid.\<close>

lemma prepare_append_valid:
  assumes "iso_lawful H" "ledger_valid H es" "prepare_append H es e = Inr p"
  shows "ledger_valid H (es @ [canon_event p])"
proof -
  note p = prepare_append_props [OF assms(3)]
  have "event_chain None [] (es @ [canon_event p])"
    using assms(2) ledger_log.appended_chain [OF _ p] by (simp add: ledger_valid_def event_chain_def)
  moreover have "event_wf H (canon_event p)"
    by (rule event_wf_canon) (rule seal_event_wf [OF assms(1) p(2)])
  ultimately show ?thesis using assms(2) by (simp add: ledger_valid_def)
qed

lemma ledger_append_valid:
  assumes "iso_lawful H" "ledger_valid H es"
  shows "ledger_valid H (snd (ledger_append H e es))"
  using assms prepare_append_valid
  by (auto simp: ledger_append_def split: sum.splits)

interpretation run_log: append_log "ledger_append H" canon_event "\<lambda>es. iso_lawful H \<longrightarrow> ledger_valid H es"
  for H
  by unfold_locales (auto simp: ledger_append_valid, auto simp: ledger_append_def split: sum.splits)

definition readable_as :: "host \<Rightarrow> log_file \<Rightarrow> ledger_event list \<Rightarrow> bool" where
  "readable_as H lf es = (\<not> ancestor_symlink lf \<and> read_events H lf = Inr es)"

lemma locked_append_readable:
  assumes "readable_as H lf es"
  obtains b where "locked_append lf = (Inr (), lf\<lparr>log_node := Some (FSFile b)\<rparr>)"
    "read_lines H None [] (file_lines b) = Inr es" "log_node lf = Some (FSFile b) \<or> b = [] \<and> log_node lf = None"
proof (cases "log_node lf")
  case None
  with assms show ?thesis
    by (intro that [of "[]"])
      (auto simp: readable_as_def locked_append_def read_events_def file_lines_def read_lines_def)
next
  case (Some n)
  with assms obtain b where "n = FSFile b" by (cases n) (auto simp: readable_as_def read_events_def)
  with assms Some show ?thesis
    by (intro that [of b]) (auto simp: readable_as_def locked_append_def read_events_def)
qed

lemma append_event_file:
  assumes "os_lawful H" "iso_lawful H" "readable_as H lf es" "event_json_wf H e"
    and "prepare_append H es e = Inr p"
  shows "\<exists>lf'. append_event H e lf = (Inr p, lf') \<and> readable_as H lf' (es @ [canon_event p])"
proof -
  from locked_append_readable [OF assms(3)] obtain b where
    b: "locked_append lf = (Inr (), lf\<lparr>log_node := Some (FSFile b)\<rparr>)"
      "read_lines H None [] (file_lines b) = Inr es" by blast
  note p = prepare_append_props [OF assms(5)]
  note wf = seal_event_wf [OF assms(2) p(2)] and jwf = seal_event_json_wf [OF p(2) assms(4)]
  define line where "line = json_dumps (event_to_dict p)"
  have bytes: "event_canonical_bytes p = Inr line"
    using wf unfolding line_def by (intro event_canonical_eq) (auto simp: event_wf_def event_init_eq)
  let ?lf = "lf\<lparr>log_node := Some (FSFile (b @ line @ [CHR 0x0A]))\<rparr>"
  have "append_event H e lf = (Inr p, ?lf)"
    using b bytes assms(1,5) append_all_lawful [OF assms(1), of "lf\<lparr>log_node := Some (FSFile b)\<rparr>" b]
    by (simp add: append_event_def bindA_def read_events_def)
  moreover have "read_lines H None [] (file_lines (b @ line @ [CHR 0x0A])) = Inr (es @ [canon_event p])"
    using ledger_log.read_extended [of H b es e p] b(2) p jwf assms(2)
    by (simp add: read_lines_def line_def)
  moreover have "\<not> ancestor_symlink ?lf" using assms(3) by (simp add: readable_as_def)
  ultimately show ?thesis by (auto simp: readable_as_def read_events_def)
qed

lemma append_event_refused:
  assumes "readable_as H lf es" "prepare_append H es e = Inl x"
  shows "\<exists>lf'. append_event H e lf = (Inl x, lf') \<and> readable_as H lf' es"
proof -
  from locked_append_readable [OF assms(1)] obtain b where
    b: "locked_append lf = (Inr (), lf\<lparr>log_node := Some (FSFile b)\<rparr>)"
      "read_lines H None [] (file_lines b) = Inr es" by blast
  let ?lf = "lf\<lparr>log_node := Some (FSFile b)\<rparr>"
  have "read_events H ?lf = Inr es" using b(2) by (simp add: read_events_def)
  with b(1) assms have "append_event H e lf = (Inl x, ?lf)"
    by (simp add: append_event_def bindA_def)
  moreover have "readable_as H ?lf es"
    using assms(1) \<open>read_events H ?lf = Inr es\<close> by (simp add: readable_as_def)
  ultimately show ?thesis by blast
qed

lemma event_init_json_wf: "event_init H e = Inr e' \<Longrightarrow> event_json_wf H e' = event_json_wf H e"
  by (auto simp: event_init_eq event_json_wf_def)

text \<open>A concrete event and a concrete one-event file for the witnesses\<close>

definition demo_event :: ledger_event where
  "demo_event = \<lparr>ev_event_id = ''evt_1'', ev_run_id = ''run_1'', ev_event_type = ''RUN_STOPPED'',
     ev_step_id = None, ev_status = Some ''STOPPED'', ev_tool_name = None, ev_tool_version = None,
     ev_input_artifact_ids = [], ev_output_artifact_ids = [], ev_model_profile = [],
     ev_provider_profile = [], ev_prompt_digest = None, ev_config_digest = None,
     ev_seed_metadata = [], ev_timestamp = demo_time, ev_metadata = [(''reason'', JStr ''done'')],
     ev_previous_event_sha256 = None, ev_event_sha256 = None\<rparr>"

definition empty_log :: log_file where
  "empty_log = \<lparr>ancestor_symlink = False, log_node = None\<rparr>"

lemma demo_event_checks: "event_checks demo_event"
proof -
  have "is_identifier ''evt_1''" "is_identifier ''run_1''" "is_identifier ''RUN_STOPPED''"
    "is_identifier ''STOPPED''" "\<not> sensitive_key ''reason''" by code_simp+
  then show ?thesis by (simp add: event_checks_def demo_event_def)
qed

lemma demo_event_init: "event_init demo_host demo_event = Inr demo_event"
proof -
  have ts: "ev_timestamp demo_event = demo_time" by (simp add: demo_event_def)
  have "demo_event\<lparr>ev_timestamp := demo_time\<rparr> = demo_event" by (simp add: demo_event_def)
  with ts demo_time_fixed have "normalize_timestamp demo_host (ev_timestamp demo_event) = Inr demo_time
    \<and> demo_event = demo_event\<lparr>ev_timestamp := demo_time\<rparr>" by simp
  then show ?thesis unfolding event_init_eq using demo_event_checks by blast
qed

lemma demo_event_json_wf: "event_json_wf demo_host demo_event"
  by (simp add: event_json_wf_def demo_event_def)

lemma empty_log_readable: "readable_as H empty_log []"
  by (simp add: readable_as_def empty_log_def read_events_def)

text \<open>Sealing a checked event succeeds, so an event with a new ID is always appended.\<close>

lemma seal_event_total:
  assumes "iso_lawful H" "sha_lawful H" "event_init H e = Inr e'" 
    and "pred_option (\<lambda>x. okE (validate_digest_reference x)) p"
  shows "\<exists>q. seal_event H p e' = Inr q"
proof -
  have fix': "event_init H e' = Inr e'" by (rule event_init_fixed [OF assms(1,3)])
  let ?e = "e'\<lparr>ev_previous_event_sha256 := p, ev_event_sha256 := None\<rparr>"
  have c: "event_checks ?e"
    using fix' assms(4) by (auto simp: event_init_eq event_checks_def)
  have ts: "normalize_timestamp H (ev_timestamp e') = Inr (ev_timestamp e')"
    by (rule event_init_timestamp [OF fix'])
  then have init: "event_init H ?e = Inr ?e" using c by (auto simp: event_init_eq)
  obtain d where d: "event_computed_sha256 H ?e = Inr d" "is_sha256 d"
    using event_computed_eq [OF c, of H] assms(2) by (auto simp: sha_lawful_def)
  have "okE (validate_digest_reference d)" using d(2) by simp
  with c have "event_checks (?e\<lparr>ev_event_sha256 := Some d\<rparr>)" by (simp add: event_checks_def)
  with ts have "event_init H (?e\<lparr>ev_event_sha256 := Some d\<rparr>) = Inr (?e\<lparr>ev_event_sha256 := Some d\<rparr>)"
    by (auto simp: event_init_eq)
  with init d(1) show ?thesis by (auto simp: seal_event_def)
qed

lemma demo_log:
  obtains lf p where "append_fields demo_host demo_event empty_log = (Inr p, lf)"
    "readable_as demo_host lf [canon_event p]"
proof -
  obtain p where "seal_event demo_host None demo_event = Inr p"
    using seal_event_total [OF demo_iso_lawful demo_sha_lawful demo_event_init, of None] by auto
  then have p: "prepare_append demo_host [] demo_event = Inr p" by (simp add: prepare_append_def)
  from append_event_file [OF demo_os_lawful demo_iso_lawful empty_log_readable demo_event_json_wf p]
  obtain lf where "append_event demo_host demo_event empty_log = (Inr p, lf)"
    "readable_as demo_host lf [canon_event p]" by auto
  then show ?thesis by (intro that) (simp_all add: append_fields_def bindA_def demo_event_init)
qed

section \<open>Properties\<close>

text \<open>
  C5. The JSONL file implements the abstract ledger. On a file that reads as the events \<open>es\<close>,
  \<^verbatim>\<open>RunLedger.append(**fields)\<close> raises or returns exactly what the append to the list \<open>es\<close> does, and
  afterwards the file reads as the list afterwards: unchanged after a refusal, extended by the
  new event after a success.
\<close>

theorem append_refines_list:
  assumes "os_lawful H" "iso_lawful H" "readable_as H lf es" "event_json_wf H e"
  shows "fst (append_fields H e lf) = fst (ledger_append H e es)
    \<and> readable_as H (snd (append_fields H e lf)) (snd (ledger_append H e es))"
proof (cases "event_init H e")
  case (Inl x)
  with assms(3) show ?thesis by (simp add: append_fields_def ledger_append_def bindA_def)
next
  case (Inr e')
  with assms(4) have "event_json_wf H e'" by (simp add: event_init_json_wf)
  with Inr assms append_event_file [of H lf es e'] append_event_refused [of H lf es e'] show ?thesis
    by (cases "prepare_append H es e'") (auto simp: append_fields_def ledger_append_def bindA_def)
qed

theorem append_refines_list_witness:
  "fst (append_fields demo_host demo_event empty_log) = fst (ledger_append demo_host demo_event [])
    \<and> readable_as demo_host (snd (append_fields demo_host demo_event empty_log))
        (snd (ledger_append demo_host demo_event []))"
  by (rule append_refines_list [OF demo_os_lawful demo_iso_lawful empty_log_readable demo_event_json_wf])

text \<open>
  C29. A torn write is detected. If a crash leaves a non-empty piece of a line without its line end
  after a readable file, the file no longer reads, and a further append raises
  \<^verbatim>\<open>LedgerCorruptionError\<close> and leaves the bytes as they are.
\<close>

theorem torn_write_detected:
  assumes "readable_as H lf es" "log_node lf = Some (FSFile b)"
    and "torn \<noteq> []" "CHR 0x0A \<notin> set torn" "lf' = lf\<lparr>log_node := Some (FSFile (b @ torn))\<rparr>"
  shows "read_events H lf' = Inl LedgerCorruptionError
    \<and> append_event H e lf' = (Inl LedgerCorruptionError, lf')"
proof -
  from assms(1,2) have b: "read_lines H None [] (file_lines b) = Inr es"
    by (simp add: readable_as_def read_events_def)
  with ledger_log.read_torn [of H b es torn] assms(3-5)
  have r: "read_events H lf' = Inl LedgerCorruptionError"
    by (simp add: read_events_def read_lines_def)
  moreover have "locked_append lf' = (Inr (), lf')"
    using assms(1,5) by (simp add: locked_append_def readable_as_def)
  ultimately show ?thesis by (simp add: append_event_def bindA_def)
qed

theorem torn_write_detected_witness:
  "\<exists>lf'. read_events demo_host lf' = Inl LedgerCorruptionError
    \<and> append_event demo_host demo_event lf' = (Inl LedgerCorruptionError, lf')"
proof -
  obtain lf p where lf: "readable_as demo_host lf [canon_event p]" using demo_log by metis
  then obtain b where "log_node lf = Some (FSFile b)"
    by (auto simp: readable_as_def read_events_def split: option.splits fsnode.splits)
  from torn_write_detected [OF lf this, of "''{''"] show ?thesis by auto
qed



text \<open>
  Appending keeps a ledger valid: every event well-formed and carrying the digest of its body,
  no event ID twice, every event naming its predecessor's digest; and the events already there
  are a prefix of the events afterwards, whatever is appended.
\<close>

theorem append_keeps_valid:
  assumes "iso_lawful H" "ledger_valid H es"
  shows "ledger_valid H (snd (ledger_append H e es)) \<and> prefix es (snd (ledger_append H e es))
    \<and> distinct (map ev_event_id (snd (ledger_append H e es)))"
proof -
  have v: "ledger_valid H (snd (ledger_append H e es))" by (rule ledger_append_valid [OF assms])
  then have "distinct (map ev_event_id (snd (ledger_append H e es)))"
    by (auto simp: ledger_valid_def event_chain_def dest: chain_from_distinct)
  with v show ?thesis by (simp add: ledger_append_def split: sum.split)
qed

theorem append_keeps_valid_witness:
  "ledger_valid demo_host (snd (ledger_append demo_host demo_event []))
    \<and> prefix [] (snd (ledger_append demo_host demo_event []))
    \<and> distinct (map ev_event_id (snd (ledger_append demo_host demo_event [])))"
  by (rule append_keeps_valid [OF demo_iso_lawful]) (simp add: ledger_valid_def event_chain_def)

end
