(* ===== verification/Lineage.thy ===== *)
theory Lineage
  imports Ledger Artifacts
begin

text \<open>
  \<^verbatim>\<open>src/molly/core/lineage.py\<close>: provenance relations, the lineage object with its known identities
  and its strict mode, kept in memory or in a JSONL file, and the queries. The abstract lineage is
  the in-memory one; the file-backed one implements it.
\<close>

section \<open>Relations\<close>

definition relation_types :: "string list" where
  "relation_types = [''CONSUMED_BY'', ''PRODUCED_BY'', ''DERIVED_FROM'', ''SUPPORTED_BY'']"

definition relation_value :: "string \<Rightarrow> string res" where
  "relation_value value =
     (let normalized = py_upper (py_strip value) in
      if normalized \<notin> set relation_types then Inl LineageError else Inr normalized)"

record lineage_relation =
  rel_relation_type :: string
  rel_subject_id :: string
  rel_object_id :: string
  rel_relation_id :: string
  rel_created_at :: string
  rel_metadata :: fields
  rel_previous_relation_sha256 :: "string option"
  rel_relation_sha256 :: "string option"

text \<open>\<^verbatim>\<open>LineageRelation.__post_init__\<close>\<close>

definition relation_init :: "host \<Rightarrow> lineage_relation \<Rightarrow> lineage_relation res" where
  "relation_init H r =
     bindE (relation_value (rel_relation_type r)) (\<lambda>rt.
     bindE (validate_identifier (rel_relation_id r)) (\<lambda>_.
     bindE (validate_reference (rel_subject_id r)) (\<lambda>_.
     bindE (validate_reference (rel_object_id r)) (\<lambda>_.
     bindE (normalize_timestamp H (rel_created_at r)) (\<lambda>ts.
     bindE (freeze_json_mapping (JObj (rel_metadata r))) (\<lambda>md.
     bindE (wrapE (\<lambda>e. is_a e CoreContractError) LineageError
       (check_opt validate_sha256 (rel_previous_relation_sha256 r))) (\<lambda>_.
     bindE (wrapE (\<lambda>e. is_a e CoreContractError) LineageError
       (check_opt validate_sha256 (rel_relation_sha256 r))) (\<lambda>_.
     Inr (r\<lparr>rel_relation_type := rt, rel_created_at := ts, rel_metadata := md\<rparr>)))))))))"

text \<open>\<^verbatim>\<open>to_dict(include_digest=...)\<close>, \<^verbatim>\<open>computed_sha256\<close>, \<^verbatim>\<open>canonical_bytes\<close>\<close>

definition relation_body :: "lineage_relation \<Rightarrow> fields" where
  "relation_body r =
     [(''relation_type'', JStr (rel_relation_type r)),
      (''subject_id'', JStr (rel_subject_id r)),
      (''object_id'', JStr (rel_object_id r)),
      (''relation_id'', JStr (rel_relation_id r)),
      (''created_at'', JStr (rel_created_at r)),
      (''metadata'', JObj (rel_metadata r)),
      (''previous_relation_sha256'', jstr_opt (rel_previous_relation_sha256 r))]"

definition relation_fields :: "lineage_relation \<Rightarrow> fields" where
  "relation_fields r = relation_body r @ [(''relation_sha256'', jstr_opt (rel_relation_sha256 r))]"

definition relation_to_dict :: "lineage_relation \<Rightarrow> json" where
  "relation_to_dict r = JObj (relation_fields r)"

definition relation_computed_sha256 :: "host \<Rightarrow> lineage_relation \<Rightarrow> string res" where
  "relation_computed_sha256 H r =
     bindE (canonical_json_bytes (JObj (relation_body r))) (\<lambda>b. Inr (sha256_bytes H b))"

definition relation_canonical_bytes :: "lineage_relation \<Rightarrow> string res" where
  "relation_canonical_bytes r = canonical_json_bytes (relation_to_dict r)"

text \<open>\<^verbatim>\<open>LineageRelation.from_dict\<close>; a relation type that is not a string is refused by \<^verbatim>\<open>_relation_value\<close>.\<close>

fun relation_type_str :: "json \<Rightarrow> string res" where
  "relation_type_str (JStr s) = Inr s"
| "relation_type_str _ = Inl LineageError"

definition relation_decode :: "host \<Rightarrow> fields \<Rightarrow> lineage_relation res" where
  "relation_decode H d =
     bindE (jitem d ''relation_type'') (\<lambda>rt.
     bindE (jitem d ''subject_id'') (\<lambda>subj.
     bindE (jitem d ''object_id'') (\<lambda>obj.
     bindE (jitem d ''relation_id'') (\<lambda>rid.
     bindE (jitem d ''created_at'') (\<lambda>ts.
     bindE (py_dict (jget_or d ''metadata'' (JObj []))) (\<lambda>md.
     bindE (relation_type_str rt) (\<lambda>rts.
     relation_init H
       \<lparr>rel_relation_type = rts, rel_subject_id = py_str subj, rel_object_id = py_str obj,
        rel_relation_id = py_str rid, rel_created_at = py_str ts, rel_metadata = md,
        rel_previous_relation_sha256 = str_or_none (jget d ''previous_relation_sha256''),
        rel_relation_sha256 = str_or_none (jget d ''relation_sha256'')\<rparr>)))))))"

definition relation_from_dict :: "host \<Rightarrow> json \<Rightarrow> lineage_relation res" where
  "relation_from_dict H value =
     (case value of
        JObj d \<Rightarrow>
          bindE (wrapE decode_error LineageError (relation_decode H d)) (\<lambda>relation.
          case rel_relation_sha256 relation of
            None \<Rightarrow> Inl LineageError
          | Some recorded \<Rightarrow>
              bindE (relation_computed_sha256 H relation) (\<lambda>computed.
              if computed \<noteq> recorded then Inl LineageError else Inr relation))
      | _ \<Rightarrow> Inl LineageError)"

section \<open>The lineage object\<close>

text \<open>\<open>lin_log\<close> is the file at \<^verbatim>\<open>path\<close>, absent for a lineage in memory.\<close>

record lineage =
  lin_log :: "log_file option"
  lin_relations :: "lineage_relation list"
  lin_known_ids :: "string set"
  lin_strict :: bool

definition lineage_new :: "log_file option \<Rightarrow> string list \<Rightarrow> bool \<Rightarrow> lineage res" where
  "lineage_new log known_ids strict =
     bindE (mapE validate_reference known_ids) (\<lambda>known.
     Inr \<lparr>lin_log = log, lin_relations = [], lin_known_ids = set known,
          lin_strict = (strict \<or> known \<noteq> [])\<rparr>)"

definition check_known :: "bool \<Rightarrow> string set \<Rightarrow> string \<Rightarrow> string \<Rightarrow> unit res" where
  "check_known strict known subject_id object_id =
     (if strict \<and> (subject_id \<notin> known \<or> object_id \<notin> known) then Inl LineageError else Inr ())"

definition check_relation :: "bool \<Rightarrow> string set \<Rightarrow> lineage_relation \<Rightarrow> unit res" where
  "check_relation strict known r = check_known strict known (rel_subject_id r) (rel_object_id r)"

definition relation_of_line :: "host \<Rightarrow> string \<Rightarrow> lineage_relation res" where
  "relation_of_line H payload =
     (case loads_bytes (float_of H) payload of
        None \<Rightarrow> Inl LineageError
      | Some value \<Rightarrow> relation_from_dict H value)"

text \<open>\<^verbatim>\<open>_read_relations\<close> of a lineage with a path\<close>

definition read_log_relations :: "host \<Rightarrow> bool \<Rightarrow> string set \<Rightarrow> log_file \<Rightarrow> lineage_relation list res" where
  "read_log_relations H strict known lf =
     (case log_node lf of
        Some FSSymlink \<Rightarrow> Inl LineageError
      | None \<Rightarrow> Inr []
      | Some FSDir \<Rightarrow> Inl LineageError
      | Some (FSFile b) \<Rightarrow>
          read_chain rel_relation_id rel_previous_relation_sha256 rel_relation_sha256 (relation_of_line H)
            (check_relation strict known) LineageError None [] (file_lines b))"

definition read_relations :: "host \<Rightarrow> lineage \<Rightarrow> lineage_relation list res" where
  "read_relations H L = (case lin_log L of
     None \<Rightarrow> Inr [] | Some lf \<Rightarrow> read_log_relations H (lin_strict L) (lin_known_ids L) lf)"

definition relations :: "host \<Rightarrow> lineage \<Rightarrow> lineage_relation list res" where
  "relations H L = (case lin_log L of None \<Rightarrow> Inr (lin_relations L) | Some _ \<Rightarrow> read_relations H L)"

text \<open>\<^verbatim>\<open>_hydrate_persisted_identities\<close>\<close>

definition hydrate :: "host \<Rightarrow> (lineage, unit) act" where
  "hydrate H L =
     (if lin_strict L \<or> (case lin_log L of None \<Rightarrow> True | Some lf \<Rightarrow> log_node lf = None) then (Inr (), L)
      else case read_relations H L of
          Inl e \<Rightarrow> (Inl e, L)
        | Inr rs \<Rightarrow> (Inr (), L\<lparr>lin_known_ids := lin_known_ids L \<union> set (map rel_subject_id rs)
                                  \<union> set (map rel_object_id rs)\<rparr>))"

text \<open>\<^verbatim>\<open>register_identity\<close>, \<^verbatim>\<open>register_artifact\<close> and \<^verbatim>\<open>register_step\<close> differ in the validator.\<close>

definition register_with :: "host \<Rightarrow> (string \<Rightarrow> string res) \<Rightarrow> string \<Rightarrow> (lineage, string) act" where
  "register_with H validator value =
     bindA (hydrate H) (\<lambda>_.
     bindA (liftA (validator value)) (\<lambda>validated.
     bindA (modifyA (\<lambda>L. L\<lparr>lin_known_ids := insert validated (lin_known_ids L), lin_strict := True\<rparr>)) (\<lambda>_.
     returnA validated)))"

definition register_identity :: "host \<Rightarrow> string \<Rightarrow> (lineage, string) act" where
  "register_identity H = register_with H validate_reference"

definition register_artifact :: "host \<Rightarrow> string \<Rightarrow> (lineage, string) act" where
  "register_artifact H = register_with H validate_artifact_id"

definition register_step :: "host \<Rightarrow> string \<Rightarrow> (lineage, string) act" where
  "register_step H = register_with H validate_identifier"

definition add_artifact :: "host \<Rightarrow> artifact_record \<Rightarrow> (lineage, lineage_relation list) act" where
  "add_artifact H r = bindA (register_artifact H (ar_artifact_id r)) (\<lambda>_. returnA [])"

section \<open>Adding relations\<close>

text \<open>The two calls of \<^verbatim>\<open>replace\<close>, and the duplicate check before them\<close>

definition seal_relation :: "host \<Rightarrow> string option \<Rightarrow> lineage_relation \<Rightarrow> lineage_relation res" where
  "seal_relation H previous_digest candidate =
     bindE (relation_init H (candidate\<lparr>rel_previous_relation_sha256 := previous_digest\<rparr>)) (\<lambda>prepared.
     bindE (relation_computed_sha256 H prepared) (\<lambda>digest.
     relation_init H (prepared\<lparr>rel_relation_sha256 := Some digest\<rparr>)))"

definition prepare_relation ::
    "host \<Rightarrow> lineage_relation list \<Rightarrow> lineage_relation \<Rightarrow> lineage_relation res" where
  "prepare_relation H existing candidate =
     (if list_ex (\<lambda>item. rel_relation_id item = rel_relation_id candidate) existing then Inl LineageError
      else seal_relation H (last_digest rel_relation_sha256 existing) candidate)"

definition append_in_memory :: "host \<Rightarrow> lineage_relation \<Rightarrow> (lineage, lineage_relation) act" where
  "append_in_memory H candidate L =
     (case prepare_relation H (lin_relations L) candidate of
        Inl e \<Rightarrow> (Inl e, L)
      | Inr persisted \<Rightarrow> (Inr persisted, L\<lparr>lin_relations := lin_relations L @ [persisted]\<rparr>))"

definition append_to_log ::
    "host \<Rightarrow> bool \<Rightarrow> string set \<Rightarrow> lineage_relation \<Rightarrow> (log_file, lineage_relation) act" where
  "append_to_log H strict known candidate =
     bindA locked_append (\<lambda>_.
     bindA (asksA (read_log_relations H strict known)) (\<lambda>existing.
     bindA (liftA (prepare_relation H existing candidate)) (\<lambda>persisted.
     bindA (liftA (relation_canonical_bytes persisted)) (\<lambda>line.
     bindA (append_all H (line @ [CHR 0x0A])) (\<lambda>_.
     returnA persisted)))))"

definition append_relation :: "host \<Rightarrow> lineage_relation \<Rightarrow> (lineage, lineage_relation) act" where
  "append_relation H candidate L =
     (case lin_log L of
        None \<Rightarrow> append_in_memory H candidate L
      | Some lf \<Rightarrow>
         (let (r, lf') = append_to_log H (lin_strict L) (lin_known_ids L) candidate lf
          in (r, L\<lparr>lin_log := Some lf'\<rparr>)))"

text \<open>The arguments of \<^verbatim>\<open>add_relation\<close>, with the UUID and the clock that its defaults read\<close>

record relation_args =
  ra_relation_type :: string
  ra_subject_id :: string
  ra_object_id :: string
  ra_relation_id :: "string option"
  ra_created_at :: "string option"
  ra_metadata :: "fields option"
  ra_uuid :: string
  ra_now :: int

definition relation_candidate :: "host \<Rightarrow> relation_args \<Rightarrow> string \<Rightarrow> lineage_relation res" where
  "relation_candidate H a rt =
     bindE (str_or (ra_relation_id a) (Inr (''rel_'' @ ra_uuid a))) (\<lambda>rid.
     bindE (str_or (ra_created_at a) (utc_timestamp H (True, ra_now a))) (\<lambda>ts.
     relation_init H
       \<lparr>rel_relation_type = rt, rel_subject_id = ra_subject_id a, rel_object_id = ra_object_id a,
        rel_relation_id = rid, rel_created_at = ts,
        rel_metadata = (case ra_metadata a of None \<Rightarrow> [] | Some md \<Rightarrow> md),
        rel_previous_relation_sha256 = None, rel_relation_sha256 = None\<rparr>))"

definition relation_request :: "host \<Rightarrow> relation_args \<Rightarrow> lineage \<Rightarrow> lineage_relation res" where
  "relation_request H a L =
     bindE (relation_value (ra_relation_type a)) (\<lambda>rt.
     bindE (validate_reference (ra_subject_id a)) (\<lambda>_.
     bindE (validate_reference (ra_object_id a)) (\<lambda>_.
     bindE (check_known (lin_strict L) (lin_known_ids L) (ra_subject_id a) (ra_object_id a)) (\<lambda>_.
     relation_candidate H a rt))))"

definition add_relation :: "host \<Rightarrow> relation_args \<Rightarrow> (lineage, lineage_relation) act" where
  "add_relation H a = bindA (asksA (relation_request H a)) (append_relation H)"

text \<open>\<^verbatim>\<open>add_relation_idempotent\<close>: the first relation with the ID decides.\<close>

definition same_semantics :: "host \<Rightarrow> lineage_relation \<Rightarrow> string \<Rightarrow> relation_args \<Rightarrow> string \<Rightarrow> fields \<Rightarrow> bool" where
  "same_semantics H existing rt a ts md =
     (rel_relation_type existing = rt \<and> rel_subject_id existing = ra_subject_id a
      \<and> rel_object_id existing = ra_object_id a \<and> rel_created_at existing = ts
      \<and> json_eq (float_eq H) (JObj (rel_metadata existing)) (JObj md))"

definition add_relation_idempotent :: "host \<Rightarrow> string \<Rightarrow> relation_args \<Rightarrow> (lineage, lineage_relation) act" where
  "add_relation_idempotent H relation_id a =
     bindA (liftA (relation_value (ra_relation_type a))) (\<lambda>rt.
     bindA (liftA (validate_reference (ra_subject_id a))) (\<lambda>_.
     bindA (liftA (validate_reference (ra_object_id a))) (\<lambda>_.
     bindA (liftA (validate_identifier relation_id)) (\<lambda>_.
     bindA (liftA (bindE (str_or (ra_created_at a) (utc_timestamp H (True, ra_now a)))
                    (normalize_timestamp H))) (\<lambda>ts.
     bindA (liftA (freeze_json_mapping (JObj (case ra_metadata a of None \<Rightarrow> [] | Some md \<Rightarrow> md)))) (\<lambda>md.
     bindA (asksA (relations H)) (\<lambda>existing_relations.
     case find (\<lambda>r. rel_relation_id r = relation_id) existing_relations of
       Some existing \<Rightarrow>
         if \<not> same_semantics H existing rt a ts md then raiseA LineageError else returnA existing
     | None \<Rightarrow>
         add_relation H (a\<lparr>ra_relation_type := rt, ra_relation_id := Some relation_id,
           ra_created_at := Some ts, ra_metadata := Some md\<rparr>))))))))"

text \<open>\<^verbatim>\<open>register\<close> of a prebuilt relation\<close>

definition register_relation :: "host \<Rightarrow> string \<Rightarrow> int \<Rightarrow> lineage_relation \<Rightarrow> (lineage, lineage_relation) act" where
  "register_relation H uuid now r =
     add_relation H \<lparr>ra_relation_type = rel_relation_type r, ra_subject_id = rel_subject_id r,
       ra_object_id = rel_object_id r, ra_relation_id = Some (rel_relation_id r),
       ra_created_at = Some (rel_created_at r), ra_metadata = Some (rel_metadata r),
       ra_uuid = uuid, ra_now = now\<rparr>"

text \<open>\<^verbatim>\<open>record_production\<close>; \<open>uuids n\<close> is the UUID of its \<open>n\<close>th relation.\<close>

definition production_args :: "string \<Rightarrow> string \<Rightarrow> string \<Rightarrow> string \<Rightarrow> fields \<Rightarrow> string \<Rightarrow> int \<Rightarrow> relation_args" where
  "production_args rt subj obj ts md uuid now =
     \<lparr>ra_relation_type = rt, ra_subject_id = subj, ra_object_id = obj, ra_relation_id = None,
      ra_created_at = Some ts, ra_metadata = Some md, ra_uuid = uuid, ra_now = now\<rparr>"

fun derive_all :: "host \<Rightarrow> string \<Rightarrow> string \<Rightarrow> fields \<Rightarrow> int \<Rightarrow> (nat \<Rightarrow> string) \<Rightarrow> nat \<Rightarrow> string list \<Rightarrow>
    (lineage, lineage_relation list) act" where
  "derive_all H artifact_id ts md now uuids n [] = returnA []"
| "derive_all H artifact_id ts md now uuids n (input_id # rest) =
     bindA (add_relation H (production_args ''DERIVED_FROM'' artifact_id input_id ts md (uuids n) now)) (\<lambda>r.
     bindA (derive_all H artifact_id ts md now uuids (Suc n) rest) (\<lambda>rs. returnA (r # rs)))"

definition record_production ::
    "host \<Rightarrow> (nat \<Rightarrow> string) \<Rightarrow> int \<Rightarrow> string \<Rightarrow> string \<Rightarrow> string list \<Rightarrow> fields option \<Rightarrow> string option \<Rightarrow>
     (lineage, lineage_relation list) act" where
  "record_production H uuids now artifact_id producer_step_id input_artifact_ids metadata created_at =
     bindA (liftA (validate_artifact_id artifact_id)) (\<lambda>aid.
     bindA (liftA (validate_identifier producer_step_id)) (\<lambda>sid.
     bindA (liftA (validate_artifact_ids input_artifact_ids)) (\<lambda>input_ids.
     bindA (register_artifact H aid) (\<lambda>_.
     bindA (register_step H sid) (\<lambda>_.
     bindA (mapA (register_artifact H) input_ids) (\<lambda>_.
     bindA (liftA (str_or created_at (utc_timestamp H (True, now)))) (\<lambda>ts.
     let md = (case metadata of None \<Rightarrow> [] | Some m \<Rightarrow> m) in
     bindA (add_relation H (production_args ''PRODUCED_BY'' aid sid ts md (uuids 0) now)) (\<lambda>produced.
     bindA (derive_all H aid ts md now uuids 1 input_ids) (\<lambda>derived.
     returnA (produced # derived))))))))))"

section \<open>Queries\<close>

definition for_subject :: "host \<Rightarrow> lineage \<Rightarrow> string \<Rightarrow> lineage_relation list res" where
  "for_subject H L subject_id =
     bindE (validate_reference subject_id) (\<lambda>_.
     bindE (relations H L) (\<lambda>rs. Inr (filter (\<lambda>r. rel_subject_id r = subject_id) rs)))"

definition for_object :: "host \<Rightarrow> lineage \<Rightarrow> string \<Rightarrow> lineage_relation list res" where
  "for_object H L object_id =
     bindE (validate_reference object_id) (\<lambda>_.
     bindE (relations H L) (\<lambda>rs. Inr (filter (\<lambda>r. rel_object_id r = object_id) rs)))"

definition related_objects :: "host \<Rightarrow> string \<Rightarrow> lineage \<Rightarrow> string \<Rightarrow> string list res" where
  "related_objects H rt L artifact_id =
     bindE (validate_artifact_id artifact_id) (\<lambda>_.
     bindE (for_subject H L artifact_id) (\<lambda>rs.
     Inr (map rel_object_id (filter (\<lambda>r. rel_relation_type r = rt) rs))))"

definition parents :: "host \<Rightarrow> lineage \<Rightarrow> string \<Rightarrow> string list res" where
  "parents H = related_objects H ''DERIVED_FROM''"

definition producer_steps :: "host \<Rightarrow> lineage \<Rightarrow> string \<Rightarrow> string list res" where
  "producer_steps H = related_objects H ''PRODUCED_BY''"

definition supported_by :: "host \<Rightarrow> lineage \<Rightarrow> string \<Rightarrow> string list res" where
  "supported_by H = related_objects H ''SUPPORTED_BY''"

definition validate_known_identities :: "host \<Rightarrow> lineage \<Rightarrow> unit res" where
  "validate_known_identities H L =
     bindE (relations H L) (\<lambda>rs.
     bindE (mapE (check_relation (lin_strict L) (lin_known_ids L)) rs) (\<lambda>_. Inr ()))"

section \<open>Lemmas: validation\<close>

lemma relation_value_fixed:
  assumes "rt \<in> set relation_types"
  shows "relation_value rt = Inr rt"
proof -
  have "relation_value ''CONSUMED_BY'' = Inr ''CONSUMED_BY''"
    "relation_value ''PRODUCED_BY'' = Inr ''PRODUCED_BY''"
    "relation_value ''DERIVED_FROM'' = Inr ''DERIVED_FROM''"
    "relation_value ''SUPPORTED_BY'' = Inr ''SUPPORTED_BY''" by code_simp+
  with assms show ?thesis by (auto simp: relation_types_def)
qed

lemma relation_value_eq: "relation_value s = Inr rt \<longleftrightarrow> rt = py_upper (py_strip s) \<and> rt \<in> set relation_types"
  by (auto simp: relation_value_def Let_def)

definition relation_checks :: "lineage_relation \<Rightarrow> bool" where
  "relation_checks r =
     (py_upper (py_strip (rel_relation_type r)) \<in> set relation_types
      \<and> is_identifier (rel_relation_id r) \<and> is_reference (rel_subject_id r)
      \<and> is_reference (rel_object_id r) \<and> fields_ok (rel_metadata r)
      \<and> pred_option is_sha256 (rel_previous_relation_sha256 r)
      \<and> pred_option is_sha256 (rel_relation_sha256 r))"

lemma okE_validate_sha256 [simp]: "okE (validate_sha256 s) = is_sha256 s"
  by (auto simp: okE_eq)

lemma relation_init_eq: "relation_init H r = Inr r' \<longleftrightarrow>
    relation_checks r \<and> (\<exists>ts. normalize_timestamp H (rel_created_at r) = Inr ts
      \<and> r' = r\<lparr>rel_relation_type := py_upper (py_strip (rel_relation_type r)), rel_created_at := ts\<rparr>)"
  by (auto simp: relation_init_def relation_checks_def relation_value_eq pred_option_alt)

lemma relation_init_type:
  assumes "relation_init H r = Inr r'"
  shows "rel_relation_type r' \<in> set relation_types" "py_upper (py_strip (rel_relation_type r')) = rel_relation_type r'"
proof -
  show t: "rel_relation_type r' \<in> set relation_types"
    using assms by (auto simp: relation_init_eq relation_checks_def)
  show "py_upper (py_strip (rel_relation_type r')) = rel_relation_type r'"
    using relation_value_fixed [OF t] by (simp add: relation_value_eq)
qed

lemma relation_init_checks: "relation_init H r = Inr r' \<Longrightarrow> relation_checks r'"
  using relation_init_type [of H r r'] by (auto simp: relation_init_eq relation_checks_def)

lemma relation_init_fixed:
  assumes "iso_lawful H" "relation_init H r = Inr r'"
  shows "relation_init H r' = Inr r'"
proof -
  obtain ts where ts: "normalize_timestamp H (rel_created_at r) = Inr ts" "rel_created_at r' = ts"
    using assms(2) by (auto simp: relation_init_eq)
  then have "normalize_timestamp H (rel_created_at r') = Inr (rel_created_at r')"
    using normalize_timestamp_fixed [OF assms(1)] by blast
  moreover have "r'\<lparr>rel_relation_type := py_upper (py_strip (rel_relation_type r')), rel_created_at := rel_created_at r'\<rparr> = r'"
    by (simp add: relation_init_type(2) [OF assms(2)])
  ultimately show ?thesis
    using relation_init_checks [OF assms(2)] unfolding relation_init_eq by metis
qed

lemma relation_init_keeps:
  assumes "relation_init H r = Inr r'"
  shows "rel_relation_id r' = rel_relation_id r" "rel_subject_id r' = rel_subject_id r"
    "rel_object_id r' = rel_object_id r" "rel_metadata r' = rel_metadata r"
    "rel_previous_relation_sha256 r' = rel_previous_relation_sha256 r"
    "rel_relation_sha256 r' = rel_relation_sha256 r"
    "normalize_timestamp H (rel_created_at r) = Inr (rel_created_at r')"
    "rel_relation_type r' = py_upper (py_strip (rel_relation_type r))"
  using assms by (auto simp: relation_init_eq)

section \<open>Lemmas: the JSON form and the chain\<close>

definition canon_relation :: "lineage_relation \<Rightarrow> lineage_relation" where
  "canon_relation r = r\<lparr>rel_metadata := norm_obj (rel_metadata r)\<rparr>"

lemma canon_relation_simps [simp]:
  "rel_relation_type (canon_relation r) = rel_relation_type r"
  "rel_subject_id (canon_relation r) = rel_subject_id r" "rel_object_id (canon_relation r) = rel_object_id r"
  "rel_relation_id (canon_relation r) = rel_relation_id r" "rel_created_at (canon_relation r) = rel_created_at r"
  "rel_metadata (canon_relation r) = norm_obj (rel_metadata r)"
  "rel_previous_relation_sha256 (canon_relation r) = rel_previous_relation_sha256 r"
  "rel_relation_sha256 (canon_relation r) = rel_relation_sha256 r"
  by (simp_all add: canon_relation_def)

lemma relation_checks_canon [simp]: "relation_checks (canon_relation r) = relation_checks r"
  by (simp add: relation_checks_def)

lemma relation_init_canon:
  "relation_init H r = Inr r' \<Longrightarrow> relation_init H (canon_relation r) = Inr (canon_relation r')"
  by (auto simp: relation_init_eq canon_relation_def relation_checks_def)

lemma relation_fields_lookup [simp]:
  "map_of (relation_fields r) ''relation_type'' = Some (JStr (rel_relation_type r))"
  "map_of (relation_fields r) ''subject_id'' = Some (JStr (rel_subject_id r))"
  "map_of (relation_fields r) ''object_id'' = Some (JStr (rel_object_id r))"
  "map_of (relation_fields r) ''relation_id'' = Some (JStr (rel_relation_id r))"
  "map_of (relation_fields r) ''created_at'' = Some (JStr (rel_created_at r))"
  "map_of (relation_fields r) ''metadata'' = Some (JObj (rel_metadata r))"
  "map_of (relation_fields r) ''previous_relation_sha256'' = Some (jstr_opt (rel_previous_relation_sha256 r))"
  "map_of (relation_fields r) ''relation_sha256'' = Some (jstr_opt (rel_relation_sha256 r))"
  by (simp_all add: relation_fields_def relation_body_def)

lemma relation_decode_fields:
  "relation_decode H (relation_fields r) = relation_init H r"
  "relation_decode H (norm_obj (relation_fields r)) = relation_init H (canon_relation r)"
  by (cases r; simp add: relation_decode_def jitem_def jget_def jget_or_def canon_relation_def)+

lemma relation_dict_canon: "jnorm (relation_to_dict (canon_relation r)) = jnorm (relation_to_dict r)"
  by (simp add: relation_to_dict_def) (rule norm_obj_cong,
    simp add: relation_fields_def relation_body_def canon_relation_def)

lemma relation_body_canon: "norm_obj (relation_body (canon_relation r)) = norm_obj (relation_body r)"
  by (rule norm_obj_cong) (simp add: relation_body_def canon_relation_def)

lemma relation_computed_canon [simp]:
  "relation_computed_sha256 H (canon_relation r) = relation_computed_sha256 H r"
  unfolding relation_computed_sha256_def
  by (subst canonical_json_bytes_cong [of _ "JObj (relation_body r)"]) (simp_all add: relation_body_canon)

lemma relation_body_digest [simp]: "relation_body (r\<lparr>rel_relation_sha256 := d\<rparr>) = relation_body r"
  by (simp add: relation_body_def)

lemma relation_computed_digest [simp]:
  "relation_computed_sha256 H (r\<lparr>rel_relation_sha256 := d\<rparr>) = relation_computed_sha256 H r"
  by (simp add: relation_computed_sha256_def)

definition relation_sealed :: "host \<Rightarrow> lineage_relation \<Rightarrow> bool" where
  "relation_sealed H r = (case rel_relation_sha256 r of
     None \<Rightarrow> False | Some d \<Rightarrow> relation_computed_sha256 H r = Inr d)"

definition relation_wf :: "host \<Rightarrow> lineage_relation \<Rightarrow> bool" where
  "relation_wf H r = (relation_init H r = Inr r \<and> relation_sealed H r)"

lemma relation_sealed_stored: "relation_sealed H r \<Longrightarrow> rel_relation_sha256 r \<noteq> None"
  by (auto simp: relation_sealed_def split: option.splits)

lemma relation_wf_canon: "relation_wf H r \<Longrightarrow> relation_wf H (canon_relation r)"
  by (simp add: relation_wf_def relation_init_canon relation_sealed_def split: option.splits)

lemma relation_from_dict_fields:
  "relation_wf H r \<Longrightarrow> relation_from_dict H (relation_to_dict r) = Inr r"
  "relation_wf H r \<Longrightarrow> relation_from_dict H (jnorm (relation_to_dict r)) = Inr (canon_relation r)"
  using relation_wf_canon [of H r]
  by (auto simp: relation_from_dict_def relation_to_dict_def relation_decode_fields relation_wf_def
      relation_sealed_def split: option.splits)

interpretation relation_codec: record_codec relation_to_dict "relation_from_dict H" "relation_wf H" canon_relation
  for H
  by unfold_locales (simp_all add: relation_from_dict_fields relation_dict_canon)

lemma relation_from_dict_sealed: "relation_from_dict H v = Inr r \<Longrightarrow> relation_sealed H r"
  by (auto simp: relation_from_dict_def relation_sealed_def split: json.splits option.splits if_splits)

lemma relation_from_dict_wf:
  assumes "iso_lawful H" "relation_from_dict H v = Inr r"
  shows "relation_wf H r"
proof -
  from assms(2) obtain d where "v = JObj d" by (cases v) (simp_all add: relation_from_dict_def)
  with assms(2) have "relation_decode H d = Inr r"
    by (auto simp: relation_from_dict_def split: option.splits if_splits)
  then obtain r0 where "relation_init H r0 = Inr r" by (auto simp: relation_decode_def)
  with relation_from_dict_sealed [OF assms(2)] relation_init_fixed [OF assms(1)] show ?thesis
    by (simp add: relation_wf_def)
qed

lemma relation_keys_ok [simp]:
  "\<not> sensitive_key ''relation_type''" "\<not> sensitive_key ''subject_id''" "\<not> sensitive_key ''object_id''"
  "\<not> sensitive_key ''relation_id''" "\<not> sensitive_key ''created_at''"
  "\<not> sensitive_key ''previous_relation_sha256''" "\<not> sensitive_key ''relation_sha256''"
  by (simp_all add: sensitive_key_eval)

lemma relation_canonical_eq: "relation_checks r \<Longrightarrow>
    relation_canonical_bytes r = Inr (json_dumps (relation_to_dict r))"
  by (simp add: relation_canonical_bytes_def canonical_json_bytes_eq relation_to_dict_def
      relation_fields_def relation_body_def relation_checks_def)

lemma relation_computed_eq: "relation_checks r \<Longrightarrow>
    relation_computed_sha256 H r = Inr (sha256 H (json_dumps (JObj (relation_body r))))"
  by (simp add: relation_computed_sha256_def canonical_json_bytes_eq sha256_bytes_def
      relation_body_def relation_checks_def)

lemma seal_relation_keeps:
  assumes "seal_relation H p r = Inr r'"
  shows "rel_relation_id r' = rel_relation_id r" "rel_subject_id r' = rel_subject_id r"
    "rel_object_id r' = rel_object_id r" "rel_metadata r' = rel_metadata r"
    "rel_previous_relation_sha256 r' = p" "rel_relation_sha256 r' \<noteq> None"
  using assms by (auto simp: seal_relation_def relation_init_keeps)

lemma seal_relation_wf:
  assumes "iso_lawful H" "seal_relation H p r = Inr r'"
  shows "relation_wf H r'"
proof -
  from assms(2) obtain q d where q: "relation_init H (r\<lparr>rel_previous_relation_sha256 := p\<rparr>) = Inr q"
    "relation_computed_sha256 H q = Inr d" "relation_init H (q\<lparr>rel_relation_sha256 := Some d\<rparr>) = Inr r'"
    by (auto simp: seal_relation_def)
  have "relation_init H q = Inr q" by (rule relation_init_fixed [OF assms(1) q(1)])
  then have "rel_created_at r' = rel_created_at q" "rel_relation_type r' = rel_relation_type q"
    using relation_init_keeps(7,8) [OF q(3)] relation_init_keeps(7,8) [of H q q] by simp_all
  then have "r' = q\<lparr>rel_relation_sha256 := Some d\<rparr>"
    using q(3) by (auto simp: relation_init_eq)
  with q(2) have "relation_sealed H r'" by (simp add: relation_sealed_def)
  with relation_init_fixed [OF assms(1) q(3)] show ?thesis by (simp add: relation_wf_def)
qed

definition relation_json_wf :: "host \<Rightarrow> lineage_relation \<Rightarrow> bool" where
  "relation_json_wf H r = json_wf (float_of H) (JObj (rel_metadata r))"

lemma relation_json_wf_dict: "relation_json_wf H r \<Longrightarrow> json_wf (float_of H) (relation_to_dict r)"
  by (simp add: relation_json_wf_def relation_to_dict_def relation_fields_def relation_body_def)

definition relation_entry_sealed :: "host \<Rightarrow> lineage_relation \<Rightarrow> bool" where
  "relation_entry_sealed H r = (rel_relation_sha256 r \<noteq> None \<and> (iso_lawful H \<longrightarrow> relation_wf H r))"

interpretation lineage_log: chained_log rel_relation_id rel_previous_relation_sha256 rel_relation_sha256
    "relation_entry_sealed H" "seal_relation H" canon_relation "relation_of_line H"
    "\<lambda>r. json_dumps (relation_to_dict r)" "check_relation strict known"
    "\<lambda>r. iso_lawful H \<and> relation_json_wf H r" LineageError
  for H strict known
proof unfold_locales
  fix l r
  assume "relation_of_line H l = Inr r"
  then obtain v where "relation_from_dict H v = Inr r"
    by (auto simp: relation_of_line_def split: option.splits)
  then show "relation_entry_sealed H r"
    using relation_sealed_stored [OF relation_from_dict_sealed] relation_from_dict_wf
    by (simp add: relation_entry_sealed_def)
next
  fix r
  assume "relation_entry_sealed H r" "iso_lawful H \<and> relation_json_wf H r"
  then show "relation_of_line H (json_dumps (relation_to_dict r)) = Inr (canon_relation r)"
    using relation_codec.persisted [OF _ relation_json_wf_dict, of H r H]
    by (simp add: relation_of_line_def relation_entry_sealed_def)
next
  fix r
  assume "iso_lawful H \<and> relation_json_wf H r"
  then show "CHR 0x0A \<notin> set (json_dumps (relation_to_dict r))"
    using json_dumps_no_newline [OF relation_json_wf_dict] by blast
qed (auto simp: relation_entry_sealed_def seal_relation_keeps dest: seal_relation_wf)

section \<open>Lemmas: the file implements the memory\<close>

text \<open>\<open>backs H M L\<close>: the file of \<open>L\<close> holds the relations that \<open>M\<close> holds in memory.\<close>

definition backs :: "host \<Rightarrow> lineage \<Rightarrow> lineage \<Rightarrow> bool" where
  "backs H M L = (lin_log M = None \<and> lin_known_ids L = lin_known_ids M \<and> lin_strict L = lin_strict M
     \<and> (case lin_log L of None \<Rightarrow> False
        | Some lf \<Rightarrow> \<not> ancestor_symlink lf
            \<and> read_log_relations H (lin_strict L) (lin_known_ids L) lf = Inr (map canon_relation (lin_relations M))))"

lemma last_digest_canon [simp]:
  "last_digest rel_relation_sha256 (map canon_relation rs) = last_digest rel_relation_sha256 rs"
  by (simp add: last_digest_def last_map)

lemma prepare_relation_canon [simp]: "prepare_relation H (map canon_relation rs) c = prepare_relation H rs c"
  by (simp add: prepare_relation_def list_ex_iff)

lemma prepare_relation_props:
  assumes "prepare_relation H existing c = Inr p"
  shows "rel_relation_id c \<notin> rel_relation_id ` set existing"
    "seal_relation H (last_digest rel_relation_sha256 existing) c = Inr p"
  using assms by (auto simp: prepare_relation_def list_ex_iff split: if_splits)

lemma read_log_cases:
  assumes "read_log_relations H strict known lf = Inr rs" "\<not> ancestor_symlink lf"
  obtains b where "locked_append lf = (Inr (), lf\<lparr>log_node := Some (FSFile b)\<rparr>)"
    "read_log_relations H strict known (lf\<lparr>log_node := Some (FSFile b)\<rparr>) = Inr rs"
proof (cases "log_node lf")
  case None
  with assms show ?thesis
    by (intro that [of "[]"]) (auto simp: locked_append_def read_log_relations_def file_lines_def)
next
  case (Some n)
  with assms(1) obtain b where "n = FSFile b" by (cases n) (auto simp: read_log_relations_def)
  with assms Some show ?thesis
    by (intro that [of b]) (auto simp: locked_append_def read_log_relations_def)
qed

lemma append_to_log_file:
  assumes "os_lawful H" "iso_lawful H" "\<not> ancestor_symlink lf"
    and "read_log_relations H strict known lf = Inr (map canon_relation rs)"
    and "relation_json_wf H c" "check_relation strict known c = Inr ()"
  shows "\<exists>lf'. append_to_log H strict known c lf = (prepare_relation H rs c, lf') \<and> \<not> ancestor_symlink lf'
    \<and> read_log_relations H strict known lf' = Inr (map canon_relation (case prepare_relation H rs c of
        Inl _ \<Rightarrow> rs | Inr p \<Rightarrow> rs @ [p]))"
proof -
  from read_log_cases [OF assms(4,3)] obtain b where
    b: "locked_append lf = (Inr (), lf\<lparr>log_node := Some (FSFile b)\<rparr>)"
      "read_log_relations H strict known (lf\<lparr>log_node := Some (FSFile b)\<rparr>) = Inr (map canon_relation rs)" .
  let ?lf = "lf\<lparr>log_node := Some (FSFile b)\<rparr>"
  show ?thesis
  proof (cases "prepare_relation H rs c")
    case (Inl e)
    then have "append_to_log H strict known c lf = (Inl e, ?lf)" using b by (simp add: append_to_log_def bindA_def)
    with Inl b(2) assms(3) show ?thesis by (intro exI [of _ ?lf]) simp
  next
    case (Inr p)
    note q = prepare_relation_props [OF Inr]
    note k = seal_relation_keeps [OF q(2)] and wf = seal_relation_wf [OF assms(2) q(2)]
    have jwf: "relation_json_wf H p" using assms(5) k(4) by (simp add: relation_json_wf_def)
    have bytes: "relation_canonical_bytes p = Inr (json_dumps (relation_to_dict p))"
      by (rule relation_canonical_eq) (use wf in \<open>auto simp: relation_wf_def intro: relation_init_checks\<close>)
    let ?lf' = "lf\<lparr>log_node := Some (FSFile (b @ json_dumps (relation_to_dict p) @ [CHR 0x0A]))\<rparr>"
    have "append_to_log H strict known c lf = (Inr p, ?lf')"
      using b bytes Inr append_all_lawful [OF assms(1), of ?lf b] by (simp add: append_to_log_def bindA_def)
    moreover have "read_log_relations H strict known ?lf' = Inr (map canon_relation rs @ [canon_relation p])"
      using lineage_log.read_extended [of H strict known b "map canon_relation rs" c p] b(2) q jwf assms(2,6) k
      by (simp add: read_log_relations_def check_relation_def image_image)
    ultimately show ?thesis using assms(3) Inr by (intro exI [of _ ?lf']) simp
  qed
qed

lemma append_relation_backs:
  assumes "os_lawful H" "iso_lawful H" "backs H M L" "relation_json_wf H c"
    and "check_relation (lin_strict L) (lin_known_ids L) c = Inr ()"
  shows "fst (append_relation H c L) = fst (append_relation H c M)
    \<and> backs H (snd (append_relation H c M)) (snd (append_relation H c L))"
proof -
  from assms(3) obtain lf where lf: "lin_log L = Some lf" "lin_log M = None" "\<not> ancestor_symlink lf"
    "read_log_relations H (lin_strict L) (lin_known_ids L) lf = Inr (map canon_relation (lin_relations M))"
    by (auto simp: backs_def split: option.splits)
  from append_to_log_file [OF assms(1,2) lf(3,4) assms(4,5)] obtain lf' where
    lf': "append_to_log H (lin_strict L) (lin_known_ids L) c lf = (prepare_relation H (lin_relations M) c, lf')"
    "\<not> ancestor_symlink lf'"
    "read_log_relations H (lin_strict L) (lin_known_ids L) lf' = Inr (map canon_relation
      (case prepare_relation H (lin_relations M) c of Inl _ \<Rightarrow> lin_relations M | Inr p \<Rightarrow> lin_relations M @ [p]))"
    by blast
  have same: "lin_known_ids L = lin_known_ids M" "lin_strict L = lin_strict M"
    using assms(3) by (simp_all add: backs_def)
  show ?thesis
  proof (cases "prepare_relation H (lin_relations M) c")
    case (Inl e)
    with lf lf' same show ?thesis by (simp add: append_relation_def append_in_memory_def backs_def)
  next
    case (Inr p)
    with lf lf' same show ?thesis by (simp add: append_relation_def append_in_memory_def backs_def)
  qed
qed

lemma relation_request_props:
  assumes "relation_request H a L = Inr c"
  shows "check_relation (lin_strict L) (lin_known_ids L) c = Inr ()"
    "rel_metadata c = (case ra_metadata a of None \<Rightarrow> [] | Some md \<Rightarrow> md)"
    "rel_subject_id c = ra_subject_id a" "rel_object_id c = ra_object_id a"
    "rel_relation_type c = py_upper (py_strip (ra_relation_type a))" "relation_checks c"
proof -
  from assms obtain rt r0 where c: "relation_value (ra_relation_type a) = Inr rt" "relation_init H r0 = Inr c"
    "rel_relation_type r0 = rt" "rel_subject_id r0 = ra_subject_id a" "rel_object_id r0 = ra_object_id a"
    "rel_metadata r0 = (case ra_metadata a of None \<Rightarrow> [] | Some md \<Rightarrow> md)"
    "check_known (lin_strict L) (lin_known_ids L) (ra_subject_id a) (ra_object_id a) = Inr ()"
    by (auto simp: relation_request_def relation_candidate_def)
  note k = relation_init_keeps [OF c(2)]
  from c k show "check_relation (lin_strict L) (lin_known_ids L) c = Inr ()"
    "rel_metadata c = (case ra_metadata a of None \<Rightarrow> [] | Some md \<Rightarrow> md)"
    "rel_subject_id c = ra_subject_id a" "rel_object_id c = ra_object_id a"
    by (simp_all add: check_relation_def)
  have "relation_value rt = Inr rt" using c(1) by (intro relation_value_fixed) (auto simp: relation_value_eq)
  with c(1,3) k(8) show "rel_relation_type c = py_upper (py_strip (ra_relation_type a))"
    by (simp add: relation_value_eq)
  show "relation_checks c" by (rule relation_init_checks [OF c(2)])
qed

definition args_json_wf :: "host \<Rightarrow> relation_args \<Rightarrow> bool" where
  "args_json_wf H a = (case ra_metadata a of None \<Rightarrow> True | Some md \<Rightarrow> json_wf (float_of H) (JObj md))"

lemma request_json_wf: "relation_request H a L = Inr c \<Longrightarrow> args_json_wf H a \<Longrightarrow> relation_json_wf H c"
  using relation_request_props(2) [of H a L c]
  by (auto simp: relation_json_wf_def args_json_wf_def split: option.splits)

lemma relation_request_backs: "backs H M L \<Longrightarrow> relation_request H a L = relation_request H a M"
  by (simp add: relation_request_def backs_def)

lemma add_relation_backs:
  assumes "os_lawful H" "iso_lawful H" "backs H M L" "args_json_wf H a"
  shows "fst (add_relation H a L) = fst (add_relation H a M)
    \<and> backs H (snd (add_relation H a M)) (snd (add_relation H a L))"
proof (cases "relation_request H a M")
  case (Inl e)
  with assms(3) relation_request_backs [OF assms(3), of a] show ?thesis
    by (simp add: add_relation_def bindA_def)
next
  case (Inr c)
  with relation_request_backs [OF assms(3), of a] have "relation_request H a L = Inr c" by simp
  with append_relation_backs [OF assms(1-3) request_json_wf relation_request_props(1)] Inr assms(4)
  show ?thesis by (simp add: add_relation_def bindA_def)
qed

section \<open>Lemmas: adding twice\<close>

lemma append_relation_result:
  assumes "append_relation H c L = (Inr p, L')" "relation_json_wf H c"
    and "check_relation (lin_strict L) (lin_known_ids L) c = Inr ()"
    and "os_lawful H" "iso_lawful H" "relations H L = Inr rs"
  shows "\<exists>p'. (p' = p \<or> p' = canon_relation p) \<and> relations H L' = Inr (rs @ [p'])
    \<and> prepare_relation H rs c = Inr p \<and> lin_known_ids L' = lin_known_ids L \<and> lin_strict L' = lin_strict L"
proof (cases "lin_log L")
  case None
  with assms show ?thesis
    by (auto simp: append_relation_def append_in_memory_def relations_def split: sum.splits)
next
  case (Some lf)
  with assms(6) have r: "read_log_relations H (lin_strict L) (lin_known_ids L) lf = Inr rs"
    by (simp add: relations_def read_relations_def)
  have na: "\<not> ancestor_symlink lf"
    using assms(1) Some by (auto simp: append_relation_def append_to_log_def locked_append_def bindA_def
        split: if_splits)
  from read_log_cases [OF r na] obtain b where
    b: "locked_append lf = (Inr (), lf\<lparr>log_node := Some (FSFile b)\<rparr>)"
      "read_log_relations H (lin_strict L) (lin_known_ids L) (lf\<lparr>log_node := Some (FSFile b)\<rparr>) = Inr rs" .
  have prep: "prepare_relation H rs c = Inr p"
    using assms(1) Some b by (auto simp: append_relation_def append_to_log_def bindA_def split: sum.splits prod.splits)
  note q = prepare_relation_props [OF prep]
  note k = seal_relation_keeps [OF q(2)] and wf = seal_relation_wf [OF assms(5) q(2)]
  have jwf: "relation_json_wf H p" using assms(2) k(4) by (simp add: relation_json_wf_def)
  have bytes: "relation_canonical_bytes p = Inr (json_dumps (relation_to_dict p))"
    by (rule relation_canonical_eq) (use wf in \<open>auto simp: relation_wf_def intro: relation_init_checks\<close>)
  let ?lf' = "lf\<lparr>log_node := Some (FSFile (b @ json_dumps (relation_to_dict p) @ [CHR 0x0A]))\<rparr>"
  have "L' = L\<lparr>lin_log := Some ?lf'\<rparr>"
    using assms(1) Some b prep bytes append_all_lawful [OF assms(4), of "lf\<lparr>log_node := Some (FSFile b)\<rparr>" b]
    by (simp add: append_relation_def append_to_log_def bindA_def)
  moreover have "read_log_relations H (lin_strict L) (lin_known_ids L) ?lf' = Inr (rs @ [canon_relation p])"
    using lineage_log.read_extended [of H "lin_strict L" "lin_known_ids L" b rs c p] b(2) q jwf assms(3,5) k
    by (simp add: read_log_relations_def check_relation_def)
  ultimately show ?thesis using prep by (auto simp: relations_def read_relations_def)
qed

lemma find_new: "find P (rs @ [x]) = Some x" if "find P rs = None" "P x"
  using that by (induction rs) (auto split: if_splits)

definition idem_args :: "string \<Rightarrow> relation_args \<Rightarrow> string \<Rightarrow> string \<Rightarrow> fields \<Rightarrow> relation_args" where
  "idem_args relation_id a rt ts md = a\<lparr>ra_relation_type := rt, ra_relation_id := Some relation_id,
     ra_created_at := Some ts, ra_metadata := Some md\<rparr>"

text \<open>The checked arguments of the idempotent addition\<close>

definition idem_request :: "host \<Rightarrow> string \<Rightarrow> relation_args \<Rightarrow> (string \<times> string \<times> fields) res" where
  "idem_request H relation_id a =
     bindE (relation_value (ra_relation_type a)) (\<lambda>rt.
     bindE (validate_reference (ra_subject_id a)) (\<lambda>_.
     bindE (validate_reference (ra_object_id a)) (\<lambda>_.
     bindE (validate_identifier relation_id) (\<lambda>_.
     bindE (bindE (str_or (ra_created_at a) (utc_timestamp H (True, ra_now a))) (normalize_timestamp H)) (\<lambda>ts.
     bindE (freeze_json_mapping (JObj (case ra_metadata a of None \<Rightarrow> [] | Some md \<Rightarrow> md))) (\<lambda>md.
     Inr (rt, ts, md)))))))"

lemma idempotent_unfold:
  "add_relation_idempotent H relation_id a L =
     (case idem_request H relation_id a of
        Inl e \<Rightarrow> (Inl e, L)
      | Inr (rt, ts, md) \<Rightarrow>
         (case relations H L of
            Inl e \<Rightarrow> (Inl e, L)
          | Inr rs \<Rightarrow>
             (case find (\<lambda>r. rel_relation_id r = relation_id) rs of
                Some x \<Rightarrow> (if \<not> same_semantics H x rt a ts md then (Inl LineageError, L) else (Inr x, L))
              | None \<Rightarrow> add_relation H (idem_args relation_id a rt ts md) L)))"
  unfolding add_relation_idempotent_def idem_request_def idem_args_def bindA_def
  by (simp add: bindE_def split: sum.split option.split)

lemma idem_request_props:
  assumes "idem_request H relation_id a = Inr (rt, ts, md)"
  shows "rt = py_upper (py_strip (ra_relation_type a))" "rt \<in> set relation_types"
    "\<exists>t. normalize_timestamp H t = Inr ts" "is_identifier relation_id"
    "md = (case ra_metadata a of None \<Rightarrow> [] | Some md \<Rightarrow> md)"
  using assms by (auto simp: idem_request_def relation_value_eq split: if_splits)

lemma normalized_nonempty: "iso_lawful H \<Longrightarrow> normalize_timestamp H t = Inr ts \<Longrightarrow> ts \<noteq> []"
  using normalize_timestamp_fixed [of H t ts] by (auto simp: normalize_timestamp_def py_strip_def strip_by_def)

text \<open>What an idempotent addition leaves behind: a relation with the ID and the requested meaning\<close>

lemma idem_stored:
  assumes "os_lawful H" "iso_lawful H" "args_json_wf H a" "idem_request H relation_id a = Inr (rt, ts, md)"
    and "relations H L = Inr rs" "find (\<lambda>r. rel_relation_id r = relation_id) rs = None"
    and "add_relation H (idem_args relation_id a rt ts md) L = (Inr p, L')"
  shows "\<exists>p'. (p' = p \<or> p' = canon_relation p) \<and> relations H L' = Inr (rs @ [p'])
    \<and> rel_relation_id p' = relation_id \<and> same_semantics H p' rt a ts md"
proof -
  let ?a = "idem_args relation_id a rt ts md"
  note q = idem_request_props [OF assms(4)]
  from assms(7) obtain c where c: "relation_request H ?a L = Inr c" "append_relation H c L = (Inr p, L')"
    by (auto simp: add_relation_def bindA_eq_Inr)
  obtain t where "normalize_timestamp H t = Inr ts" using q(3) by blast
  note ts = normalized_nonempty [OF assms(2) this] normalize_timestamp_fixed [OF assms(2) this]
  have "relation_id \<noteq> []" using q(4) by (auto simp: is_identifier_def)
  with c(1) ts have c': "rel_relation_id c = relation_id" "rel_created_at c = ts"
    by (cases relation_id; cases ts; auto simp: relation_request_def relation_candidate_def idem_args_def
        relation_init_eq)+
  have md: "json_wf (float_of H) (JObj md)" using assms(3) q(5) by (auto simp: args_json_wf_def split: option.splits)
  then have jwf: "relation_json_wf H c"
    using relation_request_props(2) [OF c(1)] by (simp add: relation_json_wf_def idem_args_def)
  from append_relation_result [OF c(2) jwf relation_request_props(1) [OF c(1)] assms(1,2,5)]
  obtain p' where p': "p' = p \<or> p' = canon_relation p" "relations H L' = Inr (rs @ [p'])"
    "prepare_relation H rs c = Inr p" by blast
  note s = prepare_relation_props(2) [OF p'(3)]
  note k = seal_relation_keeps [OF s]
  have "rt = rel_relation_type c"
    using relation_request_props(5) [OF c(1)] relation_value_fixed [OF q(2)]
    by (simp add: idem_args_def relation_value_eq)
  moreover have "rel_relation_type p = rel_relation_type c" "rel_created_at p = rel_created_at c"
  proof -
    from s obtain x d where x: "relation_init H (c\<lparr>rel_previous_relation_sha256 := last_digest rel_relation_sha256 rs\<rparr>) = Inr x"
      "relation_init H (x\<lparr>rel_relation_sha256 := Some d\<rparr>) = Inr p" by (auto simp: seal_relation_def)
    show "rel_created_at p = rel_created_at c"
      using relation_init_keeps(7) [OF x(1)] relation_init_keeps(7) [OF x(2)] c'(2) ts(2) by simp
    show "rel_relation_type p = rel_relation_type c"
      using relation_init_keeps(8) [OF x(1)] relation_init_keeps(8) [OF x(2)] relation_init_type(2) [OF x(1)]
        relation_value_fixed [OF q(2)] \<open>rt = rel_relation_type c\<close> by (simp add: relation_value_eq)
  qed
  moreover have "json_eq (float_eq H) (JObj (rel_metadata p')) (JObj md)"
  proof -
    have "rel_metadata p = md" using k(4) relation_request_props(2) [OF c(1)] by (simp add: idem_args_def)
    then show ?thesis
      using p'(1) json_eq_jnorm [OF md, of "float_eq H"] json_eq_refl [OF md, of "float_eq H"] by (elim disjE) simp_all
  qed
  ultimately have "same_semantics H p' rt a ts md" "rel_relation_id p' = relation_id"
    using p'(1) k c' relation_request_props(3,4) [OF c(1)]
    by (auto simp: same_semantics_def idem_args_def simp del: json_eq.simps)
  with p' show ?thesis by blast
qed

section \<open>Lemmas: production in memory\<close>

lemma seal_relation_type:
  assumes "seal_relation H d c = Inr p" "rel_relation_type c \<in> set relation_types"
  shows "rel_relation_type p = rel_relation_type c"
proof -
  have n: "py_upper (py_strip (rel_relation_type c)) = rel_relation_type c"
    using relation_value_fixed [OF assms(2)] by (simp add: relation_value_eq)
  from assms(1) obtain x y where x: "relation_init H (c\<lparr>rel_previous_relation_sha256 := d\<rparr>) = Inr x"
    "relation_init H (x\<lparr>rel_relation_sha256 := Some y\<rparr>) = Inr p" by (auto simp: seal_relation_def)
  with n relation_init_keeps(8) [OF x(1)] relation_init_keeps(8) [OF x(2)] show ?thesis by simp
qed

lemma append_in_memory_eq: "append_in_memory H c L = (Inr p, L') \<longleftrightarrow>
    prepare_relation H (lin_relations L) c = Inr p \<and> L' = L\<lparr>lin_relations := lin_relations L @ [p]\<rparr>"
  by (cases "prepare_relation H (lin_relations L) c") (auto simp: append_in_memory_def)

lemma add_in_memory:
  assumes "lin_log L = None" "add_relation H a L = (Inr p, L')"
  shows "L' = L\<lparr>lin_relations := lin_relations L @ [p]\<rparr>" "rel_subject_id p = ra_subject_id a"
    "rel_object_id p = ra_object_id a" "rel_relation_type p = py_upper (py_strip (ra_relation_type a))"
proof -
  from assms obtain c where c: "relation_request H a L = Inr c"
    "prepare_relation H (lin_relations L) c = Inr p" "L' = L\<lparr>lin_relations := lin_relations L @ [p]\<rparr>"
    by (auto simp: add_relation_def bindA_eq_Inr append_relation_def append_in_memory_eq)
  note s = prepare_relation_props(2) [OF c(2)] and r = relation_request_props [OF c(1)]
  have t: "rel_relation_type c \<in> set relation_types"
    using c(1) by (auto simp: relation_request_def relation_candidate_def intro: relation_init_type)
  show "L' = L\<lparr>lin_relations := lin_relations L @ [p]\<rparr>" by (rule c(3))
  show "rel_subject_id p = ra_subject_id a" "rel_object_id p = ra_object_id a"
    "rel_relation_type p = py_upper (py_strip (ra_relation_type a))"
    using seal_relation_keeps [OF s] seal_relation_type [OF s t] r by simp_all
qed

lemma register_in_memory:
  assumes "lin_log L = None" "register_with H v x L = (Inr y, L')"
  shows "L' = L\<lparr>lin_known_ids := insert y (lin_known_ids L), lin_strict := True\<rparr>" "v x = Inr y"
  using assms by (auto simp: register_with_def bindA_eq_Inr hydrate_def)

lemma register_all_in_memory:
  "lin_log L = None \<Longrightarrow> mapA (register_artifact H) xs L = (Inr ys, L') \<Longrightarrow>
     lin_log L' = None \<and> lin_relations L' = lin_relations L \<and> set xs \<subseteq> lin_known_ids L'
     \<and> lin_known_ids L \<subseteq> lin_known_ids L' \<and> (lin_strict L \<longrightarrow> lin_strict L')"
proof (induction xs arbitrary: L ys)
  case Nil
  then show ?case by simp
next
  case (Cons x xs)
  then obtain y M zs where "register_artifact H x L = (Inr y, M)" "mapA (register_artifact H) xs M = (Inr zs, L')"
    by (auto simp: bindA_eq_Inr)
  with register_in_memory [OF Cons.prems(1), of H validate_artifact_id x y M] Cons.IH [of M zs]
  show ?case using Cons.prems(1) by (auto simp: register_artifact_def)
qed

lemma derived_type: "py_upper (py_strip ''DERIVED_FROM'') = ''DERIVED_FROM''"
    "py_upper (py_strip ''PRODUCED_BY'') = ''PRODUCED_BY''"
  using relation_value_fixed [of "''DERIVED_FROM''"] relation_value_fixed [of "''PRODUCED_BY''"]
  by (simp_all add: relation_value_eq relation_types_def)

lemma derive_all_in_memory:
  "lin_log L = None \<Longrightarrow> derive_all H aid ts md now uuids n xs L = (Inr rs, L') \<Longrightarrow>
     L' = L\<lparr>lin_relations := lin_relations L @ rs\<rparr> \<and> map rel_object_id rs = xs
     \<and> list_all (\<lambda>r. rel_subject_id r = aid \<and> rel_relation_type r = ''DERIVED_FROM'') rs"
proof (induction xs arbitrary: L n rs)
  case Nil
  then show ?case by simp
next
  case (Cons x xs)
  then obtain r M ss where r: "add_relation H (production_args ''DERIVED_FROM'' aid x ts md (uuids n) now) L = (Inr r, M)"
    and ss: "derive_all H aid ts md now uuids (Suc n) xs M = (Inr ss, L')" and rs: "rs = r # ss"
    by (auto simp: bindA_eq_Inr)
  note a = add_in_memory [OF Cons.prems(1) r]
  with Cons.IH [OF _ ss] Cons.prems(1) rs show ?case by (simp add: production_args_def derived_type)
qed

lemma production_in_memory:
  assumes "lin_log L = None" "record_production H uuids now aid sid inputs md ca L = (Inr rs, L')"
  shows "lin_relations L' = lin_relations L @ rs" "lin_log L' = None" "lin_strict L'"
    "{aid, sid} \<union> set inputs \<subseteq> lin_known_ids L'" "is_artifact_id aid"
    "\<exists>p ds. rs = p # ds \<and> rel_relation_type p = ''PRODUCED_BY'' \<and> rel_subject_id p = aid \<and> rel_object_id p = sid
      \<and> map rel_object_id ds = inputs
      \<and> list_all (\<lambda>r. rel_subject_id r = aid \<and> rel_relation_type r = ''DERIVED_FROM'') ds"
proof -
  from assms(2) obtain L1 L2 L3 L4 ys ts m p ds where
    *: "is_artifact_id aid" "register_artifact H aid L = (Inr aid, L1)" "register_step H sid L1 = (Inr sid, L2)"
    "mapA (register_artifact H) inputs L2 = (Inr ys, L3)"
    "add_relation H (production_args ''PRODUCED_BY'' aid sid ts m (uuids 0) now) L3 = (Inr p, L4)"
    "derive_all H aid ts m now uuids 1 inputs L4 = (Inr ds, L')" "rs = p # ds"
    by (auto simp: record_production_def bindA_eq_Inr Let_def register_artifact_def register_step_def register_with_def)
  note 1 = register_in_memory [OF assms(1) *(2) [unfolded register_artifact_def]]
  have "lin_log L1 = None" using 1 assms(1) by simp
  note 2 = register_in_memory [OF this *(3) [unfolded register_step_def]]
  have "lin_log L2 = None" using 1 2 assms(1) by simp
  note 3 = register_all_in_memory [OF this *(4)]
  then have "lin_log L3 = None" by blast
  note 4 = add_in_memory [OF this *(5)]
  have "lin_log L4 = None" using 3 4 by simp
  note 5 = derive_all_in_memory [OF this *(6)]
  show "lin_relations L' = lin_relations L @ rs" "lin_log L' = None" "lin_strict L'"
    "{aid, sid} \<union> set inputs \<subseteq> lin_known_ids L'" "is_artifact_id aid"
    using 1 2 3 4 5 * assms(1) by auto
  show "\<exists>p ds. rs = p # ds \<and> rel_relation_type p = ''PRODUCED_BY'' \<and> rel_subject_id p = aid \<and> rel_object_id p = sid
      \<and> map rel_object_id ds = inputs
      \<and> list_all (\<lambda>r. rel_subject_id r = aid \<and> rel_relation_type r = ''DERIVED_FROM'') ds"
    using 4 5 *(7) by (simp add: production_args_def derived_type)
qed

text \<open>Strings that are references whatever else they are\<close>

definition plain_char :: "char \<Rightarrow> bool" where
  "plain_char c = (\<not> py_isspace c \<and> c \<notin> {CHR 0x00, CHR 0x5C, CHR ''/'', CHR ''.'', CHR ''~''})"

lemma plain_reference:
  assumes "list_all plain_char s" "s \<noteq> []" "length s \<le> 512"
  shows "is_reference s"
proof -
  have plain: "\<And>c. c \<in> set s \<Longrightarrow> plain_char c" using assms(1) by (simp add: list_all_iff)
  have "''..'' \<notin> set (py_split (CHR ''/'') s)"
    using py_split_pieces [of "''..''" "CHR ''/''" s] plain [of "CHR ''.''"] by (auto simp: plain_char_def)
  then have "\<not> list_ex (\<lambda>part. part = ''..'') (py_split (CHR ''/'') s)" by (auto simp: list_ex_iff)
  moreover have "\<not> list_ex py_isspace s" using plain by (auto simp: list_ex_iff plain_char_def)
  moreover have "CHR 0x00 \<notin> set s" "CHR 0x5C \<notin> set s" using plain by (auto simp: plain_char_def)
  moreover have "\<not> py_startswith s [c]" if "\<not> plain_char c" for c
    using plain that by (auto simp: py_startswith_iff prefix_def)
  ultimately show ?thesis
    using assms(2,3) by (simp add: is_reference_def validate_reference_def plain_char_def)
qed

lemma hex_plain: "is_hex_lower c \<Longrightarrow> plain_char c"
  by (auto simp: plain_char_def is_hex_lower_def is_ascii_digit_def py_isspace_def code_def Let_def)

lemma sha_reference: "is_sha256 d \<Longrightarrow> is_reference (''sha256:'' @ d)"
proof (rule plain_reference)
  assume "is_sha256 d"
  moreover have "list_all plain_char ''sha256:''" by code_simp
  ultimately show "list_all plain_char (''sha256:'' @ d)" "length (''sha256:'' @ d) \<le> 512"
    by (auto simp: is_sha256_def list_all_iff hex_plain)
qed simp

section \<open>Lemmas: valid additions succeed\<close>

lemma relation_request_ts:
  assumes "iso_lawful H" "relation_request H a L = Inr c"
  shows "normalize_timestamp H (rel_created_at c) = Inr (rel_created_at c)"
    "py_upper (py_strip (rel_relation_type c)) = rel_relation_type c"
proof -
  from assms(2) obtain r0 where "relation_init H r0 = Inr c"
    by (auto simp: relation_request_def relation_candidate_def)
  with assms(1) show "normalize_timestamp H (rel_created_at c) = Inr (rel_created_at c)"
    "py_upper (py_strip (rel_relation_type c)) = rel_relation_type c"
    using relation_init_keeps(7) normalize_timestamp_fixed relation_init_type(2) by blast+
qed

lemma add_total:
  assumes "iso_lawful H" "sha_lawful H" "lin_log L = None" "list_all relation_checks (lin_relations L)"
    and "relation_request H a L = Inr c" "rel_relation_id c \<notin> rel_relation_id ` set (lin_relations L)"
  shows "\<exists>p. add_relation H a L = (Inr p, L\<lparr>lin_relations := lin_relations L @ [p]\<rparr>)
    \<and> relation_checks p \<and> rel_relation_id p = rel_relation_id c"
proof -
  let ?d = "last_digest rel_relation_sha256 (lin_relations L)"
  let ?c = "c\<lparr>rel_previous_relation_sha256 := ?d\<rparr>"
  note ts = relation_request_ts [OF assms(1,5)] and c = relation_request_props(6) [OF assms(5)]
  have "pred_option is_sha256 ?d"
    using assms(4) by (cases "lin_relations L" rule: rev_cases) (auto simp: relation_checks_def)
  with c have c1: "relation_checks ?c" by (simp add: relation_checks_def)
  then have i1: "relation_init H ?c = Inr ?c" using ts by (auto simp: relation_init_eq)
  let ?s = "sha256 H (json_dumps (JObj (relation_body ?c)))"
  let ?p = "?c\<lparr>rel_relation_sha256 := Some ?s\<rparr>"
  have "relation_checks ?p" using c1 assms(2) by (simp add: relation_checks_def sha_lawful_def)
  then have i2: "relation_init H ?p = Inr ?p" using ts by (auto simp: relation_init_eq)
  have "\<not> list_ex (\<lambda>item. rel_relation_id item = rel_relation_id c) (lin_relations L)"
    using assms(6) by (auto simp: list_ex_iff image_iff)
  then have "prepare_relation H (lin_relations L) c = Inr ?p"
    using i1 i2 relation_computed_eq [OF c1, of H] by (simp add: prepare_relation_def seal_relation_def)
  then show ?thesis
    using assms(3,5) relation_init_checks [OF i2]
    by (auto simp: add_relation_def bindA_def append_relation_def append_in_memory_def)
qed

section \<open>A concrete lineage\<close>

definition demo_lineage :: lineage where
  "demo_lineage = \<lparr>lin_log = None, lin_relations = [], lin_known_ids = {}, lin_strict = False\<rparr>"

definition demo_file_lineage :: lineage where
  "demo_file_lineage = demo_lineage\<lparr>lin_log := Some empty_log\<rparr>"

definition demo_input :: string where
  "demo_input = ''sha256:'' @ replicate 64 (CHR ''1'')"

definition demo_uuids :: "nat \<Rightarrow> string" where
  "demo_uuids n = (if n = 0 then ''a'' else ''b'')"

definition demo_args :: relation_args where
  "demo_args = \<lparr>ra_relation_type = ''produced_by'', ra_subject_id = ''figure_1'', ra_object_id = ''step_1'',
     ra_relation_id = Some ''rel_1'', ra_created_at = Some demo_time, ra_metadata = None,
     ra_uuid = ''a'', ra_now = 0\<rparr>"

lemma demo_strings:
  "is_reference ''figure_1''" "is_reference ''step_1''" "is_identifier ''step_1''" "is_identifier ''rel_1''"
  "is_identifier ''rel_a''" "is_identifier ''rel_b''" "is_reference demo_input" "is_artifact_id demo_input"
  "is_reference (ar_artifact_id demo_record)" "is_artifact_id (ar_artifact_id demo_record)"
proof -
  have "list_all plain_char ''figure_1''" "list_all plain_char ''step_1''" by code_simp+
  then show "is_reference ''figure_1''" "is_reference ''step_1''" by (auto intro: plain_reference)
  show "is_identifier ''step_1''" "is_identifier ''rel_1''" "is_identifier ''rel_a''" "is_identifier ''rel_b''"
    by code_simp+
  have "is_hex_lower (CHR ''1'')" by code_simp
  then have d: "is_sha256 (replicate 64 (CHR ''1''))" by (simp add: is_sha256_def list_all_iff)
  then show "is_reference demo_input" "is_artifact_id demo_input"
    unfolding demo_input_def is_artifact_id_iff by (rule sha_reference, blast)
  have d: "is_sha256 (sha256 demo_host ''data'')" using demo_sha_lawful by (simp add: sha_lawful_def)
  have "ar_artifact_id demo_record = ''sha256:'' @ sha256 demo_host ''data''" by (simp add: demo_record_def)
  with d show "is_reference (ar_artifact_id demo_record)" "is_artifact_id (ar_artifact_id demo_record)"
    unfolding is_artifact_id_iff by (metis sha_reference, blast)
qed

lemma demo_request:
  "relation_request demo_host demo_args demo_lineage = Inr
     \<lparr>rel_relation_type = ''PRODUCED_BY'', rel_subject_id = ''figure_1'', rel_object_id = ''step_1'',
      rel_relation_id = ''rel_1'', rel_created_at = demo_time, rel_metadata = [],
      rel_previous_relation_sha256 = None, rel_relation_sha256 = None\<rparr>"
proof -
  have "relation_value ''produced_by'' = Inr ''PRODUCED_BY''" "relation_value ''PRODUCED_BY'' = Inr ''PRODUCED_BY''"
    by code_simp+
  moreover have "str_or (Some demo_time) x = Inr demo_time" for x by (simp add: demo_time_def)
  ultimately show ?thesis
    using demo_strings demo_time_fixed
    by (simp add: relation_request_def relation_candidate_def demo_args_def demo_lineage_def check_known_def
        relation_init_def check_opt_def)
qed

lemma demo_add: obtains p where
  "add_relation demo_host demo_args demo_lineage = (Inr p, demo_lineage\<lparr>lin_relations := [p]\<rparr>)"
  "rel_relation_id p = ''rel_1''"
  using add_total [OF demo_iso_lawful demo_sha_lawful _ _ demo_request] by (auto simp: demo_lineage_def)

lemma demo_backs: "backs H demo_lineage demo_file_lineage"
  by (simp add: backs_def demo_lineage_def demo_file_lineage_def empty_log_def read_log_relations_def)

lemma production_request:
  assumes "is_artifact_id aid" "is_reference aid" "is_reference obj" "is_identifier (''rel_'' @ uuid)"
    and "lin_strict L \<longrightarrow> aid \<in> lin_known_ids L \<and> obj \<in> lin_known_ids L" "rt \<in> set relation_types"
  shows "relation_request demo_host (production_args rt aid obj demo_time [] uuid now) L = Inr
     \<lparr>rel_relation_type = rt, rel_subject_id = aid, rel_object_id = obj, rel_relation_id = ''rel_'' @ uuid,
      rel_created_at = demo_time, rel_metadata = [], rel_previous_relation_sha256 = None, rel_relation_sha256 = None\<rparr>"
proof -
  have "str_or (Some demo_time) x = Inr demo_time" "str_or None y = y" for x y by (simp_all add: demo_time_def)
  then show ?thesis
    using assms demo_time_fixed relation_value_fixed [OF assms(6)]
    by (auto simp: relation_request_def relation_candidate_def production_args_def check_known_def
        relation_init_def check_opt_def)
qed

lemma demo_production:
  obtains p q L where "record_production demo_host demo_uuids 0 (ar_artifact_id demo_record) ''step_1''
    [demo_input] None (Some demo_time) demo_lineage = (Inr [p, q], L)"
proof -
  let ?a = "ar_artifact_id demo_record"
  let ?L = "demo_lineage\<lparr>lin_known_ids := {?a, ''step_1'', demo_input}, lin_strict := True\<rparr>"
  have types: "''PRODUCED_BY'' \<in> set relation_types" "''DERIVED_FROM'' \<in> set relation_types"
    by (simp_all add: relation_types_def)
  have r1: "relation_request demo_host (production_args ''PRODUCED_BY'' ?a ''step_1'' demo_time [] ''a'' 0) ?L = Inr
     \<lparr>rel_relation_type = ''PRODUCED_BY'', rel_subject_id = ?a, rel_object_id = ''step_1'', rel_relation_id = ''rel_'' @ ''a'',
      rel_created_at = demo_time, rel_metadata = [], rel_previous_relation_sha256 = None, rel_relation_sha256 = None\<rparr>"
    by (rule production_request [OF demo_strings(10,9,2)]) (use demo_strings types in simp_all)
  obtain p where p: "add_relation demo_host (production_args ''PRODUCED_BY'' ?a ''step_1'' demo_time [] ''a'' 0) ?L
      = (Inr p, ?L\<lparr>lin_relations := [p]\<rparr>)" "relation_checks p" "rel_relation_id p = ''rel_a''"
    using add_total [OF demo_iso_lawful demo_sha_lawful _ _ r1] by (auto simp: demo_lineage_def)
  let ?M = "?L\<lparr>lin_relations := [p]\<rparr>"
  have r2: "relation_request demo_host (production_args ''DERIVED_FROM'' ?a demo_input demo_time [] ''b'' 0) ?M = Inr
     \<lparr>rel_relation_type = ''DERIVED_FROM'', rel_subject_id = ?a, rel_object_id = demo_input, rel_relation_id = ''rel_'' @ ''b'',
      rel_created_at = demo_time, rel_metadata = [], rel_previous_relation_sha256 = None, rel_relation_sha256 = None\<rparr>"
    by (rule production_request [OF demo_strings(10,9,7)]) (use demo_strings types in simp_all)
  obtain q where q: "add_relation demo_host (production_args ''DERIVED_FROM'' ?a demo_input demo_time [] ''b'' 0) ?M
      = (Inr q, ?M\<lparr>lin_relations := [p, q]\<rparr>)"
    using add_total [OF demo_iso_lawful demo_sha_lawful _ _ r2] p by (auto simp: demo_lineage_def)
  have reg: "register_artifact demo_host ?a demo_lineage = (Inr ?a, demo_lineage\<lparr>lin_known_ids := {?a}, lin_strict := True\<rparr>)"
    "register_step demo_host ''step_1'' (demo_lineage\<lparr>lin_known_ids := {?a}, lin_strict := True\<rparr>)
       = (Inr ''step_1'', demo_lineage\<lparr>lin_known_ids := {?a, ''step_1''}, lin_strict := True\<rparr>)"
    "register_artifact demo_host demo_input (demo_lineage\<lparr>lin_known_ids := {?a, ''step_1''}, lin_strict := True\<rparr>)
       = (Inr demo_input, ?L)"
    using demo_strings
    by (simp_all add: register_artifact_def register_step_def register_with_def bindA_def hydrate_def
        demo_lineage_def insert_commute)
  have "str_or (Some demo_time) x = Inr demo_time" for x by (simp add: demo_time_def)
  then show ?thesis
    using p(1) q demo_strings reg
    by (intro that [of p q]) (simp add: record_production_def bindA_def demo_uuids_def)
qed

section \<open>Properties\<close>



text \<open>
  Reconciliation may repeat an addition. After \<^verbatim>\<open>add_relation_idempotent\<close> has succeeded with an
  explicit timestamp, the same call (with any other clock and UUID) returns the relation as it is
  stored, changes nothing, and the stored relation has the requested meaning; with another meaning
  under the same ID it raises \<^verbatim>\<open>LineageError\<close> and changes nothing.
\<close>

theorem idempotent_addition:
  assumes "os_lawful H" "iso_lawful H" "args_json_wf H a" "ra_created_at a = Some (c # cs)"
    and "add_relation_idempotent H relation_id a L = (Inr p, L')"
  shows "(\<exists>p'. (p' = p \<or> p' = canon_relation p) \<and> rel_relation_id p' = relation_id
        \<and> add_relation_idempotent H relation_id (a\<lparr>ra_uuid := u, ra_now := t\<rparr>) L' = (Inr p', L'))
    \<and> (\<forall>b rt ts md. idem_request H relation_id b = Inr (rt, ts, md) \<longrightarrow>
         \<not> (\<exists>p'. (p' = p \<or> p' = canon_relation p) \<and> same_semantics H p' rt b ts md) \<longrightarrow>
         add_relation_idempotent H relation_id b L' = (Inl LineageError, L'))"
proof -
  let ?find = "find (\<lambda>r. rel_relation_id r = relation_id)"
  from assms(5) obtain rt ts md rs where r: "idem_request H relation_id a = Inr (rt, ts, md)" "relations H L = Inr rs"
    by (auto simp: idempotent_unfold split: sum.splits)
  have same: "idem_request H relation_id (a\<lparr>ra_uuid := u, ra_now := t\<rparr>) = Inr (rt, ts, md)"
    using r(1) assms(4) by (simp add: idem_request_def)
  have "\<exists>p' rs'. (p' = p \<or> p' = canon_relation p) \<and> relations H L' = Inr rs' \<and> ?find rs' = Some p'
      \<and> rel_relation_id p' = relation_id \<and> same_semantics H p' rt a ts md"
  proof (cases "?find rs")
    case None
    with r assms(5) have "add_relation H (idem_args relation_id a rt ts md) L = (Inr p, L')"
      by (simp add: idempotent_unfold)
    from idem_stored [OF assms(1-3) r None this] find_new [OF None] show ?thesis by metis
  next
    case (Some x)
    with r assms(5) have "x = p" "L' = L" "same_semantics H p rt a ts md"
      by (auto simp: idempotent_unfold split: if_splits)
    with Some r show ?thesis by (auto simp: find_Some_iff)
  qed
  then obtain p' rs' where p': "p' = p \<or> p' = canon_relation p" "relations H L' = Inr rs'" "?find rs' = Some p'"
    "rel_relation_id p' = relation_id" "same_semantics H p' rt a ts md" by blast
  have "same_semantics H p' rt (a\<lparr>ra_uuid := u, ra_now := t\<rparr>) ts md" using p'(5) by (simp add: same_semantics_def)
  with p' same have "add_relation_idempotent H relation_id (a\<lparr>ra_uuid := u, ra_now := t\<rparr>) L' = (Inr p', L')"
    by (simp add: idempotent_unfold)
  moreover have "add_relation_idempotent H relation_id b L' = (Inl LineageError, L')"
    if "idem_request H relation_id b = Inr (rt', ts', md')" "\<not> same_semantics H p' rt' b ts' md'" for b rt' ts' md'
    using that p' by (simp add: idempotent_unfold)
  ultimately show ?thesis using p'(1,4) by blast
qed

theorem idempotent_addition_witness:
  "\<exists>p p' L'. add_relation_idempotent demo_host ''rel_1'' demo_args demo_lineage = (Inr p, L')
    \<and> add_relation_idempotent demo_host ''rel_1'' (demo_args\<lparr>ra_uuid := ''b'', ra_now := 1\<rparr>) L' = (Inr p', L')"
proof -
  obtain p where p: "add_relation demo_host demo_args demo_lineage = (Inr p, demo_lineage\<lparr>lin_relations := [p]\<rparr>)"
    using demo_add by blast
  have v: "relation_value ''produced_by'' = Inr ''PRODUCED_BY''" "relation_value ''PRODUCED_BY'' = Inr ''PRODUCED_BY''"
    by code_simp+
  have t: "str_or (Some demo_time) x = Inr demo_time" for x by (simp add: demo_time_def)
  have "idem_request demo_host ''rel_1'' demo_args = Inr (''PRODUCED_BY'', demo_time, [])"
    using demo_strings demo_time_fixed v t by (simp add: idem_request_def demo_args_def)
  moreover have "relation_request demo_host (idem_args ''rel_1'' demo_args ''PRODUCED_BY'' demo_time []) demo_lineage
      = relation_request demo_host demo_args demo_lineage"
    using v t by (simp add: relation_request_def relation_candidate_def idem_args_def demo_args_def)
  then have "add_relation demo_host (idem_args ''rel_1'' demo_args ''PRODUCED_BY'' demo_time []) demo_lineage
      = add_relation demo_host demo_args demo_lineage" by (simp add: add_relation_def bindA_def)
  ultimately have a: "add_relation_idempotent demo_host ''rel_1'' demo_args demo_lineage
      = (Inr p, demo_lineage\<lparr>lin_relations := [p]\<rparr>)"
    using p by (simp add: idempotent_unfold relations_def demo_lineage_def)
  obtain c cs where "ra_created_at demo_args = Some (c # cs)" by (simp add: demo_args_def demo_time_def)
  from idempotent_addition [OF demo_os_lawful demo_iso_lawful _ this a, where u = "''b''" and t = 1] a show ?thesis
    by (auto simp: args_json_wf_def demo_args_def)
qed



text \<open>
  What a file-backed lineage reads is well-formed, chained and, in strict mode, refers to known
  identities only.
\<close>

theorem read_relations_sound:
  assumes "iso_lawful H" "lin_log L = Some lf" "relations H L = Inr rs"
  shows "list_all (relation_wf H) rs \<and> distinct (map rel_relation_id rs)
    \<and> chain_from rel_relation_id rel_previous_relation_sha256 rel_relation_sha256 None [] rs
    \<and> (lin_strict L \<longrightarrow> (\<forall>r \<in> set rs. rel_subject_id r \<in> lin_known_ids L \<and> rel_object_id r \<in> lin_known_ids L))"
proof -
  let ?chain = "chain_from rel_relation_id rel_previous_relation_sha256 rel_relation_sha256 None [] rs"
  have r: "?chain \<and> list_all (relation_entry_sealed H) rs
      \<and> list_all (\<lambda>r. okE (check_relation (lin_strict L) (lin_known_ids L) r)) rs"
    using assms(2,3) lineage_log.read_valid [of H "lin_strict L" "lin_known_ids L" None "[]" _ rs]
    by (auto simp: relations_def read_relations_def read_log_relations_def split: option.splits fsnode.splits)
  then have "distinct (map rel_relation_id rs)" using chain_from_distinct by blast
  with r assms(1) show ?thesis
    by (auto simp: list_all_iff relation_entry_sealed_def check_relation_def check_known_def split: if_splits)
qed

theorem read_relations_sound_witness:
  "\<exists>L rs. rs \<noteq> [] \<and> relations demo_host L = Inr rs \<and> list_all (relation_wf demo_host) rs"
proof -
  obtain p where p: "add_relation demo_host demo_args demo_lineage = (Inr p, demo_lineage\<lparr>lin_relations := [p]\<rparr>)"
    using demo_add by blast
  have "args_json_wf demo_host demo_args" by (simp add: args_json_wf_def demo_args_def)
  with add_relation_backs [OF demo_os_lawful demo_iso_lawful demo_backs, of demo_args] p
  obtain L where "backs demo_host (demo_lineage\<lparr>lin_relations := [p]\<rparr>) L" by auto
  then obtain lf where lf: "lin_log L = Some lf" "relations demo_host L = Inr [canon_relation p]"
    by (auto simp: backs_def relations_def read_relations_def split: option.splits)
  from read_relations_sound [OF demo_iso_lawful lf] lf show ?thesis by blast
qed

end
