(* ===== verification/Runs.thy ===== *)
theory Runs
  imports Interfaces
begin

text \<open>
  \<^verbatim>\<open>src/molly/core/runs.py\<close>: the immutable run request with its digest and the budget that old
  ledgers carry, the run status, the context that a provider sees and the projected result.
\<close>

section \<open>Requests\<close>

definition bare_digest :: "string \<Rightarrow> string res" where
  "bare_digest value =
     wrapE (\<lambda>e. is_a e CoreContractError) RunBindingError
       (bindE (validate_digest_reference value) (\<lambda>d. Inr (py_removeprefix (py_lower d) ''sha256:'')))"

record legacy_budget =
  lb_max_decisions :: int
  lb_max_steps :: int
  lb_max_tool_calls :: int

text \<open>\<^verbatim>\<open>_legacy_budget_binding\<close>: exactly the three keys, each a non-negative integer and not a boolean\<close>

definition legacy_budget_fields :: "string list" where
  "legacy_budget_fields = [''max_decisions'', ''max_steps'', ''max_tool_calls'']"

fun legacy_count :: "json \<Rightarrow> int res" where
  "legacy_count (JInt i) = (if i < 0 then Inl RunBindingError else Inr i)"
| "legacy_count _ = Inl RunBindingError"

definition legacy_budget_binding :: "json \<Rightarrow> legacy_budget res" where
  "legacy_budget_binding value =
     (case value of
        JObj d \<Rightarrow>
          if set (map fst d) \<noteq> set legacy_budget_fields then Inl RunBindingError
          else bindE (legacy_count (jget d ''max_decisions'')) (\<lambda>x.
               bindE (legacy_count (jget d ''max_steps'')) (\<lambda>y.
               bindE (legacy_count (jget d ''max_tool_calls'')) (\<lambda>z.
               Inr \<lparr>lb_max_decisions = x, lb_max_steps = y, lb_max_tool_calls = z\<rparr>)))
      | _ \<Rightarrow> Inl RunBindingError)"

record run_request =
  rq_run_id :: string
  rq_goal :: string
  rq_input_artifact_ids :: "string list"
  rq_tool_policy_digest :: string
  rq_created_at :: string
  rq_metadata :: fields
  rq_legacy_budget :: "legacy_budget option"

text \<open>\<^verbatim>\<open>RunRequest.__post_init__\<close>\<close>

definition request_init :: "host \<Rightarrow> run_request \<Rightarrow> run_request res" where
  "request_init H r =
     bindE (validate_identifier (rq_run_id r)) (\<lambda>_.
     bindE (guardE (py_strip (rq_goal r) \<noteq> []) CoreContractError) (\<lambda>_.
     bindE (guardE (\<not> (length (rq_goal r) > 100000 \<or> CHR 0x00 \<in> set (rq_goal r))) CoreContractError) (\<lambda>_.
     bindE (validate_artifact_ids (rq_input_artifact_ids r)) (\<lambda>ids.
     bindE (bare_digest (rq_tool_policy_digest r)) (\<lambda>dg.
     bindE (normalize_timestamp H (rq_created_at r)) (\<lambda>ts.
     bindE (freeze_json_mapping (JObj (rq_metadata r))) (\<lambda>md.
     Inr (r\<lparr>rq_input_artifact_ids := ids, rq_tool_policy_digest := dg, rq_created_at := ts,
            rq_metadata := md\<rparr>))))))))"

text \<open>\<^verbatim>\<open>RunRequest.create\<close>; the UUID and the clock are arguments.\<close>

definition request_create ::
    "host \<Rightarrow> string \<Rightarrow> int \<Rightarrow> string \<Rightarrow> string \<Rightarrow> string list \<Rightarrow> fields option \<Rightarrow> string option \<Rightarrow> run_request res" where
  "request_create H uuid now goal policy_digest input_artifact_ids metadata created_at =
     bindE (str_or created_at (utc_timestamp H (True, now))) (\<lambda>ts.
     bindE (new_server_id ''run'' uuid) (\<lambda>rid.
     request_init H \<lparr>rq_run_id = rid, rq_goal = goal, rq_input_artifact_ids = input_artifact_ids,
       rq_tool_policy_digest = policy_digest, rq_created_at = ts,
       rq_metadata = (case metadata of None \<Rightarrow> [] | Some md \<Rightarrow> md), rq_legacy_budget = None\<rparr>))"

definition budget_json :: "legacy_budget \<Rightarrow> json" where
  "budget_json b = JObj [(''max_decisions'', JInt (lb_max_decisions b)),
     (''max_steps'', JInt (lb_max_steps b)), (''max_tool_calls'', JInt (lb_max_tool_calls b))]"

definition request_fields :: "run_request \<Rightarrow> fields" where
  "request_fields r =
     [(''run_id'', JStr (rq_run_id r)),
      (''goal'', JStr (rq_goal r)),
      (''input_artifact_ids'', jstrs (rq_input_artifact_ids r)),
      (''tool_policy_digest'', JStr (rq_tool_policy_digest r)),
      (''created_at'', JStr (rq_created_at r)),
      (''metadata'', JObj (rq_metadata r))]
     @ (case rq_legacy_budget r of None \<Rightarrow> [] | Some b \<Rightarrow> [(''budget'', budget_json b)])"

definition request_to_dict :: "run_request \<Rightarrow> json" where
  "request_to_dict r = JObj (request_fields r)"

definition request_sha256 :: "host \<Rightarrow> run_request \<Rightarrow> string res" where
  "request_sha256 H r = json_sha256 H (request_to_dict r)"

text \<open>\<^verbatim>\<open>RunRequest.from_dict\<close>: the budget is read before the \<^verbatim>\<open>try\<close> and set on the finished request.\<close>

definition request_decode :: "host \<Rightarrow> fields \<Rightarrow> run_request res" where
  "request_decode H d =
     bindE (jitem d ''run_id'') (\<lambda>rid.
     bindE (jitem d ''goal'') (\<lambda>goal.
     bindE (artifact_strs (jget_or d ''input_artifact_ids'' (JArr []))) (\<lambda>ids.
     bindE (jitem d ''tool_policy_digest'') (\<lambda>dg.
     bindE (jitem d ''created_at'') (\<lambda>ts.
     bindE (py_dict (jget_or d ''metadata'' (JObj []))) (\<lambda>md.
     request_init H \<lparr>rq_run_id = py_str rid, rq_goal = py_str goal, rq_input_artifact_ids = ids,
       rq_tool_policy_digest = py_str dg, rq_created_at = py_str ts, rq_metadata = md,
       rq_legacy_budget = None\<rparr>))))))"

definition request_from_dict :: "host \<Rightarrow> json \<Rightarrow> run_request res" where
  "request_from_dict H value =
     (case value of
        JObj d \<Rightarrow>
          bindE (case map_of d ''budget'' of
              None \<Rightarrow> Inr None
            | Some b \<Rightarrow> bindE (legacy_budget_binding b) (\<lambda>lb. Inr (Some lb))) (\<lambda>budget.
          bindE (wrapE decode_error RunBindingError (request_decode H d)) (\<lambda>request.
          Inr (request\<lparr>rq_legacy_budget := budget\<rparr>)))
      | _ \<Rightarrow> Inl RunBindingError)"

section \<open>Status, context, result\<close>

datatype run_status =
    StNew | StActive | StWaitingApproval | StWaitingReview | StInterrupted
  | StStopped | StRejected | StFailed | StBudgetExhausted

fun status_value :: "run_status \<Rightarrow> string" where
  "status_value StNew = ''NEW''"
| "status_value StActive = ''ACTIVE''"
| "status_value StWaitingApproval = ''WAITING_APPROVAL''"
| "status_value StWaitingReview = ''WAITING_REVIEW''"
| "status_value StInterrupted = ''INTERRUPTED''"
| "status_value StStopped = ''STOPPED''"
| "status_value StRejected = ''REJECTED''"
| "status_value StFailed = ''FAILED''"
| "status_value StBudgetExhausted = ''BUDGET_EXHAUSTED''"

definition all_statuses :: "run_status list" where
  "all_statuses = [StNew, StActive, StWaitingApproval, StWaitingReview, StInterrupted, StStopped,
     StRejected, StFailed, StBudgetExhausted]"

definition status_of_value :: "string \<Rightarrow> run_status res" where
  "status_of_value v = (case find (\<lambda>s. status_value s = v) all_statuses of
     None \<Rightarrow> Inl CoreContractError | Some s \<Rightarrow> Inr s)"

definition terminal_run_statuses :: "run_status set" where
  "terminal_run_statuses = {StStopped, StRejected, StFailed, StBudgetExhausted}"

record run_context =
  cx_run_id :: string
  cx_goal :: string
  cx_visible_artifact_ids :: "string list"
  cx_initial_artifact_ids :: "string list"
  cx_request_metadata :: fields
  cx_recent_events :: "fields list"
  cx_previous_tool_outcome :: "fields option"

definition freeze_opt_mapping :: "fields option \<Rightarrow> fields option res" where
  "freeze_opt_mapping m = (case m of
     None \<Rightarrow> Inr None | Some d \<Rightarrow> bindE (freeze_json_mapping (JObj d)) (\<lambda>f. Inr (Some f)))"

definition context_init :: "run_context \<Rightarrow> run_context res" where
  "context_init c =
     bindE (validate_identifier (cx_run_id c)) (\<lambda>_.
     bindE (validate_artifact_ids (cx_visible_artifact_ids c)) (\<lambda>visible.
     bindE (validate_artifact_ids (cx_initial_artifact_ids c)) (\<lambda>initial.
     bindE (freeze_json_mapping (JObj (cx_request_metadata c))) (\<lambda>md.
     bindE (mapE (\<lambda>d. freeze_json_mapping (JObj d)) (cx_recent_events c)) (\<lambda>recent.
     bindE (freeze_opt_mapping (cx_previous_tool_outcome c)) (\<lambda>previous.
     Inr (c\<lparr>cx_visible_artifact_ids := visible, cx_initial_artifact_ids := initial,
            cx_request_metadata := md, cx_recent_events := recent,
            cx_previous_tool_outcome := previous\<rparr>)))))))"

definition context_to_dict :: "run_context \<Rightarrow> json" where
  "context_to_dict c = JObj
     [(''run_id'', JStr (cx_run_id c)),
      (''goal'', JStr (cx_goal c)),
      (''visible_artifact_ids'', jstrs (cx_visible_artifact_ids c)),
      (''initial_artifact_ids'', jstrs (cx_initial_artifact_ids c)),
      (''request_metadata'', JObj (cx_request_metadata c)),
      (''recent_events'', JArr (map JObj (cx_recent_events c))),
      (''previous_tool_outcome'', case cx_previous_tool_outcome c of None \<Rightarrow> JNull | Some d \<Rightarrow> JObj d)]"

record run_result =
  rr_run_id :: string
  rr_status :: run_status
  rr_visible_artifact_ids :: "string list"
  rr_last_event_id :: "string option"
  rr_pending_call :: "fields option"
  rr_message :: string

definition result_init :: "run_result \<Rightarrow> run_result res" where
  "result_init r =
     bindE (validate_identifier (rr_run_id r)) (\<lambda>_.
     bindE (status_of_value (status_value (rr_status r))) (\<lambda>status.
     bindE (validate_artifact_ids (rr_visible_artifact_ids r)) (\<lambda>visible.
     bindE (check_opt validate_identifier (rr_last_event_id r)) (\<lambda>_.
     bindE (freeze_opt_mapping (rr_pending_call r)) (\<lambda>pending.
     Inr (r\<lparr>rr_status := status, rr_visible_artifact_ids := visible, rr_pending_call := pending\<rparr>))))))"

definition is_terminal :: "run_result \<Rightarrow> bool" where
  "is_terminal r = (rr_status r \<in> terminal_run_statuses)"

definition result_to_dict :: "run_result \<Rightarrow> json" where
  "result_to_dict r = JObj
     [(''run_id'', JStr (rr_run_id r)),
      (''status'', JStr (status_value (rr_status r))),
      (''visible_artifact_ids'', jstrs (rr_visible_artifact_ids r)),
      (''last_event_id'', jstr_opt (rr_last_event_id r)),
      (''pending_call'', case rr_pending_call r of None \<Rightarrow> JNull | Some d \<Rightarrow> JObj d),
      (''message'', JStr (rr_message r))]"

section \<open>Lemmas\<close>

lemma py_lower_hex: "list_all is_hex_lower s \<Longrightarrow> py_lower s = s"
  by (induction s)
    (auto simp: py_lower_def lower_char_def is_hex_lower_def is_ascii_digit_def is_ascii_upper_def code_def Let_def)

lemma bare_digest_eq: "bare_digest v = Inr d \<longleftrightarrow> validate_digest_reference v = Inr d"
proof -
  have "py_removeprefix (py_lower x) ''sha256:'' = x" if "is_sha256 x" for x
    using that digest_not_prefixed [OF that] py_lower_hex [of x]
    by (simp add: is_sha256_def py_removeprefix_def)
  then show ?thesis
    using validate_digest_result by (auto simp: bare_digest_def)
qed

definition request_checks :: "run_request \<Rightarrow> bool" where
  "request_checks r =
     (is_identifier (rq_run_id r) \<and> py_strip (rq_goal r) \<noteq> [] \<and> length (rq_goal r) \<le> 100000
      \<and> CHR 0x00 \<notin> set (rq_goal r) \<and> distinct (rq_input_artifact_ids r)
      \<and> list_all is_artifact_id (rq_input_artifact_ids r) \<and> fields_ok (rq_metadata r))"

lemma request_init_eq: "request_init H r = Inr r' \<longleftrightarrow> request_checks r
    \<and> (\<exists>dg ts. validate_digest_reference (rq_tool_policy_digest r) = Inr dg
        \<and> normalize_timestamp H (rq_created_at r) = Inr ts
        \<and> r' = r\<lparr>rq_tool_policy_digest := dg, rq_created_at := ts\<rparr>)"
  by (auto simp: request_init_def request_checks_def bare_digest_eq)

definition budget_ok :: "legacy_budget \<Rightarrow> bool" where
  "budget_ok b = (0 \<le> lb_max_decisions b \<and> 0 \<le> lb_max_steps b \<and> 0 \<le> lb_max_tool_calls b)"

text \<open>A request as its constructor or its reader leaves it\<close>

definition request_wf :: "host \<Rightarrow> run_request \<Rightarrow> bool" where
  "request_wf H r = (request_init H r = Inr r \<and> pred_option budget_ok (rq_legacy_budget r))"

definition canon_request :: "run_request \<Rightarrow> run_request" where
  "canon_request r = r\<lparr>rq_metadata := norm_obj (rq_metadata r)\<rparr>"

lemma canon_request_simps [simp]:
  "rq_run_id (canon_request r) = rq_run_id r" "rq_goal (canon_request r) = rq_goal r"
  "rq_input_artifact_ids (canon_request r) = rq_input_artifact_ids r"
  "rq_tool_policy_digest (canon_request r) = rq_tool_policy_digest r"
  "rq_created_at (canon_request r) = rq_created_at r" "rq_metadata (canon_request r) = norm_obj (rq_metadata r)"
  "rq_legacy_budget (canon_request r) = rq_legacy_budget r"
  by (simp_all add: canon_request_def)

lemma request_checks_simps [simp]:
  "request_checks (r\<lparr>rq_legacy_budget := b\<rparr>) = request_checks r"
  "request_checks (r\<lparr>rq_tool_policy_digest := d, rq_created_at := t\<rparr>) = request_checks r"
  "request_checks (canon_request r) = request_checks r"
  by (simp_all add: request_checks_def)

lemma request_init_fixed:
  assumes "iso_lawful H" "request_init H r = Inr r'"
  shows "request_init H r' = Inr r'"
proof -
  obtain dg ts where r': "request_checks r" "validate_digest_reference (rq_tool_policy_digest r) = Inr dg"
    "normalize_timestamp H (rq_created_at r) = Inr ts" "r' = r\<lparr>rq_tool_policy_digest := dg, rq_created_at := ts\<rparr>"
    using assms(2) by (auto simp: request_init_eq)
  with validate_digest_result [OF r'(2)] normalize_timestamp_fixed [OF assms(1) r'(3)] show ?thesis
    by (simp add: request_init_eq)
qed

lemma request_init_budget:
  "request_init H r = Inr r' \<Longrightarrow> request_init H (r\<lparr>rq_legacy_budget := b\<rparr>) = Inr (r'\<lparr>rq_legacy_budget := b\<rparr>)"
  by (auto simp: request_init_eq)

lemma request_fields_lookup [simp]:
  "map_of (request_fields r) ''run_id'' = Some (JStr (rq_run_id r))"
  "map_of (request_fields r) ''goal'' = Some (JStr (rq_goal r))"
  "map_of (request_fields r) ''input_artifact_ids'' = Some (jstrs (rq_input_artifact_ids r))"
  "map_of (request_fields r) ''tool_policy_digest'' = Some (JStr (rq_tool_policy_digest r))"
  "map_of (request_fields r) ''created_at'' = Some (JStr (rq_created_at r))"
  "map_of (request_fields r) ''metadata'' = Some (JObj (rq_metadata r))"
  "map_of (request_fields r) ''budget'' = map_option budget_json (rq_legacy_budget r)"
  by (simp_all add: request_fields_def split: option.split)

lemma request_decode_fields:
  "request_decode H (request_fields r) = request_init H (r\<lparr>rq_legacy_budget := None\<rparr>)"
  "request_decode H (norm_obj (request_fields r)) = request_init H (canon_request r\<lparr>rq_legacy_budget := None\<rparr>)"
  by (cases r; simp add: request_decode_def jitem_def jget_or_def canon_request_def)+

lemma jnorm_budget [simp]: "jnorm (budget_json b) = budget_json b"
  by (simp add: budget_json_def norm_obj_def)

lemma legacy_budget_read: "budget_ok b \<Longrightarrow> legacy_budget_binding (budget_json b) = Inr b"
  by (simp add: legacy_budget_binding_def budget_json_def legacy_budget_fields_def jget_def budget_ok_def)

lemma request_init_canon:
  "request_init H r = Inr r' \<Longrightarrow> request_init H (canon_request r) = Inr (canon_request r')"
  by (auto simp: request_init_eq canon_request_def request_checks_def)

lemma request_wf_canon: "request_wf H r \<Longrightarrow> request_wf H (canon_request r)"
  by (simp add: request_wf_def request_init_canon)

lemma request_from_fields:
  assumes "request_wf H r"
  shows "request_from_dict H (request_to_dict r) = Inr r"
    "request_from_dict H (jnorm (request_to_dict r)) = Inr (canon_request r)"
proof -
  have i: "request_init H (q\<lparr>rq_legacy_budget := None\<rparr>) = Inr (q\<lparr>rq_legacy_budget := None\<rparr>)"
    if "request_wf H q" for q
    using that request_init_budget by (auto simp: request_wf_def)
  have b: "rq_legacy_budget r = Some b \<Longrightarrow> legacy_budget_binding (budget_json b) = Inr b" for b
    using assms by (auto simp: request_wf_def legacy_budget_read)
  show "request_from_dict H (request_to_dict r) = Inr r"
    using i [OF assms] b
    by (cases "rq_legacy_budget r") (simp_all add: request_from_dict_def request_to_dict_def request_decode_fields)
  show "request_from_dict H (jnorm (request_to_dict r)) = Inr (canon_request r)"
    using i [OF request_wf_canon [OF assms]] b
    by (cases "rq_legacy_budget r") (simp_all add: request_from_dict_def request_to_dict_def request_decode_fields)
qed

lemma request_dict_canon: "jnorm (request_to_dict (canon_request r)) = jnorm (request_to_dict r)"
  by (simp add: request_to_dict_def) (rule norm_obj_cong, simp add: request_fields_def split: option.split)

interpretation request_codec: record_codec request_to_dict "request_from_dict H" "request_wf H" canon_request
  for H
  by unfold_locales (simp_all add: request_from_fields request_dict_canon)

lemma request_sha_canon [simp]: "request_sha256 H (canon_request r) = request_sha256 H r"
  by (simp add: request_sha256_def json_sha256_def canonical_json_bytes_cong [OF request_dict_canon])

lemma request_keys_ok [simp]:
  "\<not> sensitive_key ''goal''" "\<not> sensitive_key ''tool_policy_digest''" "\<not> sensitive_key ''budget''"
  "\<not> sensitive_key ''max_decisions''" "\<not> sensitive_key ''max_steps''" "\<not> sensitive_key ''max_tool_calls''"
  "\<not> sensitive_key ''run_id''" "\<not> sensitive_key ''input_artifact_ids''" "\<not> sensitive_key ''created_at''"
  "\<not> sensitive_key ''metadata''"
  by (simp_all add: sensitive_key_eval)

lemma request_json_ok: "request_checks r \<Longrightarrow> json_ok (request_to_dict r)"
  by (simp add: request_to_dict_def request_fields_def request_checks_def budget_json_def split: option.split)

lemma status_of_value_value [simp]: "status_of_value (status_value s) = Inr s"
  by (cases s) (simp_all add: status_of_value_def all_statuses_def)

lemma request_from_dict_wf:
  assumes "iso_lawful H" "request_from_dict H v = Inr r"
  shows "request_wf H r"
proof -
  from assms(2) obtain d where v: "v = JObj d" by (cases v) (simp_all add: request_from_dict_def)
  with assms(2) obtain b q where b: "r = q\<lparr>rq_legacy_budget := b\<rparr>" "request_decode H d = Inr q"
    "b = None \<or> (\<exists>w c. legacy_budget_binding w = Inr c \<and> b = Some c)"
    by (auto simp: request_from_dict_def split: option.splits)
  from b(2) obtain q0 where "request_init H q0 = Inr q" by (auto simp: request_decode_def)
  with request_init_fixed [OF assms(1)] request_init_budget b(1) have "request_init H r = Inr r" by blast
  moreover have "legacy_count w = Inr i \<Longrightarrow> 0 \<le> i" for w i by (cases w) (auto split: if_splits)
  then have "legacy_budget_binding w = Inr c \<Longrightarrow> budget_ok c" for w c
    by (auto simp: legacy_budget_binding_def budget_ok_def split: json.splits if_splits)
  ultimately show ?thesis using b(1,3) by (auto simp: request_wf_def)
qed

section \<open>A concrete request\<close>

definition demo_request :: run_request where
  "demo_request = \<lparr>rq_run_id = ''run_1'', rq_goal = ''measure'', rq_input_artifact_ids = [],
     rq_tool_policy_digest = replicate 64 (CHR ''1''), rq_created_at = demo_time,
     rq_metadata = [(''b'', JInt 1), (''a'', JNull)],
     rq_legacy_budget = Some \<lparr>lb_max_decisions = 3, lb_max_steps = 2, lb_max_tool_calls = 2\<rparr>\<rparr>"

lemma demo_request_wf: "request_wf demo_host demo_request"
proof -
  have "is_identifier ''run_1''" "py_strip ''measure'' \<noteq> []" "is_hex_lower (CHR ''1'')"
    "\<not> sensitive_key ''a''" "\<not> sensitive_key ''b''" by code_simp+
  moreover from this have "is_sha256 (replicate 64 (CHR ''1''))" by (simp add: is_sha256_def list_all_iff)
  ultimately show ?thesis
    using demo_time_fixed
    by (auto simp: request_wf_def request_init_eq request_checks_def demo_request_def budget_ok_def)
qed

section \<open>Properties\<close>

text \<open>
  Digest-preserving reads. A request, with or without the budget of an old ledger, that goes
  through canonical JSON text and \<^verbatim>\<open>from_dict\<close> is the same request up to the order of its metadata's
  keys, and has the same digest; and whatever \<^verbatim>\<open>from_dict\<close> accepts is such a request.
\<close>

theorem request_roundtrip:
  assumes "request_wf H r" "json_wf (float_of H) (JObj (rq_metadata r))"
  shows "\<exists>q. loads_bytes (float_of H) (json_dumps (request_to_dict r)) = Some (jnorm (request_to_dict r))
    \<and> request_from_dict H (jnorm (request_to_dict r)) = Inr q \<and> q\<lparr>rq_metadata := rq_metadata r\<rparr> = r
    \<and> rq_metadata q = norm_obj (rq_metadata r) \<and> request_sha256 H q = request_sha256 H r \<and> request_wf H q"
proof (intro exI conjI)
  have "json_wf (float_of H) (request_to_dict r)"
    using assms(2) by (simp add: request_to_dict_def request_fields_def budget_json_def split: option.split)
  from request_codec.persisted [OF assms(1) this]
  show "loads_bytes (float_of H) (json_dumps (request_to_dict r)) = Some (jnorm (request_to_dict r))"
    "request_from_dict H (jnorm (request_to_dict r)) = Inr (canon_request r)" by simp_all
  show "(canon_request r)\<lparr>rq_metadata := rq_metadata r\<rparr> = r" by (simp add: canon_request_def)
  show "rq_metadata (canon_request r) = norm_obj (rq_metadata r)" "request_sha256 H (canon_request r) = request_sha256 H r"
    "request_wf H (canon_request r)" using assms(1) by (simp_all add: request_wf_canon)
qed

theorem request_roundtrip_witness:
  "\<exists>q. request_from_dict demo_host (jnorm (request_to_dict demo_request)) = Inr q
    \<and> rq_legacy_budget q = rq_legacy_budget demo_request \<and> q \<noteq> demo_request
    \<and> request_sha256 demo_host q = request_sha256 demo_host demo_request"
proof -
  have "json_wf (float_of demo_host) (JObj (rq_metadata demo_request))" by (simp add: demo_request_def)
  from request_roundtrip [OF demo_request_wf this] obtain q where
    q: "request_from_dict demo_host (jnorm (request_to_dict demo_request)) = Inr q"
    "q\<lparr>rq_metadata := rq_metadata demo_request\<rparr> = demo_request" "rq_metadata q = norm_obj (rq_metadata demo_request)"
    "request_sha256 demo_host q = request_sha256 demo_host demo_request" by blast
  have "rq_legacy_budget (q\<lparr>rq_metadata := rq_metadata demo_request\<rparr>) = rq_legacy_budget q" by simp
  moreover have "norm_obj (rq_metadata demo_request) \<noteq> rq_metadata demo_request"
    unfolding demo_request_def by code_simp
  ultimately show ?thesis using q by metis
qed

end
