(* ===== verification/Tools.thy ===== *)
theory Tools
  imports Interfaces "HOL-Library.Product_Lexorder"
begin

text \<open>
  \<^verbatim>\<open>src/molly/core/tools.py\<close>: tool specifications, the registry and the policy of a run, the actions a
  provider may propose, the materialized call with its digest, the context an executor sees and the
  bounded result it returns. The executor itself is host code: the registry holds values of a type
  parameter.
\<close>

section \<open>Side effects and schemas\<close>

datatype side_effect = Pure | LocalArtifact | NetworkRead | ExternalWrite | RemoteCompute

fun side_effect_name :: "side_effect \<Rightarrow> string" where
  "side_effect_name Pure = ''PURE''"
| "side_effect_name LocalArtifact = ''LOCAL_ARTIFACT''"
| "side_effect_name NetworkRead = ''NETWORK_READ''"
| "side_effect_name ExternalWrite = ''EXTERNAL_WRITE''"
| "side_effect_name RemoteCompute = ''REMOTE_COMPUTE''"

definition side_effect_classes :: "string list" where
  "side_effect_classes =
     map side_effect_name [Pure, LocalArtifact, NetworkRead, ExternalWrite, RemoteCompute]"

definition side_effect_value :: "string \<Rightarrow> string res" where
  "side_effect_value value =
     (let normalized = py_upper (py_strip value) in
      if normalized \<notin> set side_effect_classes then Inl ToolContractError else Inr normalized)"

definition reference_keywords :: "string list" where
  "reference_keywords = [''$ref'', ''$dynamicRef'', ''$recursiveRef'']"

fun reject_external_schema_refs :: "json \<Rightarrow> unit res" and reject_ref_items :: "json list \<Rightarrow> unit res"
  and reject_ref_members :: "fields \<Rightarrow> unit res" where
  "reject_external_schema_refs (JObj d) = reject_ref_members d"
| "reject_external_schema_refs (JArr xs) = reject_ref_items xs"
| "reject_external_schema_refs JNull = Inr ()"
| "reject_external_schema_refs (JBool b) = Inr ()"
| "reject_external_schema_refs (JInt i) = Inr ()"
| "reject_external_schema_refs (JFloat f) = Inr ()"
| "reject_external_schema_refs (JStr s) = Inr ()"
| "reject_external_schema_refs JOpaque = Inr ()"
| "reject_ref_items [] = Inr ()"
| "reject_ref_items (x # xs) = bindE (reject_external_schema_refs x) (\<lambda>_. reject_ref_items xs)"
| "reject_ref_members [] = Inr ()"
| "reject_ref_members ((key, item) # d) =
     (if key \<in> set reference_keywords then Inl ToolContractError
      else bindE (reject_external_schema_refs item) (\<lambda>_. reject_ref_members d))"

definition validated_schema :: "host \<Rightarrow> fields \<Rightarrow> fields res" where
  "validated_schema H value =
     bindE (reject_external_schema_refs (JObj value)) (\<lambda>_.
     bindE (freeze_json_mapping (JObj value)) (\<lambda>frozen.
     if schema_wellformed H (JObj frozen) then Inr frozen else Inl ToolContractError))"

definition validate_json_data :: "json \<Rightarrow> unit res" where
  "validate_json_data value =
     bindE (wrapE (\<lambda>e. is_a e CoreContractError) ToolContractError (canonical_json_bytes value)) (\<lambda>_. Inr ())"

definition validate_schema_data :: "host \<Rightarrow> fields \<Rightarrow> json \<Rightarrow> unit res" where
  "validate_schema_data H schema value = guardE (schema_accepts H (JObj schema) value) SchemaValidationError"

section \<open>Specifications\<close>

record tool_spec =
  ts_name :: string
  ts_version :: string
  ts_description :: string
  ts_input_schema :: fields
  ts_output_schema :: fields
  ts_side_effect_class :: string
  ts_requires_approval :: bool
  ts_execution_config_digest :: "string option"

definition digest_option :: "string option \<Rightarrow> string option res" where
  "digest_option d = (case d of
     None \<Rightarrow> Inr None | Some x \<Rightarrow> bindE (validate_digest_reference x) (\<lambda>y. Inr (Some y)))"

text \<open>\<^verbatim>\<open>ToolSpec.__post_init__\<close>\<close>

definition spec_init :: "host \<Rightarrow> tool_spec \<Rightarrow> tool_spec res" where
  "spec_init H s =
     bindE (validate_identifier (ts_name s)) (\<lambda>_.
     bindE (validate_identifier (ts_version s)) (\<lambda>_.
     bindE (guardE (py_strip (ts_description s) \<noteq> []) ToolContractError) (\<lambda>_.
     bindE (side_effect_value (ts_side_effect_class s)) (\<lambda>effect.
     bindE (digest_option (ts_execution_config_digest s)) (\<lambda>config.
     bindE (validated_schema H (ts_input_schema s)) (\<lambda>input.
     bindE (validated_schema H (ts_output_schema s)) (\<lambda>output.
     Inr (s\<lparr>ts_side_effect_class := effect, ts_execution_config_digest := config,
            ts_input_schema := input, ts_output_schema := output\<rparr>))))))))"

definition spec_to_dict :: "tool_spec \<Rightarrow> json" where
  "spec_to_dict s = JObj
     ([(''name'', JStr (ts_name s)),
       (''version'', JStr (ts_version s)),
       (''description'', JStr (ts_description s)),
       (''input_schema'', JObj (ts_input_schema s)),
       (''output_schema'', JObj (ts_output_schema s)),
       (''side_effect_class'', JStr (ts_side_effect_class s)),
       (''requires_approval'', JBool (ts_requires_approval s))]
      @ (case ts_execution_config_digest s of None \<Rightarrow> [] | Some d \<Rightarrow> [(''execution_config_digest'', JStr d)]))"

definition spec_digest :: "host \<Rightarrow> tool_spec \<Rightarrow> string res" where
  "spec_digest H s = json_sha256 H (spec_to_dict s)"

definition model_view :: "tool_spec \<Rightarrow> json" where
  "model_view s = JObj
     [(''name'', JStr (ts_name s)),
      (''description'', JStr (ts_description s)),
      (''input_schema'', JObj (ts_input_schema s))]"

definition validate_arguments :: "host \<Rightarrow> tool_spec \<Rightarrow> fields \<Rightarrow> unit res" where
  "validate_arguments H s arguments = validate_schema_data H (ts_input_schema s) (JObj arguments)"

definition validate_output :: "host \<Rightarrow> tool_spec \<Rightarrow> json \<Rightarrow> unit res" where
  "validate_output H s data =
     bindE (validate_json_data data) (\<lambda>_. validate_schema_data H (ts_output_schema s) data)"

section \<open>The registry\<close>

text \<open>A dict from (name, version) to the specification and its executor, in insertion order\<close>

type_synonym 'x registry = "((string \<times> string) \<times> (tool_spec \<times> 'x)) list"

definition register :: "tool_spec \<Rightarrow> 'x \<Rightarrow> 'x registry \<Rightarrow> 'x registry res" where
  "register spec executor R =
     (let key = (ts_name spec, ts_version spec) in
      if map_of R key \<noteq> None then Inl ToolContractError else Inr (R @ [(key, spec, executor)]))"

fun registry_new :: "(tool_spec \<times> 'x) list \<Rightarrow> 'x registry \<Rightarrow> 'x registry res" where
  "registry_new [] R = Inr R"
| "registry_new ((spec, executor) # tools) R = bindE (register spec executor R) (registry_new tools)"

definition by_name :: "'x registry \<Rightarrow> string \<Rightarrow> (tool_spec \<times> 'x) list res" where
  "by_name R name =
     bindE (validate_identifier name) (\<lambda>_. Inr (map snd (filter (\<lambda>e. fst (fst e) = name) R)))"

definition narrow_version :: "string option \<Rightarrow> (tool_spec \<times> 'x) list \<Rightarrow> (tool_spec \<times> 'x) list res" where
  "narrow_version version candidates = (case version of
     None \<Rightarrow> Inr candidates
   | Some v \<Rightarrow> bindE (validate_identifier v) (\<lambda>_. Inr (filter (\<lambda>e. ts_version (fst e) = v) candidates)))"

definition resolve :: "'x registry \<Rightarrow> string \<Rightarrow> string option \<Rightarrow> tool_spec res" where
  "resolve R name version =
     bindE (by_name R name) (\<lambda>named.
     bindE (narrow_version version named) (\<lambda>candidates.
     case candidates of [e] \<Rightarrow> Inr (fst e) | _ \<Rightarrow> Inl ToolContractError))"

definition resolve_exact :: "host \<Rightarrow> 'x registry \<Rightarrow> string \<Rightarrow> string \<Rightarrow> string \<Rightarrow> tool_spec res" where
  "resolve_exact H R name version digest =
     bindE (resolve R name (Some version)) (\<lambda>spec.
     bindE (validate_digest_reference digest) (\<lambda>expected.
     bindE (spec_digest H spec) (\<lambda>actual.
     if actual \<noteq> expected then Inl ToolContractError else Inr spec)))"

definition executor_for :: "host \<Rightarrow> 'x registry \<Rightarrow> tool_spec \<Rightarrow> 'x res" where
  "executor_for H R spec =
     (case map_of R (ts_name spec, ts_version spec) of
        None \<Rightarrow> Inl ToolContractError
      | Some entry \<Rightarrow>
          bindE (spec_digest H (fst entry)) (\<lambda>registered.
          bindE (spec_digest H spec) (\<lambda>given.
          if registered \<noteq> given then Inl ToolContractError else Inr (snd entry))))"

definition spec_key :: "tool_spec \<Rightarrow> string \<times> string" where
  "spec_key s = (ts_name s, ts_version s)"

definition registry_specs :: "'x registry \<Rightarrow> tool_spec list" where
  "registry_specs R = sort_key spec_key (map (fst \<circ> snd) R)"

definition model_visible_tools :: "'x registry \<Rightarrow> json list" where
  "model_visible_tools R = map model_view (registry_specs R)"

section \<open>The policy\<close>

definition unique_strings :: "(string \<Rightarrow> string res) \<Rightarrow> string list \<Rightarrow> string list res" where
  "unique_strings validator values =
     bindE (mapE validator values) (\<lambda>result.
     if distinct result then Inr result else Inl ToolContractError)"

record tool_policy =
  tp_allowed_tools :: "string list"
  tp_allowed_side_effect_classes :: "string list"
  tp_approval_required_side_effect_classes :: "string list"

text \<open>\<^verbatim>\<open>ToolPolicy.__post_init__\<close>\<close>

definition policy_init :: "tool_policy \<Rightarrow> tool_policy res" where
  "policy_init p =
     bindE (unique_strings validate_identifier (tp_allowed_tools p)) (\<lambda>tools.
     bindE (unique_strings side_effect_value (tp_allowed_side_effect_classes p)) (\<lambda>allowed.
     bindE (unique_strings side_effect_value (tp_approval_required_side_effect_classes p)) (\<lambda>approval.
     Inr (p\<lparr>tp_allowed_tools := sort tools, tp_allowed_side_effect_classes := sort allowed,
            tp_approval_required_side_effect_classes := sort approval\<rparr>))))"

definition policy_to_dict :: "tool_policy \<Rightarrow> json" where
  "policy_to_dict p = JObj
     [(''allowed_tools'', jstrs (tp_allowed_tools p)),
      (''allowed_side_effect_classes'', jstrs (tp_allowed_side_effect_classes p)),
      (''approval_required_side_effect_classes'', jstrs (tp_approval_required_side_effect_classes p))]"

definition policy_digest :: "host \<Rightarrow> tool_policy \<Rightarrow> string res" where
  "policy_digest H p = json_sha256 H (policy_to_dict p)"

definition allows :: "tool_policy \<Rightarrow> tool_spec \<Rightarrow> bool" where
  "allows p s = (ts_name s \<in> set (tp_allowed_tools p)
     \<and> ts_side_effect_class s \<in> set (tp_allowed_side_effect_classes p))"

definition requires_approval :: "tool_policy \<Rightarrow> tool_spec \<Rightarrow> bool" where
  "requires_approval p s = (ts_requires_approval s
     \<or> ts_side_effect_class s \<in> set (tp_approval_required_side_effect_classes p))"

definition policy_check :: "tool_policy \<Rightarrow> tool_spec \<Rightarrow> unit res" where
  "policy_check p s = guardE (allows p s) ToolPolicyError"

section \<open>Authority fields\<close>

definition model_authority_keys :: "string list" where
  "model_authority_keys =
     [''run_id'', ''step_id'', ''call_id'', ''tool_version'', ''tool_spec_digest'', ''policy_digest'',
      ''approval_id'', ''approval_digest'', ''idempotency_key'', ''executor'', ''backend'', ''path'',
      ''filesystem_path'', ''store_root'', ''credential'', ''credentials'', ''secret'', ''token'',
      ''ssh_target'', ''endpoint'', ''private_endpoint'']"

fun reject_model_authority_fields :: "json \<Rightarrow> unit res" and reject_authority_items :: "json list \<Rightarrow> unit res"
  and reject_authority_members :: "fields \<Rightarrow> unit res" where
  "reject_model_authority_fields (JObj d) = reject_authority_members d"
| "reject_model_authority_fields (JArr xs) = reject_authority_items xs"
| "reject_model_authority_fields JNull = Inr ()"
| "reject_model_authority_fields (JBool b) = Inr ()"
| "reject_model_authority_fields (JInt i) = Inr ()"
| "reject_model_authority_fields (JFloat f) = Inr ()"
| "reject_model_authority_fields (JStr s) = Inr ()"
| "reject_model_authority_fields JOpaque = Inr ()"
| "reject_authority_items [] = Inr ()"
| "reject_authority_items (x # xs) = bindE (reject_model_authority_fields x) (\<lambda>_. reject_authority_items xs)"
| "reject_authority_members [] = Inr ()"
| "reject_authority_members ((key, item) # d) =
     (if py_casefold key \<in> set model_authority_keys then Inl ToolContractError
      else bindE (reject_model_authority_fields item) (\<lambda>_. reject_authority_members d))"

section \<open>Actions\<close>

text \<open>The bound and the NUL check on explanatory text\<close>

definition bounded_text :: "string \<Rightarrow> unit res" where
  "bounded_text s = guardE (length s \<le> 2000) ToolContractError"

definition bounded_summary :: "string \<Rightarrow> unit res" where
  "bounded_summary s =
     bindE (bounded_text s) (\<lambda>_. guardE (CHR 0x00 \<notin> set s) ToolContractError)"

record tool_call_proposal =
  pr_tool_name :: string
  pr_arguments :: fields
  pr_input_artifact_ids :: "string list"
  pr_reason_summary :: string

definition proposal_init :: "tool_call_proposal \<Rightarrow> tool_call_proposal res" where
  "proposal_init p =
     bindE (validate_identifier (pr_tool_name p)) (\<lambda>_.
     bindE (reject_model_authority_fields (JObj (pr_arguments p))) (\<lambda>_.
     bindE (freeze_json_mapping (JObj (pr_arguments p))) (\<lambda>arguments.
     bindE (validate_artifact_ids (pr_input_artifact_ids p)) (\<lambda>inputs.
     bindE (bounded_summary (pr_reason_summary p)) (\<lambda>_.
     Inr (p\<lparr>pr_arguments := arguments, pr_input_artifact_ids := inputs\<rparr>))))))"

definition proposal_to_dict :: "tool_call_proposal \<Rightarrow> json" where
  "proposal_to_dict p = JObj
     [(''action_type'', JStr ''TOOL_CALL''),
      (''tool_name'', JStr (pr_tool_name p)),
      (''arguments'', JObj (pr_arguments p)),
      (''input_artifact_ids'', jstrs (pr_input_artifact_ids p)),
      (''reason_summary'', JStr (pr_reason_summary p))]"

definition proposal_decode :: "fields \<Rightarrow> tool_call_proposal res" where
  "proposal_decode d =
     bindE (jitem d ''tool_name'') (\<lambda>name.
     bindE (py_dict (jget_or d ''arguments'' (JObj []))) (\<lambda>arguments.
     bindE (artifact_strs (jget_or d ''input_artifact_ids'' (JArr []))) (\<lambda>inputs.
     proposal_init \<lparr>pr_tool_name = py_str name, pr_arguments = arguments, pr_input_artifact_ids = inputs,
       pr_reason_summary = py_str (jget_or d ''reason_summary'' (JStr ''''))\<rparr>)))"

definition only_keys :: "string list \<Rightarrow> fields \<Rightarrow> bool" where
  "only_keys allowed d = list_all (\<lambda>p. fst p \<in> set allowed) d"

definition proposal_from_dict :: "fields \<Rightarrow> tool_call_proposal res" where
  "proposal_from_dict d =
     (if \<not> only_keys [''action_type'', ''type'', ''tool_name'', ''arguments'', ''input_artifact_ids'',
                   ''reason_summary''] d then Inl ToolContractError
      else wrapE decode_error ToolContractError (proposal_decode d))"

definition stop_init :: "string \<Rightarrow> string res" where
  "stop_init reason = bindE (bounded_text reason) (\<lambda>_. Inr reason)"

definition stop_to_dict :: "string \<Rightarrow> json" where
  "stop_to_dict reason = JObj [(''action_type'', JStr ''STOP''), (''reason'', JStr reason)]"

record review_action =
  rw_reason :: string
  rw_subject_ids :: "string list"

fun reference_str :: "json \<Rightarrow> string res" where
  "reference_str (JStr s) = validate_reference s"
| "reference_str _ = Inl CoreContractError"

definition review_action_init :: "string \<Rightarrow> json list \<Rightarrow> review_action res" where
  "review_action_init reason subjects =
     bindE (bounded_text reason) (\<lambda>_.
     bindE (mapE reference_str subjects) (\<lambda>ids.
     if distinct ids then Inr \<lparr>rw_reason = reason, rw_subject_ids = ids\<rparr> else Inl ToolContractError))"

definition review_action_to_dict :: "review_action \<Rightarrow> json" where
  "review_action_to_dict r = JObj
     [(''action_type'', JStr ''REQUEST_REVIEW''),
      (''reason'', JStr (rw_reason r)),
      (''subject_ids'', jstrs (rw_subject_ids r))]"

datatype structured_action =
  ToolCall tool_call_proposal | Stop string | RequestReview review_action

fun action_to_dict :: "structured_action \<Rightarrow> json" where
  "action_to_dict (ToolCall p) = proposal_to_dict p"
| "action_to_dict (Stop r) = stop_to_dict r"
| "action_to_dict (RequestReview r) = review_action_to_dict r"

text \<open>A provider answers an action object, which its constructor has checked, or any other value.\<close>

datatype provider_value = ActionObject structured_action | ActionValue json

definition parse_stop :: "fields \<Rightarrow> structured_action res" where
  "parse_stop d =
     (if \<not> only_keys [''action_type'', ''type'', ''reason''] d then Inl ToolContractError
      else bindE (stop_init (py_str (jget_or d ''reason'' (JStr '''')))) (\<lambda>r. Inr (Stop r)))"

definition parse_review :: "fields \<Rightarrow> structured_action res" where
  "parse_review d =
     (if \<not> only_keys [''action_type'', ''type'', ''reason'', ''subject_ids'', ''subject_artifact_ids''] d
      then Inl ToolContractError
      else
        let subjects = jget_or d ''subject_ids'' (jget_or d ''subject_artifact_ids'' (JArr [])) in
        bindE (py_tuple subjects) (\<lambda>ids.
        bindE (review_action_init (py_str (jget_or d ''reason'' (JStr ''''))) ids) (\<lambda>r.
        Inr (RequestReview r))))"

definition action_from_fields :: "fields \<Rightarrow> structured_action res" where
  "action_from_fields d =
     (case jget_or d ''action_type'' (jget d ''type'') of
        JStr action_type \<Rightarrow>
          (let normalized = py_upper (py_strip action_type) in
           if normalized \<in> {''TOOL_CALL'', ''TOOL_CALL_PROPOSAL''} then
             bindE (proposal_from_dict d) (\<lambda>p. Inr (ToolCall p))
           else if normalized = ''STOP'' then parse_stop d
           else if normalized \<in> {''REQUEST_REVIEW'', ''REVIEW''} then parse_review d
           else Inl ToolContractError)
      | _ \<Rightarrow> Inl ToolContractError)"

fun action_from_value :: "provider_value \<Rightarrow> structured_action res" where
  "action_from_value (ActionObject a) = Inr a"
| "action_from_value (ActionValue (JObj d)) = action_from_fields d"
| "action_from_value (ActionValue _) = Inl ToolContractError"

section \<open>Materialized calls\<close>

record tool_call =
  tc_run_id :: string
  tc_step_id :: string
  tc_call_id :: string
  tc_tool_name :: string
  tc_tool_version :: string
  tc_tool_spec_digest :: string
  tc_policy_digest :: string
  tc_arguments :: fields
  tc_input_artifact_ids :: "string list"
  tc_created_at :: string
  tc_tool_call_digest :: "string option"
  tc_reason_summary :: string

definition call_body :: "tool_call \<Rightarrow> fields" where
  "call_body c =
     [(''run_id'', JStr (tc_run_id c)),
      (''step_id'', JStr (tc_step_id c)),
      (''call_id'', JStr (tc_call_id c)),
      (''tool_name'', JStr (tc_tool_name c)),
      (''tool_version'', JStr (tc_tool_version c)),
      (''tool_spec_digest'', JStr (tc_tool_spec_digest c)),
      (''policy_digest'', JStr (tc_policy_digest c)),
      (''arguments'', JObj (tc_arguments c)),
      (''input_artifact_ids'', jstrs (tc_input_artifact_ids c)),
      (''created_at'', JStr (tc_created_at c))]"

definition call_computed_digest :: "host \<Rightarrow> tool_call \<Rightarrow> string res" where
  "call_computed_digest H c = json_sha256 H (JObj (call_body c))"

text \<open>\<^verbatim>\<open>MaterializedToolCall.__post_init__\<close>: a missing digest is filled in, a given one must be right.\<close>

definition bind_call_digest :: "host \<Rightarrow> string option \<Rightarrow> tool_call \<Rightarrow> tool_call res" where
  "bind_call_digest H given c =
     bindE (call_computed_digest H c) (\<lambda>computed.
     case given of
       None \<Rightarrow> Inr (c\<lparr>tc_tool_call_digest := Some computed\<rparr>)
     | Some d \<Rightarrow> if d \<noteq> computed then Inl ToolContractError else Inr (c\<lparr>tc_tool_call_digest := Some d\<rparr>))"

definition call_init :: "host \<Rightarrow> tool_call \<Rightarrow> tool_call res" where
  "call_init H c =
     bindE (validate_identifier (tc_run_id c)) (\<lambda>_.
     bindE (validate_identifier (tc_step_id c)) (\<lambda>_.
     bindE (validate_identifier (tc_call_id c)) (\<lambda>_.
     bindE (validate_identifier (tc_tool_name c)) (\<lambda>_.
     bindE (validate_identifier (tc_tool_version c)) (\<lambda>_.
     bindE (validate_digest_reference (tc_tool_spec_digest c)) (\<lambda>sd.
     bindE (validate_digest_reference (tc_policy_digest c)) (\<lambda>pd.
     bindE (reject_model_authority_fields (JObj (tc_arguments c))) (\<lambda>_.
     bindE (freeze_json_mapping (JObj (tc_arguments c))) (\<lambda>arguments.
     bindE (validate_artifact_ids (tc_input_artifact_ids c)) (\<lambda>inputs.
     bindE (normalize_timestamp H (tc_created_at c)) (\<lambda>ts.
     bindE (digest_option (tc_tool_call_digest c)) (\<lambda>given.
     bindE (bind_call_digest H given
        (c\<lparr>tc_tool_spec_digest := sd, tc_policy_digest := pd, tc_arguments := arguments,
           tc_input_artifact_ids := inputs, tc_created_at := ts\<rparr>)) (\<lambda>c'.
     bindE (bounded_summary (tc_reason_summary c)) (\<lambda>_. Inr c'))))))))))))))"

definition call_to_dict :: "host \<Rightarrow> tool_call \<Rightarrow> json res" where
  "call_to_dict H c =
     bindE (call_computed_digest H c) (\<lambda>computed.
     Inr (JObj (call_body c @ [(''tool_call_digest'', JStr computed),
                               (''reason_summary'', JStr (tc_reason_summary c))])))"

text \<open>\<^verbatim>\<open>MaterializedToolCall.from_dict\<close>\<close>

definition call_keys :: "string list" where
  "call_keys =
     [''run_id'', ''step_id'', ''call_id'', ''tool_name'', ''tool_version'', ''tool_spec_digest'',
      ''policy_digest'', ''arguments'', ''input_artifact_ids'', ''created_at'', ''tool_call_digest'',
      ''reason_summary'']"

definition call_decode :: "host \<Rightarrow> fields \<Rightarrow> tool_call res" where
  "call_decode H d =
     bindE (jitem d ''run_id'') (\<lambda>run.
     bindE (jitem d ''step_id'') (\<lambda>step.
     bindE (jitem d ''call_id'') (\<lambda>cid.
     bindE (jitem d ''tool_name'') (\<lambda>name.
     bindE (jitem d ''tool_version'') (\<lambda>version.
     bindE (jitem d ''tool_spec_digest'') (\<lambda>sd.
     bindE (jitem d ''policy_digest'') (\<lambda>pd.
     bindE (bindE (jitem d ''arguments'') py_dict) (\<lambda>arguments.
     bindE (artifact_strs (jget_or d ''input_artifact_ids'' (JArr []))) (\<lambda>inputs.
     bindE (jitem d ''created_at'') (\<lambda>ts.
     bindE (jitem d ''tool_call_digest'') (\<lambda>digest.
     call_init H
       \<lparr>tc_run_id = py_str run, tc_step_id = py_str step, tc_call_id = py_str cid,
        tc_tool_name = py_str name, tc_tool_version = py_str version, tc_tool_spec_digest = py_str sd,
        tc_policy_digest = py_str pd, tc_arguments = arguments, tc_input_artifact_ids = inputs,
        tc_created_at = py_str ts, tc_tool_call_digest = Some (py_str digest),
        tc_reason_summary = py_str (jget_or d ''reason_summary'' (JStr ''''))\<rparr>)))))))))))"

definition call_from_fields :: "host \<Rightarrow> fields \<Rightarrow> tool_call res" where
  "call_from_fields H d =
     (if \<not> only_keys call_keys d then Inl ToolContractError
      else wrapE decode_error ToolContractError (call_decode H d))"

fun call_from_dict :: "host \<Rightarrow> json \<Rightarrow> tool_call res" where
  "call_from_dict H (JObj d) = call_from_fields H d"
| "call_from_dict H _ = Inl ToolContractError"

section \<open>What an executor sees and returns\<close>

record exec_context =
  xc_run_id :: string
  xc_step_id :: string
  xc_call_id :: string
  xc_idempotency_key :: string
  xc_arguments :: fields
  xc_input_artifact_ids :: "string list"
  xc_reader :: "string \<Rightarrow> string res"

definition exec_context_init :: "exec_context \<Rightarrow> exec_context res" where
  "exec_context_init x =
     bindE (validate_identifier (xc_run_id x)) (\<lambda>_.
     bindE (validate_identifier (xc_step_id x)) (\<lambda>_.
     bindE (validate_identifier (xc_call_id x)) (\<lambda>_.
     bindE (validate_digest_reference (xc_idempotency_key x)) (\<lambda>_.
     bindE (reject_model_authority_fields (JObj (xc_arguments x))) (\<lambda>_.
     bindE (freeze_json_mapping (JObj (xc_arguments x))) (\<lambda>arguments.
     bindE (validate_artifact_ids (xc_input_artifact_ids x)) (\<lambda>inputs.
     Inr (x\<lparr>xc_arguments := arguments, xc_input_artifact_ids := inputs\<rparr>))))))))"

definition context_read :: "exec_context \<Rightarrow> string \<Rightarrow> string res" where
  "context_read x artifact_id =
     bindE (validate_reference artifact_id) (\<lambda>_.
     if artifact_id \<notin> set (xc_input_artifact_ids x) then Inl ToolAccessError
     else if \<not> py_startswith artifact_id ''sha256:'' then Inl ToolAccessError
     else xc_reader x artifact_id)"

text \<open>An argument of \<^verbatim>\<open>ArtifactDraft\<close>: a bytes-like object or any other value, \<^verbatim>\<open>None\<close> included\<close>

datatype draft_arg = BytesArg string | OtherArg json

record draft_args =
  da_content :: draft_arg
  da_media_type :: draft_arg
  da_schema_name :: draft_arg
  da_schema_version :: draft_arg
  da_bytes :: draft_arg

record artifact_draft =
  dr_content :: string
  dr_media_type :: string
  dr_schema_name :: "string option"
  dr_schema_version :: "string option"

fun bytes_like :: "draft_arg \<Rightarrow> string res" where
  "bytes_like (BytesArg b) = Inr b"
| "bytes_like (OtherArg _) = Inl ToolContractError"

fun draft_media_type :: "draft_arg \<Rightarrow> string res" where
  "draft_media_type (OtherArg (JStr m)) =
     (if py_strip m = [] then Inl ToolContractError
      else if list_ex (\<lambda>c. c \<in> set [CHR 0x00, CHR 0x0D, CHR 0x0A]) m then Inl ToolContractError
      else Inr m)"
| "draft_media_type _ = Inl ToolContractError"

fun draft_identifier :: "draft_arg \<Rightarrow> string option res" where
  "draft_identifier (OtherArg JNull) = Inr None"
| "draft_identifier (OtherArg (JStr s)) = bindE (validate_identifier s) (\<lambda>i. Inr (Some i))"
| "draft_identifier _ = Inl CoreContractError"

definition draft_content :: "draft_args \<Rightarrow> draft_arg res" where
  "draft_content a =
     (if da_content a = OtherArg JNull then Inr (da_bytes a)
      else if da_bytes a \<noteq> OtherArg JNull then Inl ToolContractError
      else Inr (da_content a))"

definition draft_init :: "draft_args \<Rightarrow> artifact_draft res" where
  "draft_init a =
     bindE (draft_content a) (\<lambda>given.
     bindE (bytes_like given) (\<lambda>content.
     bindE (draft_media_type (da_media_type a)) (\<lambda>mt.
     bindE (draft_identifier (da_schema_name a)) (\<lambda>sn.
     bindE (draft_identifier (da_schema_version a)) (\<lambda>sv.
     Inr \<lparr>dr_content = content, dr_media_type = mt, dr_schema_name = sn, dr_schema_version = sv\<rparr>)))))"

text \<open>\<^verbatim>\<open>ArtifactDraft(**item)\<close>\<close>

definition draft_keys :: "string list" where
  "draft_keys = [''content'', ''media_type'', ''schema_name'', ''schema_version'', ''bytes'']"

definition kwarg :: "(string \<times> draft_arg) list \<Rightarrow> string \<Rightarrow> draft_arg \<Rightarrow> draft_arg" where
  "kwarg kw k dflt = (case map_of kw k of None \<Rightarrow> dflt | Some v \<Rightarrow> v)"

definition draft_from_kwargs :: "(string \<times> draft_arg) list \<Rightarrow> artifact_draft res" where
  "draft_from_kwargs kw =
     (if \<not> list_all (\<lambda>p. fst p \<in> set draft_keys) kw then Inl TypeError
      else draft_init
        \<lparr>da_content = kwarg kw ''content'' (OtherArg JNull),
         da_media_type = kwarg kw ''media_type'' (OtherArg (JStr '''')),
         da_schema_name = kwarg kw ''schema_name'' (OtherArg JNull),
         da_schema_version = kwarg kw ''schema_version'' (OtherArg JNull),
         da_bytes = kwarg kw ''bytes'' (OtherArg JNull)\<rparr>)"

datatype draft_value = DraftObject artifact_draft | DraftKwargs "(string \<times> draft_arg) list" | DraftOther

fun draft_of_value :: "draft_value \<Rightarrow> artifact_draft res" where
  "draft_of_value (DraftObject d) = Inr d"
| "draft_of_value (DraftKwargs kw) = draft_from_kwargs kw"
| "draft_of_value DraftOther = Inl TypeError"

definition max_tool_result_data_bytes :: nat where
  "max_tool_result_data_bytes = 64 * 1024"

record tool_result =
  tr_data :: json
  tr_artifacts :: "artifact_draft list"

text \<open>\<^verbatim>\<open>ToolResult.__post_init__\<close>\<close>

definition result_data :: "json \<Rightarrow> (json \<times> string) res" where
  "result_data value =
     wrapE (\<lambda>e. is_a e CoreContractError) ToolContractError
       (bindE (freeze_json value) (\<lambda>frozen.
        bindE (canonical_json_bytes frozen) (\<lambda>encoded. Inr (frozen, encoded))))"

definition tool_result_init :: "json \<Rightarrow> draft_value list \<Rightarrow> tool_result res" where
  "tool_result_init value items =
     bindE (result_data value) (\<lambda>(frozen, encoded).
     bindE (guardE (length encoded \<le> max_tool_result_data_bytes) ToolContractError) (\<lambda>_.
     bindE (mapE draft_of_value items) (\<lambda>drafts.
     Inr \<lparr>tr_data = frozen, tr_artifacts = drafts\<rparr>)))"

definition tool_result_to_dict :: "tool_result \<Rightarrow> json" where
  "tool_result_to_dict r = JObj
     [(''data'', tr_data r), (''artifact_count'', JInt (int (length (tr_artifacts r))))]"

text \<open>
  What an executor hands back: a result object, a mapping of keyword arguments (its \<^verbatim>\<open>data\<close> and
  \<^verbatim>\<open>artifacts\<close> if present, and whether it has other keys), or anything else.
\<close>

datatype raw_result =
  ResultObject tool_result | ResultKwargs "json option" "draft_value list option" bool | ResultOther

fun result_of_raw :: "raw_result \<Rightarrow> tool_result res" where
  "result_of_raw (ResultObject r) = Inr r"
| "result_of_raw (ResultKwargs (Some value) items extra) =
     (if extra then Inl TypeError
      else tool_result_init value (case items of None \<Rightarrow> [] | Some xs \<Rightarrow> xs))"
| "result_of_raw _ = Inl TypeError"

section \<open>Lemmas: authority fields\<close>

text \<open>Every key of a value, at any depth\<close>

fun json_keys :: "json \<Rightarrow> string set" and item_keys :: "json list \<Rightarrow> string set"
  and member_keys :: "fields \<Rightarrow> string set" where
  "json_keys (JObj d) = member_keys d"
| "json_keys (JArr xs) = item_keys xs"
| "json_keys JNull = {}"
| "json_keys (JBool b) = {}"
| "json_keys (JInt i) = {}"
| "json_keys (JFloat f) = {}"
| "json_keys (JStr s) = {}"
| "json_keys JOpaque = {}"
| "item_keys [] = {}"
| "item_keys (x # xs) = json_keys x \<union> item_keys xs"
| "member_keys [] = {}"
| "member_keys ((k, v) # d) = insert k (json_keys v \<union> member_keys d)"

definition authority_free :: "json \<Rightarrow> bool" where
  "authority_free v = (\<forall>k \<in> json_keys v. py_casefold k \<notin> set model_authority_keys)"

lemma reject_authority_keys:
  "reject_model_authority_fields v = guardE (\<forall>k \<in> json_keys v. py_casefold k \<notin> set model_authority_keys) ToolContractError"
  "reject_authority_items xs = guardE (\<forall>k \<in> item_keys xs. py_casefold k \<notin> set model_authority_keys) ToolContractError"
  "reject_authority_members d = guardE (\<forall>k \<in> member_keys d. py_casefold k \<notin> set model_authority_keys) ToolContractError"
  by (induction v and xs and d rule: reject_model_authority_fields_reject_authority_items_reject_authority_members.induct)
    (auto simp: guardE_def)

lemma reject_authority_eq:
  "reject_model_authority_fields v = guardE (authority_free v) ToolContractError"
  by (simp add: reject_authority_keys authority_free_def)

lemma item_keys_eq: "item_keys xs = (\<Union>x \<in> set xs. json_keys x)"
  by (induction xs) auto

lemma member_keys_eq: "member_keys d = (\<Union>p \<in> set d. insert (fst p) (json_keys (snd p)))"
  by (induction d) fastforce+

lemma member_keys_sort [simp]: "member_keys (sort_key fst d) = member_keys d"
  by (simp add: member_keys_eq)

lemma json_keys_jnorm [simp]:
  "json_keys (jnorm v) = json_keys v" "item_keys (jnorm_list xs) = item_keys xs"
  "member_keys (jnorm_fields d) = member_keys d"
  by (induction v and xs and d rule: jnorm_jnorm_list_jnorm_fields.induct) (simp_all add: norm_obj_def)

lemma authority_free_norm [simp]: "authority_free (JObj (norm_obj d)) = authority_free (JObj d)"
  by (simp add: authority_free_def norm_obj_def)

section \<open>Lemmas: calls\<close>

lemma digest_option_eq: "digest_option d = Inr d' \<longleftrightarrow>
    (d = None \<and> d' = None \<or> (\<exists>x y. d = Some x \<and> d' = Some y \<and> validate_digest_reference x = Inr y))"
  by (auto simp: digest_option_def split: option.splits)

definition call_checks :: "tool_call \<Rightarrow> bool" where
  "call_checks c =
     (is_identifier (tc_run_id c) \<and> is_identifier (tc_step_id c) \<and> is_identifier (tc_call_id c)
      \<and> is_identifier (tc_tool_name c) \<and> is_identifier (tc_tool_version c)
      \<and> authority_free (JObj (tc_arguments c)) \<and> fields_ok (tc_arguments c)
      \<and> distinct (tc_input_artifact_ids c) \<and> list_all is_artifact_id (tc_input_artifact_ids c)
      \<and> length (tc_reason_summary c) \<le> 2000 \<and> CHR 0x00 \<notin> set (tc_reason_summary c))"

text \<open>The digest of a call whose arguments are canonical JSON\<close>

definition call_sha :: "host \<Rightarrow> tool_call \<Rightarrow> string" where
  "call_sha H c = sha256_bytes H (json_dumps (JObj (call_body c)))"

lemma call_keys_ok [simp]:
  "\<not> sensitive_key ''step_id''" "\<not> sensitive_key ''call_id''" "\<not> sensitive_key ''tool_name''"
  "\<not> sensitive_key ''tool_version''" "\<not> sensitive_key ''tool_spec_digest''" "\<not> sensitive_key ''policy_digest''"
  "\<not> sensitive_key ''arguments''" "\<not> sensitive_key ''input_artifact_ids''" "\<not> sensitive_key ''created_at''"
  "\<not> sensitive_key ''run_id''" "\<not> sensitive_key ''tool_call_digest''" "\<not> sensitive_key ''reason_summary''"
  "\<not> sensitive_key ''action_type''" "\<not> sensitive_key ''reason''" "\<not> sensitive_key ''subject_ids''"
  "\<not> sensitive_key ''data''" "\<not> sensitive_key ''artifact_count''"
  by (simp_all add: sensitive_key_eval)

lemma call_body_ok [simp]: "fields_ok (call_body c) = fields_ok (tc_arguments c)"
  by (simp add: call_body_def)

lemma call_computed_eq: "fields_ok (tc_arguments c) \<Longrightarrow> call_computed_digest H c = Inr (call_sha H c)"
  by (simp add: call_computed_digest_def json_sha256_def canonical_json_bytes_eq call_sha_def)

lemma call_body_updates [simp]:
  "call_body (c\<lparr>tc_tool_call_digest := d\<rparr>) = call_body c"
  "call_sha H (c\<lparr>tc_tool_call_digest := d\<rparr>) = call_sha H c"
  by (simp_all add: call_body_def call_sha_def)

definition call_bound :: "host \<Rightarrow> string option \<Rightarrow> tool_call \<Rightarrow> tool_call \<Rightarrow> bool" where
  "call_bound H given c1 c' = ((given = None \<or> given = Some (call_sha H c1))
     \<and> c' = c1\<lparr>tc_tool_call_digest := Some (call_sha H c1)\<rparr>)"

lemma call_init_eq: "call_init H c = Inr c' \<longleftrightarrow> call_checks c
    \<and> (\<exists>sd pd ts given. validate_digest_reference (tc_tool_spec_digest c) = Inr sd
        \<and> validate_digest_reference (tc_policy_digest c) = Inr pd
        \<and> normalize_timestamp H (tc_created_at c) = Inr ts
        \<and> digest_option (tc_tool_call_digest c) = Inr given
        \<and> call_bound H given (c\<lparr>tc_tool_spec_digest := sd, tc_policy_digest := pd, tc_created_at := ts\<rparr>) c')"
proof -
  have i: "c\<lparr>tc_tool_spec_digest := sd, tc_policy_digest := pd, tc_arguments := tc_arguments c,
      tc_input_artifact_ids := tc_input_artifact_ids c, tc_created_at := ts\<rparr>
    = c\<lparr>tc_tool_spec_digest := sd, tc_policy_digest := pd, tc_created_at := ts\<rparr>" for sd pd ts
    by simp
  have b: "fields_ok (tc_arguments c) \<Longrightarrow>
      bind_call_digest H given (c\<lparr>tc_tool_spec_digest := sd, tc_policy_digest := pd, tc_created_at := ts\<rparr>) = Inr r
      \<longleftrightarrow> call_bound H given (c\<lparr>tc_tool_spec_digest := sd, tc_policy_digest := pd, tc_created_at := ts\<rparr>) r"
    for given sd pd ts r
    by (cases given) (auto simp: bind_call_digest_def call_computed_eq call_bound_def)
  show ?thesis
    by (auto simp: call_init_def call_checks_def reject_authority_eq bounded_summary_def bounded_text_def
        i b)
qed

definition call_wf :: "host \<Rightarrow> tool_call \<Rightarrow> bool" where
  "call_wf H c = (call_init H c = Inr c)"

lemma digest_option_sha [simp]: "is_sha256 d \<Longrightarrow> digest_option (Some d) = Inr (Some d)"
  by (simp add: digest_option_def)

lemma call_wf_iff: "call_wf H c \<longleftrightarrow> call_checks c
    \<and> is_sha256 (tc_tool_spec_digest c) \<and> is_sha256 (tc_policy_digest c)
    \<and> normalize_timestamp H (tc_created_at c) = Inr (tc_created_at c)
    \<and> tc_tool_call_digest c = Some (call_sha H c) \<and> is_sha256 (call_sha H c)"
proof
  assume wf: "call_wf H c"
  then obtain sd pd ts given c1 where c1: "c1 = c\<lparr>tc_tool_spec_digest := sd, tc_policy_digest := pd, tc_created_at := ts\<rparr>"
    and c: "call_checks c" "validate_digest_reference (tc_tool_spec_digest c) = Inr sd"
      "validate_digest_reference (tc_policy_digest c) = Inr pd" "normalize_timestamp H (tc_created_at c) = Inr ts"
      "digest_option (tc_tool_call_digest c) = Inr given" "given = None \<or> given = Some (call_sha H c1)"
      "c = c1\<lparr>tc_tool_call_digest := Some (call_sha H c1)\<rparr>"
    unfolding call_wf_def call_init_eq call_bound_def by blast
  from c(7) have sha: "call_sha H c = call_sha H c1" by (metis call_body_updates(2))
  have d: "tc_tool_call_digest c = Some (call_sha H c)"
    unfolding sha by (subst c(7)) simp
  have f: "sd = tc_tool_spec_digest c" "pd = tc_policy_digest c" "ts = tc_created_at c"
    by (subst c(7); simp add: c1)+
  have "is_sha256 (call_sha H c)"
    using c(5,6) d sha validate_digest_result by (auto simp: digest_option_eq)
  with c(1-4) d f validate_digest_result show "call_checks c \<and> is_sha256 (tc_tool_spec_digest c) \<and> is_sha256 (tc_policy_digest c)
    \<and> normalize_timestamp H (tc_created_at c) = Inr (tc_created_at c)
    \<and> tc_tool_call_digest c = Some (call_sha H c) \<and> is_sha256 (call_sha H c)" by metis
next
  assume "call_checks c \<and> is_sha256 (tc_tool_spec_digest c) \<and> is_sha256 (tc_policy_digest c)
    \<and> normalize_timestamp H (tc_created_at c) = Inr (tc_created_at c)
    \<and> tc_tool_call_digest c = Some (call_sha H c) \<and> is_sha256 (call_sha H c)"
  moreover from this have "c\<lparr>tc_tool_call_digest := Some (call_sha H c)\<rparr> = c" by simp
  ultimately show "call_wf H c" by (simp add: call_wf_def call_init_eq call_bound_def)
qed

lemma call_init_wf:
  assumes "iso_lawful H" "sha_lawful H" "call_init H c = Inr c'"
  shows "call_wf H c'"
proof -
  have sha: "is_sha256 (call_sha H x)" for x
    using assms(2) by (simp add: sha_lawful_def call_sha_def sha256_bytes_def)
  from assms(3) obtain sd pd ts c1 where c: "call_checks c"
    "validate_digest_reference (tc_tool_spec_digest c) = Inr sd"
    "validate_digest_reference (tc_policy_digest c) = Inr pd"
    "normalize_timestamp H (tc_created_at c) = Inr ts"
    and c1: "c1 = c\<lparr>tc_tool_spec_digest := sd, tc_policy_digest := pd, tc_created_at := ts\<rparr>"
    and c': "c' = c1\<lparr>tc_tool_call_digest := Some (call_sha H c1)\<rparr>"
    unfolding call_init_eq call_bound_def by blast
  have "call_checks c'" using c(1) by (simp add: c' c1 call_checks_def)
  moreover have "call_sha H c' = call_sha H c1" by (simp add: c')
  ultimately show ?thesis
    using sha validate_digest_result [OF c(2)] validate_digest_result [OF c(3)]
      normalize_timestamp_fixed [OF assms(1) c(4)]
    by (simp add: call_wf_iff c' c1)
qed

lemma call_init_keeps:
  assumes "call_init H c = Inr c'"
  shows "call_checks c" "tc_run_id c' = tc_run_id c" "tc_step_id c' = tc_step_id c" "tc_call_id c' = tc_call_id c"
    "tc_tool_name c' = tc_tool_name c" "tc_tool_version c' = tc_tool_version c"
    "tc_arguments c' = tc_arguments c" "tc_input_artifact_ids c' = tc_input_artifact_ids c"
    "tc_reason_summary c' = tc_reason_summary c"
    "validate_digest_reference (tc_tool_spec_digest c) = Inr (tc_tool_spec_digest c')"
    "validate_digest_reference (tc_policy_digest c) = Inr (tc_policy_digest c')"
  using assms by (auto simp: call_init_eq call_bound_def)

definition canon_call :: "tool_call \<Rightarrow> tool_call" where
  "canon_call c = c\<lparr>tc_arguments := norm_obj (tc_arguments c)\<rparr>"

lemma canon_call_simps [simp]:
  "tc_run_id (canon_call c) = tc_run_id c" "tc_step_id (canon_call c) = tc_step_id c"
  "tc_call_id (canon_call c) = tc_call_id c" "tc_tool_name (canon_call c) = tc_tool_name c"
  "tc_tool_version (canon_call c) = tc_tool_version c" "tc_tool_spec_digest (canon_call c) = tc_tool_spec_digest c"
  "tc_policy_digest (canon_call c) = tc_policy_digest c" "tc_arguments (canon_call c) = norm_obj (tc_arguments c)"
  "tc_input_artifact_ids (canon_call c) = tc_input_artifact_ids c" "tc_created_at (canon_call c) = tc_created_at c"
  "tc_tool_call_digest (canon_call c) = tc_tool_call_digest c" "tc_reason_summary (canon_call c) = tc_reason_summary c"
  by (simp_all add: canon_call_def)

lemma call_body_canon: "norm_obj (call_body (canon_call c)) = norm_obj (call_body c)"
  by (rule norm_obj_cong) (simp add: call_body_def)

lemma call_sha_canon [simp]: "call_sha H (canon_call c) = call_sha H c"
  by (simp add: call_sha_def json_dumps_def call_body_canon)

lemma call_checks_canon [simp]: "call_checks (canon_call c) = call_checks c"
  by (simp add: call_checks_def)

lemma call_wf_canon [simp]: "call_wf H (canon_call c) = call_wf H c"
  by (simp add: call_wf_iff)

text \<open>The JSON form of a well-formed call\<close>

definition call_fields :: "tool_call \<Rightarrow> fields" where
  "call_fields c = call_body c @ [(''tool_call_digest'', JStr (the (tc_tool_call_digest c))),
     (''reason_summary'', JStr (tc_reason_summary c))]"

definition call_json :: "tool_call \<Rightarrow> json" where
  "call_json c = JObj (call_fields c)"

lemma call_to_dict_eq: "call_wf H c \<Longrightarrow> call_to_dict H c = Inr (call_json c)"
  by (simp add: call_wf_iff call_checks_def call_to_dict_def call_computed_eq call_json_def call_fields_def)

lemma call_json_ok: "call_checks c \<Longrightarrow> json_ok (call_json c)"
  by (simp add: call_json_def call_fields_def call_body_def call_checks_def)

lemma call_fields_lookup [simp]:
  "map_of (call_fields c) ''run_id'' = Some (JStr (tc_run_id c))"
  "map_of (call_fields c) ''step_id'' = Some (JStr (tc_step_id c))"
  "map_of (call_fields c) ''call_id'' = Some (JStr (tc_call_id c))"
  "map_of (call_fields c) ''tool_name'' = Some (JStr (tc_tool_name c))"
  "map_of (call_fields c) ''tool_version'' = Some (JStr (tc_tool_version c))"
  "map_of (call_fields c) ''tool_spec_digest'' = Some (JStr (tc_tool_spec_digest c))"
  "map_of (call_fields c) ''policy_digest'' = Some (JStr (tc_policy_digest c))"
  "map_of (call_fields c) ''arguments'' = Some (JObj (tc_arguments c))"
  "map_of (call_fields c) ''input_artifact_ids'' = Some (jstrs (tc_input_artifact_ids c))"
  "map_of (call_fields c) ''created_at'' = Some (JStr (tc_created_at c))"
  "map_of (call_fields c) ''tool_call_digest'' = Some (JStr (the (tc_tool_call_digest c)))"
  "map_of (call_fields c) ''reason_summary'' = Some (JStr (tc_reason_summary c))"
  by (simp_all add: call_fields_def call_body_def)

lemma only_keys_norm [simp]: "only_keys ks (norm_obj d) = only_keys ks d"
proof -
  have "list_all (\<lambda>p. fst p \<in> set ks) (jnorm_fields d) = list_all (\<lambda>p. fst p \<in> set ks) d"
    by (induction d) auto
  then show ?thesis by (simp add: only_keys_def norm_obj_def list_all_iff)
qed

lemma call_fields_keys [simp]: "only_keys call_keys (call_fields c)"
  by (simp add: only_keys_def call_keys_def call_fields_def call_body_def)

lemma call_decode_fields:
  "tc_tool_call_digest c = Some x \<Longrightarrow> call_decode H (call_fields c) = call_init H c"
  "tc_tool_call_digest c = Some x \<Longrightarrow> call_decode H (norm_obj (call_fields c)) = call_init H (canon_call c)"
  by (cases c; simp add: call_decode_def jitem_def jget_or_def canon_call_def)+

lemma call_from_fields_wf:
  assumes "call_wf H c"
  shows "call_from_dict H (call_json c) = Inr c" "call_from_dict H (jnorm (call_json c)) = Inr (canon_call c)"
proof -
  have d: "tc_tool_call_digest c = Some (call_sha H c)" using assms by (simp add: call_wf_iff)
  have "call_init H c = Inr c" "call_init H (canon_call c) = Inr (canon_call c)"
    using assms call_wf_canon [of H c] by (simp_all add: call_wf_def)
  then show "call_from_dict H (call_json c) = Inr c" "call_from_dict H (jnorm (call_json c)) = Inr (canon_call c)"
    by (simp_all add: call_json_def call_from_fields_def call_decode_fields [OF d])
qed

lemma call_dict_canon: "jnorm (call_json (canon_call c)) = jnorm (call_json c)"
  by (simp add: call_json_def) (rule norm_obj_cong, simp add: call_fields_def call_body_def)

interpretation call_codec: record_codec call_json "call_from_dict H" "call_wf H" canon_call
  for H
  by unfold_locales (simp_all add: call_from_fields_wf call_dict_canon)

text \<open>Whatever is read back is a well-formed call whose recorded digest is the digest of its body.\<close>

lemma call_from_dict_wf:
  assumes "iso_lawful H" "sha_lawful H" "call_from_dict H v = Inr c"
  shows "call_wf H c"
  using assms(3) call_init_wf [OF assms(1,2)]
  by (cases v) (auto simp: call_from_fields_def call_decode_def split: if_splits)

section \<open>Lemmas: the registry\<close>

definition registry_entry :: "tool_spec \<times> 'x \<Rightarrow> (string \<times> string) \<times> (tool_spec \<times> 'x)" where
  "registry_entry t = (spec_key (fst t), t)"

lemma fst_registry_entry [simp]: "fst (registry_entry t) = spec_key (fst t)" "snd (registry_entry t) = t"
  by (simp_all add: registry_entry_def)

lemma registry_new_eq: "registry_new tools R = Inr R' \<longleftrightarrow>
    distinct (map (spec_key \<circ> fst) tools) \<and> set (map (spec_key \<circ> fst) tools) \<inter> fst ` set R = {}
    \<and> R' = R @ map registry_entry tools"
proof (induction tools arbitrary: R)
  case Nil
  show ?case by auto
next
  case (Cons t tools)
  obtain s x where t: "t = (s, x)" by (cases t)
  have "map_of R (spec_key s) = None \<longleftrightarrow> spec_key s \<notin> fst ` set R" by (simp add: map_of_eq_None_iff)
  then show ?case
    unfolding t by (auto simp: Cons.IH register_def Let_def spec_key_def registry_entry_def split: if_splits)
qed

text \<open>The registered tools and the dict they are in\<close>

definition registered :: "(tool_spec \<times> 'x) list \<Rightarrow> 'x registry \<Rightarrow> bool" where
  "registered tools R = (distinct (map (spec_key \<circ> fst) tools) \<and> R = map registry_entry tools)"

lemma registry_new_registered: "registry_new tools [] = Inr R \<longleftrightarrow> registered tools R"
  by (simp add: registry_new_eq registered_def)

lemma registered_lookup:
  assumes "registered tools R"
  shows "map_of R key = Some t \<longleftrightarrow> t \<in> set tools \<and> key = spec_key (fst t)"
proof -
  have "distinct (map fst R)" using assms by (simp add: registered_def comp_def)
  then show ?thesis using assms by (auto simp: map_of_eq_Some_iff registered_def registry_entry_def)
qed

lemma by_name_registered:
  assumes "registered tools R"
  shows "by_name R n = bindE (validate_identifier n) (\<lambda>_. Inr (filter (\<lambda>t. ts_name (fst t) = n) tools))"
proof -
  have "map snd (filter (\<lambda>e. fst (fst e) = n) (map registry_entry tools)) = filter (\<lambda>t. ts_name (fst t) = n) tools"
    by (induction tools) (simp_all add: registry_entry_def spec_key_def)
  then show ?thesis using assms by (simp add: by_name_def registered_def)
qed

lemma singleton_case_mset:
  assumes "mset xs = mset ys"
  shows "(case xs of [e] \<Rightarrow> f e | _ \<Rightarrow> z) = (case ys of [e] \<Rightarrow> f e | _ \<Rightarrow> z)"
proof (cases "\<exists>e. xs = [e]")
  case True
  with assms show ?thesis by (auto dest: sym)
next
  case False
  moreover from this assms have "\<nexists>e. ys = [e]" by (auto dest: sym)
  ultimately show ?thesis by (simp split: list.split)
qed

lemma resolve_registered:
  assumes "registered tools R"
  shows "resolve R n v = bindE (validate_identifier n) (\<lambda>_.
    bindE (case v of None \<Rightarrow> Inr () | Some x \<Rightarrow> bindE (validate_identifier x) (\<lambda>_. Inr ())) (\<lambda>_.
    case filter (\<lambda>t. ts_name (fst t) = n \<and> (v = None \<or> v = Some (ts_version (fst t)))) tools of
      [e] \<Rightarrow> Inr (fst e) | _ \<Rightarrow> Inl ToolContractError))"
proof -
  have "filter (\<lambda>e. ts_version (fst e) = x) (filter (\<lambda>t. ts_name (fst t) = n) tools)
      = filter (\<lambda>t. ts_name (fst t) = n \<and> (v = None \<or> v = Some (ts_version (fst t)))) tools" if "v = Some x" for x
    using that by (auto simp: conj_commute intro: filter_cong)
  then show ?thesis
    by (cases v; cases "validate_identifier n"; cases "validate_identifier (the v)")
      (simp_all add: resolve_def by_name_registered [OF assms] narrow_version_def)
qed

lemma resolve_exact_registered:
  assumes "registered tools R"
  shows "resolve R n (Some v) = Inr s \<longleftrightarrow>
    is_identifier n \<and> is_identifier v \<and> (\<exists>x. (s, x) \<in> set tools) \<and> ts_name s = n \<and> ts_version s = v"
proof -
  let ?P = "\<lambda>t. ts_name (fst t) = n \<and> ts_version (fst t) = v"
  have one: "filter ?P tools = [t]" if "t \<in> set tools" "?P t" for t
  proof -
    have "distinct (map (spec_key \<circ> fst) tools)" using assms by (simp add: registered_def)
    then have f: "filter (\<lambda>u. (spec_key \<circ> fst) u = (spec_key \<circ> fst) t) tools = [t]"
      using that(1) by (induction tools) (auto simp: filter_empty_conv rev_image_eqI)
    have e: "(\<lambda>u. (spec_key \<circ> fst) u = (spec_key \<circ> fst) t) = ?P" using that(2) by (auto simp: spec_key_def)
    from f show ?thesis unfolding e .
  qed
  have "(\<exists>e. filter ?P tools = [e] \<and> fst e = s) \<longleftrightarrow> (\<exists>x. (s, x) \<in> set tools) \<and> ts_name s = n \<and> ts_version s = v"
  proof
    assume "\<exists>e. filter ?P tools = [e] \<and> fst e = s"
    then obtain e where e: "filter ?P tools = [e]" "fst e = s" by blast
    then have "e \<in> set (filter ?P tools)" by simp
    with e(2) show "(\<exists>x. (s, x) \<in> set tools) \<and> ts_name s = n \<and> ts_version s = v" by (cases e) auto
  next
    assume "(\<exists>x. (s, x) \<in> set tools) \<and> ts_name s = n \<and> ts_version s = v"
    then obtain x where "(s, x) \<in> set tools" "?P (s, x)" by auto
    from one [OF this] show "\<exists>e. filter ?P tools = [e] \<and> fst e = s" by auto
  qed
  then show ?thesis
    by (auto simp: resolve_registered [OF assms] eq_commute [of v] split: list.splits)
qed

lemma model_visible_registered: "registered tools R \<Longrightarrow> registry_specs R = sort_key spec_key (map fst tools)"
  by (simp add: registry_specs_def registered_def comp_def)

lemma sort_key_mset:
  assumes "mset xs = mset ys" "distinct (map f xs)"
  shows "sort_key f xs = sort_key f ys"
proof (rule sort_key_inj_key_eq)
  show "mset xs = mset (sort_key f ys)" using assms(1) by simp
  show "inj_on f (set xs)" using assms(2) by (simp add: distinct_map)
qed simp

section \<open>Lemmas: the policy\<close>

lemma unique_identifiers: "unique_strings validate_identifier xs = Inr ys \<longleftrightarrow>
    ys = xs \<and> distinct xs \<and> list_all is_identifier xs"
proof -
  have "mapE validate_identifier xs = Inr zs \<longleftrightarrow> zs = xs \<and> list_all is_identifier xs" for zs
    using mapE_id_iff [of validate_identifier xs zs] by (auto simp: list_all_iff okE_eq)
  then show ?thesis by (auto simp: unique_strings_def split: if_splits)
qed

lemma side_effect_value_eq: "side_effect_value s = Inr t \<longleftrightarrow> t = py_upper (py_strip s) \<and> t \<in> set side_effect_classes"
  by (auto simp: side_effect_value_def Let_def)

lemma unique_classes: "unique_strings side_effect_value xs = Inr ys \<longleftrightarrow>
    ys = map (\<lambda>s. py_upper (py_strip s)) xs \<and> distinct ys \<and> (\<forall>t \<in> set ys. t \<in> set side_effect_classes)"
proof -
  have "mapE side_effect_value xs = Inr zs \<longleftrightarrow>
      zs = map (\<lambda>s. py_upper (py_strip s)) xs \<and> (\<forall>t \<in> set zs. t \<in> set side_effect_classes)" for zs
    by (induction xs arbitrary: zs) (auto simp: side_effect_value_eq)
  then show ?thesis by (auto simp: unique_strings_def split: if_splits)
qed

lemma side_effect_fixed:
  assumes "t \<in> set side_effect_classes"
  shows "side_effect_value t = Inr t" "py_upper (py_strip t) = t"
proof -
  have "list_all (\<lambda>t. side_effect_value t = Inr t) side_effect_classes" by code_simp
  with assms show "side_effect_value t = Inr t" by (simp add: list_all_iff)
  then show "py_upper (py_strip t) = t" by (simp add: side_effect_value_eq)
qed

lemma policy_init_eq: "policy_init p = Inr q \<longleftrightarrow>
    distinct (tp_allowed_tools p) \<and> list_all is_identifier (tp_allowed_tools p)
    \<and> (\<exists>a r. unique_strings side_effect_value (tp_allowed_side_effect_classes p) = Inr a
        \<and> unique_strings side_effect_value (tp_approval_required_side_effect_classes p) = Inr r
        \<and> q = p\<lparr>tp_allowed_tools := sort (tp_allowed_tools p), tp_allowed_side_effect_classes := sort a,
               tp_approval_required_side_effect_classes := sort r\<rparr>)"
  by (auto simp: policy_init_def unique_identifiers)

lemma unique_classes_sorted:
  assumes "unique_strings side_effect_value xs = Inr ys"
  shows "unique_strings side_effect_value (sort ys) = Inr (sort ys)"
proof -
  have ys: "distinct ys" "\<forall>t \<in> set ys. t \<in> set side_effect_classes"
    using assms unfolding unique_classes by blast+
  then have "map (\<lambda>s. py_upper (py_strip s)) (sort ys) = sort ys"
    using side_effect_fixed(2) by (intro map_idI) (simp only: set_sort)
  with ys show ?thesis unfolding unique_classes by simp
qed

lemma policy_init_fixed: "policy_init p = Inr q \<Longrightarrow> policy_init q = Inr q"
  by (auto simp: policy_init_eq unique_classes_sorted list_all_iff)

lemma unique_classes_perm:
  assumes "unique_strings side_effect_value xs = Inr ys" "mset xs' = mset xs"
  shows "\<exists>zs. unique_strings side_effect_value xs' = Inr zs \<and> sort zs = sort ys"
proof -
  let ?n = "\<lambda>s. py_upper (py_strip s)"
  have m: "mset (map ?n xs') = mset (map ?n xs)" using assms(2) by simp
  then have "unique_strings side_effect_value xs' = Inr (map ?n xs')"
    using assms(1) mset_eq_imp_distinct_iff [OF m] mset_eq_setD [OF m] unfolding unique_classes by blast
  moreover have "sort (map ?n xs') = sort ys"
    using m assms(1) by (intro properties_for_sort) (simp_all add: unique_classes)
  ultimately show ?thesis by blast
qed

section \<open>Lemmas: actions and results\<close>

definition proposal_checks :: "tool_call_proposal \<Rightarrow> bool" where
  "proposal_checks p =
     (is_identifier (pr_tool_name p) \<and> authority_free (JObj (pr_arguments p)) \<and> fields_ok (pr_arguments p)
      \<and> distinct (pr_input_artifact_ids p) \<and> list_all is_artifact_id (pr_input_artifact_ids p)
      \<and> length (pr_reason_summary p) \<le> 2000 \<and> CHR 0x00 \<notin> set (pr_reason_summary p))"

lemma proposal_init_eq: "proposal_init p = Inr q \<longleftrightarrow> q = p \<and> proposal_checks p"
  by (auto simp: proposal_init_def proposal_checks_def reject_authority_eq bounded_summary_def bounded_text_def)

fun action_wf :: "structured_action \<Rightarrow> bool" where
  "action_wf (ToolCall p) = proposal_checks p"
| "action_wf (Stop r) = (length r \<le> 2000)"
| "action_wf (RequestReview r) =
     (length (rw_reason r) \<le> 2000 \<and> distinct (rw_subject_ids r) \<and> list_all is_reference (rw_subject_ids r))"

lemma reference_strs: "mapE reference_str xs = Inr ids \<longleftrightarrow> xs = map JStr ids \<and> list_all is_reference ids"
proof (induction xs arbitrary: ids)
  case Nil
  then show ?case by auto
next
  case (Cons x xs)
  show ?case
  proof (cases x)
    case (JStr s)
    with Cons show ?thesis by (cases ids) auto
  qed auto
qed

lemma review_action_init_eq: "review_action_init reason subjects = Inr r \<longleftrightarrow>
    action_wf (RequestReview r) \<and> rw_reason r = reason \<and> subjects = map JStr (rw_subject_ids r)"
  by (cases r) (auto simp: review_action_init_def bounded_text_def reference_strs split: if_splits)

text \<open>A parsed action is one that its constructor accepts, and such an action's dict parses to it.\<close>

lemma action_parsed_wf: "action_from_value (ActionValue v) = Inr a \<Longrightarrow> action_wf a"
  by (cases v)
    (auto simp: action_from_fields_def proposal_from_dict_def proposal_decode_def proposal_init_eq
      parse_stop_def stop_init_def bounded_text_def parse_review_def review_action_init_eq Let_def
      split: json.splits if_splits)

lemma action_words:
  "py_upper (py_strip ''TOOL_CALL'') = ''TOOL_CALL''" "py_upper (py_strip ''STOP'') = ''STOP''"
  "py_upper (py_strip ''REQUEST_REVIEW'') = ''REQUEST_REVIEW''"
  by code_simp+

lemma action_parses: "action_wf a \<Longrightarrow> action_from_value (ActionValue (action_to_dict a)) = Inr a"
proof (cases a)
  case (ToolCall p)
  assume "action_wf a"
  with ToolCall have "proposal_init p = Inr p" by (simp add: proposal_init_eq)
  then show ?thesis
    by (cases p) (simp add: ToolCall proposal_to_dict_def action_from_fields_def jget_or_def jget_def action_words
      proposal_from_dict_def proposal_decode_def only_keys_def jitem_def Let_def)
next
  case (Stop r)
  assume "action_wf a"
  with Stop show ?thesis
    by (simp add: stop_to_dict_def action_from_fields_def jget_or_def jget_def action_words
      parse_stop_def stop_init_def bounded_text_def only_keys_def Let_def)
next
  case (RequestReview r)
  assume "action_wf a"
  with RequestReview have "review_action_init (rw_reason r) (map JStr (rw_subject_ids r)) = Inr r"
    by (simp add: review_action_init_eq)
  with RequestReview show ?thesis
    by (simp add: review_action_to_dict_def action_from_fields_def jget_or_def jget_def action_words
      parse_review_def only_keys_def Let_def jstrs_def)
qed

lemma action_json_ok: "action_wf a \<Longrightarrow> json_ok (action_to_dict a)"
  by (cases a) (simp_all add: proposal_to_dict_def proposal_checks_def stop_to_dict_def review_action_to_dict_def)

lemma tool_result_init_eq: "tool_result_init v items = Inr r \<longleftrightarrow>
    json_ok v \<and> length (json_dumps v) \<le> max_tool_result_data_bytes \<and> tr_data r = v
    \<and> mapE draft_of_value items = Inr (tr_artifacts r)"
  by (cases r) (auto simp: tool_result_init_def result_data_def freeze_json_eq canonical_json_bytes_eq)

section \<open>Concrete tools\<close>

definition demo_spec :: "string \<Rightarrow> tool_spec" where
  "demo_spec name = \<lparr>ts_name = name, ts_version = ''1'', ts_description = ''d'', ts_input_schema = [],
     ts_output_schema = [], ts_side_effect_class = ''PURE'', ts_requires_approval = False,
     ts_execution_config_digest = None\<rparr>"

lemma demo_registry: "n \<noteq> m \<Longrightarrow> registry_new [(demo_spec n, x), (demo_spec m, y)] []
    = Inr (map registry_entry [(demo_spec n, x), (demo_spec m, y)])"
  unfolding registry_new_eq by (simp add: spec_key_def demo_spec_def)

definition demo_call_unbound :: tool_call where
  "demo_call_unbound = \<lparr>tc_run_id = ''run_1'', tc_step_id = ''step_1'', tc_call_id = ''call_1'',
     tc_tool_name = ''probe'', tc_tool_version = ''1'', tc_tool_spec_digest = replicate 64 (CHR ''1''),
     tc_policy_digest = replicate 64 (CHR ''1''), tc_arguments = [(''b'', JInt 1), (''a'', JNull)],
     tc_input_artifact_ids = [], tc_created_at = demo_time, tc_tool_call_digest = None,
     tc_reason_summary = ''why''\<rparr>"

definition demo_call :: tool_call where
  "demo_call = demo_call_unbound\<lparr>tc_tool_call_digest := Some (call_sha demo_host demo_call_unbound)\<rparr>"

lemma demo_keys: "\<not> sensitive_key ''a''" "\<not> sensitive_key ''b''"
  by (simp_all add: sensitive_key_eval)

lemma demo_digest: "is_sha256 (replicate 64 (CHR ''1''))"
proof -
  have "is_hex_lower (CHR ''1'')" by code_simp
  then show ?thesis by (simp add: is_sha256_def list_all_iff)
qed

lemma demo_call_wf: "call_wf demo_host demo_call"
proof -
  have "is_identifier ''run_1''" "is_identifier ''step_1''" "is_identifier ''call_1''" "is_identifier ''probe''"
    "is_identifier ''1''" "authority_free (JObj [(''b'', JInt 1), (''a'', JNull)])" by code_simp+
  moreover have "is_sha256 (call_sha demo_host c)" for c
    using demo_sha_lawful by (simp add: sha_lawful_def call_sha_def sha256_bytes_def)
  ultimately show ?thesis
    using demo_time_fixed by (simp add: call_wf_iff call_checks_def demo_call_def)
      (simp add: demo_call_unbound_def demo_keys demo_digest)
qed

section \<open>Properties\<close>

text \<open>
  C34. The digest of a call survives persistence. A materialized call whose \<^verbatim>\<open>to_dict\<close> goes through
  canonical JSON text is read by \<^verbatim>\<open>from_dict\<close> as the same call with the same digest, up to the order of
  the keys of its arguments.
\<close>

theorem call_roundtrip:
  assumes "call_wf H c" "json_wf (float_of H) (JObj (tc_arguments c))"
  shows "\<exists>v q. call_to_dict H c = Inr v \<and> loads_bytes (float_of H) (json_dumps v) = Some (jnorm v)
    \<and> call_from_dict H (jnorm v) = Inr q \<and> q\<lparr>tc_arguments := tc_arguments c\<rparr> = c
    \<and> tc_arguments q = norm_obj (tc_arguments c) \<and> call_computed_digest H q = call_computed_digest H c"
proof (intro exI conjI)
  show "call_to_dict H c = Inr (call_json c)" using assms(1) by (rule call_to_dict_eq)
  have "json_wf (float_of H) (call_json c)"
    using assms(2) by (simp add: call_json_def call_fields_def call_body_def)
  from call_codec.persisted [OF assms(1) this]
  show "loads_bytes (float_of H) (json_dumps (call_json c)) = Some (jnorm (call_json c))"
    "call_from_dict H (jnorm (call_json c)) = Inr (canon_call c)" by simp_all
  show "(canon_call c)\<lparr>tc_arguments := tc_arguments c\<rparr> = c" by (simp add: canon_call_def)
  show "tc_arguments (canon_call c) = norm_obj (tc_arguments c)" by simp
  show "call_computed_digest H (canon_call c) = call_computed_digest H c"
    using assms(1) by (simp add: call_wf_iff call_checks_def call_computed_eq)
qed

theorem call_roundtrip_witness:
  "\<exists>v q. call_to_dict demo_host demo_call = Inr v \<and> call_from_dict demo_host (jnorm v) = Inr q
     \<and> call_computed_digest demo_host q = call_computed_digest demo_host demo_call"
proof -
  have "json_wf (float_of demo_host) (JObj (tc_arguments demo_call))"
    by (simp add: demo_call_def demo_call_unbound_def)
  from call_roundtrip [OF demo_call_wf this] show ?thesis by blast
qed

text \<open>
  C35. Closed actions. Whatever a provider's value parses to is within its bounds, parses again from its
  own dict, and a tool call has, at no depth of its arguments and in no capitalisation, a key that
  names an authority of the server (run, step and call IDs, digests, approvals, paths, credentials),
  nor a key that reads as a credential.
\<close>

theorem actions_are_closed:
  assumes "action_from_value (ActionValue v) = Inr a"
  shows "action_from_value (ActionValue (action_to_dict a)) = Inr a \<and> action_wf a
    \<and> (\<forall>p. a = ToolCall p \<longrightarrow>
         (\<forall>k \<in> member_keys (pr_arguments p). py_casefold k \<notin> set model_authority_keys))"
  using action_parsed_wf [OF assms] action_parses [OF action_parsed_wf [OF assms]]
  by (auto simp: proposal_checks_def authority_free_def)

theorem actions_are_closed_witness:
  "\<exists>p. action_from_value (ActionValue (JObj [(''type'', JStr '' tool_call ''), (''tool_name'', JStr ''probe''),
      (''arguments'', JObj [(''a'', JArr [JObj [(''b'', JInt 1)]])])])) = Inr (ToolCall p)
    \<and> member_keys (pr_arguments p) = {''a'', ''b''} \<and> py_casefold ''b'' \<notin> set model_authority_keys"
proof -
  let ?v = "JObj [(''type'', JStr '' tool_call ''), (''tool_name'', JStr ''probe''),
      (''arguments'', JObj [(''a'', JArr [JObj [(''b'', JInt 1)]])])]"
  let ?p = "\<lparr>pr_tool_name = ''probe'', pr_arguments = [(''a'', JArr [JObj [(''b'', JInt 1)]])],
     pr_input_artifact_ids = [], pr_reason_summary = ''''\<rparr>"
  have "is_identifier ''probe''" "authority_free (JObj (pr_arguments ?p))"
    "py_upper (py_strip '' tool_call '') = ''TOOL_CALL''" by code_simp+
  then have a: "action_from_value (ActionValue ?v) = Inr (ToolCall ?p)"
    by (simp add: action_from_fields_def jget_or_def jget_def jitem_def proposal_from_dict_def only_keys_def
      proposal_decode_def proposal_init_eq proposal_checks_def demo_keys artifact_strs_def Let_def)
  from actions_are_closed [OF a] have "py_casefold ''b'' \<notin> set model_authority_keys" by simp
  with a show ?thesis by (intro exI [of _ ?p]) auto
qed

text \<open>
  C37. Registration order does not matter. Registering the same tools in another order succeeds
  equally, and name resolution, exact resolution, the executor that is run and the list that the
  provider sees are the same.
\<close>

theorem registry_order_irrelevant:
  assumes "registry_new tools [] = Inr R" "mset tools' = mset tools"
  shows "\<exists>R'. registry_new tools' [] = Inr R' \<and> resolve R' = resolve R
    \<and> (\<forall>n v d. resolve_exact H R' n v d = resolve_exact H R n v d)
    \<and> executor_for H R' = executor_for H R \<and> model_visible_tools R' = model_visible_tools R"
proof -
  let ?R' = "map registry_entry tools'"
  have r: "registered tools R" using assms(1) by (simp add: registry_new_registered)
  have k: "mset (map (spec_key \<circ> fst) tools') = mset (map (spec_key \<circ> fst) tools)"
    using assms(2) by (metis mset_map)
  have r': "registered tools' ?R'"
    using r mset_eq_imp_distinct_iff [OF k] by (simp add: registered_def)
  have res: "resolve ?R' = resolve R"
  proof (intro ext)
    fix n v
    have "mset (filter P tools') = mset (filter P tools)" for P by (simp add: assms(2))
    note case_eq = singleton_case_mset [OF this]
    show "resolve ?R' n v = resolve R n v"
      unfolding resolve_registered [OF r] resolve_registered [OF r'] by (subst case_eq) (rule refl)
  qed
  have "map_of ?R' = map_of R"
    using registered_lookup [OF r] registered_lookup [OF r'] mset_eq_setD [OF assms(2)]
    by (intro ext) (metis not_None_eq)
  moreover have "registry_specs ?R' = registry_specs R"
    unfolding model_visible_registered [OF r] model_visible_registered [OF r']
    by (rule sort_key_mset) (use r' in \<open>simp_all add: assms(2) registered_def comp_def\<close>)
  ultimately show ?thesis
    using r' res by (intro exI [of _ ?R'])
      (simp add: registry_new_registered resolve_exact_def executor_for_def model_visible_tools_def fun_eq_iff)
qed

theorem registry_order_irrelevant_witness:
  "\<exists>R R'. registry_new [(demo_spec ''a'', 0 :: nat), (demo_spec ''b'', 1)] [] = Inr R
    \<and> registry_new [(demo_spec ''b'', 1), (demo_spec ''a'', 0)] [] = Inr R' \<and> R' \<noteq> R
    \<and> model_visible_tools R' = model_visible_tools R"
proof -
  let ?ts = "[(demo_spec ''a'', 0 :: nat), (demo_spec ''b'', 1)]"
  let ?us = "[(demo_spec ''b'', 1), (demo_spec ''a'', 0 :: nat)]"
  let ?R = "map registry_entry ?ts"
  have 1: "registry_new ?ts [] = Inr ?R" by (rule demo_registry) simp
  have "mset ?us = mset ?ts" by simp
  from registry_order_irrelevant [OF 1 this] obtain R' where
    R': "registry_new ?us [] = Inr R'" "model_visible_tools R' = model_visible_tools ?R" by blast
  have "registry_new ?us [] = Inr (map registry_entry ?us)" by (rule demo_registry) simp
  with R'(1) have "R' = map registry_entry ?us" by (metis sum.inject(2))
  then have "R' \<noteq> ?R" by (simp add: registry_entry_def spec_key_def demo_spec_def)
  with 1 R' show ?thesis by blast
qed

text \<open>
  Exact resolution. A registry of tools with different (name, version) pairs answers a name, a
  version and a digest exactly with the registered specification of that digest, and the executor
  for it is the one registered with it.
\<close>

theorem exact_resolution:
  assumes "registry_new tools [] = Inr R"
  shows "(resolve_exact H R n v d = Inr s \<longleftrightarrow>
      is_identifier n \<and> is_identifier v \<and> (\<exists>x. (s, x) \<in> set tools) \<and> ts_name s = n \<and> ts_version s = v
      \<and> okE (spec_digest H s) \<and> validate_digest_reference d = spec_digest H s)
    \<and> (\<forall>x. resolve_exact H R n v d = Inr s \<and> (s, x) \<in> set tools \<longrightarrow> executor_for H R s = Inr x)"
proof -
  have r: "registered tools R" using assms by (simp add: registry_new_registered)
  have e: "resolve_exact H R n v d = Inr s \<longleftrightarrow>
      is_identifier n \<and> is_identifier v \<and> (\<exists>x. (s, x) \<in> set tools) \<and> ts_name s = n \<and> ts_version s = v
      \<and> okE (spec_digest H s) \<and> validate_digest_reference d = spec_digest H s"
    by (auto simp: resolve_exact_def resolve_exact_registered [OF r] okE_eq split: if_splits)
  have "map_of R (ts_name s, ts_version s) = Some (s, x)" if "(s, x) \<in> set tools" for x
    using that by (simp add: registered_lookup [OF r] spec_key_def)
  then have "executor_for H R s = Inr x" if "(s, x) \<in> set tools" "okE (spec_digest H s)" for x
    using that by (auto simp: executor_for_def okE_eq)
  then show ?thesis unfolding e by blast
qed

theorem exact_resolution_witness:
  "\<exists>R d. registry_new [(demo_spec ''a'', 0 :: nat), (demo_spec ''b'', 1)] [] = Inr R
    \<and> resolve_exact demo_host R ''b'' ''1'' d = Inr (demo_spec ''b'')"
proof -
  let ?ts = "[(demo_spec ''a'', 0 :: nat), (demo_spec ''b'', 1)]"
  let ?s = "demo_spec ''b''"
  have r: "registry_new ?ts [] = Inr (map registry_entry ?ts)" by (rule demo_registry) simp
  have k: "\<not> sensitive_key ''name''" "\<not> sensitive_key ''version''" "\<not> sensitive_key ''description''"
    "\<not> sensitive_key ''input_schema''" "\<not> sensitive_key ''output_schema''"
    "\<not> sensitive_key ''side_effect_class''" "\<not> sensitive_key ''requires_approval''"
    by (simp_all add: sensitive_key_eval)
  have "json_ok (spec_to_dict ?s)" by (simp add: spec_to_dict_def demo_spec_def k)
  then have "spec_digest demo_host ?s = Inr (sha256 demo_host (json_dumps (spec_to_dict ?s)))"
    by (simp only: spec_digest_def json_sha256_def canonical_json_bytes_eq sha256_bytes_def if_True bindE_simps)
  moreover have "is_sha256 (sha256 demo_host (json_dumps (spec_to_dict ?s)))"
    using demo_sha_lawful by (simp only: sha_lawful_def)
  ultimately obtain d where d: "spec_digest demo_host ?s = Inr d" "is_sha256 d" by blast
  have "is_identifier ''b''" "is_identifier ''1''" by code_simp+
  with d exact_resolution [OF r, of demo_host "''b''" "''1''" d ?s]
  have "resolve_exact demo_host (map registry_entry ?ts) ''b'' ''1'' d = Inr ?s"
    by (auto simp: demo_spec_def)
  with r show ?thesis by blast
qed

text \<open>
  Bounded results. An executor's data is accepted exactly if it is canonical JSON of at most 65536
  bytes (a string of 65534 characters still fits) and every artifact item is a draft or the
  arguments of one; the accepted result carries them unchanged.
\<close>

theorem result_data_bounded:
  "(tool_result_init v items = Inr r \<longleftrightarrow>
      json_ok v \<and> length (json_dumps v) \<le> 65536 \<and> tr_data r = v \<and> mapE draft_of_value items = Inr (tr_artifacts r))
    \<and> (okE (tool_result_init (JStr (replicate n (CHR ''x''))) []) \<longleftrightarrow> n \<le> 65534)"
proof -
  have "escape_char (CHR ''x'') = ''x''" by code_simp
  then have "escape_string (replicate n (CHR ''x'')) = replicate n (CHR ''x'')" by (induction n) simp_all
  then have "length (json_dumps (JStr (replicate n (CHR ''x'')))) = n + 2"
    by (simp add: json_dumps_def print_string_def)
  then have "tool_result_init (JStr (replicate n (CHR ''x''))) [] = Inr q
      \<longleftrightarrow> n \<le> 65534 \<and> q = \<lparr>tr_data = JStr (replicate n (CHR ''x'')), tr_artifacts = []\<rparr>" for q
    by (cases q) (auto simp: tool_result_init_eq max_tool_result_data_bytes_def)
  then show ?thesis by (simp add: tool_result_init_eq max_tool_result_data_bytes_def okE_eq)
qed

text \<open>
  Policies are normal forms. A policy given by other orderings of the same lists is the same
  policy, with the same digest, and building a policy from its own fields changes nothing; it allows
  exactly the tools that are listed by name and by class.
\<close>

theorem policy_normal_form:
  assumes "policy_init p = Inr q" "mset (tp_allowed_tools p') = mset (tp_allowed_tools p)"
    "mset (tp_allowed_side_effect_classes p') = mset (tp_allowed_side_effect_classes p)"
    "mset (tp_approval_required_side_effect_classes p') = mset (tp_approval_required_side_effect_classes p)"
  shows "policy_init p' = Inr q \<and> policy_init q = Inr q
    \<and> (\<forall>s. allows q s \<longleftrightarrow> ts_name s \<in> set (tp_allowed_tools p)
        \<and> ts_side_effect_class s \<in> (\<lambda>c. py_upper (py_strip c)) ` set (tp_allowed_side_effect_classes p))"
proof -
  from assms(1) obtain a r where q: "distinct (tp_allowed_tools p)" "list_all is_identifier (tp_allowed_tools p)"
    "unique_strings side_effect_value (tp_allowed_side_effect_classes p) = Inr a"
    "unique_strings side_effect_value (tp_approval_required_side_effect_classes p) = Inr r"
    "q = p\<lparr>tp_allowed_tools := sort (tp_allowed_tools p), tp_allowed_side_effect_classes := sort a,
           tp_approval_required_side_effect_classes := sort r\<rparr>"
    by (auto simp: policy_init_eq)
  from unique_classes_perm [OF q(3) assms(3)] unique_classes_perm [OF q(4) assms(4)] obtain a' r' where
    "unique_strings side_effect_value (tp_allowed_side_effect_classes p') = Inr a'" "sort a' = sort a"
    "unique_strings side_effect_value (tp_approval_required_side_effect_classes p') = Inr r'" "sort r' = sort r"
    by blast
  moreover have "sort (tp_allowed_tools p') = sort (tp_allowed_tools p)"
    using assms(2) by (intro properties_for_sort) simp_all
  ultimately have "policy_init p' = Inr q"
    using q mset_eq_imp_distinct_iff [OF assms(2)] mset_eq_setD [OF assms(2)]
    by (auto simp: policy_init_eq list_all_iff)
  moreover have "a = map (\<lambda>s. py_upper (py_strip s)) (tp_allowed_side_effect_classes p)"
    using q(3) unfolding unique_classes by blast
  ultimately show ?thesis
    using policy_init_fixed [OF assms(1)] by (auto simp: allows_def q(5))
qed

theorem policy_normal_form_witness:
  "\<exists>q. policy_init \<lparr>tp_allowed_tools = [''b'', ''a''], tp_allowed_side_effect_classes = ['' pure''],
      tp_approval_required_side_effect_classes = []\<rparr> = Inr q
    \<and> policy_init \<lparr>tp_allowed_tools = [''a'', ''b''], tp_allowed_side_effect_classes = ['' pure''],
      tp_approval_required_side_effect_classes = []\<rparr> = Inr q \<and> allows q (demo_spec ''a'')"
proof -
  let ?p = "\<lparr>tp_allowed_tools = [''b'', ''a''], tp_allowed_side_effect_classes = ['' pure''],
      tp_approval_required_side_effect_classes = []\<rparr>"
  let ?q = "\<lparr>tp_allowed_tools = [''a'', ''b''], tp_allowed_side_effect_classes = [''PURE''],
      tp_approval_required_side_effect_classes = []\<rparr>"
  have "policy_init ?p = Inr ?q" by code_simp
  then show ?thesis
    using policy_normal_form [of ?p ?q "?p\<lparr>tp_allowed_tools := [''a'', ''b'']\<rparr>"]
    by (simp add: allows_def demo_spec_def)
qed

end
