(* ===== verification/Approvals.thy ===== *)
theory Approvals
  imports Tools
begin

text \<open>
  \<^verbatim>\<open>src/molly/core/approvals.py\<close>: one human decision for the digest of one materialized call.
\<close>

section \<open>Records\<close>

definition approval_decisions :: "string list" where
  "approval_decisions = [''APPROVED'', ''REJECTED'']"

record approval_record =
  ap_approval_id :: string
  ap_tool_call_digest :: string
  ap_decision :: string
  ap_reviewer_ref :: string
  ap_created_at :: string

definition approval_decision :: "string \<Rightarrow> string res" where
  "approval_decision candidate =
     (let normalized = py_upper (py_strip candidate) in
      if normalized \<notin> set approval_decisions then Inl ApprovalError else Inr normalized)"

text \<open>\<^verbatim>\<open>ApprovalRecord.__post_init__\<close>\<close>

definition approval_init :: "host \<Rightarrow> approval_record \<Rightarrow> approval_record res" where
  "approval_init H a =
     bindE (validate_identifier (ap_approval_id a)) (\<lambda>_.
     bindE (validate_digest_reference (ap_tool_call_digest a)) (\<lambda>digest.
     bindE (approval_decision (ap_decision a)) (\<lambda>decision.
     bindE (validate_reference (ap_reviewer_ref a)) (\<lambda>reviewer.
     bindE (normalize_timestamp H (ap_created_at a)) (\<lambda>ts.
     Inr (a\<lparr>ap_tool_call_digest := digest, ap_decision := decision, ap_reviewer_ref := reviewer,
            ap_created_at := ts\<rparr>))))))"

text \<open>\<^verbatim>\<open>for_call\<close>; the UUID and the clock are arguments.\<close>

definition approval_for_call ::
    "host \<Rightarrow> string \<Rightarrow> int \<Rightarrow> tool_call \<Rightarrow> string \<Rightarrow> string \<Rightarrow> string option \<Rightarrow> string option \<Rightarrow> approval_record res" where
  "approval_for_call H uuid now call decision reviewer_ref approval_id created_at =
     bindE (str_or (tc_tool_call_digest call) (call_computed_digest H call)) (\<lambda>digest.
     bindE (str_or approval_id (new_server_id ''approval'' uuid)) (\<lambda>aid.
     bindE (str_or created_at (utc_timestamp H (True, now))) (\<lambda>ts.
     approval_init H \<lparr>ap_approval_id = aid, ap_tool_call_digest = digest, ap_decision = decision,
       ap_reviewer_ref = reviewer_ref, ap_created_at = ts\<rparr>)))"

definition binds_to :: "host \<Rightarrow> approval_record \<Rightarrow> tool_call \<Rightarrow> bool res" where
  "binds_to H a call = bindE (call_computed_digest H call) (\<lambda>digest. Inr (ap_tool_call_digest a = digest))"

definition assert_binds_to :: "host \<Rightarrow> approval_record \<Rightarrow> tool_call \<Rightarrow> unit res" where
  "assert_binds_to H a call = bindE (binds_to H a call) (\<lambda>b. guardE b ApprovalError)"

definition approval_to_dict :: "approval_record \<Rightarrow> json" where
  "approval_to_dict a = JObj
     [(''approval_id'', JStr (ap_approval_id a)),
      (''tool_call_digest'', JStr (ap_tool_call_digest a)),
      (''decision'', JStr (ap_decision a)),
      (''reviewer_ref'', JStr (ap_reviewer_ref a)),
      (''created_at'', JStr (ap_created_at a))]"

definition approval_digest :: "host \<Rightarrow> approval_record \<Rightarrow> string res" where
  "approval_digest H a = json_sha256 H (approval_to_dict a)"

text \<open>\<^verbatim>\<open>from_dict\<close>; a decision that is not a string is refused by the constructor.\<close>

fun decision_str :: "json \<Rightarrow> string res" where
  "decision_str (JStr s) = Inr s"
| "decision_str _ = Inl ApprovalError"

definition approval_decode :: "host \<Rightarrow> fields \<Rightarrow> approval_record res" where
  "approval_decode H d =
     bindE (jitem d ''approval_id'') (\<lambda>aid.
     bindE (jitem d ''tool_call_digest'') (\<lambda>digest.
     bindE (bindE (jitem d ''decision'') decision_str) (\<lambda>decision.
     bindE (jitem d ''reviewer_ref'') (\<lambda>reviewer.
     bindE (jitem d ''created_at'') (\<lambda>ts.
     approval_init H \<lparr>ap_approval_id = py_str aid, ap_tool_call_digest = py_str digest,
       ap_decision = decision, ap_reviewer_ref = py_str reviewer, ap_created_at = py_str ts\<rparr>)))))"

fun approval_from_dict :: "host \<Rightarrow> json \<Rightarrow> approval_record res" where
  "approval_from_dict H (JObj d) = wrapE decode_error ApprovalError (approval_decode H d)"
| "approval_from_dict H _ = Inl ApprovalError"

section \<open>Lemmas\<close>

lemma approval_decision_eq: "approval_decision s = Inr t \<longleftrightarrow>
    t = py_upper (py_strip s) \<and> t \<in> set approval_decisions"
  by (auto simp: approval_decision_def Let_def)

lemma approval_decision_fixed: "t \<in> set approval_decisions \<Longrightarrow> approval_decision t = Inr t"
proof -
  have "list_all (\<lambda>t. approval_decision t = Inr t) approval_decisions" by code_simp
  then show "t \<in> set approval_decisions \<Longrightarrow> approval_decision t = Inr t" by (simp add: list_all_iff)
qed

lemma approval_init_eq: "approval_init H a = Inr b \<longleftrightarrow>
    is_identifier (ap_approval_id a) \<and> is_reference (ap_reviewer_ref a)
    \<and> (\<exists>d t ts. validate_digest_reference (ap_tool_call_digest a) = Inr d \<and> approval_decision (ap_decision a) = Inr t
        \<and> normalize_timestamp H (ap_created_at a) = Inr ts
        \<and> b = a\<lparr>ap_tool_call_digest := d, ap_decision := t, ap_created_at := ts\<rparr>)"
  by (auto simp: approval_init_def)

definition approval_wf :: "host \<Rightarrow> approval_record \<Rightarrow> bool" where
  "approval_wf H a = (approval_init H a = Inr a)"

lemma approval_init_wf:
  assumes "iso_lawful H" "approval_init H a = Inr b"
  shows "approval_wf H b"
proof -
  from assms(2) obtain d t ts where *: "is_identifier (ap_approval_id a)" "is_reference (ap_reviewer_ref a)"
    "validate_digest_reference (ap_tool_call_digest a) = Inr d" "approval_decision (ap_decision a) = Inr t"
    "normalize_timestamp H (ap_created_at a) = Inr ts"
    "b = a\<lparr>ap_tool_call_digest := d, ap_decision := t, ap_created_at := ts\<rparr>"
    by (auto simp: approval_init_eq)
  from *(4) have "t \<in> set approval_decisions" unfolding approval_decision_eq by blast
  then have "approval_decision t = Inr t" by (rule approval_decision_fixed)
  with * validate_digest_result [OF *(3)] normalize_timestamp_fixed [OF assms(1) *(5)] show ?thesis
    by (simp add: approval_wf_def approval_init_eq)
qed

lemma approval_wf_decision:
  assumes "approval_wf H a"
  shows "ap_decision a \<in> set approval_decisions"
proof -
  from assms obtain d t ts where t: "approval_decision (ap_decision a) = Inr t"
    "a = a\<lparr>ap_tool_call_digest := d, ap_decision := t, ap_created_at := ts\<rparr>"
    unfolding approval_wf_def approval_init_eq by blast
  have "ap_decision a = t" by (subst t(2)) simp
  with t(1) show ?thesis by (simp only: approval_decision_eq)
qed

lemma approval_decode_fields:
  "approval_from_dict H (approval_to_dict a) = wrapE decode_error ApprovalError (approval_init H a)"
  "approval_from_dict H (jnorm (approval_to_dict a)) = wrapE decode_error ApprovalError (approval_init H a)"
  by (cases a; simp add: approval_to_dict_def approval_decode_def jitem_def)+

interpretation approval_codec: record_codec approval_to_dict "approval_from_dict H" "approval_wf H" "\<lambda>a. a"
  for H
  by unfold_locales (simp_all add: approval_decode_fields approval_wf_def)

lemma approval_from_dict_wf: "iso_lawful H \<Longrightarrow> approval_from_dict H v = Inr a \<Longrightarrow> approval_wf H a"
  by (cases v) (auto simp: approval_decode_def intro: approval_init_wf)

lemma approval_keys_ok [simp]:
  "\<not> sensitive_key ''approval_id''" "\<not> sensitive_key ''decision''" "\<not> sensitive_key ''reviewer_ref''"
  by (simp_all add: sensitive_key_eval)

lemma approval_json_ok [simp]: "json_ok (approval_to_dict a)"
  by (simp add: approval_to_dict_def)

lemma approval_digest_eq: "approval_digest H a = Inr (sha256_bytes H (json_dumps (approval_to_dict a)))"
  by (simp add: approval_digest_def json_sha256_def canonical_json_bytes_eq)

lemma binds_to_eq: "call_wf H c \<Longrightarrow> binds_to H a c = Inr (ap_tool_call_digest a = call_sha H c)"
  by (simp add: binds_to_def call_computed_eq call_wf_iff call_checks_def)

lemma assert_binds_to_eq: "call_wf H c \<Longrightarrow> assert_binds_to H a c = Inr u \<longleftrightarrow> ap_tool_call_digest a = call_sha H c"
  by (simp add: assert_binds_to_def binds_to_eq)

text \<open>Everything of a call that its digest covers\<close>

lemma call_body_lookup [simp]:
  "map_of (call_body c) ''run_id'' = Some (JStr (tc_run_id c))"
  "map_of (call_body c) ''step_id'' = Some (JStr (tc_step_id c))"
  "map_of (call_body c) ''call_id'' = Some (JStr (tc_call_id c))"
  "map_of (call_body c) ''tool_name'' = Some (JStr (tc_tool_name c))"
  "map_of (call_body c) ''tool_version'' = Some (JStr (tc_tool_version c))"
  "map_of (call_body c) ''tool_spec_digest'' = Some (JStr (tc_tool_spec_digest c))"
  "map_of (call_body c) ''policy_digest'' = Some (JStr (tc_policy_digest c))"
  "map_of (call_body c) ''arguments'' = Some (JObj (tc_arguments c))"
  "map_of (call_body c) ''input_artifact_ids'' = Some (jstrs (tc_input_artifact_ids c))"
  "map_of (call_body c) ''created_at'' = Some (JStr (tc_created_at c))"
  by (simp_all add: call_body_def)

lemma call_body_determines:
  assumes "norm_obj (call_body c) = norm_obj (call_body c')"
  shows "tc_run_id c = tc_run_id c'" "tc_step_id c = tc_step_id c'" "tc_call_id c = tc_call_id c'"
    "tc_tool_name c = tc_tool_name c'" "tc_tool_version c = tc_tool_version c'"
    "tc_tool_spec_digest c = tc_tool_spec_digest c'" "tc_policy_digest c = tc_policy_digest c'"
    "norm_obj (tc_arguments c) = norm_obj (tc_arguments c')"
    "tc_input_artifact_ids c = tc_input_artifact_ids c'" "tc_created_at c = tc_created_at c'"
proof -
  have k: "map_option jnorm (map_of (call_body c) k) = map_option jnorm (map_of (call_body c') k)" for k
    using arg_cong [OF assms, of "\<lambda>d. map_of d k"] by simp
  show "tc_run_id c = tc_run_id c'" using k [of "''run_id''"] by simp
  show "tc_step_id c = tc_step_id c'" using k [of "''step_id''"] by simp
  show "tc_call_id c = tc_call_id c'" using k [of "''call_id''"] by simp
  show "tc_tool_name c = tc_tool_name c'" using k [of "''tool_name''"] by simp
  show "tc_tool_version c = tc_tool_version c'" using k [of "''tool_version''"] by simp
  show "tc_tool_spec_digest c = tc_tool_spec_digest c'" using k [of "''tool_spec_digest''"] by simp
  show "tc_policy_digest c = tc_policy_digest c'" using k [of "''policy_digest''"] by simp
  show "norm_obj (tc_arguments c) = norm_obj (tc_arguments c')" using k [of "''arguments''"] by simp
  show "tc_input_artifact_ids c = tc_input_artifact_ids c'" using k [of "''input_artifact_ids''"] by simp
  show "tc_created_at c = tc_created_at c'" using k [of "''created_at''"] by simp
qed

lemma call_sha_determines:
  assumes "json_wf (float_of H) (JObj (tc_arguments c))" "json_wf (float_of H) (JObj (tc_arguments c'))"
    and "call_sha H c = call_sha H c'"
    and "json_dumps (JObj (call_body c)) \<noteq> json_dumps (JObj (call_body c')) \<Longrightarrow>
      sha256 H (json_dumps (JObj (call_body c))) \<noteq> sha256 H (json_dumps (JObj (call_body c')))"
  shows "norm_obj (call_body c) = norm_obj (call_body c')"
proof -
  have "json_wf (float_of H) (JObj (call_body c))" "json_wf (float_of H) (JObj (call_body c'))"
    using assms(1,2) by (simp_all add: call_body_def)
  moreover have "json_dumps (JObj (call_body c)) = json_dumps (JObj (call_body c'))"
    using assms(3,4) by (auto simp: call_sha_def sha256_bytes_def)
  ultimately have "jnorm (JObj (call_body c)) = jnorm (JObj (call_body c'))"
    by (metis loads_bytes_dumps option.inject)
  then show ?thesis by simp
qed

section \<open>Concrete approvals\<close>

definition demo_approval :: approval_record where
  "demo_approval = \<lparr>ap_approval_id = ''approval_1'', ap_tool_call_digest = call_sha demo_host demo_call,
     ap_decision = ''APPROVED'', ap_reviewer_ref = ''alice'', ap_created_at = demo_time\<rparr>"

lemma demo_approval_wf: "approval_wf demo_host demo_approval"
proof -
  have "is_identifier ''approval_1''" "is_reference ''alice''" "approval_decision ''APPROVED'' = Inr ''APPROVED''"
    by code_simp+
  moreover have "is_sha256 (call_sha demo_host demo_call)" using demo_call_wf by (simp add: call_wf_iff)
  ultimately show ?thesis
    using demo_time_fixed by (simp add: approval_wf_def approval_init_eq demo_approval_def)
qed

section \<open>Properties\<close>

text \<open>
  C36. One approval, one call. If an approval binds to two materialized calls whose bodies the hash
  does not confuse, then the calls have the same run, step, call, tool, version, specification,
  policy, inputs, creation time and arguments: approving one authorises no other.
\<close>

theorem approval_binds_one_call:
  assumes "call_wf H c" "call_wf H c'"
    and "json_wf (float_of H) (JObj (tc_arguments c))" "json_wf (float_of H) (JObj (tc_arguments c'))"
    and "json_dumps (JObj (call_body c)) \<noteq> json_dumps (JObj (call_body c')) \<Longrightarrow>
      sha256 H (json_dumps (JObj (call_body c))) \<noteq> sha256 H (json_dumps (JObj (call_body c')))"
    and "assert_binds_to H a c = Inr ()" "assert_binds_to H a c' = Inr ()"
  shows "(canon_call c)\<lparr>tc_reason_summary := tc_reason_summary c'\<rparr> = canon_call c'"
proof -
  have s: "call_sha H c = call_sha H c'" using assms(6,7) by (simp add: assert_binds_to_eq assms(1,2))
  note b = call_body_determines [OF call_sha_determines [OF assms(3,4) s assms(5)]]
  have "tc_tool_call_digest c = tc_tool_call_digest c'" using assms(1,2) s by (simp add: call_wf_iff)
  with b show ?thesis by (simp add: canon_call_def)
qed

theorem approval_binds_one_call_witness:
  "assert_binds_to demo_host demo_approval demo_call = Inr ()
    \<and> assert_binds_to demo_host demo_approval (demo_call\<lparr>tc_reason_summary := ''other''\<rparr>) = Inr ()
    \<and> (canon_call demo_call)\<lparr>tc_reason_summary := ''other''\<rparr> = canon_call (demo_call\<lparr>tc_reason_summary := ''other''\<rparr>)"
proof -
  let ?c' = "demo_call\<lparr>tc_reason_summary := ''other''\<rparr>"
  have b: "call_body ?c' = call_body demo_call" by (simp add: call_body_def)
  then have s: "call_sha demo_host ?c' = call_sha demo_host demo_call" by (simp add: call_sha_def)
  have wf': "call_wf demo_host ?c'" using demo_call_wf s by (simp add: call_wf_iff call_checks_def)
  have binds: "assert_binds_to demo_host demo_approval demo_call = Inr ()"
    "assert_binds_to demo_host demo_approval ?c' = Inr ()"
    using s by (simp_all add: assert_binds_to_eq demo_call_wf wf' demo_approval_def)
  have j: "json_wf (float_of demo_host) (JObj (tc_arguments demo_call))"
    "json_wf (float_of demo_host) (JObj (tc_arguments ?c'))"
    by (simp_all add: demo_call_def demo_call_unbound_def)
  from approval_binds_one_call [OF demo_call_wf wf' j _ binds] b binds show ?thesis by simp
qed

end
