(* ===== verification/AgentLoop.thy ===== *)
theory AgentLoop
  imports Lineage Runs Approvals
begin

text \<open>
  \<^verbatim>\<open>src/molly/core/agent_loop.py\<close>: the projection of a run's events, the hard limits, the execution of
  one materialized call and the loop that drives a run. The ledger is the list of events that the
  file implements; the provider, the executors, the clock and the UUIDs are
  parameters.
\<close>

section \<open>Event types\<close>

definition RUN_STARTED :: string where "RUN_STARTED = ''RUN_STARTED''"
definition DECISION_RECORDED :: string where "DECISION_RECORDED = ''DECISION_RECORDED''"
definition TOOL_CALL_MATERIALIZED :: string where "TOOL_CALL_MATERIALIZED = ''TOOL_CALL_MATERIALIZED''"
definition APPROVAL_REQUIRED :: string where "APPROVAL_REQUIRED = ''APPROVAL_REQUIRED''"
definition APPROVAL_RECORDED :: string where "APPROVAL_RECORDED = ''APPROVAL_RECORDED''"
definition TOOL_CALL_REJECTED :: string where "TOOL_CALL_REJECTED = ''TOOL_CALL_REJECTED''"
definition TOOL_EXECUTION_STARTED :: string where "TOOL_EXECUTION_STARTED = ''TOOL_EXECUTION_STARTED''"
definition TOOL_EXECUTION_SUCCEEDED :: string where "TOOL_EXECUTION_SUCCEEDED = ''TOOL_EXECUTION_SUCCEEDED''"
definition TOOL_EXECUTION_FAILED :: string where "TOOL_EXECUTION_FAILED = ''TOOL_EXECUTION_FAILED''"
definition REVIEW_REQUESTED :: string where "REVIEW_REQUESTED = ''REVIEW_REQUESTED''"
definition RUN_STOPPED :: string where "RUN_STOPPED = ''RUN_STOPPED''"
definition RUN_REJECTED :: string where "RUN_REJECTED = ''RUN_REJECTED''"
definition RUN_FAILED :: string where "RUN_FAILED = ''RUN_FAILED''"
definition BUDGET_EXHAUSTED :: string where "BUDGET_EXHAUSTED = ''BUDGET_EXHAUSTED''"
definition INTENT_FROZEN :: string where "INTENT_FROZEN = ''INTENT_FROZEN''"

lemmas event_type_defs = RUN_STARTED_def DECISION_RECORDED_def TOOL_CALL_MATERIALIZED_def
  APPROVAL_REQUIRED_def APPROVAL_RECORDED_def TOOL_CALL_REJECTED_def TOOL_EXECUTION_STARTED_def
  TOOL_EXECUTION_SUCCEEDED_def TOOL_EXECUTION_FAILED_def REVIEW_REQUESTED_def RUN_STOPPED_def
  RUN_REJECTED_def RUN_FAILED_def BUDGET_EXHAUSTED_def INTENT_FROZEN_def

definition event_types :: "string list" where
  "event_types = [RUN_STARTED, DECISION_RECORDED, TOOL_CALL_MATERIALIZED, APPROVAL_REQUIRED,
     APPROVAL_RECORDED, TOOL_CALL_REJECTED, TOOL_EXECUTION_STARTED, TOOL_EXECUTION_SUCCEEDED,
     TOOL_EXECUTION_FAILED, REVIEW_REQUESTED, RUN_STOPPED, RUN_REJECTED, RUN_FAILED,
     BUDGET_EXHAUSTED, INTENT_FROZEN]"

text \<open>Equalities of event types, either way round, are decided by the simplifier.\<close>

lemma event_types_apart:
  "distinct event_types"
  "distinct [
   INTENT_FROZEN, BUDGET_EXHAUSTED, RUN_FAILED, RUN_REJECTED, RUN_STOPPED, REVIEW_REQUESTED,
   TOOL_EXECUTION_FAILED, TOOL_EXECUTION_SUCCEEDED, TOOL_EXECUTION_STARTED,
   TOOL_CALL_REJECTED, APPROVAL_RECORDED, APPROVAL_REQUIRED, TOOL_CALL_MATERIALIZED,
   DECISION_RECORDED, RUN_STARTED]"
  by (simp_all add: event_types_def event_type_defs)

lemmas event_type_distinct [simp] = event_types_apart [unfolded event_types_def, simplified]

definition terminal_event_types :: "string list" where
  "terminal_event_types = [RUN_STOPPED, RUN_REJECTED, RUN_FAILED, BUDGET_EXHAUSTED]"

section \<open>Reading events\<close>

definition metadata_call_id :: "ledger_event \<Rightarrow> string option" where
  "metadata_call_id e = (case jget (ev_metadata e) ''call_id'' of JStr s \<Rightarrow> Some s | _ \<Rightarrow> None)"

definition call_id_for_event :: "ledger_event \<Rightarrow> string res" where
  "call_id_for_event e = (case metadata_call_id e of
     None \<Rightarrow> Inl RunStateError | Some c \<Rightarrow> validate_identifier c)"

text \<open>The observation of a success event: its data and the digest, recomputed\<close>

definition any_error :: "error \<Rightarrow> bool" where
  "any_error e = True"

fun digest_reference_of :: "json \<Rightarrow> string res" where
  "digest_reference_of (JStr s) = validate_digest_reference s"
| "digest_reference_of _ = Inl CoreContractError"

definition encoded_result :: "host \<Rightarrow> json \<Rightarrow> json \<Rightarrow> (string \<times> string \<times> string) res" where
  "encoded_result H data recorded =
     bindE (canonical_json_bytes data) (\<lambda>encoded.
     bindE (digest_reference_of recorded) (\<lambda>normalized_recorded.
     Inr (encoded, sha256_bytes H encoded, normalized_recorded)))"

definition validated_success_result_data :: "host \<Rightarrow> ledger_event \<Rightarrow> (json \<times> string) res" where
  "validated_success_result_data H e =
     (if ev_event_type e \<noteq> TOOL_EXECUTION_SUCCEEDED then Inl RunStateError
      else case (map_of (ev_metadata e) ''result_data'', map_of (ev_metadata e) ''result_data_sha256'') of
          (Some data, Some recorded) \<Rightarrow>
            bindE (wrapE any_error RunStateError (encoded_result H data recorded))
              (\<lambda>(encoded, computed_digest, normalized_recorded).
            if length encoded > max_tool_result_data_bytes then Inl RunStateError
            else if normalized_recorded \<noteq> computed_digest then Inl RunStateError
            else Inr (data, computed_digest))
        | _ \<Rightarrow> Inl RunStateError)"

section \<open>The projection of a run\<close>

record call_state =
  cs_call :: tool_call
  cs_approval_required :: bool
  cs_approval :: "approval_record option"
  cs_approval_event :: "ledger_event option"
  cs_rejected_event :: "ledger_event option"
  cs_started_event :: "ledger_event option"
  cs_terminal_event :: "ledger_event option"

record run_projection =
  pj_events :: "ledger_event list"
  pj_call_states :: "call_state list"
  pj_pending_approval :: "call_state option"
  pj_pending_execution :: "call_state option"
  pj_interrupted :: bool
  pj_waiting_review :: bool
  pj_terminal_event :: "ledger_event option"

text \<open>The call of a materialization event, checked against the event\<close>

definition materialized_call :: "host \<Rightarrow> ledger_event \<Rightarrow> tool_call res" where
  "materialized_call H e =
     (case jget (ev_metadata e) ''materialized_call'' of
        JObj d \<Rightarrow>
          bindE (wrapE any_error RunStateError (call_from_dict H (JObj d))) (\<lambda>call.
          bindE (call_id_for_event e) (\<lambda>call_id.
          if tc_call_id call \<noteq> call_id \<or> ev_step_id e \<noteq> Some (tc_step_id call) then Inl RunStateError
          else if ev_tool_name e \<noteq> Some (tc_tool_name call) \<or> ev_tool_version e \<noteq> Some (tc_tool_version call)
            then Inl RunStateError
          else if ev_input_artifact_ids e \<noteq> tc_input_artifact_ids call then Inl RunStateError
          else Inr call))
      | _ \<Rightarrow> Inl RunStateError)"

text \<open>One round of the first loop: the event's checks, and the call it materializes if it does\<close>

definition scan_event :: "host \<Rightarrow> ledger_event \<Rightarrow> tool_call option res" where
  "scan_event H e =
     bindE (if ev_event_type e = TOOL_EXECUTION_SUCCEEDED
            then bindE (validated_success_result_data H e) (\<lambda>_. Inr ()) else Inr ()) (\<lambda>_.
     bindE (if ev_event_type e = TOOL_CALL_MATERIALIZED
            then bindE (materialized_call H e) (\<lambda>c. Inr (Some c)) else Inr None) (\<lambda>call.
     bindE (check_opt validate_identifier (metadata_call_id e)) (\<lambda>_. Inr call)))"

definition related_events :: "string \<Rightarrow> ledger_event list \<Rightarrow> ledger_event list" where
  "related_events call_id events = filter (\<lambda>e. metadata_call_id e = Some call_id) events"

definition of_type :: "string \<Rightarrow> ledger_event list \<Rightarrow> ledger_event list" where
  "of_type t events = filter (\<lambda>e. ev_event_type e = t) events"

definition related_matches :: "tool_call \<Rightarrow> string \<Rightarrow> ledger_event \<Rightarrow> bool" where
  "related_matches call digest e =
     (ev_event_type e = TOOL_CALL_MATERIALIZED
      \<or> jget (ev_metadata e) ''tool_call_digest'' \<in> {JNull, JStr digest} \<and> ev_step_id e = Some (tc_step_id call))"

fun at_most_one :: "ledger_event list \<Rightarrow> ledger_event option res" where
  "at_most_one [] = Inr None"
| "at_most_one [e] = Inr (Some e)"
| "at_most_one _ = Inl RunStateError"

definition bound_approval :: "host \<Rightarrow> tool_call \<Rightarrow> json \<Rightarrow> approval_record res" where
  "bound_approval H call raw =
     bindE (approval_from_dict H raw) (\<lambda>approval.
     bindE (assert_binds_to H approval call) (\<lambda>_. Inr approval))"

definition recorded_approval :: "host \<Rightarrow> tool_call \<Rightarrow> ledger_event option \<Rightarrow> approval_record option res" where
  "recorded_approval H call approval_event =
     (case approval_event of
        None \<Rightarrow> Inr None
      | Some e \<Rightarrow>
         (case jget (ev_metadata e) ''approval'' of
            JObj d \<Rightarrow> bindE (wrapE any_error RunStateError (bound_approval H call (JObj d))) (\<lambda>a. Inr (Some a))
          | _ \<Rightarrow> Inl RunStateError))"

definition rejecting :: "approval_record option \<Rightarrow> bool" where
  "rejecting approval = (case approval of None \<Rightarrow> False | Some a \<Rightarrow> ap_decision a = ''REJECTED'')"

definition approving :: "approval_record option \<Rightarrow> bool" where
  "approving approval = (case approval of None \<Rightarrow> False | Some a \<Rightarrow> ap_decision a = ''APPROVED'')"

text \<open>One round of the second loop\<close>

definition call_state_of :: "host \<Rightarrow> ledger_event list \<Rightarrow> tool_call \<Rightarrow> call_state res" where
  "call_state_of H events call =
     (let related = related_events (tc_call_id call) events in
      bindE (call_computed_digest H call) (\<lambda>digest.
      bindE (guardE (list_all (related_matches call digest) related) RunStateError) (\<lambda>_.
      bindE (at_most_one (of_type APPROVAL_RECORDED related)) (\<lambda>approval_event.
      bindE (recorded_approval H call approval_event) (\<lambda>approval.
      bindE (at_most_one (of_type TOOL_CALL_REJECTED related)) (\<lambda>rejected.
      bindE (at_most_one (of_type TOOL_EXECUTION_STARTED related)) (\<lambda>started.
      bindE (at_most_one (filter (\<lambda>e. ev_event_type e \<in> {TOOL_EXECUTION_SUCCEEDED, TOOL_EXECUTION_FAILED}) related))
        (\<lambda>finished.
      let required = (of_type APPROVAL_REQUIRED related \<noteq> []) in
      bindE (guardE (\<not> (required \<and> approval = None \<and> rejected \<noteq> None)) RunStateError) (\<lambda>_.
      Inr \<lparr>cs_call = call, cs_approval_required = required, cs_approval = approval,
        cs_approval_event = approval_event, cs_rejected_event = rejected, cs_started_event = started,
        cs_terminal_event = (if rejecting approval then rejected else finished)\<rparr>)))))))))"

definition open_state :: "call_state \<Rightarrow> bool" where
  "open_state s = (cs_terminal_event s = None \<and> cs_started_event s = None)"

definition awaits_approval :: "call_state \<Rightarrow> bool" where
  "awaits_approval s = (open_state s \<and> cs_approval_required s \<and> cs_approval s = None)"

definition awaits_execution :: "call_state \<Rightarrow> bool" where
  "awaits_execution s = (open_state s \<and> (\<not> cs_approval_required s \<or> approving (cs_approval s)))"

definition last_of :: "'a list \<Rightarrow> 'a option" where
  "last_of xs = (if xs = [] then None else Some (last xs))"

definition head_of :: "'a list \<Rightarrow> 'a option" where
  "head_of xs = (case xs of [] \<Rightarrow> None | x # _ \<Rightarrow> Some x)"

definition projection_of :: "ledger_event list \<Rightarrow> call_state list \<Rightarrow> run_projection res" where
  "projection_of events states =
     (let terminal = last_of (filter (\<lambda>e. ev_event_type e \<in> set terminal_event_types) events);
          pending_approvals = filter awaits_approval states;
          pending_executions = filter awaits_execution states;
          reviews = of_type REVIEW_REQUESTED events in
      bindE (guardE (case terminal of None \<Rightarrow> True | Some t \<Rightarrow> ev_event_id (last events) = ev_event_id t)
          RunStateError) (\<lambda>_.
      bindE (guardE (length (pending_approvals @ pending_executions) \<le> 1) RunStateError) (\<lambda>_.
      Inr \<lparr>pj_events = events, pj_call_states = states,
        pj_pending_approval = head_of pending_approvals,
        pj_pending_execution = head_of pending_executions,
        pj_interrupted = list_ex (\<lambda>s. cs_started_event s \<noteq> None \<and> cs_terminal_event s = None) states,
        pj_waiting_review = (reviews \<noteq> []
          \<and> (states = [] \<or> ev_event_id (last events) = ev_event_id (last reviews))),
        pj_terminal_event = terminal\<rparr>)))"

definition project :: "host \<Rightarrow> ledger_event list \<Rightarrow> run_projection res" where
  "project H events =
     bindE (mapE (scan_event H) events) (\<lambda>scanned.
     bindE (mapE (call_state_of H events) (List.map_filter id scanned)) (\<lambda>states.
     projection_of events states))"

section \<open>Hard limits\<close>

definition counts :: "ledger_event list \<Rightarrow> int \<times> int \<times> int" where
  "counts events =
     (int (length (of_type DECISION_RECORDED events)),
      int (length (of_type TOOL_CALL_MATERIALIZED events)),
      int (length (remdups (List.map_filter ev_step_id (of_type TOOL_CALL_MATERIALIZED events)))))"

record hard_limits =
  hl_max_decisions :: int
  hl_max_tool_calls :: int
  hl_max_steps :: int

definition server_run_hard_limits :: hard_limits where
  "server_run_hard_limits = \<lparr>hl_max_decisions = 12, hl_max_tool_calls = 8, hl_max_steps = 8\<rparr>"

definition effective_hard_limits :: "run_request \<Rightarrow> hard_limits" where
  "effective_hard_limits request =
     (case rq_legacy_budget request of
        None \<Rightarrow> server_run_hard_limits
      | Some legacy \<Rightarrow>
          \<lparr>hl_max_decisions = min (hl_max_decisions server_run_hard_limits) (lb_max_decisions legacy),
           hl_max_tool_calls = min (hl_max_tool_calls server_run_hard_limits) (lb_max_tool_calls legacy),
           hl_max_steps = min (hl_max_steps server_run_hard_limits) (lb_max_steps legacy)\<rparr>)"

text \<open>\<^verbatim>\<open>_hard_limit_reason\<close>; a pending execution may use up the limit, nothing new may.\<close>

definition hard_limit_reason ::
    "run_request \<Rightarrow> ledger_event list \<Rightarrow> bool \<Rightarrow> (string \<times> int \<times> int \<times> int) option" where
  "hard_limit_reason request events pending_execution =
     (let (decisions, tool_calls, steps) = counts events; limits = effective_hard_limits request in
      if pending_execution then
        (if decisions > hl_max_decisions limits
           then Some (''server decision safety limit exceeded'', counts events)
         else if tool_calls > hl_max_tool_calls limits
           then Some (''server tool-call safety limit exceeded'', counts events)
         else if steps > hl_max_steps limits
           then Some (''server step safety limit exceeded'', counts events)
         else None)
      else if decisions \<ge> hl_max_decisions limits
        then Some (''server decision safety limit reached'', counts events)
      else if tool_calls \<ge> hl_max_tool_calls limits
        then Some (''server tool-call safety limit reached'', counts events)
      else if steps \<ge> hl_max_steps limits
        then Some (''server step safety limit reached'', counts events)
      else None)"

section \<open>Views of a run\<close>

definition visible_artifacts :: "run_request \<Rightarrow> ledger_event list \<Rightarrow> string list" where
  "visible_artifacts request events =
     add_new (rq_input_artifact_ids request)
       (concat (map ev_output_artifact_ids (of_type TOOL_EXECUTION_SUCCEEDED events)))"

definition event_summary :: "ledger_event \<Rightarrow> fields" where
  "event_summary e =
     [(''event_type'', JStr (ev_event_type e)),
      (''status'', jstr_opt (ev_status e)),
      (''step_id'', jstr_opt (ev_step_id e)),
      (''tool_name'', jstr_opt (ev_tool_name e)),
      (''timestamp'', JStr (ev_timestamp e))]"

definition recent_events :: "ledger_event list \<Rightarrow> fields list" where
  "recent_events events = map event_summary (drop (length events - 12) events)"

definition terminal_status :: "ledger_event \<Rightarrow> run_status" where
  "terminal_status e =
     (if ev_event_type e = RUN_STOPPED then StStopped
      else if ev_event_type e = RUN_REJECTED then StRejected
      else if ev_event_type e = RUN_FAILED then StFailed
      else StBudgetExhausted)"

definition projected_status :: "run_projection \<Rightarrow> run_status" where
  "projected_status p =
     (case pj_terminal_event p of
        Some e \<Rightarrow> terminal_status e
      | None \<Rightarrow>
          if pj_interrupted p then StInterrupted
          else if pj_pending_approval p \<noteq> None then StWaitingApproval
          else if pj_waiting_review p then StWaitingReview
          else StActive)"

text \<open>\<^verbatim>\<open>call.to_dict()\<close> as the mapping it is\<close>

definition call_mapping :: "host \<Rightarrow> tool_call \<Rightarrow> fields res" where
  "call_mapping H call =
     bindE (call_computed_digest H call) (\<lambda>computed.
     Inr (call_body call @ [(''tool_call_digest'', JStr computed),
                            (''reason_summary'', JStr (tc_reason_summary call))]))"

definition pending_mapping :: "host \<Rightarrow> run_projection \<Rightarrow> fields option res" where
  "pending_mapping H p = (case pj_pending_approval p of
     None \<Rightarrow> Inr None | Some s \<Rightarrow> bindE (call_mapping H (cs_call s)) (\<lambda>d. Inr (Some d)))"

definition run_result_of ::
    "host \<Rightarrow> run_request \<Rightarrow> ledger_event list \<Rightarrow> run_projection \<Rightarrow> string \<Rightarrow> run_result res" where
  "run_result_of H request events p message =
     bindE (pending_mapping H p) (\<lambda>pending.
     result_init \<lparr>rr_run_id = rq_run_id request, rr_status = projected_status p,
       rr_visible_artifact_ids = visible_artifacts request events,
       rr_last_event_id = (if events = [] then None else Some (ev_event_id (last events))),
       rr_pending_call = pending, rr_message = message\<rparr>)"

text \<open>The last success or failure, as the next decision sees it\<close>

definition outcome_fields :: "ledger_event \<Rightarrow> fields" where
  "outcome_fields e =
     [(''event_type'', JStr (ev_event_type e)),
      (''status'', jstr_opt (ev_status e)),
      (''tool_name'', jstr_opt (ev_tool_name e)),
      (''tool_version'', jstr_opt (ev_tool_version e)),
      (''output_artifact_ids'', jstrs (ev_output_artifact_ids e))]"

definition previous_outcome :: "host \<Rightarrow> ledger_event list \<Rightarrow> fields option res" where
  "previous_outcome H events =
     (case find (\<lambda>e. ev_event_type e \<in> {TOOL_EXECUTION_SUCCEEDED, TOOL_EXECUTION_FAILED}) (rev events) of
        None \<Rightarrow> Inr None
      | Some e \<Rightarrow>
          if ev_event_type e = TOOL_EXECUTION_SUCCEEDED then
            bindE (validated_success_result_data H e) (\<lambda>(data, digest).
            Inr (Some (outcome_fields e @ [(''data'', data), (''data_sha256'', JStr digest)])))
          else Inr (Some (outcome_fields e)))"

definition context_metadata :: "fields \<Rightarrow> fields" where
  "context_metadata md =
     List.map_filter (\<lambda>k. map_option (\<lambda>v. (k, v)) (map_of md k))
       [''llm_profile_ref'', ''llm_profile_digest'', ''workflow_intent_preview'',
        ''workflow_intent_preview_digest'']"

definition run_context_of :: "host \<Rightarrow> run_request \<Rightarrow> ledger_event list \<Rightarrow> run_context res" where
  "run_context_of H request events =
     bindE (previous_outcome H events) (\<lambda>previous.
     context_init \<lparr>cx_run_id = rq_run_id request, cx_goal = rq_goal request,
       cx_visible_artifact_ids = visible_artifacts request events,
       cx_initial_artifact_ids = rq_input_artifact_ids request,
       cx_request_metadata = context_metadata (rq_metadata request),
       cx_recent_events = recent_events events, cx_previous_tool_outcome = previous\<rparr>)"

section \<open>The loop's state and its surroundings\<close>

text \<open>
  \<open>ls_ticks\<close> counts the readings of the surroundings: the \<open>n\<close>th reading is answered by the world's
  functions at \<open>n\<close>, whether it draws a UUID, looks at a clock, asks the provider or runs a tool.
\<close>

type_synonym executor = "nat \<Rightarrow> exec_context \<Rightarrow> raw_result res"

record loop_state =
  ls_store :: store
  ls_ledger :: "ledger_event list"
  ls_lineage :: lineage
  ls_ticks :: nat

record world =
  w_host :: host
  w_uuid :: "nat \<Rightarrow> string"                                   \<comment> \<open>\<^verbatim>\<open>uuid.uuid4().hex\<close>\<close>
  w_clock :: "nat \<Rightarrow> string"                                  \<comment> \<open>the constructor's \<^verbatim>\<open>clock\<close>\<close>
  w_now :: "nat \<Rightarrow> int"                                       \<comment> \<open>\<^verbatim>\<open>datetime.now\<close> of the store\<close>
  w_registry :: "executor registry"
  w_policy :: tool_policy
  w_provider :: "nat \<Rightarrow> run_context \<Rightarrow> json list \<Rightarrow> provider_value res"

type_synonym 'a loop_act = "(loop_state, 'a) act"

definition tick :: "nat loop_act" where
  "tick s = (Inr (ls_ticks s), s\<lparr>ls_ticks := Suc (ls_ticks s)\<rparr>)"

definition on_ledger :: "(ledger_event list, 'a) act \<Rightarrow> 'a loop_act" where
  "on_ledger m s = (case m (ls_ledger s) of (r, es) \<Rightarrow> (r, s\<lparr>ls_ledger := es\<rparr>))"

definition on_store :: "(store, 'a) act \<Rightarrow> 'a loop_act" where
  "on_store m s = (case m (ls_store s) of (r, t) \<Rightarrow> (r, s\<lparr>ls_store := t\<rparr>))"

definition on_lineage :: "(lineage, 'a) act \<Rightarrow> 'a loop_act" where
  "on_lineage m s = (case m (ls_lineage s) of (r, l) \<Rightarrow> (r, s\<lparr>ls_lineage := l\<rparr>))"

text \<open>\<^verbatim>\<open>self.ledger.for_run(run_id)\<close>, \<^verbatim>\<open>self.store.verify(artifact_id)\<close>\<close>

definition run_events :: "string \<Rightarrow> (ledger_event list) loop_act" where
  "run_events run_id =
     asksA (\<lambda>s. bindE (validate_identifier run_id) (\<lambda>_. Inr (events_of run_id (ls_ledger s))))"

definition verify_artifact :: "world \<Rightarrow> string \<Rightarrow> artifact_record loop_act" where
  "verify_artifact W artifact_id = asksA (\<lambda>s. verify (w_host W) (ls_store s) artifact_id)"

definition now :: "world \<Rightarrow> string loop_act" where
  "now W = bindA tick (\<lambda>i. liftA (normalize_timestamp (w_host W) (w_clock W i)))"

section \<open>Fresh IDs\<close>

definition used_event_ids :: "ledger_event list \<Rightarrow> string list" where
  "used_event_ids events = map ev_event_id events"

definition used_step_ids :: "ledger_event list \<Rightarrow> string list" where
  "used_step_ids events = filter (\<lambda>i. i \<noteq> []) (List.map_filter ev_step_id events)"

definition used_call_ids :: "ledger_event list \<Rightarrow> string list" where
  "used_call_ids events = List.map_filter metadata_call_id events"

text \<open>
  \<^verbatim>\<open>while True\<close> in \<^verbatim>\<open>_new_unique_id\<close>: as many rounds as there are used IDs and one more, which is enough
  when no UUID repeats (\<open>draw_id_total\<close>); \<open>hangs\<close> marks the end of the fuel.
\<close>

definition hangs :: error where
  "hangs = HostError ''(does not return)''"

fun draw_id :: "world \<Rightarrow> string \<Rightarrow> string list \<Rightarrow> nat \<Rightarrow> string loop_act" where
  "draw_id W pfx used 0 = raiseA hangs"
| "draw_id W pfx used (Suc n) =
     bindA tick (\<lambda>i.
     bindA (liftA (new_server_id pfx (w_uuid W i))) (\<lambda>candidate.
     if candidate \<in> set used then draw_id W pfx used n else returnA candidate))"

definition new_unique_id :: "world \<Rightarrow> string \<Rightarrow> (ledger_event list \<Rightarrow> string list) \<Rightarrow> string loop_act" where
  "new_unique_id W pfx used_of =
     bindA (asksA (\<lambda>s. Inr (used_of (ls_ledger s)))) (\<lambda>used. draw_id W pfx used (Suc (length used)))"

section \<open>Appending events\<close>

record event_args =
  ea_step_id :: "string option"
  ea_status :: "string option"
  ea_tool_name :: "string option"
  ea_tool_version :: "string option"
  ea_input_artifact_ids :: "string list"
  ea_output_artifact_ids :: "string list"
  ea_metadata :: fields

definition run_event_args :: "string \<Rightarrow> fields \<Rightarrow> event_args" where
  "run_event_args status md = \<lparr>ea_step_id = None, ea_status = Some status, ea_tool_name = None,
     ea_tool_version = None, ea_input_artifact_ids = [], ea_output_artifact_ids = [], ea_metadata = md\<rparr>"

definition call_event_args :: "tool_call \<Rightarrow> string \<Rightarrow> fields \<Rightarrow> event_args" where
  "call_event_args call status md = \<lparr>ea_step_id = Some (tc_step_id call), ea_status = Some status,
     ea_tool_name = Some (tc_tool_name call), ea_tool_version = Some (tc_tool_version call),
     ea_input_artifact_ids = tc_input_artifact_ids call, ea_output_artifact_ids = [], ea_metadata = md\<rparr>"

definition new_event :: "run_request \<Rightarrow> string \<Rightarrow> event_args \<Rightarrow> string \<Rightarrow> string \<Rightarrow> ledger_event" where
  "new_event request event_type a event_id timestamp =
     \<lparr>ev_event_id = event_id, ev_run_id = rq_run_id request, ev_event_type = event_type,
      ev_step_id = ea_step_id a, ev_status = ea_status a, ev_tool_name = ea_tool_name a,
      ev_tool_version = ea_tool_version a, ev_input_artifact_ids = ea_input_artifact_ids a,
      ev_output_artifact_ids = ea_output_artifact_ids a, ev_model_profile = [], ev_provider_profile = [],
      ev_prompt_digest = None, ev_config_digest = None, ev_seed_metadata = [], ev_timestamp = timestamp,
      ev_metadata = ea_metadata a, ev_previous_event_sha256 = None, ev_event_sha256 = None\<rparr>"

text \<open>\<^verbatim>\<open>_append\<close>\<close>

definition append_run_event :: "world \<Rightarrow> run_request \<Rightarrow> string \<Rightarrow> event_args \<Rightarrow> ledger_event loop_act" where
  "append_run_event W request event_type a =
     (if event_type \<notin> set event_types then raiseA RunStateError
      else
        bindA (new_unique_id W ''evt'' used_event_ids) (\<lambda>event_id.
        bindA (now W) (\<lambda>timestamp.
        on_ledger (ledger_append (w_host W) (new_event request event_type a event_id timestamp)))))"

definition call_metadata :: "tool_call \<Rightarrow> fields" where
  "call_metadata call =
     [(''call_id'', JStr (tc_call_id call)), (''tool_call_digest'', jstr_opt (tc_tool_call_digest call))]"

definition append_materialized :: "world \<Rightarrow> run_request \<Rightarrow> tool_call \<Rightarrow> ledger_event loop_act" where
  "append_materialized W request call =
     bindA (liftA (call_to_dict (w_host W) call)) (\<lambda>mapping.
     append_run_event W request TOOL_CALL_MATERIALIZED (call_event_args call ''MATERIALIZED''
       [(''call_id'', JStr (tc_call_id call)),
        (''tool_spec_digest'', JStr (tc_tool_spec_digest call)),
        (''policy_digest'', JStr (tc_policy_digest call)),
        (''tool_call_digest'', jstr_opt (tc_tool_call_digest call)),
        (''materialized_call'', mapping)]))"

definition append_approval_required :: "world \<Rightarrow> run_request \<Rightarrow> tool_call \<Rightarrow> ledger_event loop_act" where
  "append_approval_required W request call =
     append_run_event W request APPROVAL_REQUIRED (call_event_args call ''WAITING_APPROVAL'' (call_metadata call))"

definition record_approval ::
    "world \<Rightarrow> run_request \<Rightarrow> tool_call \<Rightarrow> approval_record \<Rightarrow> ledger_event loop_act" where
  "record_approval W request call approval =
     bindA (liftA (assert_binds_to (w_host W) approval call)) (\<lambda>_.
     append_run_event W request APPROVAL_RECORDED (call_event_args call (ap_decision approval)
       (call_metadata call @ [(''approval'', approval_to_dict approval)])))"

definition append_rejection ::
    "world \<Rightarrow> run_request \<Rightarrow> tool_call \<Rightarrow> approval_record \<Rightarrow> ledger_event loop_act" where
  "append_rejection W request call approval =
     append_run_event W request TOOL_CALL_REJECTED (call_event_args call ''REJECTED''
       (call_metadata call @ [(''approval_id'', JStr (ap_approval_id approval))]))"

definition append_run_rejected :: "world \<Rightarrow> run_request \<Rightarrow> tool_call \<Rightarrow> ledger_event loop_act" where
  "append_run_rejected W request call =
     append_run_event W request RUN_REJECTED (call_event_args call ''REJECTED''
       [(''rejected_call_id'', JStr (tc_call_id call)),
        (''tool_call_digest'', jstr_opt (tc_tool_call_digest call)),
        (''reason'', JStr ''operator rejected the pending operation'')])"

definition error_type_char :: "char \<Rightarrow> bool" where
  "error_type_char c = (is_ascii_alnum c \<or> c \<in> {CHR ''_'', CHR ''.'', CHR ''-''})"

definition safe_error_type :: "error \<Rightarrow> string" where
  "safe_error_type e =
     (let candidate = error_name e in
      if candidate \<noteq> [] \<and> length candidate \<le> 80 \<and> list_all error_type_char candidate then candidate
      else ''ToolError'')"

definition append_execution_failed ::
    "world \<Rightarrow> run_request \<Rightarrow> tool_call \<Rightarrow> error \<Rightarrow> ledger_event loop_act" where
  "append_execution_failed W request call e =
     append_run_event W request TOOL_EXECUTION_FAILED (call_event_args call ''FAILED''
       (call_metadata call @ [(''error_type'', JStr (safe_error_type e))]))"

definition append_hard_limit ::
    "world \<Rightarrow> run_request \<Rightarrow> string \<Rightarrow> int \<times> int \<times> int \<Rightarrow> unit loop_act" where
  "append_hard_limit W request reason c =
     bindA (run_events (rq_run_id request)) (\<lambda>events.
     if list_ex (\<lambda>e. ev_event_type e = BUDGET_EXHAUSTED) events then returnA ()
     else
       let limits = effective_hard_limits request in
       bindA (append_run_event W request BUDGET_EXHAUSTED (run_event_args ''EXHAUSTED''
         [(''reason'', JStr reason),
          (''counts'', JObj [(''decisions'', JInt (fst c)), (''tool_calls'', JInt (fst (snd c))),
             (''steps'', JInt (snd (snd c)))]),
          (''server_limits'', JObj [(''max_decisions'', JInt (hl_max_decisions limits)),
             (''max_tool_calls'', JInt (hl_max_tool_calls limits)),
             (''max_steps'', JInt (hl_max_steps limits))])])) (\<lambda>_. returnA ()))"

section \<open>Starting and resuming\<close>

definition ensure_request_policy :: "world \<Rightarrow> run_request \<Rightarrow> unit res" where
  "ensure_request_policy W request =
     bindE (policy_digest (w_host W) (w_policy W)) (\<lambda>digest.
     bindE (validate_digest_reference digest) (\<lambda>expected.
     guardE (rq_tool_policy_digest request = expected) RunBindingError))"

definition start_metadata :: "world \<Rightarrow> run_request \<Rightarrow> fields res" where
  "start_metadata W request =
     bindE (request_sha256 (w_host W) request) (\<lambda>digest.
     Inr [(''request'', request_to_dict request),
          (''request_digest'', JStr digest),
          (''policy_digest'', JStr (rq_tool_policy_digest request)),
          (''initial_artifact_ids'', jstrs (rq_input_artifact_ids request))])"

text \<open>The binding that \<^verbatim>\<open>RUN_STARTED\<close> recorded, compared with the supplied request\<close>

definition check_binding :: "world \<Rightarrow> run_request \<Rightarrow> ledger_event \<Rightarrow> unit res" where
  "check_binding W request start =
     bindE (request_sha256 (w_host W) request) (\<lambda>digest.
     bindE (guardE (jget (ev_metadata start) ''request_digest'' = JStr digest) RunBindingError) (\<lambda>_.
     bindE (guardE (jget (ev_metadata start) ''policy_digest'' = JStr (rq_tool_policy_digest request))
       RunBindingError) (\<lambda>_.
     case jget (ev_metadata start) ''request'' of
       JObj d \<Rightarrow>
         bindE (wrapE any_error RunStateError (request_from_dict (w_host W) (JObj d))) (\<lambda>reconstructed.
         bindE (request_sha256 (w_host W) reconstructed) (\<lambda>recorded.
         guardE (recorded = digest) RunBindingError))
     | _ \<Rightarrow> Inl RunStateError)))"

definition start_run :: "world \<Rightarrow> run_request \<Rightarrow> (ledger_event list) loop_act" where
  "start_run W request =
     bindA (mapA (verify_artifact W) (rq_input_artifact_ids request)) (\<lambda>_.
     bindA (liftA (start_metadata W request)) (\<lambda>md.
     bindA (append_run_event W request RUN_STARTED (run_event_args ''STARTED'' md)) (\<lambda>_.
     run_events (rq_run_id request))))"

definition resume_run :: "world \<Rightarrow> run_request \<Rightarrow> ledger_event list \<Rightarrow> (ledger_event list) loop_act" where
  "resume_run W request existing =
     (case of_type RUN_STARTED existing of
        [start] \<Rightarrow>
          bindA (liftA (check_binding W request start)) (\<lambda>_.
          bindA (mapA (verify_artifact W) (rq_input_artifact_ids request)) (\<lambda>_.
          returnA existing))
      | _ \<Rightarrow> raiseA RunStateError)"

definition initialize_or_validate :: "world \<Rightarrow> run_request \<Rightarrow> (ledger_event list) loop_act" where
  "initialize_or_validate W request =
     bindA (liftA (ensure_request_policy W request)) (\<lambda>_.
     bindA (run_events (rq_run_id request)) (\<lambda>existing.
     if existing = [] then start_run W request else resume_run W request existing))"

section \<open>Projecting successes into the lineage\<close>

definition execution_relation_id :: "host \<Rightarrow> ledger_event \<Rightarrow> string \<Rightarrow> string \<Rightarrow> string \<Rightarrow> string res" where
  "execution_relation_id H success relation_type subject_id object_id =
     bindE (canonical_json_bytes (JObj
       [(''success_event_id'', JStr (ev_event_id success)),
        (''relation_type'', JStr relation_type),
        (''subject_id'', JStr subject_id),
        (''object_id'', JStr object_id)])) (\<lambda>body.
     Inr (''rel_exec_'' @ sha256_bytes H body))"

definition relation_args_of ::
    "ledger_event \<Rightarrow> fields \<Rightarrow> string \<times> string \<times> string \<Rightarrow> relation_args" where
  "relation_args_of success md rel =
     \<lparr>ra_relation_type = fst rel, ra_subject_id = fst (snd rel), ra_object_id = snd (snd rel),
      ra_relation_id = None, ra_created_at = Some (ev_timestamp success), ra_metadata = Some md,
      ra_uuid = '''', ra_now = 0\<rparr>"

text \<open>The local function \<^verbatim>\<open>add\<close>\<close>

definition add_execution_relation ::
    "host \<Rightarrow> ledger_event \<Rightarrow> fields \<Rightarrow> string \<times> string \<times> string \<Rightarrow> lineage_relation loop_act" where
  "add_execution_relation H success md rel =
     bindA (liftA (execution_relation_id H success (fst rel) (fst (snd rel)) (snd (snd rel)))) (\<lambda>relation_id.
     catchA (on_lineage (add_relation_idempotent H relation_id (relation_args_of success md rel)))
       (\<lambda>e. raiseA ReconciliationError))"

definition register_verified :: "world \<Rightarrow> string \<Rightarrow> string loop_act" where
  "register_verified W artifact_id =
     bindA (catchA (verify_artifact W artifact_id) (\<lambda>e. raiseA ReconciliationError)) (\<lambda>_.
     on_lineage (register_artifact (w_host W) artifact_id))"

text \<open>The relations of a success, in the order they are added\<close>

definition execution_relations :: "ledger_event \<Rightarrow> string \<Rightarrow> (string \<times> string \<times> string) list" where
  "execution_relations success step_id =
     concat (map (\<lambda>output_id. (''PRODUCED_BY'', output_id, step_id)
         # map (\<lambda>input_id. (''DERIVED_FROM'', output_id, input_id)) (ev_input_artifact_ids success))
       (ev_output_artifact_ids success))
     @ map (\<lambda>input_id. (''CONSUMED_BY'', input_id, step_id)) (ev_input_artifact_ids success)"

definition project_success_facts :: "world \<Rightarrow> ledger_event \<Rightarrow> string \<Rightarrow> string \<Rightarrow> unit loop_act" where
  "project_success_facts W success step_id call_id =
     (let md = [(''run_id'', JStr (ev_run_id success)), (''call_id'', JStr call_id),
                (''success_event_id'', JStr (ev_event_id success))] in
      bindA (on_lineage (register_step (w_host W) step_id)) (\<lambda>_.
      bindA (mapA (register_verified W) (ev_input_artifact_ids success @ ev_output_artifact_ids success)) (\<lambda>_.
      bindA (mapA (add_execution_relation (w_host W) success md) (execution_relations success step_id)) (\<lambda>_.
      returnA ()))))"

definition project_success :: "world \<Rightarrow> ledger_event \<Rightarrow> unit loop_act" where
  "project_success W success =
     (if ev_event_type success \<noteq> TOOL_EXECUTION_SUCCEEDED then raiseA ReconciliationError
      else
        bindA (liftA (validated_success_result_data (w_host W) success)) (\<lambda>_.
        case ev_step_id success of
          None \<Rightarrow> raiseA ReconciliationError
        | Some step_id \<Rightarrow>
           (case metadata_call_id success of
              None \<Rightarrow> raiseA ReconciliationError
            | Some call_id \<Rightarrow> project_success_facts W success step_id call_id)))"

definition reconcile_success_lineage :: "world \<Rightarrow> ledger_event list \<Rightarrow> unit loop_act" where
  "reconcile_success_lineage W events =
     bindA (mapA (project_success W) (of_type TOOL_EXECUTION_SUCCEEDED events)) (\<lambda>_. returnA ())"

section \<open>Materializing and executing\<close>

definition materialize :: "world \<Rightarrow> run_request \<Rightarrow> tool_call_proposal \<Rightarrow> tool_spec \<Rightarrow> tool_call loop_act" where
  "materialize W request proposal spec =
     bindA (new_unique_id W ''step'' used_step_ids) (\<lambda>step_id.
     bindA (new_unique_id W ''call'' used_call_ids) (\<lambda>call_id.
     bindA (liftA (spec_digest (w_host W) spec)) (\<lambda>digest.
     bindA (now W) (\<lambda>created_at.
     liftA (call_init (w_host W)
       \<lparr>tc_run_id = rq_run_id request, tc_step_id = step_id, tc_call_id = call_id,
        tc_tool_name = ts_name spec, tc_tool_version = ts_version spec, tc_tool_spec_digest = digest,
        tc_policy_digest = rq_tool_policy_digest request, tc_arguments = pr_arguments proposal,
        tc_input_artifact_ids = pr_input_artifact_ids proposal, tc_created_at = created_at,
        tc_tool_call_digest = None, tc_reason_summary = pr_reason_summary proposal\<rparr>)))))"

definition validate_proposal_inputs :: "world \<Rightarrow> tool_call_proposal \<Rightarrow> string list \<Rightarrow> unit loop_act" where
  "validate_proposal_inputs W proposal visible =
     bindA (mapA (\<lambda>artifact_id. if artifact_id \<notin> set visible then raiseA ToolContractError
                               else verify_artifact W artifact_id) (pr_input_artifact_ids proposal)) (\<lambda>_.
     returnA ())"

definition current_spec :: "world \<Rightarrow> run_request \<Rightarrow> tool_call \<Rightarrow> tool_spec res" where
  "current_spec W request call =
     bindE (resolve_exact (w_host W) (w_registry W) (tc_tool_name call) (tc_tool_version call)
       (tc_tool_spec_digest call)) (\<lambda>spec.
     bindE (guardE (tc_policy_digest call = rq_tool_policy_digest request) RunBindingError) (\<lambda>_.
     bindE (policy_check (w_policy W) spec) (\<lambda>_. Inr spec)))"

definition assert_current_call :: "world \<Rightarrow> run_request \<Rightarrow> tool_call \<Rightarrow> tool_spec res" where
  "assert_current_call W request call =
     wrapE (\<lambda>e. \<not> (is_a e RunBindingError \<or> is_a e ToolContractError)) ToolContractError
       (current_spec W request call)"

text \<open>\<^verbatim>\<open>ToolExecutionContext(..., reader=self.store.read)\<close>\<close>

definition context_for_call :: "world \<Rightarrow> tool_call \<Rightarrow> exec_context loop_act" where
  "context_for_call W call =
     bindA (liftA (call_computed_digest (w_host W) call)) (\<lambda>key.
     asksA (\<lambda>s. exec_context_init
       \<lparr>xc_run_id = tc_run_id call, xc_step_id = tc_step_id call, xc_call_id = tc_call_id call,
        xc_idempotency_key = key, xc_arguments = tc_arguments call,
        xc_input_artifact_ids = tc_input_artifact_ids call,
        xc_reader = read_artifact (w_host W) (ls_store s)\<rparr>))"

definition put_draft :: "world \<Rightarrow> artifact_draft \<Rightarrow> artifact_record loop_act" where
  "put_draft W draft =
     bindA tick (\<lambda>i.
     on_store (put (w_host W)
       \<lparr>pa_content = dr_content draft, pa_media_type = Some (dr_media_type draft), pa_content_type = None,
        pa_schema_name = dr_schema_name draft, pa_schema_version = dr_schema_version draft,
        pa_stored_at = None, pa_now = w_now W i\<rparr>))"

text \<open>The \<^verbatim>\<open>try\<close> block: run the tool, check what it returned, publish its drafts\<close>

definition perform_call ::
    "world \<Rightarrow> tool_spec \<Rightarrow> executor \<Rightarrow> exec_context \<Rightarrow> (json \<times> string \<times> artifact_record list) loop_act" where
  "perform_call W spec executor context =
     bindA tick (\<lambda>i.
     bindA (liftA (bindE (executor i context) result_of_raw)) (\<lambda>result.
     bindA (liftA (canonical_json_bytes (tr_data result))) (\<lambda>encoded.
     bindA (liftA (guardE (length encoded \<le> max_tool_result_data_bytes) ToolContractError)) (\<lambda>_.
     bindA (liftA (validate_output (w_host W) spec (tr_data result))) (\<lambda>_.
     bindA (mapA (put_draft W) (tr_artifacts result)) (\<lambda>outputs.
     returnA (tr_data result, encoded, outputs)))))))"

definition attemptA :: "('s, 'a) act \<Rightarrow> ('s, 'a res) act" where
  "attemptA m s = (case m s of (r, t) \<Rightarrow> (Inr r, t))"

definition append_success ::
    "world \<Rightarrow> run_request \<Rightarrow> tool_call \<Rightarrow> json \<times> string \<times> artifact_record list \<Rightarrow> ledger_event loop_act" where
  "append_success W request call outcome =
     append_run_event W request TOOL_EXECUTION_SUCCEEDED ((call_event_args call ''SUCCEEDED''
       (call_metadata call @
        [(''result_data'', fst outcome),
         (''result_data_sha256'', JStr (sha256_bytes (w_host W) (fst (snd outcome))))]))
       \<lparr>ea_output_artifact_ids := map ar_artifact_id (snd (snd outcome))\<rparr>)"

definition finish_call ::
    "world \<Rightarrow> run_request \<Rightarrow> tool_call \<Rightarrow> (json \<times> string \<times> artifact_record list) res \<Rightarrow> ledger_event loop_act" where
  "finish_call W request call attempted =
     (case attempted of
        Inl e \<Rightarrow> append_execution_failed W request call e
      | Inr outcome \<Rightarrow>
          bindA (append_success W request call outcome) (\<lambda>success.
          bindA (project_success W success) (\<lambda>_. returnA success)))"

definition execute_call :: "world \<Rightarrow> run_request \<Rightarrow> tool_call \<Rightarrow> ledger_event loop_act" where
  "execute_call W request call =
     bindA (liftA (assert_current_call W request call)) (\<lambda>spec.
     bindA (liftA (executor_for (w_host W) (w_registry W) spec)) (\<lambda>executor.
     bindA (append_run_event W request TOOL_EXECUTION_STARTED
       (call_event_args call ''STARTED'' (call_metadata call))) (\<lambda>_.
     bindA (context_for_call W call) (\<lambda>context.
     bindA (attemptA (perform_call W spec executor context)) (finish_call W request call)))))"

section \<open>The loop\<close>

definition invoke_provider :: "world \<Rightarrow> run_context \<Rightarrow> structured_action loop_act" where
  "invoke_provider W context =
     bindA tick (\<lambda>i.
     liftA (wrapE (\<lambda>e. \<not> is_a e StopIteration) ActionError
       (bindE (w_provider W i context (model_visible_tools (w_registry W))) action_from_value)))"

definition run_projection_result ::
    "world \<Rightarrow> run_request \<Rightarrow> run_projection option \<Rightarrow> string \<Rightarrow> run_result loop_act" where
  "run_projection_result W request given message =
     bindA (run_events (rq_run_id request)) (\<lambda>events.
     bindA (liftA (case given of None \<Rightarrow> project (w_host W) events | Some p \<Rightarrow> Inr p)) (\<lambda>p.
     liftA (run_result_of (w_host W) request events p message)))"

text \<open>
  One round of \<^verbatim>\<open>while True\<close>: it returns a result or goes on, with the approval that is left and the
  flag \<^verbatim>\<open>approval_resume\<close>.
\<close>

datatype round_outcome = Finished run_result | Again "approval_record option" bool

definition finished :: "run_result loop_act \<Rightarrow> round_outcome loop_act" where
  "finished m = bindA m (\<lambda>r. returnA (Finished r))"

definition resolve_approval ::
    "world \<Rightarrow> run_request \<Rightarrow> run_projection \<Rightarrow> call_state \<Rightarrow> approval_record option \<Rightarrow> bool \<Rightarrow> round_outcome loop_act" where
  "resolve_approval W request p pending approval resuming =
     bindA (liftA (assert_current_call W request (cs_call pending))) (\<lambda>_.
     case approval of
       None \<Rightarrow> finished (run_projection_result W request (Some p) '''')
     | Some a \<Rightarrow>
        (case cs_approval pending of
           Some recorded \<Rightarrow>
             bindA (liftA (approval_digest (w_host W) a)) (\<lambda>given.
             bindA (liftA (approval_digest (w_host W) recorded)) (\<lambda>known.
             if given \<noteq> known then raiseA ApprovalError else returnA (Again None resuming)))
         | None \<Rightarrow>
             bindA (record_approval W request (cs_call pending) a) (\<lambda>_.
             if ap_decision a = ''REJECTED'' then
               bindA (append_rejection W request (cs_call pending) a) (\<lambda>_.
               bindA (append_run_rejected W request (cs_call pending)) (\<lambda>_.
               finished (run_projection_result W request None ''approval rejected'')))
             else returnA (Again None True))))"

text \<open>A supplied approval that no call is waiting for must be the one already recorded.\<close>

definition check_spent_approval :: "world \<Rightarrow> run_projection \<Rightarrow> approval_record option \<Rightarrow> unit res" where
  "check_spent_approval W p approval =
     (case approval of
        None \<Rightarrow> Inr ()
      | Some a \<Rightarrow>
         (case pj_pending_execution p of
            Some st \<Rightarrow>
             (case cs_approval st of
                Some recorded \<Rightarrow>
                  if ap_decision recorded = ''APPROVED'' then
                    bindE (approval_digest (w_host W) a) (\<lambda>given.
                    bindE (approval_digest (w_host W) recorded) (\<lambda>known.
                    guardE (given = known) ApprovalError))
                  else Inl ApprovalError
              | None \<Rightarrow> Inl ApprovalError)
          | None \<Rightarrow> Inl ApprovalError))"

definition exhaust :: "world \<Rightarrow> run_request \<Rightarrow> string \<times> int \<times> int \<times> int \<Rightarrow> round_outcome loop_act" where
  "exhaust W request limit =
     bindA (append_hard_limit W request (fst limit) (snd limit)) (\<lambda>_.
     finished (run_projection_result W request None ''''))"

definition execute_pending ::
    "world \<Rightarrow> run_request \<Rightarrow> ledger_event list \<Rightarrow> call_state \<Rightarrow> bool \<Rightarrow> round_outcome loop_act" where
  "execute_pending W request events st resuming =
     (case hard_limit_reason request events True of
        Some limit \<Rightarrow> exhaust W request limit
      | None \<Rightarrow>
          let resuming' = (resuming \<or> approving (cs_approval st)) in
          bindA (execute_call W request (cs_call st)) (\<lambda>_.
          if resuming' then finished (run_projection_result W request None '''')
          else returnA (Again None resuming')))"

text \<open>What is checked of a proposal before anything is recorded for it\<close>

definition admit_proposal ::
    "world \<Rightarrow> run_request \<Rightarrow> ledger_event list \<Rightarrow> tool_call_proposal \<Rightarrow> tool_spec loop_act" where
  "admit_proposal W request events proposal =
     catchA
       (bindA (liftA (resolve (w_registry W) (pr_tool_name proposal) None)) (\<lambda>spec.
        bindA (validate_proposal_inputs W proposal (visible_artifacts request events)) (\<lambda>_.
        bindA (liftA (validate_arguments (w_host W) spec (pr_arguments proposal))) (\<lambda>_.
        bindA (liftA (policy_check (w_policy W) spec)) (\<lambda>_.
        returnA spec)))))
       (\<lambda>e. if is_a e ToolContractError \<or> is_a e SchemaValidationError \<or> is_a e ToolPolicyError
            then raiseA e else raiseA ToolContractError)"

definition act_on ::
    "world \<Rightarrow> run_request \<Rightarrow> ledger_event list \<Rightarrow> bool \<Rightarrow> structured_action \<Rightarrow> round_outcome loop_act" where
  "act_on W request events resuming action =
     (case action of
        Stop reason \<Rightarrow>
          bindA (append_run_event W request RUN_STOPPED (run_event_args ''STOPPED'' [(''reason'', JStr reason)])) (\<lambda>_.
          finished (run_projection_result W request None ''''))
      | RequestReview r \<Rightarrow>
          bindA (append_run_event W request REVIEW_REQUESTED
            (run_event_args ''WAITING_REVIEW'' [(''action'', action_to_dict action)])) (\<lambda>_.
          finished (run_projection_result W request None ''''))
      | ToolCall proposal \<Rightarrow>
          bindA (admit_proposal W request events proposal) (\<lambda>spec.
          bindA (materialize W request proposal spec) (\<lambda>call.
          bindA (append_materialized W request call) (\<lambda>_.
          if requires_approval (w_policy W) spec then
            bindA (append_approval_required W request call) (\<lambda>_.
            finished (run_projection_result W request None ''''))
          else bindA (execute_call W request call) (\<lambda>_. returnA (Again None resuming))))))"

definition record_decision :: "world \<Rightarrow> run_request \<Rightarrow> structured_action \<Rightarrow> ledger_event loop_act" where
  "record_decision W request action =
     append_run_event W request DECISION_RECORDED
       (run_event_args ''PROPOSED'' [(''action'', action_to_dict action)])"

definition decide :: "world \<Rightarrow> run_request \<Rightarrow> ledger_event list \<Rightarrow> bool \<Rightarrow> round_outcome loop_act" where
  "decide W request events resuming =
     (case hard_limit_reason request events False of
        Some limit \<Rightarrow> exhaust W request limit
      | None \<Rightarrow>
          bindA (liftA (run_context_of (w_host W) request events)) (\<lambda>context.
          bindA (attemptA (invoke_provider W context)) (\<lambda>answer.
          case answer of
            Inl e \<Rightarrow>
              if is_a e StopIteration
              then finished (run_projection_result W request None ''DecisionProvider has no further action'')
              else raiseA e
          | Inr action \<Rightarrow>
              bindA (record_decision W request action) (\<lambda>_. act_on W request events resuming action))))"

text \<open>The body of the loop after the projection\<close>

definition loop_step ::
    "world \<Rightarrow> run_request \<Rightarrow> ledger_event list \<Rightarrow> run_projection \<Rightarrow> approval_record option \<Rightarrow> bool \<Rightarrow> round_outcome loop_act" where
  "loop_step W request events p approval resuming =
     (if pj_terminal_event p \<noteq> None then
        (if approval \<noteq> None then raiseA ApprovalError
         else finished (run_projection_result W request (Some p) ''''))
      else if pj_interrupted p then
        (if approval \<noteq> None then raiseA ApprovalError
         else finished (run_projection_result W request (Some p) ''call needs reconciliation''))
      else case pj_pending_approval p of
        Some pending \<Rightarrow> resolve_approval W request p pending approval resuming
      | None \<Rightarrow>
          bindA (liftA (check_spent_approval W p approval)) (\<lambda>_.
          if pj_waiting_review p then finished (run_projection_result W request (Some p) '''')
          else case pj_pending_execution p of
              Some st \<Rightarrow> execute_pending W request events st resuming
            | None \<Rightarrow> decide W request events resuming))"

definition loop_round :: "world \<Rightarrow> run_request \<Rightarrow> approval_record option \<Rightarrow> bool \<Rightarrow> round_outcome loop_act" where
  "loop_round W request approval resuming =
     bindA (run_events (rq_run_id request)) (\<lambda>events.
     bindA (liftA (project (w_host W) events)) (\<lambda>p.
     loop_step W request events p approval resuming))"

text \<open>\<open>None\<close> says that the fuel ran out.\<close>

fun run_loop :: "world \<Rightarrow> run_request \<Rightarrow> nat \<Rightarrow> approval_record option \<Rightarrow> bool \<Rightarrow> (run_result option) loop_act" where
  "run_loop W request 0 approval resuming = returnA None"
| "run_loop W request (Suc n) approval resuming =
     bindA (loop_round W request approval resuming) (\<lambda>outcome.
     case outcome of
       Finished r \<Rightarrow> returnA (Some r)
     | Again approval' resuming' \<Rightarrow> run_loop W request n approval' resuming')"

text \<open>
  \<^verbatim>\<open>run\<close>. A round that goes on uses up a decision, an unstarted call or the approval; the fuel covers
  them all, which the refinement of the protocol shows.
\<close>

definition run_with_fuel ::
    "world \<Rightarrow> run_request \<Rightarrow> approval_record option \<Rightarrow> nat \<Rightarrow> (run_result option) loop_act" where
  "run_with_fuel W request approval fuel =
     bindA (initialize_or_validate W request) (\<lambda>events.
     bindA (reconcile_success_lineage W events) (\<lambda>_.
     run_loop W request fuel approval False))"

definition run :: "world \<Rightarrow> run_request \<Rightarrow> approval_record option \<Rightarrow> (run_result option) loop_act" where
  "run W request approval s = run_with_fuel W request approval (15 + length (ls_ledger s)) s"

text \<open>\<^verbatim>\<open>status\<close>\<close>

definition status :: "world \<Rightarrow> string \<Rightarrow> run_result loop_act" where
  "status W run_id =
     bindA (liftA (validate_identifier run_id)) (\<lambda>_.
     bindA (run_events run_id) (\<lambda>events.
     if events = [] then
       liftA (result_init \<lparr>rr_run_id = run_id, rr_status = StNew, rr_visible_artifact_ids = [],
         rr_last_event_id = None, rr_pending_call = None, rr_message = ''''\<rparr>)
     else
       case find (\<lambda>e. ev_event_type e = RUN_STARTED) events of
         None \<Rightarrow> raiseA RunStateError
       | Some start \<Rightarrow>
          (case jget (ev_metadata start) ''request'' of
             JObj d \<Rightarrow>
               bindA (liftA (request_from_dict (w_host W) (JObj d))) (\<lambda>request.
               run_projection_result W request None '''')
           | _ \<Rightarrow> raiseA RunStateError)))"

end
