(* ===== verification/RunProtocol.thy ===== *)
theory RunProtocol
  imports AgentLoop
begin

text \<open>
  What a run's events promise, independently of how the loop is written: the protocol, a step
  relation that says which event may follow which history, and the invariants of every history that
  its steps reach. \<^verbatim>\<open>LoopRefinement\<close> shows that the loop appends by these steps only.
\<close>

section \<open>The protocol\<close>

definition has_event :: "string \<Rightarrow> string \<Rightarrow> ledger_event list \<Rightarrow> bool" where
  "has_event t k es = (\<exists>e \<in> set es. ev_event_type e = t \<and> metadata_call_id e = Some k)"

definition ended :: "ledger_event list \<Rightarrow> bool" where
  "ended es = (\<exists>e \<in> set es. ev_event_type e \<in> set terminal_event_types)"

definition reviewing :: "ledger_event list \<Rightarrow> bool" where
  "reviewing es = (es \<noteq> [] \<and> ev_event_type (last es) = REVIEW_REQUESTED)"

definition approval_of :: "host \<Rightarrow> ledger_event \<Rightarrow> approval_record res" where
  "approval_of H e = approval_from_dict H (jget (ev_metadata e) ''approval'')"

text \<open>The history holds an approval that is bound to the call and approves it.\<close>

definition approved_in :: "host \<Rightarrow> tool_call \<Rightarrow> ledger_event list \<Rightarrow> bool" where
  "approved_in H c es = (\<exists>e \<in> set es. \<exists>a. ev_event_type e = APPROVAL_RECORDED
     \<and> metadata_call_id e = Some (tc_call_id c) \<and> approval_of H e = Inr a \<and> assert_binds_to H a c = Inr ()
     \<and> ap_decision a = ''APPROVED'')"

definition materialized_in :: "host \<Rightarrow> tool_call \<Rightarrow> ledger_event list \<Rightarrow> bool" where
  "materialized_in H c es = (\<exists>e \<in> set es. ev_event_type e = TOOL_CALL_MATERIALIZED \<and> materialized_call H e = Inr c)"

text \<open>A step appends one event. The histories of the rules are those of an unfinished run.\<close>

inductive protocol_step :: "world \<Rightarrow> run_request \<Rightarrow> ledger_event list \<Rightarrow> ledger_event \<Rightarrow> bool" for W r where
  Start: "ev_event_type e = RUN_STARTED \<Longrightarrow> protocol_step W r [] e"
| Decide: "\<not> ended es \<Longrightarrow> \<not> reviewing es \<Longrightarrow> hard_limit_reason r es False = None
    \<Longrightarrow> ev_event_type e = DECISION_RECORDED \<Longrightarrow> protocol_step W r es e"
| StopRun: "\<not> ended es \<Longrightarrow> ev_event_type d = DECISION_RECORDED \<Longrightarrow> ev_event_type e \<in> {RUN_STOPPED, REVIEW_REQUESTED}
    \<Longrightarrow> protocol_step W r (es @ [d]) e"
| Materialize: "\<not> ended es \<Longrightarrow> hard_limit_reason r es False = None \<Longrightarrow> ev_event_type d = DECISION_RECORDED
    \<Longrightarrow> ev_event_type e = TOOL_CALL_MATERIALIZED \<Longrightarrow> materialized_call (w_host W) e = Inr c
    \<Longrightarrow> metadata_call_id e = Some (tc_call_id c)
    \<Longrightarrow> tc_call_id c \<notin> set (used_call_ids (es @ [d])) \<Longrightarrow> protocol_step W r (es @ [d]) e"
| Require: "\<not> ended es \<Longrightarrow> ev_event_type m = TOOL_CALL_MATERIALIZED \<Longrightarrow> metadata_call_id m = Some k
    \<Longrightarrow> ev_event_type e = APPROVAL_REQUIRED \<Longrightarrow> metadata_call_id e = Some k
    \<Longrightarrow> protocol_step W r (es @ [m]) e"
| Record: "\<not> ended es \<Longrightarrow> materialized_in (w_host W) c es \<Longrightarrow> has_event APPROVAL_REQUIRED (tc_call_id c) es
    \<Longrightarrow> \<not> has_event APPROVAL_RECORDED (tc_call_id c) es \<Longrightarrow> \<not> has_event TOOL_EXECUTION_STARTED (tc_call_id c) es
    \<Longrightarrow> ev_event_type e = APPROVAL_RECORDED \<Longrightarrow> metadata_call_id e = Some (tc_call_id c)
    \<Longrightarrow> approval_of (w_host W) e = Inr a \<Longrightarrow> assert_binds_to (w_host W) a c = Inr ()
    \<Longrightarrow> protocol_step W r es e"
| Reject: "\<not> ended es \<Longrightarrow> ev_event_type g = APPROVAL_RECORDED \<Longrightarrow> metadata_call_id g = Some k
    \<Longrightarrow> approval_of (w_host W) g = Inr a \<Longrightarrow> ap_decision a = ''REJECTED''
    \<Longrightarrow> ev_event_type e = TOOL_CALL_REJECTED \<Longrightarrow> metadata_call_id e = Some k
    \<Longrightarrow> protocol_step W r (es @ [g]) e"
| RejectRun: "\<not> ended es \<Longrightarrow> ev_event_type g = TOOL_CALL_REJECTED \<Longrightarrow> ev_event_type e = RUN_REJECTED
    \<Longrightarrow> protocol_step W r (es @ [g]) e"
| Execute: "\<not> ended es \<Longrightarrow> materialized_in (w_host W) c es \<Longrightarrow> assert_current_call W r c = Inr spec
    \<Longrightarrow> \<not> has_event TOOL_EXECUTION_STARTED (tc_call_id c) es
    \<Longrightarrow> (has_event APPROVAL_REQUIRED (tc_call_id c) es \<Longrightarrow> approved_in (w_host W) c es)
    \<Longrightarrow> ev_event_type e = TOOL_EXECUTION_STARTED \<Longrightarrow> metadata_call_id e = Some (tc_call_id c)
    \<Longrightarrow> protocol_step W r es e"
| Finish: "\<not> ended es \<Longrightarrow> ev_event_type g = TOOL_EXECUTION_STARTED \<Longrightarrow> metadata_call_id g = Some k
    \<Longrightarrow> ev_event_type e \<in> {TOOL_EXECUTION_SUCCEEDED, TOOL_EXECUTION_FAILED} \<Longrightarrow> metadata_call_id e = Some k
    \<Longrightarrow> protocol_step W r (es @ [g]) e"
| Exhaust: "\<not> ended es \<Longrightarrow> hard_limit_reason r es pending \<noteq> None \<Longrightarrow> ev_event_type e = BUDGET_EXHAUSTED
    \<Longrightarrow> protocol_step W r es e"

text \<open>Any number of steps of one process\<close>

inductive protocol_steps :: "world \<Rightarrow> run_request \<Rightarrow> ledger_event list \<Rightarrow> ledger_event list \<Rightarrow> bool" for W r where
  none: "protocol_steps W r es es"
| more: "protocol_steps W r es fs \<Longrightarrow> protocol_step W r fs e \<Longrightarrow> protocol_steps W r es (fs @ [e])"

text \<open>
  The histories of a run. Each step may be taken by another process, with its own registry, policy,
  provider and clock: a run is resumed wherever its last process stopped or crashed.
\<close>

inductive reachable :: "host \<Rightarrow> run_request \<Rightarrow> ledger_event list \<Rightarrow> bool" for H r where
  nothing: "reachable H r []"
| step: "reachable H r es \<Longrightarrow> w_host W = H \<Longrightarrow> protocol_step W r es e \<Longrightarrow> reachable H r (es @ [e])"

section \<open>Lemmas\<close>

lemma protocol_steps_trans:
  assumes "protocol_steps W r es fs" "protocol_steps W r fs gs"
  shows "protocol_steps W r es gs"
  using assms(2,1) by (induction rule: protocol_steps.induct) (auto intro: protocol_steps.intros)

lemma protocol_steps_one: "protocol_step W r es e \<Longrightarrow> protocol_steps W r es (es @ [e])"
  by (rule more [OF none])

lemma protocol_steps_prefix: "protocol_steps W r es fs \<Longrightarrow> prefix es fs"
  by (induction rule: protocol_steps.induct) (auto simp: prefix_def)

lemma reachable_steps: "protocol_steps W r es fs \<Longrightarrow> reachable (w_host W) r es \<Longrightarrow> reachable (w_host W) r fs"
  by (induction rule: protocol_steps.induct) (auto intro: reachable.step)

inductive_cases reachable_snocE: "reachable H r (es @ [e])"

lemma reachable_snoc: "reachable H r (es @ [e]) \<longleftrightarrow> reachable H r es \<and> (\<exists>W. w_host W = H \<and> protocol_step W r es e)"
  by (auto intro: reachable.step elim: reachable_snocE)

text \<open>Every prefix of a reachable history is reachable: a crash between two appends is covered.\<close>

lemma reachable_prefix: "reachable H r (es @ fs) \<Longrightarrow> reachable H r es"
  by (induction fs rule: rev_induct) (simp_all flip: append_assoc add: reachable_snoc)

lemma has_event_simps [simp]:
  "\<not> has_event t k []"
  "has_event t k (es @ fs) \<longleftrightarrow> has_event t k es \<or> has_event t k fs"
  "has_event t k (e # es) \<longleftrightarrow> ev_event_type e = t \<and> metadata_call_id e = Some k \<or> has_event t k es"
  by (auto simp: has_event_def)

lemma ended_simps [simp]:
  "\<not> ended []"
  "ended (es @ fs) \<longleftrightarrow> ended es \<or> ended fs"
  "ended (e # es) \<longleftrightarrow> ev_event_type e \<in> set terminal_event_types \<or> ended es"
  by (auto simp: ended_def)

lemma of_type_simps [simp]:
  "of_type t [] = []" "of_type t (es @ fs) = of_type t es @ of_type t fs"
  "of_type t (e # es) = (if ev_event_type e = t then e # of_type t es else of_type t es)"
  by (simp_all add: of_type_def)

lemma used_call_ids_iff: "k \<in> set (used_call_ids es) \<longleftrightarrow> (\<exists>e \<in> set es. metadata_call_id e = Some k)"
  by (induction es) (auto simp: used_call_ids_def List.map_filter_simps split: option.splits)

lemma used_call_ids_append [simp]: "used_call_ids (es @ fs) = used_call_ids es @ used_call_ids fs"
  by (induction es) (simp_all add: used_call_ids_def List.map_filter_simps split: option.split)

lemma has_event_used: "has_event t k es \<Longrightarrow> k \<in> set (used_call_ids es)"
  by (auto simp: has_event_def used_call_ids_iff)

lemma terminal_types_simp [simp]:
  "RUN_STOPPED \<in> set terminal_event_types" "RUN_REJECTED \<in> set terminal_event_types"
  "RUN_FAILED \<in> set terminal_event_types" "BUDGET_EXHAUSTED \<in> set terminal_event_types"
  "RUN_STARTED \<notin> set terminal_event_types" "DECISION_RECORDED \<notin> set terminal_event_types"
  "TOOL_CALL_MATERIALIZED \<notin> set terminal_event_types" "APPROVAL_REQUIRED \<notin> set terminal_event_types"
  "APPROVAL_RECORDED \<notin> set terminal_event_types" "TOOL_CALL_REJECTED \<notin> set terminal_event_types"
  "TOOL_EXECUTION_STARTED \<notin> set terminal_event_types" "TOOL_EXECUTION_SUCCEEDED \<notin> set terminal_event_types"
  "TOOL_EXECUTION_FAILED \<notin> set terminal_event_types" "REVIEW_REQUESTED \<notin> set terminal_event_types"
  by (simp_all add: terminal_event_types_def)

lemma protocol_step_open: "protocol_step W r es e \<Longrightarrow> \<not> ended es"
  by (cases rule: protocol_step.cases) auto

lemma protocol_steps_ended: "protocol_steps W r es fs \<Longrightarrow> ended es \<Longrightarrow> fs = es"
  by (induction rule: protocol_steps.induct) (auto dest: protocol_step_open)

text \<open>The rule that a step of a given type comes from\<close>

lemma step_types:
  assumes "protocol_step W r es e"
  shows "ev_event_type e = TOOL_CALL_MATERIALIZED \<Longrightarrow> \<exists>fs d c. es = fs @ [d] \<and> ev_event_type d = DECISION_RECORDED
      \<and> hard_limit_reason r fs False = None \<and> materialized_call (w_host W) e = Inr c
      \<and> metadata_call_id e = Some (tc_call_id c) \<and> tc_call_id c \<notin> set (used_call_ids es)"
    and "ev_event_type e = DECISION_RECORDED \<Longrightarrow> hard_limit_reason r es False = None"
    and "ev_event_type e = APPROVAL_REQUIRED \<Longrightarrow> \<exists>fs m. es = fs @ [m] \<and> ev_event_type m = TOOL_CALL_MATERIALIZED
      \<and> metadata_call_id m = metadata_call_id e \<and> metadata_call_id e \<noteq> None"
    and "ev_event_type e = TOOL_EXECUTION_STARTED \<Longrightarrow> \<exists>c spec. metadata_call_id e = Some (tc_call_id c)
      \<and> materialized_in (w_host W) c es \<and> assert_current_call W r c = Inr spec
      \<and> \<not> has_event TOOL_EXECUTION_STARTED (tc_call_id c) es
      \<and> (has_event APPROVAL_REQUIRED (tc_call_id c) es \<longrightarrow> approved_in (w_host W) c es)"
    and "ev_event_type e \<in> {TOOL_EXECUTION_SUCCEEDED, TOOL_EXECUTION_FAILED} \<Longrightarrow> \<exists>fs g. es = fs @ [g]
      \<and> ev_event_type g = TOOL_EXECUTION_STARTED \<and> metadata_call_id g = metadata_call_id e \<and> metadata_call_id e \<noteq> None"
  using assms by (cases rule: protocol_step.cases; force)+

lemma step_recorded:
  assumes "protocol_step W r es e" "ev_event_type e = APPROVAL_RECORDED"
  shows "\<exists>c a. metadata_call_id e = Some (tc_call_id c) \<and> \<not> has_event APPROVAL_RECORDED (tc_call_id c) es
    \<and> has_event APPROVAL_REQUIRED (tc_call_id c) es \<and> approval_of (w_host W) e = Inr a
    \<and> assert_binds_to (w_host W) a c = Inr () \<and> materialized_in (w_host W) c es"
  using assms(1)
proof (cases rule: protocol_step.cases)
  case (Record c a)
  then show ?thesis by blast
qed (use assms(2) in auto)

section \<open>Invariants\<close>

text \<open>An event that materializes a call is the first to name it, and an approval is required right after.\<close>

lemma reachable_materialized:
  assumes "reachable H r (es @ [m] @ fs)" "ev_event_type m = TOOL_CALL_MATERIALIZED" "metadata_call_id m = Some k"
  shows "k \<notin> set (used_call_ids es)"
proof -
  have "reachable H r (es @ [m])" using reachable_prefix [of H r "es @ [m]" fs] assms(1) by simp
  then obtain W where "protocol_step W r es m" by (auto simp: reachable_snoc)
  from step_types(1) [OF this assms(2)] assms(3) show ?thesis by auto
qed

lemma reachable_required:
  assumes "reachable H r (es @ [e] @ fs)" "ev_event_type e = APPROVAL_REQUIRED" "metadata_call_id e = Some k"
  shows "\<not> has_event TOOL_EXECUTION_STARTED k es"
proof -
  have "reachable H r (es @ [e])" using reachable_prefix [of H r "es @ [e]" fs] assms(1) by simp
  then obtain W where step: "protocol_step W r es e" and r: "reachable H r es" by (auto simp: reachable_snoc)
  from step_types(3) [OF step assms(2)] obtain gs m where gs: "es = gs @ [m]"
    "ev_event_type m = TOOL_CALL_MATERIALIZED" "metadata_call_id m = Some k" using assms(3) by auto
  from r gs have "k \<notin> set (used_call_ids gs)" using reachable_materialized [of H r gs m "[]" k] by simp
  then have "\<not> has_event TOOL_EXECUTION_STARTED k gs" using has_event_used by blast
  with gs show ?thesis by simp
qed

definition starts :: "string \<Rightarrow> ledger_event list \<Rightarrow> ledger_event list" where
  "starts k es = filter (\<lambda>e. metadata_call_id e = Some k) (of_type TOOL_EXECUTION_STARTED es)"

lemma starts_empty: "starts k es = [] \<longleftrightarrow> \<not> has_event TOOL_EXECUTION_STARTED k es"
  by (auto simp: starts_def has_event_def of_type_def filter_empty_conv)

lemma starts_append [simp]: "starts k (es @ fs) = starts k es @ starts k fs"
  by (simp add: starts_def)

lemma reachable_starts: "reachable H r es \<Longrightarrow> length (starts k es) \<le> 1"
proof (induction rule: reachable.induct)
  case nothing
  show ?case by (simp add: starts_def)
next
  case (step fs W e)
  show ?case
  proof (cases "ev_event_type e = TOOL_EXECUTION_STARTED \<and> metadata_call_id e = Some k")
    case True
    with step_types(4) [OF step.hyps(3)] have "starts k fs = []" by (auto simp: starts_empty)
    with True show ?thesis by (simp add: starts_def)
  next
    case False
    with step.IH show ?thesis by (auto simp: starts_def)
  qed
qed

text \<open>The counts that the hard limits look at\<close>

lemma limit_none:
  assumes "hard_limit_reason r es False = None"
  shows "int (length (of_type DECISION_RECORDED es)) < hl_max_decisions (effective_hard_limits r)"
    "int (length (of_type TOOL_CALL_MATERIALIZED es)) < hl_max_tool_calls (effective_hard_limits r)"
  using assms by (simp_all add: hard_limit_reason_def counts_def Let_def split: if_splits)

lemma effective_limits:
  "hl_max_decisions (effective_hard_limits r) \<le> 12" "hl_max_tool_calls (effective_hard_limits r) \<le> 8"
  by (simp_all add: effective_hard_limits_def server_run_hard_limits_def split: option.split)

lemma reachable_decisions: "reachable H r es \<Longrightarrow>
    of_type DECISION_RECORDED es \<noteq> [] \<Longrightarrow>
    int (length (of_type DECISION_RECORDED es)) \<le> hl_max_decisions (effective_hard_limits r)"
proof (induction rule: reachable.induct)
  case nothing
  then show ?case by simp
next
  case (step fs W e)
  show ?case
  proof (cases "ev_event_type e = DECISION_RECORDED")
    case True
    with limit_none(1) [OF step_types(2) [OF step.hyps(3) True]] show ?thesis by simp
  next
    case False
    with step show ?thesis by simp
  qed
qed

lemma reachable_tool_calls: "reachable H r es \<Longrightarrow>
    of_type TOOL_CALL_MATERIALIZED es \<noteq> [] \<Longrightarrow>
    int (length (of_type TOOL_CALL_MATERIALIZED es)) \<le> hl_max_tool_calls (effective_hard_limits r)"
proof (induction rule: reachable.induct)
  case nothing
  then show ?case by simp
next
  case (step fs W e)
  show ?case
  proof (cases "ev_event_type e = TOOL_CALL_MATERIALIZED")
    case True
    from step_types(1) [OF step.hyps(3) True] obtain gs d where "fs = gs @ [d]"
      "ev_event_type d = DECISION_RECORDED" "hard_limit_reason r gs False = None" by blast
    with limit_none(2) [of r gs] True show ?thesis by simp
  next
    case False
    with step show ?thesis by simp
  qed
qed

text \<open>Nothing follows a terminal event.\<close>

lemma reachable_ended: "reachable H r (es @ [e]) \<Longrightarrow> \<not> ended es"
  by (auto simp: reachable_snoc dest: protocol_step_open)

end
