(* ===== verification/LoopRefinement.thy ===== *)
theory LoopRefinement
  imports RunProtocol
begin

text \<open>
  The loop refines the protocol: whatever the provider, the tools and the clock answer and wherever an
  exception ends a call of \<^verbatim>\<open>run\<close>, the run's history grows by protocol steps only.
\<close>

section \<open>Histories\<close>

definition history :: "run_request \<Rightarrow> loop_state \<Rightarrow> ledger_event list" where
  "history r s = events_of (rq_run_id r) (ls_ledger s)"

text \<open>Most actions append no event; what they do to the store only adds to it.\<close>

definition same_ledger :: "loop_state \<Rightarrow> loop_state \<Rightarrow> bool" where
  "same_ledger s t = (ls_ledger t = ls_ledger s \<and> extends (ls_store s) (ls_store t))"

lemma same_ledger_order: "reflp same_ledger" "transp same_ledger"
  using extends_order by (auto simp: same_ledger_def reflp_def transp_def)

lemma same_history: "same_ledger s t \<Longrightarrow> history r t = history r s"
  by (simp add: same_ledger_def history_def)

lemmas still_rules = advances_pure [OF same_ledger_order(1)] advances_bind [OF same_ledger_order(2)]
  advances_catch [OF same_ledger_order(2)] advances_map [OF same_ledger_order] advances_if

lemma still_basic [simp, intro]:
  "advances same_ledger tick" "advances same_ledger (on_store (put H draft))" "advances same_ledger (on_lineage m2)"
  "advances same_ledger (now W)" "advances same_ledger (run_events rid)"
  "advances same_ledger (verify_artifact W x)" "advances same_ledger (returnA v)"
  "advances same_ledger (raiseA e)" "advances same_ledger (liftA u)" "advances same_ledger (asksA g)"
proof -
  have "advances extends (put H draft)" unfolding put_def by (rule put_extends) simp
  then have "extends s (snd (put H draft s))" for s by (simp add: advances_def)
  then show "advances same_ledger (on_store (put H draft))"
    by (auto simp: advances_def same_ledger_def on_store_def split: prod.splits) (metis snd_conv)
  have "extends s s" for s using extends_order(1) by (simp add: reflp_def)
  then show "advances same_ledger tick" "advances same_ledger (on_lineage m2)"
    "advances same_ledger (now W)" "advances same_ledger (run_events rid)"
    "advances same_ledger (verify_artifact W x)" "advances same_ledger (returnA v)"
    "advances same_ledger (raiseA e)" "advances same_ledger (liftA u)" "advances same_ledger (asksA g)"
    by (auto simp: advances_def same_ledger_def tick_def on_lineage_def now_def bindA_def
        run_events_def verify_artifact_def split: prod.splits sum.splits)
qed

lemma still_draw [simp, intro]: "advances same_ledger (draw_id W pfx used n)"
proof (induction n)
  case 0
  show ?case by (simp only: draw_id.simps still_basic)
next
  case (Suc n)
  show ?case unfolding draw_id.simps by (intro still_rules still_basic Suc.IH)
qed

lemma still_new_id [simp, intro]: "advances same_ledger (new_unique_id W pfx used_of)"
  unfolding new_unique_id_def by (intro still_rules still_draw)

lemma still_option: "advances same_ledger m \<Longrightarrow> (\<And>y. advances same_ledger (f y))
    \<Longrightarrow> advances same_ledger (case x of None \<Rightarrow> m | Some y \<Rightarrow> f y)"
  by (cases x) simp_all

lemma still_attempt [intro]: "advances same_ledger m \<Longrightarrow> advances same_ledger (attemptA m)"
  by (auto simp: advances_def attemptA_def split: prod.split) (metis snd_conv)

text \<open>Drawing an ID and reading the clock change the counter only.\<close>

definition only_ticks :: "loop_state \<Rightarrow> loop_state \<Rightarrow> bool" where
  "only_ticks s t = (ls_store t = ls_store s \<and> ls_ledger t = ls_ledger s \<and> ls_lineage t = ls_lineage s)"

lemma only_ticks_order: "reflp only_ticks" "transp only_ticks"
  by (auto simp: only_ticks_def reflp_def transp_def)

lemmas ticks_rules = advances_pure [OF only_ticks_order(1)] advances_bind [OF only_ticks_order(2)] advances_if

lemma ticks_basic [intro]: "advances only_ticks tick" "advances only_ticks (now W)"
  by (auto simp: advances_def only_ticks_def tick_def now_def bindA_def)

lemma ticks_draw [intro]: "advances only_ticks (draw_id W pfx used n)"
proof (induction n)
  case 0
  show ?case by (simp only: draw_id.simps) (rule ticks_rules)
next
  case (Suc n)
  show ?case unfolding draw_id.simps by (intro ticks_rules ticks_basic Suc.IH)
qed

lemma ticks_new_id [intro]: "advances only_ticks (new_unique_id W pfx used_of)"
  unfolding new_unique_id_def by (intro ticks_rules ticks_draw)

lemma ticks_app:
  "new_unique_id W pfx used_of s = (o', t) \<Longrightarrow> only_ticks s t" "now W s = (o'', u) \<Longrightarrow> only_ticks s u"
  using advancesD [OF ticks_new_id [of W pfx used_of], of s] advancesD [OF ticks_basic(2) [of W], of s] by simp_all

section \<open>A logic for the loop's actions\<close>

text \<open>
  From a history with \<open>P\<close> the action takes protocol steps, whatever its outcome, and a returned value
  and the history then satisfy \<open>Q\<close>.
\<close>

definition follows :: "world \<Rightarrow> run_request \<Rightarrow> (ledger_event list \<Rightarrow> bool) \<Rightarrow> 'a loop_act
    \<Rightarrow> ('a \<Rightarrow> ledger_event list \<Rightarrow> bool) \<Rightarrow> bool" where
  "follows W r P m Q = (\<forall>s. P (history r s) \<longrightarrow> protocol_steps W r (history r s) (history r (snd (m s)))
     \<and> (\<forall>x t. m s = (Inr x, t) \<longrightarrow> Q x (history r t)))"

lemma followsD:
  assumes "follows W r P m Q" "P (history r s)"
  shows "protocol_steps W r (history r s) (history r (snd (m s)))" "m s = (Inr x, t) \<Longrightarrow> Q x (history r t)"
  using assms by (auto simp: follows_def)

lemma follows_bind:
  assumes "follows W r P m M" "\<And>x. follows W r (M x) (f x) Q"
  shows "follows W r P (bindA m f) Q"
  unfolding follows_def
proof (intro allI impI)
  fix s
  assume p: "P (history r s)"
  obtain o' t where ms: "m s = (o', t)" by (cases "m s")
  have m: "protocol_steps W r (history r s) (history r t)" using followsD(1) [OF assms(1) p] ms by simp
  show "protocol_steps W r (history r s) (history r (snd (bindA m f s)))
    \<and> (\<forall>x t. bindA m f s = (Inr x, t) \<longrightarrow> Q x (history r t))"
  proof (cases o')
    case (Inl e)
    with ms m show ?thesis by (simp add: bindA_app)
  next
    case (Inr x)
    have q: "M x (history r t)" using followsD(2) [OF assms(1) p] ms Inr by blast
    have "bindA m f s = f x t" using ms Inr by (simp add: bindA_app)
    with followsD [OF assms(2) q] protocol_steps_trans [OF m] show ?thesis by auto
  qed
qed

lemma follows_conseq:
  assumes "follows W r P m Q" "\<And>es. P' es \<Longrightarrow> P es" "\<And>x es. Q x es \<Longrightarrow> Q' x es"
  shows "follows W r P' m Q'"
  using assms unfolding follows_def by blast

lemma follows_post: "follows W r P m Q \<Longrightarrow> (\<And>x es. Q x es \<Longrightarrow> Q' x es) \<Longrightarrow> follows W r P m Q'"
  unfolding follows_def by blast

text \<open>Fix the history before the action.\<close>

lemma follows_from: "(\<And>es. P es \<Longrightarrow> follows W r (\<lambda>x. x = es) m Q) \<Longrightarrow> follows W r P m Q"
  unfolding follows_def by blast

lemma follows_pure:
  "follows W r P (returnA v) Q \<longleftrightarrow> (\<forall>s. P (history r s) \<longrightarrow> Q v (history r s))"
  "follows W r P (raiseA e) Q"
  "follows W r P (liftA u) Q \<longleftrightarrow> (\<forall>s x. P (history r s) \<and> u = Inr x \<longrightarrow> Q x (history r s))"
  by (auto simp: follows_def none)

lemma follows_returnI: "(\<And>es. P es \<Longrightarrow> Q v es) \<Longrightarrow> follows W r P (returnA v) Q"
  by (simp add: follows_pure)

lemma follows_liftI: "(\<And>es x. P es \<Longrightarrow> u = Inr x \<Longrightarrow> Q x es) \<Longrightarrow> follows W r P (liftA u) Q"
  by (simp add: follows_pure)

lemma follows_still: "advances same_ledger m \<Longrightarrow> follows W r P m (\<lambda>_. P)"
  unfolding follows_def using same_history by (metis advancesD none snd_conv)

lemma follows_if: "follows W r P m Q \<Longrightarrow> follows W r P m' Q \<Longrightarrow> follows W r P (if b then m else m') Q"
  by simp

lemma follows_events: "follows W r P (run_events (rq_run_id r)) (\<lambda>x es. P es \<and> x = es)"
  by (auto simp: follows_def run_events_def none history_def)

lemma follows_finished:
  "follows W r P m (\<lambda>_. Q) \<Longrightarrow> (\<And>x es. Q es \<Longrightarrow> Q' (Finished x) es) \<Longrightarrow> follows W r P (finished m) Q'"
  unfolding finished_def by (rule follows_bind, assumption, rule follows_returnI, blast)

section \<open>Appending\<close>

definition appended :: "run_request \<Rightarrow> string \<Rightarrow> event_args \<Rightarrow> ledger_event \<Rightarrow> bool" where
  "appended r et a e = (ev_event_type e = et \<and> ev_run_id e = rq_run_id r \<and> ev_step_id e = ea_step_id a
     \<and> ev_status e = ea_status a \<and> ev_tool_name e = ea_tool_name a \<and> ev_tool_version e = ea_tool_version a
     \<and> ev_input_artifact_ids e = ea_input_artifact_ids a \<and> ev_output_artifact_ids e = ea_output_artifact_ids a
     \<and> ev_metadata e = norm_obj (ea_metadata a))"

lemma ledger_append_props:
  assumes "ledger_append H (new_event r et a i ts) es = (Inr p, fs)"
  shows "fs = es @ [canon_event p]" "appended r et a (canon_event p)" "ev_metadata p = ea_metadata a"
    "ev_event_id p = i" "ev_event_id p \<notin> ev_event_id ` set es"
proof -
  from assms obtain q where q: "event_init H (new_event r et a i ts) = Inr q" "prepare_append H es q = Inr p"
    and fs: "fs = es @ [canon_event p]"
    by (auto simp: ledger_append_def split: sum.splits)
  note k = event_init_keeps [OF q(1)] and s = prepare_append_props [OF q(2)]
  note sk = seal_event_keeps [OF s(2)]
  show "fs = es @ [canon_event p]" by (rule fs)
  show "appended r et a (canon_event p)" "ev_metadata p = ea_metadata a" "ev_event_id p = i"
    "ev_event_id p \<notin> ev_event_id ` set es"
    using k s(1) sk by (simp_all add: appended_def new_event_def)
qed


text \<open>What an append leaves, whether it returns or raises\<close>

lemma append_run_event_Inr:
  assumes "append_run_event W r et a s = (Inr p, t)"
  shows "ls_ledger t = ls_ledger s @ [canon_event p]" "appended r et a (canon_event p)"
    "ev_metadata p = ea_metadata a" "ls_store t = ls_store s" "ls_lineage t = ls_lineage s"
    "history r t = history r s @ [canon_event p]"
proof -
  have et: "et \<in> set event_types" using assms by (auto simp: append_run_event_def split: if_splits)
  with assms obtain i u ts v where u: "new_unique_id W ''evt'' used_event_ids s = (Inr i, u)"
    "now W u = (Inr ts, v)" "on_ledger (ledger_append (w_host W) (new_event r et a i ts)) v = (Inr p, t)"
    by (auto simp: append_run_event_def bindA_eq_Inr)
  have l: "ls_ledger v = ls_ledger s" "ls_store v = ls_store s" "ls_lineage v = ls_lineage s"
    using ticks_app(1) [OF u(1)] ticks_app(2) [OF u(2)] by (simp_all add: only_ticks_def)
  from u(3) obtain fs where f: "ledger_append (w_host W) (new_event r et a i ts) (ls_ledger v) = (Inr p, fs)"
    "t = v\<lparr>ls_ledger := fs\<rparr>" by (auto simp: on_ledger_def split: prod.splits)
  note lp = ledger_append_props [OF f(1)]
  show a: "ls_ledger t = ls_ledger s @ [canon_event p]" using f(2) lp(1) l by simp
  show ap: "appended r et a (canon_event p)" "ev_metadata p = ea_metadata a" by (rule lp(2), rule lp(3))
  show "history r t = history r s @ [canon_event p]"
    using a ap(1) by (simp add: history_def events_of_def appended_def)
  show "ls_store t = ls_store s" "ls_lineage t = ls_lineage s" using f(2) l by simp_all
qed

lemma append_run_event_Inl:
  assumes "append_run_event W r et a s = (Inl e, t)"
  shows "only_ticks s t"
proof (cases "et \<in> set event_types")
  case False
  with assms show ?thesis by (simp add: append_run_event_def only_ticks_def)
next
  case True
  obtain o' u where u: "new_unique_id W ''evt'' used_event_ids s = (o', u)"
    by (cases "new_unique_id W ''evt'' used_event_ids s")
  obtain o'' v where v: "now W u = (o'', v)" by (cases "now W u")
  have l: "only_ticks x (snd (on_ledger (ledger_append H y) x))" if "fst (on_ledger (ledger_append H y) x) = Inl f"
    for H x y f
    using that by (auto simp: on_ledger_def ledger_append_def only_ticks_def split: sum.splits)
  note t = ticks_app(1) [OF u] ticks_app(2) [OF v] only_ticks_order(2)
  show ?thesis
  proof (cases o')
    case (Inl f)
    with assms True u t(1) show ?thesis by (simp add: append_run_event_def bindA_app)
  next
    case i: (Inr i)
    show ?thesis
    proof (cases o'')
      case (Inl f)
      with assms True u v i transpD [OF t(3) t(1,2)] show ?thesis by (simp add: append_run_event_def bindA_app)
    next
      case (Inr ts)
      with assms True u v i have a: "on_ledger (ledger_append (w_host W) (new_event r et a i ts)) v = (Inl e, t)"
        by (simp add: append_run_event_def bindA_app)
      from l [of _ _ v] a have "only_ticks v t" by (metis fst_conv snd_conv)
      with transpD [OF t(3) t(1,2)] show ?thesis by (rule transpD [OF t(3)])
    qed
  qed
qed

lemma follows_append:
  assumes "\<And>es e. P es \<Longrightarrow> appended r et a e \<Longrightarrow> protocol_step W r es e"
    and "\<And>es p. P es \<Longrightarrow> appended r et a (canon_event p) \<Longrightarrow> ev_metadata p = ea_metadata a
      \<Longrightarrow> Q p (es @ [canon_event p])"
  shows "follows W r P (append_run_event W r et a) Q"
  unfolding follows_def
proof (intro allI impI)
  fix s
  assume p: "P (history r s)"
  obtain o' t where m: "append_run_event W r et a s = (o', t)" by (cases "append_run_event W r et a s")
  show "protocol_steps W r (history r s) (history r (snd (append_run_event W r et a s)))
    \<and> (\<forall>x t. append_run_event W r et a s = (Inr x, t) \<longrightarrow> Q x (history r t))"
  proof (cases o')
    case (Inl e)
    with append_run_event_Inl m have "history r t = history r s" by (auto simp: history_def only_ticks_def)
    with m Inl show ?thesis by (simp add: none)
  next
    case (Inr q)
    note ap = append_run_event_Inr [OF m [unfolded Inr]]
    from assms(1) [OF p ap(2)] have "protocol_steps W r (history r s) (history r t)"
      unfolding ap(6) by (rule protocol_steps_one)
    with assms(2) [OF p ap(2,3)] m Inr ap(6) show ?thesis by auto
  qed
qed

text \<open>A stored event has the call ID that its metadata were given.\<close>

lemma appended_call_id:
  assumes "appended r et a e" "map_of (ea_metadata a) ''call_id'' = Some (JStr k)"
  shows "metadata_call_id e = Some k"
  using assms by (simp add: appended_def metadata_call_id_def jget_def)

lemma appended_type: "appended r et a e \<Longrightarrow> ev_event_type e = et"
  by (simp add: appended_def)

lemma call_metadata_id [simp]: "map_of (call_metadata c @ md) ''call_id'' = Some (JStr (tc_call_id c))"
  "map_of (call_metadata c) ''call_id'' = Some (JStr (tc_call_id c))"
  by (simp_all add: call_metadata_def)

lemma follows_append_step:
  assumes "\<And>es e. P es \<Longrightarrow> appended r et a e \<Longrightarrow> ev_event_type e = et \<Longrightarrow> protocol_step W r es e"
    and "\<And>es e. P es \<Longrightarrow> appended r et a e \<Longrightarrow> ev_event_type e = et \<Longrightarrow> Q (es @ [e])"
  shows "follows W r P (append_run_event W r et a) (\<lambda>_. Q)"
  using assms by (blast intro: follows_append appended_type)

lemma follows_append_call:
  assumes "map_of (ea_metadata a) ''call_id'' = Some (JStr k)"
    and "\<And>es e. P es \<Longrightarrow> appended r et a e \<Longrightarrow> ev_event_type e = et \<Longrightarrow> metadata_call_id e = Some k
      \<Longrightarrow> protocol_step W r es e"
    and "\<And>es e. P es \<Longrightarrow> appended r et a e \<Longrightarrow> ev_event_type e = et \<Longrightarrow> metadata_call_id e = Some k
      \<Longrightarrow> Q (es @ [e])"
  shows "follows W r P (append_run_event W r et a) (\<lambda>_. Q)"
  using assms appended_call_id [OF _ assms(1)] by (blast intro: follows_append_step)

section \<open>What the projection says of a history\<close>

lemma scan_event_Some: "scan_event H e = Inr (Some c) \<Longrightarrow>
    ev_event_type e = TOOL_CALL_MATERIALIZED \<and> materialized_call H e = Inr c"
  by (auto simp: scan_event_def split: if_splits)

lemma at_most_one_eq: "at_most_one es = Inr o' \<longleftrightarrow> (es = [] \<and> o' = None \<or> (\<exists>e. es = [e] \<and> o' = Some e))"
  by (cases es rule: at_most_one.cases) auto

lemma of_type_related: "of_type t (related_events k es) = [] \<longleftrightarrow> \<not> has_event t k es"
  by (auto simp: of_type_def related_events_def has_event_def filter_empty_conv)

lemma in_of_type_related: "e \<in> set (of_type t (related_events k es)) \<longleftrightarrow>
    e \<in> set es \<and> ev_event_type e = t \<and> metadata_call_id e = Some k"
  by (auto simp: of_type_def related_events_def)

lemma call_state_facts:
  assumes "call_state_of H es c = Inr st"
  shows "cs_call st = c" "cs_started_event st = None \<longleftrightarrow> \<not> has_event TOOL_EXECUTION_STARTED (tc_call_id c) es"
    "cs_approval_required st \<longleftrightarrow> has_event APPROVAL_REQUIRED (tc_call_id c) es"
    "cs_approval st = None \<longleftrightarrow> \<not> has_event APPROVAL_RECORDED (tc_call_id c) es"
    "cs_approval st = Some a \<Longrightarrow> \<exists>e \<in> set es. ev_event_type e = APPROVAL_RECORDED
      \<and> metadata_call_id e = Some (tc_call_id c) \<and> approval_of H e = Inr a \<and> assert_binds_to H a c = Inr ()"
proof -
  let ?rel = "related_events (tc_call_id c) es"
  from assms obtain ae ap re se fe where
    ae: "at_most_one (of_type APPROVAL_RECORDED ?rel) = Inr ae" "recorded_approval H c ae = Inr ap" and
    se: "at_most_one (of_type TOOL_EXECUTION_STARTED ?rel) = Inr se" and
    st: "st = \<lparr>cs_call = c, cs_approval_required = (of_type APPROVAL_REQUIRED ?rel \<noteq> []), cs_approval = ap,
        cs_approval_event = ae, cs_rejected_event = re, cs_started_event = se,
        cs_terminal_event = (if rejecting ap then re else fe)\<rparr>"
    by (simp only: call_state_of_def Let_def bindE_eq_Inr sum.inject) blast
  show "cs_call st = c" by (simp add: st)
  show "cs_started_event st = None \<longleftrightarrow> \<not> has_event TOOL_EXECUTION_STARTED (tc_call_id c) es"
    using se by (auto simp: st at_most_one_eq of_type_related [symmetric])
  show "cs_approval_required st \<longleftrightarrow> has_event APPROVAL_REQUIRED (tc_call_id c) es"
    by (simp add: st of_type_related)
  have none: "ap = None \<longleftrightarrow> ae = None"
    using ae(2) by (auto simp: recorded_approval_def split: option.splits json.splits)
  then show "cs_approval st = None \<longleftrightarrow> \<not> has_event APPROVAL_RECORDED (tc_call_id c) es"
    using ae(1) by (auto simp: st at_most_one_eq of_type_related [symmetric])
  assume "cs_approval st = Some a"
  then have ap: "ap = Some a" by (simp add: st)
  with none obtain e where e: "ae = Some e" by auto
  with ae(1) have "e \<in> set (of_type APPROVAL_RECORDED ?rel)" by (auto simp: at_most_one_eq)
  moreover from ae(2) ap e obtain d where "jget (ev_metadata e) ''approval'' = JObj d"
    "bound_approval H c (JObj d) = Inr a"
    by (auto simp: recorded_approval_def split: json.splits)
  then have "approval_of H e = Inr a" "assert_binds_to H a c = Inr ()"
    by (auto simp: approval_of_def bound_approval_def)
  ultimately show "\<exists>e \<in> set es. ev_event_type e = APPROVAL_RECORDED
      \<and> metadata_call_id e = Some (tc_call_id c) \<and> approval_of H e = Inr a \<and> assert_binds_to H a c = Inr ()"
    unfolding in_of_type_related by blast
qed

lemma project_states:
  assumes "project H es = Inr p"
  obtains scanned where "mapE (scan_event H) es = Inr scanned"
    "mapE (call_state_of H es) (List.map_filter id scanned) = Inr (pj_call_states p)"
    "projection_of es (pj_call_states p) = Inr p"
proof -
  from assms obtain scanned states where s: "mapE (scan_event H) es = Inr scanned"
    "mapE (call_state_of H es) (List.map_filter id scanned) = Inr states" "projection_of es states = Inr p"
    by (auto simp: project_def)
  moreover from s(3) have "pj_call_states p = states" by (auto simp: projection_of_def Let_def)
  ultimately show ?thesis using that by simp
qed

lemma mapE_member:
  assumes "mapE f xs = Inr ys"
  shows "y \<in> set ys \<Longrightarrow> \<exists>x \<in> set xs. f x = Inr y" "x \<in> set xs \<Longrightarrow> \<exists>y \<in> set ys. f x = Inr y"
  using assms unfolding mapE_eq_Inr list_all2_conv_all_nth in_set_conv_nth Bex_def by metis+

lemma project_state_in:
  assumes "project H es = Inr p" "st \<in> set (pj_call_states p)"
  shows "call_state_of H es (cs_call st) = Inr st" "materialized_in H (cs_call st) es"
proof -
  from project_states [OF assms(1)] obtain scanned where s: "mapE (scan_event H) es = Inr scanned"
    "mapE (call_state_of H es) (List.map_filter id scanned) = Inr (pj_call_states p)" by blast
  from mapE_member(1) [OF s(2) assms(2)] obtain c
    where c: "c \<in> set (List.map_filter id scanned)" "call_state_of H es c = Inr st" by blast
  then have "cs_call st = c" by (simp add: call_state_facts(1))
  with c show "call_state_of H es (cs_call st) = Inr st" by simp
  from c(1) have "Some c \<in> set scanned" by (auto simp: List.map_filter_def)
  from mapE_member(1) [OF s(1) this] obtain e where "e \<in> set es" "scan_event H e = Inr (Some c)" by blast
  with scan_event_Some \<open>cs_call st = c\<close> show "materialized_in H (cs_call st) es"
    by (auto simp: materialized_in_def)
qed

lemma head_of_Some: "head_of xs = Some x \<Longrightarrow> x \<in> set xs"
  by (cases xs) (auto simp: head_of_def)

lemma projection_fields:
  assumes "projection_of es states = Inr p"
  shows "pj_terminal_event p = last_of (filter (\<lambda>e. ev_event_type e \<in> set terminal_event_types) es)"
    "pj_pending_approval p = head_of (filter awaits_approval states)"
    "pj_pending_execution p = head_of (filter awaits_execution states)" "pj_events p = es"
    "pj_interrupted p = list_ex (\<lambda>s. cs_started_event s \<noteq> None \<and> cs_terminal_event s = None) states"
    "pj_call_states p = states"
    "pj_waiting_review p \<longleftrightarrow> of_type REVIEW_REQUESTED es \<noteq> []
      \<and> (states = [] \<or> ev_event_id (last es) = ev_event_id (last (of_type REVIEW_REQUESTED es)))"
  using assms by (auto simp: projection_of_def Let_def)

lemma project_facts:
  assumes "project H es = Inr p"
  shows "pj_terminal_event p = None \<longleftrightarrow> \<not> ended es"
    "pj_pending_approval p = Some st \<Longrightarrow> st \<in> set (pj_call_states p) \<and> awaits_approval st"
    "pj_pending_execution p = Some st \<Longrightarrow> st \<in> set (pj_call_states p) \<and> awaits_execution st"
    "pj_events p = es" "\<not> pj_waiting_review p \<Longrightarrow> \<not> reviewing es"
proof -
  from project_states [OF assms] have p: "projection_of es (pj_call_states p) = Inr p" by blast
  let ?ts = "filter (\<lambda>e. ev_event_type e \<in> set terminal_event_types) es"
  note t = projection_fields [OF p]
  show "pj_terminal_event p = None \<longleftrightarrow> \<not> ended es"
    by (auto simp: t(1) last_of_def ended_def filter_empty_conv)
  show "st \<in> set (pj_call_states p) \<and> awaits_approval st" if "pj_pending_approval p = Some st"
    using head_of_Some [OF that [unfolded t(2)]] by simp
  show "st \<in> set (pj_call_states p) \<and> awaits_execution st" if "pj_pending_execution p = Some st"
    using head_of_Some [OF that [unfolded t(3)]] by simp
  show "pj_events p = es" by (rule t(4))
  have "last (filter P es) = last es" if "es \<noteq> []" "P (last es)" for P :: "ledger_event \<Rightarrow> bool"
    using that by (cases es rule: rev_cases) auto
  from this [of "\<lambda>e. ev_event_type e = REVIEW_REQUESTED"]
  show "\<not> reviewing es" if "\<not> pj_waiting_review p"
    using that t(7) by (auto simp: reviewing_def of_type_def filter_empty_conv)
qed

text \<open>The facts about a pending call that its next step needs\<close>

lemma pending_execution_facts:
  assumes "project H es = Inr p" "pj_pending_execution p = Some st"
  shows "materialized_in H (cs_call st) es" "\<not> has_event TOOL_EXECUTION_STARTED (tc_call_id (cs_call st)) es"
    "has_event APPROVAL_REQUIRED (tc_call_id (cs_call st)) es \<Longrightarrow> approved_in H (cs_call st) es"
proof -
  from project_facts(3) [OF assms] have st: "st \<in> set (pj_call_states p)" "awaits_execution st" by simp_all
  note s = project_state_in [OF assms(1) st(1)]
  note f = call_state_facts [OF s(1)]
  show "materialized_in H (cs_call st) es" by (rule s(2))
  show "\<not> has_event TOOL_EXECUTION_STARTED (tc_call_id (cs_call st)) es"
    using st(2) f(2) by (simp add: awaits_execution_def open_state_def)
  assume "has_event APPROVAL_REQUIRED (tc_call_id (cs_call st)) es"
  with st(2) f(3) have "approving (cs_approval st)" by (simp add: awaits_execution_def)
  then obtain a where "cs_approval st = Some a" "ap_decision a = ''APPROVED''"
    by (auto simp: approving_def split: option.splits)
  with f(5) show "approved_in H (cs_call st) es" unfolding approved_in_def by blast
qed

lemma pending_approval_facts:
  assumes "project H es = Inr p" "pj_pending_approval p = Some st"
  shows "materialized_in H (cs_call st) es" "\<not> has_event TOOL_EXECUTION_STARTED (tc_call_id (cs_call st)) es"
    "has_event APPROVAL_REQUIRED (tc_call_id (cs_call st)) es" "cs_approval st = None"
    "\<not> has_event APPROVAL_RECORDED (tc_call_id (cs_call st)) es"
proof -
  from project_facts(2) [OF assms] have st: "st \<in> set (pj_call_states p)" "awaits_approval st" by simp_all
  note s = project_state_in [OF assms(1) st(1)]
  note f = call_state_facts [OF s(1)]
  show "materialized_in H (cs_call st) es" by (rule s(2))
  show "\<not> has_event TOOL_EXECUTION_STARTED (tc_call_id (cs_call st)) es"
    "has_event APPROVAL_REQUIRED (tc_call_id (cs_call st)) es" "cs_approval st = None"
    "\<not> has_event APPROVAL_RECORDED (tc_call_id (cs_call st)) es"
    using st(2) f(2-4) by (simp_all add: awaits_approval_def open_state_def)
qed

section \<open>One call\<close>

lemma still_context [intro]: "advances same_ledger (context_for_call W c)"
  unfolding context_for_call_def by (intro still_rules still_basic)

lemma still_perform [intro]: "advances same_ledger (perform_call W spec x ctx)"
  unfolding perform_call_def put_draft_def by (intro still_rules still_basic)

lemma still_project_success [intro]: "advances same_ledger (project_success W e)"
proof -
  have facts: "advances same_ledger (project_success_facts W e step call)" for step call
    unfolding project_success_facts_def register_verified_def add_execution_relation_def Let_def
    by (intro still_rules still_basic)
  show ?thesis unfolding project_success_def
    by (intro still_rules still_basic still_option facts)
qed

lemma still_reconcile [intro]: "advances same_ledger (reconcile_success_lineage W es)"
  unfolding reconcile_success_lineage_def by (intro still_rules still_basic still_project_success)

text \<open>A call that may start leaves its start and its end.\<close>

definition may_start :: "world \<Rightarrow> tool_call \<Rightarrow> ledger_event list \<Rightarrow> bool" where
  "may_start W c es = (\<not> ended es \<and> materialized_in (w_host W) c es
     \<and> \<not> has_event TOOL_EXECUTION_STARTED (tc_call_id c) es
     \<and> (has_event APPROVAL_REQUIRED (tc_call_id c) es \<longrightarrow> approved_in (w_host W) c es))"

definition executed :: "tool_call \<Rightarrow> ledger_event list \<Rightarrow> ledger_event list \<Rightarrow> bool" where
  "executed c es fs = (\<exists>s f. fs = es @ [s, f] \<and> ev_event_type s = TOOL_EXECUTION_STARTED
     \<and> metadata_call_id s = Some (tc_call_id c) \<and> metadata_call_id f = Some (tc_call_id c)
     \<and> ev_event_type f \<in> {TOOL_EXECUTION_SUCCEEDED, TOOL_EXECUTION_FAILED})"

definition started :: "tool_call \<Rightarrow> ledger_event list \<Rightarrow> ledger_event list \<Rightarrow> bool" where
  "started c es fs = (\<exists>s. fs = es @ [s] \<and> \<not> ended es \<and> ev_event_type s = TOOL_EXECUTION_STARTED
     \<and> metadata_call_id s = Some (tc_call_id c))"

lemma finish_step:
  assumes "started c es fs" "ev_event_type f \<in> {TOOL_EXECUTION_SUCCEEDED, TOOL_EXECUTION_FAILED}"
    "metadata_call_id f = Some (tc_call_id c)"
  shows "protocol_step W r fs f" "executed c es (fs @ [f])"
  using assms by (auto simp: started_def executed_def intro: Finish)

lemma finish_call_follows: "follows W r (started c es) (finish_call W r c outcome) (\<lambda>_. executed c es)"
proof (cases outcome)
  case (Inl e)
  show ?thesis unfolding finish_call_def Inl sum.case append_execution_failed_def
    by (rule follows_append_call [where k = "tc_call_id c"])
      (simp_all add: call_event_args_def finish_step)
next
  case (Inr out)
  have "follows W r (started c es) (append_success W r c out) (\<lambda>_. executed c es)"
    unfolding append_success_def
    by (rule follows_append_call [where k = "tc_call_id c"]) (simp_all add: call_event_args_def finish_step)
  then show ?thesis unfolding finish_call_def Inr sum.case
    by (rule follows_bind)
      (rule follows_bind, rule follows_still, rule still_project_success, rule follows_returnI)
qed

lemma execute_call_follows:
  assumes "tc_call_id c' = tc_call_id c" "assert_current_call W r c' = assert_current_call W r c"
    and "\<And>es. P es \<Longrightarrow> may_start W c' es"
  shows "follows W r P (execute_call W r c) (\<lambda>_ fs. \<exists>es. P es \<and> executed c es fs)"
proof (rule follows_from)
  fix es
  assume p: "P es"
  note m = assms(3) [OF p, unfolded may_start_def]
  have start: "follows W r (\<lambda>x. x = es \<and> (\<exists>spec. assert_current_call W r c = Inr spec))
      (append_run_event W r TOOL_EXECUTION_STARTED (call_event_args c ''STARTED'' (call_metadata c)))
      (\<lambda>_. started c es)"
  proof (rule follows_append_call [where k = "tc_call_id c"])
    show "map_of (ea_metadata (call_event_args c ''STARTED'' (call_metadata c))) ''call_id'' = Some (JStr (tc_call_id c))"
      by (simp add: call_event_args_def)
    fix fs e
    assume fs: "fs = es \<and> (\<exists>spec. assert_current_call W r c = Inr spec)"
      and e: "ev_event_type e = TOOL_EXECUTION_STARTED" "metadata_call_id e = Some (tc_call_id c)"
    then show "started c es (fs @ [e])" using m by (simp add: started_def)
    from fs e show "protocol_step W r fs e" using m assms(1,2) by (auto intro!: Execute [of es W c'])
  qed
  have "follows W r (\<lambda>x. x = es) (execute_call W r c) (\<lambda>_. executed c es)"
    unfolding execute_call_def
    by (rule follows_bind, rule follows_liftI [where Q = "\<lambda>spec x. x = es \<and> assert_current_call W r c = Inr spec"], simp,
        rule follows_bind, rule follows_still, rule still_basic,
        rule follows_bind, rule follows_conseq [OF start], blast, assumption,
        rule follows_bind, rule follows_still, rule still_context,
        rule follows_bind, rule follows_still, rule still_attempt, rule still_perform,
        rule finish_call_follows)
  then show "follows W r (\<lambda>x. x = es) (execute_call W r c) (\<lambda>_ fs. \<exists>es. P es \<and> executed c es fs)"
    by (rule follows_post) (use p in blast)
qed

section \<open>Materializing\<close>

lemma draw_id_fresh: "draw_id W pfx used n s = (Inr i, t) \<Longrightarrow> i \<notin> set used"
proof (induction n arbitrary: s)
  case (Suc n)
  then show ?case by (auto simp: bindA_eq_Inr split: if_splits)
qed simp

lemma new_unique_id_fresh: "new_unique_id W pfx used_of s = (Inr i, t) \<Longrightarrow> i \<notin> set (used_of (ls_ledger s))"
  by (auto simp: new_unique_id_def bindA_eq_Inr simp del: draw_id.simps dest: draw_id_fresh)

lemma materialize_props:
  assumes "iso_lawful (w_host W)" "sha_lawful (w_host W)" "materialize W r prop spec s = (Inr c, t)"
  shows "call_wf (w_host W) c" "tc_call_id c \<notin> set (used_call_ids (ls_ledger s))" "only_ticks s t"
    "tc_run_id c = rq_run_id r" "tc_arguments c = pr_arguments prop"
proof -
  from assms(3) obtain step_id u call_id v digest created w where
    u: "new_unique_id W ''step'' used_step_ids s = (Inr step_id, u)" and
    v: "new_unique_id W ''call'' used_call_ids u = (Inr call_id, v)" and
    n: "now W v = (Inr created, t)" and
    c: "call_init (w_host W) \<lparr>tc_run_id = rq_run_id r, tc_step_id = step_id, tc_call_id = call_id,
        tc_tool_name = ts_name spec, tc_tool_version = ts_version spec, tc_tool_spec_digest = digest,
        tc_policy_digest = rq_tool_policy_digest r, tc_arguments = pr_arguments prop,
        tc_input_artifact_ids = pr_input_artifact_ids prop, tc_created_at = created,
        tc_tool_call_digest = None, tc_reason_summary = pr_reason_summary prop\<rparr> = Inr c"
    unfolding materialize_def by (auto simp: bindA_eq_Inr)
  show "call_wf (w_host W) c" by (rule call_init_wf [OF assms(1,2) c])
  note t = ticks_app(1) [OF u] ticks_app(1) [OF v] ticks_app(2) [OF n]
  then show "only_ticks s t" using only_ticks_order(2) by (blast dest: transpD)
  show "tc_call_id c \<notin> set (used_call_ids (ls_ledger s))"
    using new_unique_id_fresh [OF v] t(1) call_init_keeps(4) [OF c] by (simp add: only_ticks_def)
  show "tc_run_id c = rq_run_id r" "tc_arguments c = pr_arguments prop" using call_init_keeps(2,7) [OF c] by simp_all
qed

lemma used_in_history: "k \<in> set (used_call_ids (history r s)) \<Longrightarrow> k \<in> set (used_call_ids (ls_ledger s))"
  by (auto simp: used_call_ids_iff history_def events_of_def)

lemma materialize_follows:
  assumes "iso_lawful (w_host W)" "sha_lawful (w_host W)"
  shows "follows W r P (materialize W r prop spec)
    (\<lambda>c es. P es \<and> call_wf (w_host W) c \<and> tc_call_id c \<notin> set (used_call_ids es))"
  unfolding follows_def
proof (intro allI impI conjI)
  fix s
  assume p: "P (history r s)"
  have adv: "advances same_ledger (materialize W r prop spec)"
    unfolding materialize_def by (intro still_rules still_basic still_new_id)
  have h: "history r (snd (materialize W r prop spec s)) = history r s" by (rule same_history [OF advancesD [OF adv]])
  then show "protocol_steps W r (history r s) (history r (snd (materialize W r prop spec s)))" by (simp add: none)
  fix c t
  assume m: "materialize W r prop spec s = (Inr c, t)"
  with h have "history r t = history r s" by simp
  with p materialize_props(1,2) [OF assms m] used_in_history
  show "P (history r t)" "call_wf (w_host W) c" "tc_call_id c \<notin> set (used_call_ids (history r t))"
    by (auto simp del: used_call_ids_append)
qed

text \<open>The call is read back from the stored event, up to the order of its arguments' keys.\<close>

lemma materialized_event:
  assumes "call_wf H c" "appended r TOOL_CALL_MATERIALIZED (call_event_args c st md) e"
    and "map_of md ''call_id'' = Some (JStr (tc_call_id c))" "map_of md ''materialized_call'' = Some (call_json c)"
  shows "materialized_call H e = Inr (canon_call c)" "metadata_call_id e = Some (tc_call_id c)"
proof -
  show k: "metadata_call_id e = Some (tc_call_id c)"
    by (rule appended_call_id [OF assms(2)]) (simp add: call_event_args_def assms(3))
  have j: "jget (ev_metadata e) ''materialized_call'' = jnorm (call_json c)"
    using assms(2,4) by (simp add: appended_def call_event_args_def jget_def)
  have ids: "is_identifier (tc_call_id c)" using assms(1) by (simp add: call_wf_iff call_checks_def)
  have "call_id_for_event e = Inr (tc_call_id c)" using ids by (simp add: call_id_for_event_def k)
  moreover have "jget (ev_metadata e) ''materialized_call'' = JObj (norm_obj (call_fields c))"
    using j by (simp add: call_json_def)
  moreover have "call_from_dict H (JObj (norm_obj (call_fields c))) = Inr (canon_call c)"
    using call_from_fields_wf(2) [OF assms(1)] by (simp add: call_json_def)
  ultimately show "materialized_call H e = Inr (canon_call c)"
    using assms(2) by (simp add: materialized_call_def appended_def call_event_args_def del: call_from_dict.simps)
qed

lemma append_materialized_follows:
  assumes "call_wf (w_host W) c" "\<And>es e. P es \<Longrightarrow> ev_event_type e = TOOL_CALL_MATERIALIZED
      \<Longrightarrow> materialized_call (w_host W) e = Inr (canon_call c) \<Longrightarrow> metadata_call_id e = Some (tc_call_id c)
      \<Longrightarrow> protocol_step W r es e \<and> Q (es @ [e])"
  shows "follows W r P (append_materialized W r c) (\<lambda>_. Q)"
  unfolding append_materialized_def call_to_dict_eq [OF assms(1)]
proof (rule follows_bind, rule follows_liftI [where Q = "\<lambda>mapping es. mapping = call_json c \<and> P es"], simp)
  fix mapping
  have k: "protocol_step W r es e \<and> Q (es @ [e])" if "mapping = call_json c \<and> P es"
    "appended r TOOL_CALL_MATERIALIZED (call_event_args c ''MATERIALIZED''
       [(''call_id'', JStr (tc_call_id c)), (''tool_spec_digest'', JStr (tc_tool_spec_digest c)),
        (''policy_digest'', JStr (tc_policy_digest c)), (''tool_call_digest'', jstr_opt (tc_tool_call_digest c)),
        (''materialized_call'', mapping)]) e" "ev_event_type e = TOOL_CALL_MATERIALIZED" for es e
    using assms(2) that materialized_event [OF assms(1) that(2)] by simp
  show "follows W r (\<lambda>es. mapping = call_json c \<and> P es) (append_run_event W r TOOL_CALL_MATERIALIZED
     (call_event_args c ''MATERIALIZED''
       [(''call_id'', JStr (tc_call_id c)), (''tool_spec_digest'', JStr (tc_tool_spec_digest c)),
        (''policy_digest'', JStr (tc_policy_digest c)), (''tool_call_digest'', jstr_opt (tc_tool_call_digest c)),
        (''materialized_call'', mapping)])) (\<lambda>_. Q)"
    by (rule follows_append_step, erule (2) k [THEN conjunct1], erule (2) k [THEN conjunct2])
qed

section \<open>A round\<close>

lemma still_result [intro]: "advances same_ledger (run_projection_result W r given msg)"
  unfolding run_projection_result_def by (intro still_rules still_basic)

lemma still_admit [intro]: "advances same_ledger (admit_proposal W r es prop)"
  unfolding admit_proposal_def validate_proposal_inputs_def by (intro still_rules still_basic)

lemma still_provider [intro]: "advances same_ledger (invoke_provider W ctx)"
  unfolding invoke_provider_def by (intro still_rules still_basic)

lemma assert_current_canon [simp]: "assert_current_call W r (canon_call c) = assert_current_call W r c"
  by (simp add: assert_current_call_def current_spec_def)

text \<open>What a round that goes on has done: a decision, its call and the call's execution\<close>

definition decided :: "ledger_event list \<Rightarrow> ledger_event list \<Rightarrow> bool" where
  "decided es fs = (\<exists>d m c. ev_event_type d = DECISION_RECORDED \<and> ev_event_type m = TOOL_CALL_MATERIALIZED
     \<and> metadata_call_id m = Some (tc_call_id c) \<and> executed c (es @ [d, m]) fs)"

text \<open>The result that is returned is the projection of the history that is left.\<close>

definition reports :: "host \<Rightarrow> run_request \<Rightarrow> run_result \<Rightarrow> ledger_event list \<Rightarrow> bool" where
  "reports H r x es = (\<exists>p msg. project H es = Inr p \<and> run_result_of H r es p msg = Inr x)"

definition goes_on :: "host \<Rightarrow> run_request \<Rightarrow> (ledger_event list \<Rightarrow> bool) \<Rightarrow> round_outcome \<Rightarrow> ledger_event list \<Rightarrow> bool" where
  "goes_on H r Q o' fs = (case o' of Finished x \<Rightarrow> reports H r x fs | Again ap _ \<Rightarrow> ap = None \<and> Q fs)"

lemma goes_on_simps [simp]: "goes_on H r Q (Finished x) fs \<longleftrightarrow> reports H r x fs" "goes_on H r Q (Again ap b) fs \<longleftrightarrow> ap = None \<and> Q fs"
  by (simp_all add: goes_on_def)

lemma follows_result:
  assumes "\<And>p es. given = Some p \<Longrightarrow> P es \<Longrightarrow> project (w_host W) es = Inr p"
  shows "follows W r P (run_projection_result W r given msg) (\<lambda>x es. reports (w_host W) r x es)"
  unfolding run_projection_result_def
proof (rule follows_bind [OF follows_events], rule follows_bind)
  fix events
  show "follows W r (\<lambda>x. P x \<and> events = x) (liftA (case given of None \<Rightarrow> project (w_host W) events | Some p \<Rightarrow> Inr p))
      (\<lambda>p x. events = x \<and> project (w_host W) x = Inr p)"
    by (rule follows_liftI) (use assms in \<open>auto split: option.splits\<close>)
next
  fix events p
  show "follows W r (\<lambda>x. events = x \<and> project (w_host W) x = Inr p) (liftA (run_result_of (w_host W) r events p msg))
      (\<lambda>x es. reports (w_host W) r x es)"
    by (rule follows_liftI) (auto simp: reports_def)
qed

lemma follows_end:
  assumes "\<And>es. P es \<Longrightarrow> project (w_host W) es = Inr p"
  shows "follows W r P (finished (run_projection_result W r (Some p) msg)) (goes_on (w_host W) r Q)"
  unfolding finished_def by (rule follows_bind [OF follows_result]) (use assms in \<open>auto intro: follows_returnI\<close>)

lemma follows_ends: "follows W r P (finished (run_projection_result W r None msg)) (goes_on (w_host W) r Q)"
  unfolding finished_def by (rule follows_bind [OF follows_result]) (auto intro: follows_returnI)

definition proposed :: "ledger_event list \<Rightarrow> ledger_event list \<Rightarrow> bool" where
  "proposed es fs = (\<exists>d. fs = es @ [d] \<and> ev_event_type d = DECISION_RECORDED)"

definition materialized_after :: "host \<Rightarrow> tool_call \<Rightarrow> ledger_event list \<Rightarrow> ledger_event list \<Rightarrow> bool" where
  "materialized_after H c es fs = (\<exists>d m. fs = es @ [d, m] \<and> ev_event_type d = DECISION_RECORDED
     \<and> ev_event_type m = TOOL_CALL_MATERIALIZED \<and> materialized_call H m = Inr (canon_call c)
     \<and> metadata_call_id m = Some (tc_call_id c) \<and> tc_call_id c \<notin> set (used_call_ids (es @ [d])))"

lemma materialized_may_start:
  assumes "\<not> ended es" "materialized_after (w_host W) c es fs"
  shows "may_start W (canon_call c) fs"
proof -
  from assms(2) obtain d m where fs: "fs = es @ [d, m]" "ev_event_type d = DECISION_RECORDED"
    "ev_event_type m = TOOL_CALL_MATERIALIZED" "materialized_call (w_host W) m = Inr (canon_call c)"
    "tc_call_id c \<notin> set (used_call_ids (es @ [d]))" by (auto simp: materialized_after_def)
  have "\<not> has_event t (tc_call_id c) (es @ [d])" for t using fs(5) has_event_used by blast
  then have no: "\<not> has_event t (tc_call_id c) es" for t by simp
  have "has_event t k [d, m] \<Longrightarrow> t \<in> {DECISION_RECORDED, TOOL_CALL_MATERIALIZED}" for t k
    using fs(2,3) by (auto simp: has_event_def)
  then have "\<not> has_event TOOL_EXECUTION_STARTED k [d, m]" "\<not> has_event APPROVAL_REQUIRED k [d, m]" for k
    by force+
  with no assms(1) fs(1-4) show ?thesis by (auto simp: may_start_def materialized_in_def ended_def)
qed

lemma act_on_follows:
  assumes "iso_lawful (w_host W)" "sha_lawful (w_host W)" "\<not> ended es" "hard_limit_reason r es False = None"
  shows "follows W r (proposed es) (act_on W r events b action) (goes_on (w_host W) r (decided es))"
proof (cases action)
  case (Stop reason)
  show ?thesis unfolding act_on_def Stop structured_action.case
    by (rule follows_bind, rule follows_append_step [where Q = "\<lambda>_. True"])
      (auto simp: proposed_def assms(3) intro: StopRun follows_ends)
next
  case (RequestReview v)
  show ?thesis unfolding act_on_def RequestReview structured_action.case
    by (rule follows_bind, rule follows_append_step [where Q = "\<lambda>_. True"])
      (auto simp: proposed_def assms(3) intro: StopRun follows_ends)
next
  case (ToolCall proposal)
  have one: "follows W r (\<lambda>fs. proposed es fs \<and> call_wf (w_host W) c \<and> tc_call_id c \<notin> set (used_call_ids fs))
      (append_materialized W r c) (\<lambda>_. materialized_after (w_host W) c es)" for c
  proof (rule follows_from)
    fix fs
    assume fs: "proposed es fs \<and> call_wf (w_host W) c \<and> tc_call_id c \<notin> set (used_call_ids fs)"
    then obtain d where d: "fs = es @ [d]" "ev_event_type d = DECISION_RECORDED" by (auto simp: proposed_def)
    show "follows W r (\<lambda>x. x = fs) (append_materialized W r c) (\<lambda>_. materialized_after (w_host W) c es)"
      using fs d assms(3,4)
      by (intro append_materialized_follows) (auto simp: materialized_after_def intro: Materialize)
  qed
  have two: "follows W r (materialized_after (w_host W) c es) (append_approval_required W r c) (\<lambda>_ _. True)" for c
    unfolding append_approval_required_def
  proof (rule follows_append_call [where k = "tc_call_id c"])
    fix fs e
    assume fs: "materialized_after (w_host W) c es fs" and e: "ev_event_type e = APPROVAL_REQUIRED"
      "metadata_call_id e = Some (tc_call_id c)"
    then obtain d m where m: "fs = (es @ [d]) @ [m]" "ev_event_type d = DECISION_RECORDED"
      "ev_event_type m = TOOL_CALL_MATERIALIZED" "metadata_call_id m = Some (tc_call_id c)"
      by (auto simp: materialized_after_def)
    show "protocol_step W r fs e" unfolding m(1)
      by (rule Require) (use assms(3) m e in simp_all)
  qed (simp_all add: call_event_args_def)
  have three: "follows W r (materialized_after (w_host W) c es) (execute_call W r c) (\<lambda>_. decided es)" for c
    by (rule follows_post [OF execute_call_follows [where c' = "canon_call c"]], simp, simp,
        erule materialized_may_start [OF assms(3)], auto simp: decided_def materialized_after_def)
  show ?thesis unfolding act_on_def ToolCall structured_action.case
  proof (rule follows_bind [OF follows_still [OF still_admit]],
      rule follows_bind [OF materialize_follows [OF assms(1,2)]], rule follows_bind [OF one])
    fix spec c
    show "follows W r (materialized_after (w_host W) c es)
      (if requires_approval (w_policy W) spec
       then bindA (append_approval_required W r c) (\<lambda>_. finished (run_projection_result W r None ''''))
       else bindA (execute_call W r c) (\<lambda>_. returnA (Again None b))) (goes_on (w_host W) r (decided es))"
    proof (cases "requires_approval (w_policy W) spec")
      case True
      then show ?thesis by (simp only: if_True) (rule follows_bind [OF two follows_ends])
    next
      case False
      then show ?thesis
        by (simp only: if_False) (rule follows_bind [OF three], rule follows_returnI, simp)
    qed
  qed
qed

definition noted :: "host \<Rightarrow> tool_call \<Rightarrow> approval_record \<Rightarrow> ledger_event list \<Rightarrow> ledger_event list \<Rightarrow> bool" where
  "noted H c a es fs = (\<exists>g. fs = es @ [g] \<and> ev_event_type g = APPROVAL_RECORDED
     \<and> metadata_call_id g = Some (tc_call_id c) \<and> approval_of H g = Inr a)"

lemma record_approval_follows:
  assumes "\<not> ended es" "materialized_in (w_host W) c es" "has_event APPROVAL_REQUIRED (tc_call_id c) es"
    "\<not> has_event APPROVAL_RECORDED (tc_call_id c) es" "\<not> has_event TOOL_EXECUTION_STARTED (tc_call_id c) es"
    "approval_wf (w_host W) a"
  shows "follows W r (\<lambda>x. x = es) (record_approval W r c a) (\<lambda>_. noted (w_host W) c a es)"
  unfolding record_approval_def
proof (rule follows_bind, rule follows_liftI [where Q = "\<lambda>u x. x = es \<and> assert_binds_to (w_host W) a c = Inr ()"], simp)
  let ?md = "call_metadata c @ [(''approval'', approval_to_dict a)]"
  have of: "approval_of (w_host W) e = Inr a" if "appended r APPROVAL_RECORDED (call_event_args c st ?md) e" for e st
  proof -
    have "jget (ev_metadata e) ''approval'' = jnorm (approval_to_dict a)"
      using that by (simp add: appended_def call_event_args_def call_metadata_def jget_def)
    then show ?thesis using approval_codec.dec_norm [OF assms(6)] by (simp add: approval_of_def)
  qed
  show "follows W r (\<lambda>x. x = es \<and> assert_binds_to (w_host W) a c = Inr ())
    (append_run_event W r APPROVAL_RECORDED (call_event_args c (ap_decision a) ?md)) (\<lambda>_. noted (w_host W) c a es)"
  proof (rule follows_append_call [where k = "tc_call_id c"])
    show "map_of (ea_metadata (call_event_args c (ap_decision a) ?md)) ''call_id'' = Some (JStr (tc_call_id c))"
      by (simp add: call_event_args_def)
  next
    fix fs e
    assume fs: "fs = es \<and> assert_binds_to (w_host W) a c = Inr ()"
      and e: "appended r APPROVAL_RECORDED (call_event_args c (ap_decision a) ?md) e"
        "ev_event_type e = APPROVAL_RECORDED" "metadata_call_id e = Some (tc_call_id c)"
    then show "noted (w_host W) c a es (fs @ [e])" using of by (simp add: noted_def)
    from fs show "protocol_step W r fs e" using assms of [OF e(1)] e(2,3)
      by (auto intro!: Record [of es W c])
  qed
qed

lemma rejection_follows:
  assumes "\<not> ended es" "ap_decision a = ''REJECTED''"
  shows "follows W r (noted (w_host W) c a es)
    (bindA (append_rejection W r c a) (\<lambda>_. bindA (append_run_rejected W r c) (\<lambda>_.
       finished (run_projection_result W r None msg)))) (goes_on (w_host W) r Q)"
proof (rule follows_bind)
  show "follows W r (noted (w_host W) c a es) (append_rejection W r c a)
      (\<lambda>_ fs. \<exists>gs g. fs = gs @ [g] \<and> \<not> ended gs \<and> ev_event_type g = TOOL_CALL_REJECTED)"
    unfolding append_rejection_def
    by (rule follows_append_call [where k = "tc_call_id c"])
      (auto simp: call_event_args_def noted_def assms intro: Reject)
  show "follows W r (\<lambda>fs. \<exists>gs g. fs = gs @ [g] \<and> \<not> ended gs \<and> ev_event_type g = TOOL_CALL_REJECTED)
      (bindA (append_run_rejected W r c) (\<lambda>_. finished (run_projection_result W r None msg))) (goes_on (w_host W) r Q)"
    for x :: ledger_event
    unfolding append_run_rejected_def
    by (rule follows_bind, rule follows_append_step [where Q = "\<lambda>_. True"])
      (auto intro: RejectRun follows_ends)
qed

lemma resolve_approval_follows:
  assumes "project (w_host W) es = Inr p" "pj_pending_approval p = Some st" "\<not> ended es"
    "\<And>a. approval = Some a \<Longrightarrow> approval_wf (w_host W) a"
  shows "follows W r (\<lambda>x. x = es) (resolve_approval W r p st approval b)
    (goes_on (w_host W) r (\<lambda>fs. \<exists>a. approval = Some a \<and> noted (w_host W) (cs_call st) a es fs))"
proof (cases approval)
  case None
  show ?thesis unfolding resolve_approval_def None option.case
    by (rule follows_bind [OF follows_still [OF still_basic(9)] follows_end]) (simp add: assms(1))
next
  case (Some a)
  note f = pending_approval_facts [OF assms(1,2)]
  note rec = record_approval_follows [OF assms(3) f(1,3,5,2) assms(4) [OF Some]]
  show ?thesis unfolding resolve_approval_def Some f(4) option.case
  proof (rule follows_bind [OF follows_still [OF still_basic(9)]], rule follows_bind [OF rec])
    show "follows W r (noted (w_host W) (cs_call st) a es)
      (if ap_decision a = ''REJECTED''
       then bindA (append_rejection W r (cs_call st) a) (\<lambda>_. bindA (append_run_rejected W r (cs_call st)) (\<lambda>_.
         finished (run_projection_result W r None ''approval rejected'')))
       else returnA (Again None True))
      (goes_on (w_host W) r (\<lambda>fs. \<exists>a'. Some a = Some a' \<and> noted (w_host W) (cs_call st) a' es fs))" for x :: ledger_event
    proof (cases "ap_decision a = ''REJECTED''")
      case True
      show ?thesis unfolding if_P [OF True] by (rule rejection_follows [OF assms(3) True])
    next
      case False
      then show ?thesis by (simp only: if_False) (rule follows_returnI, simp)
    qed
  qed
qed

lemma exhaust_follows:
  assumes "\<not> ended es" "hard_limit_reason r es pending = Some limit"
  shows "follows W r (\<lambda>x. x = es) (exhaust W r limit) (goes_on (w_host W) r Q)"
proof -
  have "follows W r (\<lambda>x. x = es) (append_hard_limit W r (fst limit) (snd limit)) (\<lambda>_ _. True)"
    unfolding append_hard_limit_def Let_def
  proof (rule follows_bind [OF follows_events])
    fix events
    have "follows W r (\<lambda>fs. fs = es \<and> events = fs) (append_run_event W r BUDGET_EXHAUSTED a) (\<lambda>_ _. True)" for a
      by (rule follows_append_step) (use assms in \<open>auto intro!: Exhaust [where pending = pending]\<close>)
    then show "follows W r (\<lambda>fs. fs = es \<and> events = fs)
        (if list_ex (\<lambda>e. ev_event_type e = BUDGET_EXHAUSTED) events then returnA ()
         else bindA (append_run_event W r BUDGET_EXHAUSTED (run_event_args ''EXHAUSTED'' md)) (\<lambda>_. returnA ()))
        (\<lambda>_ _. True)" for md
      by (auto intro: follows_returnI follows_bind)
  qed
  then show ?thesis unfolding exhaust_def by (rule follows_bind) (rule follows_ends)
qed

lemma execute_pending_follows:
  assumes "project (w_host W) es = Inr p" "pj_pending_execution p = Some st" "\<not> ended es"
  shows "follows W r (\<lambda>x. x = es) (execute_pending W r es st b) (goes_on (w_host W) r (executed (cs_call st) es))"
proof (cases "hard_limit_reason r es True")
  case (Some limit)
  then show ?thesis by (simp add: execute_pending_def exhaust_follows [OF assms(3)])
next
  case None
  note f = pending_execution_facts [OF assms(1,2)]
  have "may_start W (cs_call st) es" using f assms(3) by (auto simp: may_start_def)
  then have x: "follows W r (\<lambda>x. x = es) (execute_call W r (cs_call st)) (\<lambda>_. executed (cs_call st) es)"
    by (intro follows_post [OF execute_call_follows [where c' = "cs_call st"]]) auto
  show ?thesis unfolding execute_pending_def None option.case Let_def
    by (rule follows_bind [OF x], cases "b \<or> approving (cs_approval st)"; simp add: follows_ends follows_returnI)
qed

lemma decide_follows:
  assumes "iso_lawful (w_host W)" "sha_lawful (w_host W)" "\<not> ended es" "\<not> reviewing es"
  shows "follows W r (\<lambda>x. x = es) (decide W r es b)
    (goes_on (w_host W) r (\<lambda>fs. hard_limit_reason r es False = None \<and> decided es fs))"
proof (cases "hard_limit_reason r es False")
  case (Some limit)
  then show ?thesis by (simp add: decide_def exhaust_follows [OF assms(3)])
next
  case None
  have rec: "follows W r (\<lambda>x. x = es) (record_decision W r action) (\<lambda>_. proposed es)" for action
    unfolding record_decision_def
    by (rule follows_append_step) (auto simp: proposed_def intro: Decide [OF assms(3,4) None])
  note act = follows_bind [OF rec act_on_follows [OF assms(1-3) None]]
  show ?thesis unfolding decide_def None option.case
  proof (rule follows_bind [OF follows_still [OF still_basic(9)]],
      rule follows_bind [OF follows_still [OF still_attempt [OF still_provider]]])
    fix answer ctx
    show "follows W r (\<lambda>x. x = es) (case answer of
        Inl e \<Rightarrow> if is_a e StopIteration
          then finished (run_projection_result W r None ''DecisionProvider has no further action'') else raiseA e
      | Inr action \<Rightarrow> bindA (record_decision W r action) (\<lambda>_. act_on W r es b action))
      (goes_on (w_host W) r (\<lambda>fs. None = None \<and> decided es fs))"
      by (cases answer) (simp_all add: follows_ends follows_pure(2) act)
  qed
qed

text \<open>What remains to be done before the loop must end\<close>

definition unstarted :: "ledger_event list \<Rightarrow> ledger_event list" where
  "unstarted es = filter (\<lambda>e. ev_event_type e = TOOL_CALL_MATERIALIZED
     \<and> (\<exists>k. metadata_call_id e = Some k \<and> \<not> has_event TOOL_EXECUTION_STARTED k es)) es"

definition remaining :: "ledger_event list \<Rightarrow> approval_record option \<Rightarrow> nat" where
  "remaining es approval = (12 - length (of_type DECISION_RECORDED es)) + length (unstarted es)
     + (if approval = None then 0 else 1)"

lemma unstarted_executed:
  assumes "executed c es fs"
  shows "unstarted fs = filter (\<lambda>e. metadata_call_id e \<noteq> Some (tc_call_id c)) (unstarted es)"
proof -
  from assms obtain s f where fs: "fs = es @ [s, f]" "ev_event_type s = TOOL_EXECUTION_STARTED"
    "metadata_call_id s = Some (tc_call_id c)" "ev_event_type f \<in> {TOOL_EXECUTION_SUCCEEDED, TOOL_EXECUTION_FAILED}"
    by (auto simp: executed_def)
  have h: "has_event TOOL_EXECUTION_STARTED k fs \<longleftrightarrow> has_event TOOL_EXECUTION_STARTED k es \<or> k = tc_call_id c" for k
    using fs by (auto simp: has_event_def)
  have "unstarted fs = filter (\<lambda>e. ev_event_type e = TOOL_CALL_MATERIALIZED
     \<and> (\<exists>k. metadata_call_id e = Some k \<and> \<not> has_event TOOL_EXECUTION_STARTED k fs)) es"
    using fs by (auto simp: unstarted_def)
  also have "\<dots> = filter (\<lambda>e. metadata_call_id e \<noteq> Some (tc_call_id c)) (unstarted es)"
    unfolding unstarted_def filter_filter h by (rule filter_cong) auto
  finally show ?thesis .
qed

lemma remaining_executed:
  assumes "executed c es fs" "materialized_in H c es" "\<not> has_event TOOL_EXECUTION_STARTED (tc_call_id c) es"
  shows "remaining fs None < remaining es None"
proof -
  from assms(2) obtain m where m: "m \<in> set es" "ev_event_type m = TOOL_CALL_MATERIALIZED" "materialized_call H m = Inr c"
    by (auto simp: materialized_in_def)
  then have "metadata_call_id m = Some (tc_call_id c)"
    by (auto simp: materialized_call_def call_id_for_event_def split: json.splits option.splits if_splits)
  with m assms(3) have "m \<in> set (unstarted es)" "\<not> metadata_call_id m \<noteq> Some (tc_call_id c)"
    by (auto simp: unstarted_def)
  then have "length (filter (\<lambda>e. metadata_call_id e \<noteq> Some (tc_call_id c)) (unstarted es)) < length (unstarted es)"
    by (rule length_filter_less)
  moreover have "of_type DECISION_RECORDED fs = of_type DECISION_RECORDED es"
    using assms(1) by (auto simp: executed_def)
  ultimately show ?thesis by (simp add: remaining_def unstarted_executed [OF assms(1)])
qed

lemma remaining_decided:
  assumes "decided es fs" "hard_limit_reason r es False = None"
  shows "remaining fs None < remaining es None"
proof -
  from assms(1) obtain d m c where d: "ev_event_type d = DECISION_RECORDED" "ev_event_type m = TOOL_CALL_MATERIALIZED"
    "metadata_call_id m = Some (tc_call_id c)" "executed c (es @ [d, m]) fs" by (auto simp: decided_def)
  have "length (of_type DECISION_RECORDED es) < 12"
    using limit_none(1) [OF assms(2)] effective_limits(1) [of r] by linarith
  moreover have "of_type DECISION_RECORDED fs = of_type DECISION_RECORDED es @ [d]"
    using d by (auto simp: executed_def)
  moreover have h: "has_event TOOL_EXECUTION_STARTED k (es @ [d, m]) = has_event TOOL_EXECUTION_STARTED k es" for k
    using d(1,2) by (auto simp: has_event_def)
  have "filter (\<lambda>e. metadata_call_id e \<noteq> Some (tc_call_id c)) (unstarted (es @ [d, m]))
      = filter (\<lambda>e. metadata_call_id e \<noteq> Some (tc_call_id c)) (unstarted es)"
    unfolding unstarted_def h using d(1-3) by auto
  then have "length (unstarted fs) \<le> length (unstarted es)"
    unfolding unstarted_executed [OF d(4)] by simp
  ultimately show ?thesis by (simp add: remaining_def)
qed

lemma remaining_noted:
  assumes "noted H c a es fs"
  shows "remaining fs None < remaining es (Some a)"
proof -
  from assms obtain g where g: "fs = es @ [g]" "ev_event_type g = APPROVAL_RECORDED" by (auto simp: noted_def)
  have "has_event TOOL_EXECUTION_STARTED k fs = has_event TOOL_EXECUTION_STARTED k es" for k
    using g by (auto simp: has_event_def)
  then have "unstarted fs = unstarted es" using g by (simp add: unstarted_def)
  with g show ?thesis by (simp add: remaining_def)
qed

lemma remaining_mono: "remaining es None \<le> remaining es approval"
  by (simp add: remaining_def)

definition progress :: "host \<Rightarrow> run_request \<Rightarrow> ledger_event list \<Rightarrow> approval_record option \<Rightarrow> round_outcome \<Rightarrow> ledger_event list \<Rightarrow> bool" where
  "progress H r es approval = goes_on H r (\<lambda>fs. remaining fs None < remaining es approval)"

lemma progressI:
  assumes "follows W r P m (goes_on (w_host W) r Q)" "\<And>fs. Q fs \<Longrightarrow> remaining fs None < remaining es approval"
  shows "follows W r P m (progress (w_host W) r es approval)"
proof (rule follows_post [OF assms(1)])
  fix o' fs
  assume "goes_on (w_host W) r Q o' fs"
  then show "progress (w_host W) r es approval o' fs" using assms(2) by (cases o') (auto simp: progress_def)
qed

lemma loop_step_follows:
  assumes "iso_lawful (w_host W)" "sha_lawful (w_host W)" "\<And>a. approval = Some a \<Longrightarrow> approval_wf (w_host W) a"
    and p: "project (w_host W) es = Inr p"
  shows "follows W r (\<lambda>x. x = es) (loop_step W r es p approval b) (progress (w_host W) r es approval)"
proof -
  have stop: "follows W r (\<lambda>x. x = es) (finished (run_projection_result W r (Some p) msg)) (progress (w_host W) r es approval)"
    for msg by (rule progressI [where Q = "\<lambda>_. False"], rule follows_end) (simp_all add: p)
  have refuse: "follows W r (\<lambda>x. x = es) (if approval \<noteq> None then raiseA ApprovalError
      else finished (run_projection_result W r (Some p) msg)) (progress (w_host W) r es approval)" for msg
    by (rule follows_if) (rule follows_pure(2), rule stop)
  show ?thesis
  proof (cases "pj_terminal_event p = None \<and> \<not> pj_interrupted p")
    case False
    then show ?thesis using refuse by (cases "pj_terminal_event p") (auto simp: loop_step_def)
  next
    case True
    then have open_run: "\<not> ended es" using project_facts(1) [OF p] by simp
    have go: "follows W r (\<lambda>x. x = es) (case pj_pending_execution p of
        Some st \<Rightarrow> execute_pending W r es st b | None \<Rightarrow> decide W r es b) (progress (w_host W) r es approval)"
      if w: "\<not> pj_waiting_review p"
    proof (cases "pj_pending_execution p")
      case None
      show ?thesis unfolding None option.case
        by (rule progressI [OF decide_follows [OF assms(1,2) open_run project_facts(5) [OF p w]]])
          (use remaining_mono remaining_decided in \<open>blast intro: less_le_trans\<close>)
    next
      case (Some st)
      show ?thesis unfolding Some option.case
        by (rule progressI [OF execute_pending_follows [OF p Some open_run]])
          (use remaining_mono remaining_executed pending_execution_facts(1,2) [OF p Some] in \<open>blast intro: less_le_trans\<close>)
    qed
    show ?thesis
    proof (cases "pj_pending_approval p")
      case (Some pending)
      have "follows W r (\<lambda>x. x = es) (resolve_approval W r p pending approval b) (progress (w_host W) r es approval)"
        by (rule progressI [OF resolve_approval_follows [OF p Some open_run assms(3)]])
          (use remaining_noted in blast)+
      then show ?thesis using True Some by (simp add: loop_step_def)
    next
      case None
      have "follows W r (\<lambda>x. x = es) (bindA (liftA (check_spent_approval W p approval)) (\<lambda>_.
          if pj_waiting_review p then finished (run_projection_result W r (Some p) '''')
          else case pj_pending_execution p of
              Some st \<Rightarrow> execute_pending W r es st b | None \<Rightarrow> decide W r es b)) (progress (w_host W) r es approval)"
        by (rule follows_bind [OF follows_still [OF still_basic(9)]]) (cases "pj_waiting_review p"; simp add: stop go)
      moreover have "loop_step W r es p approval b = bindA (liftA (check_spent_approval W p approval)) (\<lambda>_.
          if pj_waiting_review p then finished (run_projection_result W r (Some p) '''')
          else case pj_pending_execution p of
              Some st \<Rightarrow> execute_pending W r es st b | None \<Rightarrow> decide W r es b)"
        using True None by (simp add: loop_step_def cong: if_cong option.case_cong)
      ultimately show ?thesis by (simp only:)
    qed
  qed
qed

lemma loop_round_follows:
  assumes "iso_lawful (w_host W)" "sha_lawful (w_host W)" "\<And>a. approval = Some a \<Longrightarrow> approval_wf (w_host W) a"
  shows "follows W r (\<lambda>x. x = es) (loop_round W r approval b) (progress (w_host W) r es approval)"
  unfolding loop_round_def
proof (rule follows_bind [OF follows_events], rule follows_bind)
  fix events
  show "follows W r (\<lambda>x. x = es \<and> events = x) (liftA (project (w_host W) events))
      (\<lambda>p x. x = es \<and> events = es \<and> project (w_host W) es = Inr p)"
    by (rule follows_liftI) auto
next
  fix events p
  show "follows W r (\<lambda>x. x = es \<and> events = es \<and> project (w_host W) es = Inr p)
    (loop_step W r events p approval b) (progress (w_host W) r es approval)"
    by (rule follows_from) (use loop_step_follows [OF assms] in blast)
qed

section \<open>The loop\<close>

lemma run_loop_follows:
  assumes "iso_lawful (w_host W)" "sha_lawful (w_host W)" "\<And>a. approval = Some a \<Longrightarrow> approval_wf (w_host W) a"
  shows "follows W r (\<lambda>x. x = es) (run_loop W r n approval b) (\<lambda>o' fs. (remaining es approval < n \<longrightarrow> o' \<noteq> None) \<and> (\<forall>x. o' = Some x \<longrightarrow> reports (w_host W) r x fs))"
  using assms(3)
proof (induction n arbitrary: es approval b)
  case 0
  show ?case by (simp only: run_loop.simps) (rule follows_returnI, simp)
next
  case (Suc n)
  have next_round: "follows W r (progress (w_host W) r es approval o') (case o' of Finished x \<Rightarrow> returnA (Some x)
      | Again approval' b' \<Rightarrow> run_loop W r n approval' b')
      (\<lambda>o'' fs. (remaining es approval < Suc n \<longrightarrow> o'' \<noteq> None) \<and> (\<forall>x. o'' = Some x \<longrightarrow> reports (w_host W) r x fs))" for o'
  proof (cases o')
    case (Finished x)
    show ?thesis unfolding Finished round_outcome.case
      by (rule follows_returnI) (simp add: progress_def)
  next
    case (Again approval' b')
    show ?thesis unfolding Again round_outcome.case
    proof (rule follows_from)
      fix fs
      assume "progress (w_host W) r es approval (Again approval' b') fs"
      then have k: "approval' = None" "remaining fs None < remaining es approval" by (simp_all add: progress_def)
      show "follows W r (\<lambda>x. x = fs) (run_loop W r n approval' b') (\<lambda>o'' fs. (remaining es approval < Suc n \<longrightarrow> o'' \<noteq> None) \<and> (\<forall>x. o'' = Some x \<longrightarrow> reports (w_host W) r x fs))"
        by (rule follows_post [OF Suc.IH [of approval' fs b']]) (use k in auto)
    qed
  qed
  show ?case unfolding run_loop.simps
    by (rule follows_bind [OF loop_round_follows [OF assms(1,2) Suc.prems] next_round])
qed

lemma still_resume [intro]: "advances same_ledger (resume_run W r fs)"
  unfolding resume_run_def by (cases "of_type RUN_STARTED fs" rule: at_most_one.cases)
    (simp_all, (intro still_rules still_basic)+)

lemma initialize_follows:
  "follows W r (\<lambda>x. x = es) (initialize_or_validate W r) (\<lambda>_ fs. length fs \<le> Suc (length es))"
proof -
  have start: "follows W r (\<lambda>x. x = []) (start_run W r) (\<lambda>_ fs. length fs \<le> 1)"
    unfolding start_run_def
    by (rule follows_bind, rule follows_still, intro still_rules still_basic, rule follows_bind, rule follows_still,
        rule still_basic, rule follows_bind, rule follows_append_step [where Q = "\<lambda>fs. length fs \<le> 1"])
      (auto intro: Start follows_post [OF follows_events])
  have resume: "follows W r (\<lambda>x. x = es) (resume_run W r fs) (\<lambda>_ fs. length fs \<le> Suc (length es))" for fs
    by (rule follows_post [OF follows_still [OF still_resume]]) simp
  show ?thesis unfolding initialize_or_validate_def
  proof (rule follows_bind [OF follows_still [OF still_basic(9)]], rule follows_bind [OF follows_events])
    fix existing
    show "follows W r (\<lambda>x. x = es \<and> existing = x) (if existing = [] then start_run W r else resume_run W r existing)
        (\<lambda>_ fs. length fs \<le> Suc (length es))"
    proof (cases "existing = []")
      case True
      then show ?thesis by (auto intro: follows_conseq [OF start])
    next
      case False
      then show ?thesis by (auto intro: follows_conseq [OF resume])
    qed
  qed
qed

lemma run_with_fuel_follows:
  assumes "iso_lawful (w_host W)" "sha_lawful (w_host W)" "\<And>a. approval = Some a \<Longrightarrow> approval_wf (w_host W) a"
  shows "follows W r (\<lambda>x. x = es) (run_with_fuel W r approval n) (\<lambda>o' fs. (14 + length es < n \<longrightarrow> o' \<noteq> None) \<and> (\<forall>x. o' = Some x \<longrightarrow> reports (w_host W) r x fs))"
  unfolding run_with_fuel_def
proof (rule follows_bind [OF initialize_follows], rule follows_bind [OF follows_still [OF still_reconcile]], rule follows_from)
  fix fs :: "ledger_event list"
  assume fs: "length fs \<le> Suc (length es)"
  have "length (unstarted fs) \<le> length fs" by (simp add: unstarted_def)
  then have "remaining fs approval \<le> 14 + length es" using fs by (auto simp: remaining_def)
  then show "follows W r (\<lambda>x. x = fs) (run_loop W r n approval False) (\<lambda>o' fs. (14 + length es < n \<longrightarrow> o' \<noteq> None) \<and> (\<forall>x. o' = Some x \<longrightarrow> reports (w_host W) r x fs))"
    by (intro follows_post [OF run_loop_follows [OF assms]]) auto
qed

end
