(* ===== verification/LoopExamples.thy ===== *)
theory LoopExamples
  imports LoopRefinement
begin

text \<open>
  A concrete world, a request, a call that its policy wants approved and the history of a whole run,
  for the witnesses of the loop's properties.
\<close>

section \<open>The world\<close>

definition demo_policy :: tool_policy where
  "demo_policy = \<lparr>tp_allowed_tools = [''probe''], tp_allowed_side_effect_classes = [''PURE''],
     tp_approval_required_side_effect_classes = [''PURE'']\<rparr>"

definition demo_world :: world where
  "demo_world = \<lparr>w_host = demo_host, w_uuid = (\<lambda>n. replicate n (CHR ''a'')), w_clock = (\<lambda>_. demo_time),
     w_now = (\<lambda>_. 0), w_registry = map registry_entry [(demo_spec ''probe'', \<lambda>_ _. Inl ToolContractError)],
     w_policy = demo_policy, w_provider = (\<lambda>_ _ _. Inl StopIteration)\<rparr>"

lemma demo_world_simps [simp]:
  "w_host demo_world = demo_host" "w_policy demo_world = demo_policy"
  "w_uuid demo_world = (\<lambda>n. replicate n (CHR ''a''))" "w_provider demo_world = (\<lambda>_ _ _. Inl StopIteration)"
  by (simp_all add: demo_world_def)

definition demo_policy_digest :: string where
  "demo_policy_digest = sha256 demo_host (json_dumps (policy_to_dict demo_policy))"

definition demo_spec_digest :: string where
  "demo_spec_digest = sha256 demo_host (json_dumps (spec_to_dict (demo_spec ''probe'')))"

lemma demo_digests [simp]: "is_sha256 demo_policy_digest" "is_sha256 demo_spec_digest"
  using demo_sha_lawful by (simp_all add: sha_lawful_def demo_policy_digest_def demo_spec_digest_def)

definition demo_run :: run_request where
  "demo_run = demo_request\<lparr>rq_tool_policy_digest := demo_policy_digest\<rparr>"

definition demo_unbound :: tool_call where
  "demo_unbound = demo_call_unbound\<lparr>tc_tool_spec_digest := demo_spec_digest, tc_policy_digest := demo_policy_digest\<rparr>"

definition demo_bound :: tool_call where
  "demo_bound = demo_unbound\<lparr>tc_tool_call_digest := Some (call_sha demo_host demo_unbound)\<rparr>"

lemma demo_bound_wf: "call_wf demo_host demo_bound"
proof -
  have c: "call_checks demo_call" using demo_call_wf by (simp add: call_wf_iff)
  have "call_checks demo_bound"
    using c by (simp add: call_checks_def demo_bound_def demo_unbound_def demo_call_def)
  moreover have "is_sha256 (call_sha demo_host x)" for x
    using demo_sha_lawful by (simp add: sha_lawful_def call_sha_def sha256_bytes_def)
  ultimately show ?thesis
    using demo_time_fixed by (simp add: call_wf_iff demo_bound_def)
      (simp add: demo_unbound_def demo_call_unbound_def)
qed

lemma demo_bound_simps [simp]:
  "tc_call_id demo_bound = ''call_1''" "tc_step_id demo_bound = ''step_1''"
  "tc_tool_name demo_bound = ''probe''" "tc_tool_version demo_bound = ''1''"
  by (simp_all add: demo_bound_def demo_unbound_def demo_call_unbound_def)

lemma demo_current: "assert_current_call demo_world demo_run demo_bound = Inr (demo_spec ''probe'')"
proof -
  have k: "\<not> sensitive_key ''name''" "\<not> sensitive_key ''version''" "\<not> sensitive_key ''description''"
    "\<not> sensitive_key ''input_schema''" "\<not> sensitive_key ''output_schema''"
    "\<not> sensitive_key ''side_effect_class''" "\<not> sensitive_key ''requires_approval''"
    by (simp_all add: sensitive_key_eval)
  have "json_ok (spec_to_dict (demo_spec ''probe''))" by (simp add: spec_to_dict_def demo_spec_def k)
  then have d: "spec_digest demo_host (demo_spec ''probe'') = Inr demo_spec_digest"
    by (simp only: spec_digest_def json_sha256_def canonical_json_bytes_eq sha256_bytes_def if_True bindE_simps
        demo_spec_digest_def)
  have i: "is_identifier ''probe''" "is_identifier ''1''" by code_simp+
  have "registered [(demo_spec ''probe'', \<lambda>_ _. Inl ToolContractError)] (w_registry demo_world)"
    by (simp add: registered_def demo_world_def)
  from resolve_exact_registered [OF this, of "''probe''" "''1''" "demo_spec ''probe''"] i
  have r: "resolve (w_registry demo_world) ''probe'' (Some ''1'') = Inr (demo_spec ''probe'')"
    by (simp add: demo_spec_def)
  have "tc_tool_spec_digest demo_bound = demo_spec_digest" "tc_policy_digest demo_bound = rq_tool_policy_digest demo_run"
    by (simp_all add: demo_bound_def demo_unbound_def demo_run_def)
  moreover have "policy_check demo_policy (demo_spec ''probe'') = Inr ()"
    by (simp add: policy_check_def allows_def demo_policy_def demo_spec_def)
  ultimately show ?thesis
    by (simp add: assert_current_call_def current_spec_def resolve_exact_def r d)
qed

definition demo_yes :: approval_record where
  "demo_yes = demo_approval\<lparr>ap_tool_call_digest := call_sha demo_host demo_bound\<rparr>"

lemma demo_yes_wf: "approval_wf demo_host demo_yes"
proof -
  have "is_identifier ''approval_1''" "is_reference ''alice''" "approval_decision ''APPROVED'' = Inr ''APPROVED''"
    by code_simp+
  moreover have "is_sha256 (call_sha demo_host demo_bound)" using demo_bound_wf by (simp add: call_wf_iff)
  ultimately show ?thesis
    using demo_time_fixed by (simp add: approval_wf_def approval_init_eq demo_yes_def demo_approval_def)
qed

lemma demo_yes_binds: "assert_binds_to demo_host demo_yes (canon_call demo_bound) = Inr ()"
  using demo_bound_wf by (simp add: assert_binds_to_eq demo_yes_def)

lemma demo_yes_approves: "ap_decision demo_yes = ''APPROVED''"
  by (simp add: demo_yes_def demo_approval_def)

section \<open>A run from its start to its end\<close>

definition demo_entry :: "string \<Rightarrow> string \<Rightarrow> event_args \<Rightarrow> ledger_event" where
  "demo_entry i et a = canon_event (new_event demo_run et a i demo_time)"

lemma demo_entry_appended: "appended demo_run et a (demo_entry i et a)"
  by (simp add: appended_def demo_entry_def new_event_def)

lemma demo_entry_simps [simp]:
  "ev_event_type (demo_entry i et a) = et" "ev_run_id (demo_entry i et a) = rq_run_id demo_run"
  "ev_event_id (demo_entry i et a) = i" "ev_step_id (demo_entry i et a) = ea_step_id a"
  by (simp_all add: demo_entry_def new_event_def)

definition demo_start_metadata :: fields where
  "demo_start_metadata =
     [(''request'', request_to_dict demo_run),
      (''request_digest'', JStr (sha256 demo_host (json_dumps (request_to_dict demo_run)))),
      (''policy_digest'', JStr demo_policy_digest), (''initial_artifact_ids'', jstrs [])]"

definition demo_started :: ledger_event where
  "demo_started = demo_entry ''evt_1'' RUN_STARTED (run_event_args ''STARTED'' demo_start_metadata)"

definition demo_decided :: "string \<Rightarrow> ledger_event" where
  "demo_decided i = demo_entry i DECISION_RECORDED (run_event_args ''PROPOSED'' [])"

definition demo_materialized :: ledger_event where
  "demo_materialized = demo_entry ''evt_3'' TOOL_CALL_MATERIALIZED (call_event_args demo_bound ''MATERIALIZED''
     [(''call_id'', JStr ''call_1''), (''materialized_call'', call_json demo_bound)])"

definition demo_step :: "string \<Rightarrow> string \<Rightarrow> fields \<Rightarrow> ledger_event" where
  "demo_step i et md = demo_entry i et (call_event_args demo_bound et (call_metadata demo_bound @ md))"

definition demo_stopped :: ledger_event where
  "demo_stopped = demo_entry ''evt_9'' RUN_STOPPED (run_event_args ''STOPPED'' [])"

lemmas demo_event_defs = demo_started_def demo_decided_def demo_materialized_def demo_step_def demo_stopped_def

definition demo_before :: "ledger_event list" where
  "demo_before = [demo_started, demo_decided ''evt_2'', demo_materialized, demo_step ''evt_4'' APPROVAL_REQUIRED [],
     demo_step ''evt_5'' APPROVAL_RECORDED [(''approval'', approval_to_dict demo_yes)]]"

definition demo_execution :: ledger_event where
  "demo_execution = demo_step ''evt_6'' TOOL_EXECUTION_STARTED []"

definition demo_after :: "ledger_event list" where
  "demo_after = [demo_step ''evt_7'' TOOL_EXECUTION_FAILED [], demo_decided ''evt_8'', demo_stopped]"

lemma demo_call_ids [simp]:
  "metadata_call_id demo_started = None" "metadata_call_id (demo_decided i) = None"
  "metadata_call_id demo_stopped = None" "metadata_call_id (demo_step i et md) = Some ''call_1''"
  "metadata_call_id demo_materialized = Some ''call_1''"
  by (simp_all add: demo_event_defs metadata_call_id_def jget_def demo_entry_def new_event_def run_event_args_def
      call_event_args_def call_metadata_def demo_start_metadata_def)

lemma demo_types [simp]:
  "ev_event_type demo_started = RUN_STARTED" "ev_event_type (demo_decided i) = DECISION_RECORDED"
  "ev_event_type demo_stopped = RUN_STOPPED" "ev_event_type (demo_step i et md) = et"
  "ev_event_type demo_materialized = TOOL_CALL_MATERIALIZED" "ev_step_id demo_materialized = Some ''step_1''"
  by (simp_all add: demo_event_defs call_event_args_def)

lemma demo_run_ids [simp]:
  "ev_run_id demo_started = rq_run_id demo_run" "ev_run_id (demo_decided i) = rq_run_id demo_run"
  "ev_run_id demo_stopped = rq_run_id demo_run" "ev_run_id (demo_step i et md) = rq_run_id demo_run"
  "ev_run_id demo_materialized = rq_run_id demo_run"
  by (simp_all add: demo_event_defs)

lemma demo_materialized_call: "materialized_call demo_host demo_materialized = Inr (canon_call demo_bound)"
  unfolding demo_materialized_def
  by (rule materialized_event(1) [OF demo_bound_wf demo_entry_appended]) simp_all

lemma demo_approval_of: "approval_of demo_host (demo_step i et [(''approval'', approval_to_dict demo_yes)]) = Inr demo_yes"
proof -
  have "jget (ev_metadata (demo_step i et [(''approval'', approval_to_dict demo_yes)])) ''approval''
    = jnorm (approval_to_dict demo_yes)"
    by (simp add: demo_step_def demo_entry_def new_event_def call_event_args_def call_metadata_def jget_def)
  then show ?thesis using approval_codec.dec_norm [OF demo_yes_wf] by (simp add: approval_of_def)
qed

lemma demo_limits: "hl_max_decisions (effective_hard_limits demo_run) = 3"
  "hl_max_tool_calls (effective_hard_limits demo_run) = 2" "hl_max_steps (effective_hard_limits demo_run) = 2"
  by (simp_all add: effective_hard_limits_def demo_run_def demo_request_def server_run_hard_limits_def)

lemma demo_reachable: "reachable demo_host demo_run (demo_before @ demo_execution # demo_after)"
proof -
  note step = reachable.step [of demo_host demo_run _ demo_world, OF _ demo_world_simps(1)]
  note limit = hard_limit_reason_def counts_def demo_limits Let_def List.map_filter_simps
  have "reachable demo_host demo_run ([] @ [demo_started])"
    by (rule step, rule nothing, rule Start) simp
  then have 1: "reachable demo_host demo_run [demo_started]" by simp
  have 2: "reachable demo_host demo_run ([demo_started] @ [demo_decided ''evt_2''])"
    by (rule step [OF 1], rule Decide) (simp_all add: limit ended_def reviewing_def)
  have 3: "reachable demo_host demo_run (([demo_started] @ [demo_decided ''evt_2'']) @ [demo_materialized])"
    by (rule step [OF 2], rule Materialize [where c = "canon_call demo_bound"]) (simp_all add: limit demo_materialized_call used_call_ids_def ended_def)
  have 4: "reachable demo_host demo_run ((([demo_started] @ [demo_decided ''evt_2'']) @ [demo_materialized])
      @ [demo_step ''evt_4'' APPROVAL_REQUIRED []])"
    by (rule step [OF 3], rule Require) (simp_all add: ended_def)
  have m: "materialized_in demo_host (canon_call demo_bound) (demo_started # demo_decided ''evt_2'' # demo_materialized # es)"
    for es by (simp add: materialized_in_def demo_materialized_call)
  have 5: "reachable demo_host demo_run (((([demo_started] @ [demo_decided ''evt_2'']) @ [demo_materialized])
      @ [demo_step ''evt_4'' APPROVAL_REQUIRED []])
      @ [demo_step ''evt_5'' APPROVAL_RECORDED [(''approval'', approval_to_dict demo_yes)]])"
    by (rule step [OF 4], rule Record [where c = "canon_call demo_bound" and a = demo_yes])
      (simp_all add: m demo_approval_of demo_yes_binds has_event_def ended_def)
  then have r: "reachable demo_host demo_run demo_before" by (simp add: demo_before_def)
  have a: "approved_in demo_host (canon_call demo_bound) demo_before"
    using demo_approval_of demo_yes_binds demo_yes_approves by (auto simp: approved_in_def demo_before_def)
  have 6: "reachable demo_host demo_run (demo_before @ [demo_execution])"
    by (rule step [OF r], rule Execute [where c = "canon_call demo_bound" and spec = "demo_spec ''probe''"])
      (use a m demo_current in \<open>simp_all add: demo_before_def demo_execution_def ended_def has_event_def\<close>)
  have 7: "reachable demo_host demo_run ((demo_before @ [demo_execution]) @ [demo_step ''evt_7'' TOOL_EXECUTION_FAILED []])"
    by (rule step [OF 6], rule Finish) (simp_all add: demo_execution_def demo_before_def ended_def)
  have 8: "reachable demo_host demo_run (((demo_before @ [demo_execution]) @ [demo_step ''evt_7'' TOOL_EXECUTION_FAILED []])
      @ [demo_decided ''evt_8''])"
    by (rule step [OF 7], rule Decide)
      (simp_all add: demo_execution_def demo_before_def ended_def limit reviewing_def)
  have "reachable demo_host demo_run ((((demo_before @ [demo_execution]) @ [demo_step ''evt_7'' TOOL_EXECUTION_FAILED []])
      @ [demo_decided ''evt_8'']) @ [demo_stopped])"
    by (rule step [OF 8], rule StopRun) (simp_all add: demo_execution_def demo_before_def ended_def)
  then show ?thesis by (simp add: demo_after_def)
qed

definition demo_state :: "ledger_event list \<Rightarrow> loop_state" where
  "demo_state es = \<lparr>ls_store = empty_store, ls_ledger = es, ls_lineage = demo_lineage, ls_ticks = 0\<rparr>"

lemma demo_history: "history demo_run (demo_state (demo_before @ demo_execution # demo_after))
    = demo_before @ demo_execution # demo_after"
  by (simp add: history_def demo_state_def events_of_def demo_before_def demo_execution_def demo_after_def)

section \<open>A run whose process stopped right after materializing\<close>

definition demo_crashed :: "ledger_event list" where
  "demo_crashed = [demo_started, demo_decided ''evt_2'', demo_materialized]"

definition demo_pending :: call_state where
  "demo_pending = \<lparr>cs_call = canon_call demo_bound, cs_approval_required = False, cs_approval = None,
     cs_approval_event = None, cs_rejected_event = None, cs_started_event = None, cs_terminal_event = None\<rparr>"

lemma demo_crashed_reachable: "reachable demo_host demo_run demo_crashed"
  using reachable_prefix [of demo_host demo_run demo_crashed] demo_reachable
  by (simp add: demo_crashed_def demo_before_def)

lemma demo_crashed_projection:
  "project demo_host demo_crashed = Inr \<lparr>pj_events = demo_crashed, pj_call_states = [demo_pending],
     pj_pending_approval = None, pj_pending_execution = Some demo_pending, pj_interrupted = False,
     pj_waiting_review = False, pj_terminal_event = None\<rparr>"
proof -
  have i: "is_identifier ''call_1''" by code_simp
  have scan: "scan_event demo_host demo_started = Inr None" "scan_event demo_host (demo_decided x) = Inr None"
    "scan_event demo_host demo_materialized = Inr (Some (canon_call demo_bound))" for x
    using i by (simp_all add: scan_event_def check_opt_def demo_materialized_call)
  have d: "call_computed_digest demo_host (canon_call demo_bound) = Inr (call_sha demo_host demo_bound)"
    using demo_bound_wf by (simp add: call_computed_eq call_wf_iff call_checks_def)
  have related: "related_events ''call_1'' demo_crashed = [demo_materialized]"
    by (simp add: related_events_def demo_crashed_def)
  have "call_state_of demo_host demo_crashed (canon_call demo_bound) = Inr demo_pending"
    by (simp add: call_state_of_def related d related_matches_def recorded_approval_def rejecting_def demo_pending_def)
  then have "mapE (call_state_of demo_host demo_crashed) [canon_call demo_bound] = Inr [demo_pending]" by simp
  moreover have "projection_of demo_crashed [demo_pending] = Inr \<lparr>pj_events = demo_crashed,
     pj_call_states = [demo_pending], pj_pending_approval = None, pj_pending_execution = Some demo_pending,
     pj_interrupted = False, pj_waiting_review = False, pj_terminal_event = None\<rparr>"
    by (simp add: projection_of_def demo_crashed_def last_of_def head_of_def awaits_approval_def
        awaits_execution_def open_state_def demo_pending_def)
  ultimately show ?thesis
    by (simp add: project_def demo_crashed_def scan List.map_filter_simps)
qed

text \<open>A run that waits for a review\<close>

definition demo_review_requested :: ledger_event where
  "demo_review_requested = demo_entry ''evt_3'' REVIEW_REQUESTED (run_event_args ''WAITING_REVIEW'' [])"

definition demo_reviewing :: "ledger_event list" where
  "demo_reviewing = [demo_started, demo_decided ''evt_2'', demo_review_requested]"

lemma demo_review_simps [simp]:
  "ev_event_type demo_review_requested = REVIEW_REQUESTED" "metadata_call_id demo_review_requested = None"
  "ev_run_id demo_review_requested = rq_run_id demo_run"
  by (simp_all add: demo_review_requested_def metadata_call_id_def jget_def demo_entry_def new_event_def
      run_event_args_def)

lemma demo_reviewing_projection: "\<exists>p. project demo_host demo_reviewing = Inr p \<and> pj_waiting_review p
    \<and> pj_terminal_event p = None \<and> \<not> pj_interrupted p \<and> pj_pending_approval p = None"
proof -
  have "scan_event demo_host demo_started = Inr None" "scan_event demo_host (demo_decided x) = Inr None"
    "scan_event demo_host demo_review_requested = Inr None" for x
    by (simp_all add: scan_event_def check_opt_def)
  then show ?thesis
    by (simp add: project_def demo_reviewing_def List.map_filter_simps projection_of_def last_of_def head_of_def)
qed

text \<open>Its binding is that of the request, so it resumes and reports that it waits.\<close>

lemma demo_run_wf: "request_wf demo_host demo_run"
proof -
  have "is_identifier ''run_1''" "py_strip ''measure'' \<noteq> []" "\<not> sensitive_key ''a''" "\<not> sensitive_key ''b''"
    by code_simp+
  then show ?thesis
    using demo_time_fixed demo_digests(1)
    by (auto simp: request_wf_def request_init_eq request_checks_def demo_run_def demo_request_def budget_ok_def)
qed

lemma demo_request_digest: "request_sha256 demo_host demo_run = Inr (sha256 demo_host (json_dumps (request_to_dict demo_run)))"
proof -
  have "json_ok (request_to_dict demo_run)"
    using demo_run_wf by (intro request_json_ok) (simp add: request_wf_def request_init_eq)
  then show ?thesis by (simp add: request_sha256_def json_sha256_def canonical_json_bytes_eq sha256_bytes_def)
qed

lemma demo_policy_ok: "ensure_request_policy demo_world demo_run = Inr ()"
proof -
  have "\<not> sensitive_key ''allowed_tools''" "\<not> sensitive_key ''allowed_side_effect_classes''"
    "\<not> sensitive_key ''approval_required_side_effect_classes''" by (simp_all add: sensitive_key_eval)
  then have "json_ok (policy_to_dict demo_policy)" by (simp add: policy_to_dict_def)
  then have "policy_digest demo_host demo_policy = Inr demo_policy_digest"
    by (simp add: policy_digest_def json_sha256_def canonical_json_bytes_eq sha256_bytes_def demo_policy_digest_def)
  then show ?thesis by (simp add: ensure_request_policy_def demo_run_def)
qed

lemma demo_binding: "check_binding demo_world demo_run demo_started = Inr ()"
proof -
  have md: "jget (ev_metadata demo_started) ''request_digest'' = JStr (sha256 demo_host (json_dumps (request_to_dict demo_run)))"
    "jget (ev_metadata demo_started) ''policy_digest'' = JStr (rq_tool_policy_digest demo_run)"
    "jget (ev_metadata demo_started) ''request'' = jnorm (request_to_dict demo_run)"
    by (simp_all add: demo_started_def demo_entry_def new_event_def run_event_args_def demo_start_metadata_def
        jget_def demo_run_def)
  obtain d where d: "jnorm (request_to_dict demo_run) = JObj d" by (simp add: request_to_dict_def)
  have "request_from_dict demo_host (JObj d) = Inr (canon_request demo_run)"
    using request_codec.dec_norm [OF demo_run_wf] d by simp
  then show ?thesis by (simp add: check_binding_def md d demo_request_digest)
qed

lemma demo_reviewing_result:
  "\<exists>x. run demo_world demo_run None (demo_state demo_reviewing) = (Inr (Some x), demo_state demo_reviewing)"
proof -
  let ?s = "demo_state demo_reviewing"
  have i: "is_identifier (rq_run_id demo_run)" "is_identifier ''evt_3''"
    unfolding demo_run_def demo_request_def by code_simp+
  have ev: "run_events (rq_run_id demo_run) ?s = (Inr demo_reviewing, ?s)"
    using i by (simp add: run_events_def demo_state_def events_of_def demo_reviewing_def)
  have starts: "of_type RUN_STARTED demo_reviewing = [demo_started]" "of_type TOOL_EXECUTION_SUCCEEDED demo_reviewing = []"
    "rq_input_artifact_ids demo_run = []" "demo_reviewing \<noteq> []"
    by (simp_all add: demo_reviewing_def demo_run_def demo_request_def)
  have init: "initialize_or_validate demo_world demo_run ?s = (Inr demo_reviewing, ?s)"
    by (simp add: initialize_or_validate_def demo_policy_ok bindA_app ev starts resume_run_def demo_binding)
  have rec: "reconcile_success_lineage demo_world demo_reviewing ?s = (Inr (), ?s)"
    by (simp add: reconcile_success_lineage_def starts bindA_app)
  obtain p where p: "project demo_host demo_reviewing = Inr p" "pj_waiting_review p" "pj_terminal_event p = None"
    "\<not> pj_interrupted p" "pj_pending_approval p = None"
    using demo_reviewing_projection by blast
  have "ev_event_id (last demo_reviewing) = ''evt_3''" by (simp add: demo_reviewing_def demo_review_requested_def)
  then have "\<exists>x. run_result_of demo_host demo_run demo_reviewing p '''' = Inr x"
    using i p by (simp add: run_result_of_def pending_mapping_def result_init_def visible_artifacts_def starts
        freeze_opt_mapping_def)
  then obtain x where x: "run_result_of demo_host demo_run demo_reviewing p '''' = Inr x" by blast
  have "run_loop demo_world demo_run (Suc n) None False ?s = (Inr (Some x), ?s)" for n
    by (simp add: bindA_app loop_round_def ev p loop_step_def check_spent_approval_def finished_def
        run_projection_result_def x)
  from this [of "14 + length (ls_ledger ?s)"] show ?thesis
    unfolding run_def run_with_fuel_def by (simp add: bindA_app init rec del: run_loop.simps)
qed

end
