(* ===== verification/LoopProperties.thy ===== *)
theory LoopProperties
  imports LoopExamples
begin

text \<open>
  The properties of \<^verbatim>\<open>AgentLoop\<close>: what \<^verbatim>\<open>run\<close> appends, that it returns, what it reports, what it leaves
  alone, and what a crash between two appends costs.
\<close>

section \<open>Lemmas: fresh IDs\<close>

text \<open>The candidates that are used and may still be drawn become fewer with every draw.\<close>

lemma draw_id_total:
  assumes "inj (w_uuid W)" "is_identifier pfx"
    and "card {u \<in> set used. \<exists>j \<ge> ls_ticks s. u = pfx @ ''_'' @ w_uuid W j} < n"
  shows "\<exists>i t. draw_id W pfx used n s = (Inr i, t)"
  using assms(3)
proof (induction n arbitrary: s)
  case (Suc n)
  let ?cand = "\<lambda>j. pfx @ ''_'' @ w_uuid W j"
  let ?s = "s\<lparr>ls_ticks := Suc (ls_ticks s)\<rparr>"
  let ?left = "\<lambda>k. {u \<in> set used. \<exists>j \<ge> k. u = ?cand j}"
  have c: "new_server_id pfx (w_uuid W (ls_ticks s)) = Inr (?cand (ls_ticks s))"
    using assms(2) by (simp add: new_server_id_def)
  show ?case
  proof (cases "?cand (ls_ticks s) \<in> set used")
    case False
    then show ?thesis by (simp add: bindA_app tick_def c)
  next
    case True
    have "?cand (ls_ticks s) \<notin> ?left (Suc (ls_ticks s))" using assms(1) by (auto dest: injD)
    moreover have "?cand (ls_ticks s) \<in> ?left (ls_ticks s)" using True by auto
    moreover have "?left (Suc (ls_ticks s)) \<subseteq> ?left (ls_ticks s)" using Suc_leD by blast
    ultimately have "?left (Suc (ls_ticks s)) \<subset> ?left (ls_ticks s)" by blast
    then have "card (?left (Suc (ls_ticks s))) < card (?left (ls_ticks s))" by (rule psubset_card_mono [rotated]) simp
    with Suc.prems have "card {u \<in> set used. \<exists>j \<ge> ls_ticks ?s. u = ?cand j} < n" by simp
    from Suc.IH [OF this] True show ?thesis by (simp add: bindA_app tick_def c)
  qed
qed simp

section \<open>Lemmas: settled runs\<close>

definition stays :: "run_request \<Rightarrow> ledger_event list \<Rightarrow> 'a loop_act \<Rightarrow> ('a \<Rightarrow> bool) \<Rightarrow> bool" where
  "stays r es m Q = (\<forall>s. history r s = es \<longrightarrow> same_ledger s (snd (m s)) \<and> (\<forall>x t. m s = (Inr x, t) \<longrightarrow> Q x))"

lemma stays_bind:
  assumes "stays r es m M" "\<And>x. M x \<Longrightarrow> stays r es (f x) Q"
  shows "stays r es (bindA m f) Q"
  unfolding stays_def
proof (intro allI impI)
  fix s
  assume h: "history r s = es"
  obtain o' t where m: "m s = (o', t)" by (cases "m s")
  from assms(1) h m have st: "same_ledger s t" by (auto simp: stays_def)
  show "same_ledger s (snd (bindA m f s)) \<and> (\<forall>x u. bindA m f s = (Inr x, u) \<longrightarrow> Q x)"
  proof (cases o')
    case (Inl e)
    with m st show ?thesis by (simp add: bindA_app)
  next
    case (Inr x)
    have x: "M x" using assms(1) h m Inr by (auto simp: stays_def)
    have "history r t = es" using same_history [OF st] h by simp
    with assms(2) [OF x] have "same_ledger t (snd (f x t)) \<and> (\<forall>y u. f x t = (Inr y, u) \<longrightarrow> Q y)"
      by (auto simp: stays_def)
    with m Inr transpD [OF same_ledger_order(2) st] show ?thesis by (auto simp: bindA_app)
  qed
qed

lemma stays_still: "advances same_ledger m \<Longrightarrow> stays r es m (\<lambda>_. True)"
  by (simp add: stays_def advances_def)

lemma stays_events: "stays r es (run_events (rq_run_id r)) (\<lambda>x. x = es)"
  using still_basic(5) by (auto simp: stays_def advances_def run_events_def history_def)

lemma stays_lift: "stays r es (liftA u) (\<lambda>x. u = Inr x)"
  using still_basic(9) by (auto simp: stays_def advances_def)

lemma stays_return: "Q v \<Longrightarrow> stays r es (returnA v) Q"
  using still_basic(7) by (auto simp: stays_def advances_def)

lemma stays_raise: "stays r es (raiseA e) Q"
  using still_basic(8) by (auto simp: stays_def advances_def)

text \<open>A run that has ended, is interrupted or waits\<close>

definition settled :: "run_projection \<Rightarrow> approval_record option \<Rightarrow> bool" where
  "settled p approval = (pj_terminal_event p \<noteq> None \<or> pj_interrupted p
     \<or> approval = None \<and> (pj_pending_approval p \<noteq> None \<or> pj_waiting_review p))"

lemma stays_finished: "stays r es (finished (run_projection_result W r g msg)) (\<lambda>o'. \<exists>x. o' = Finished x)"
  unfolding finished_def
  by (rule stays_bind [OF stays_still [OF still_result]], rule stays_return, blast)

lemma settled_step:
  assumes "settled p approval"
  shows "stays r es (loop_step W r events p approval b) (\<lambda>o'. approval = None \<and> (\<exists>x. o' = Finished x))"
proof (cases approval)
  case (Some a)
  with assms have "pj_terminal_event p \<noteq> None \<or> pj_interrupted p" by (simp add: settled_def)
  with Some show ?thesis by (auto simp: loop_step_def stays_raise)
next
  case None
  have check: "check_spent_approval W p None = Inr ()" by (simp add: check_spent_approval_def)
  have "stays r es (resolve_approval W r p st None b) (\<lambda>o'. \<exists>x. o' = Finished x)" for st
    unfolding resolve_approval_def option.case by (rule stays_bind [OF stays_lift stays_finished])
  moreover have "stays r es (bindA (liftA (Inr ())) (\<lambda>_. finished (run_projection_result W r g msg)))
      (\<lambda>o'. \<exists>x. o' = Finished x)" for g msg
    by (rule stays_bind [OF stays_lift stays_finished])
  ultimately show ?thesis using None assms stays_finished
    by (auto simp: loop_step_def settled_def check split: option.split)
qed

lemma settled_round:
  assumes "project (w_host W) es = Inr p" "settled p approval"
  shows "stays r es (loop_round W r approval b) (\<lambda>o'. approval = None \<and> (\<exists>x. o' = Finished x))"
  unfolding loop_round_def
  by (rule stays_bind [OF stays_events], rule stays_bind [OF stays_lift])
    (use assms settled_step in auto)

lemma settled_nonempty: "project H [] = Inr p \<Longrightarrow> \<not> settled p approval"
  by (auto simp: project_def projection_of_def settled_def List.map_filter_simps last_of_def head_of_def)

lemma settled_run:
  assumes "project (w_host W) es = Inr p" "settled p approval"
  shows "stays r es (run_with_fuel W r approval (Suc n)) (\<lambda>_. approval = None)"
proof -
  have "es \<noteq> []" using assms settled_nonempty by blast
  have init: "stays r es (initialize_or_validate W r) (\<lambda>_. True)"
    unfolding initialize_or_validate_def
    by (rule stays_bind [OF stays_lift], rule stays_bind [OF stays_events]) (use \<open>es \<noteq> []\<close> stays_still [OF still_resume] in simp)
  show ?thesis unfolding run_with_fuel_def run_loop.simps
  proof (rule stays_bind [OF init], rule stays_bind [OF stays_still [OF still_reconcile]],
      rule stays_bind [OF settled_round [OF assms]])
    fix o'
    assume "approval = None \<and> (\<exists>x. o' = Finished x)"
    then show "stays r es (case o' of Finished x \<Rightarrow> returnA (Some x)
        | Again approval' b' \<Rightarrow> run_loop W r n approval' b') (\<lambda>_. approval = None)"
      by (auto intro: stays_return)
  qed
qed

section \<open>Lemmas: isolation\<close>

text \<open>The ledger grows by events of one run and stays valid; the store only gains artifacts.\<close>

definition isolated :: "host \<Rightarrow> string \<Rightarrow> loop_state \<Rightarrow> loop_state \<Rightarrow> bool" where
  "isolated H run_id s t = (run_log.grows_by H (\<lambda>e. ev_run_id e = run_id) (ls_ledger s) (ls_ledger t)
     \<and> extends (ls_store s) (ls_store t))"

lemma isolated_order: "reflp (isolated H run_id)" "transp (isolated H run_id)"
  using extends_order run_log.grows_by_order by (auto simp: isolated_def reflp_def transp_def)

lemma isolated_still: "advances same_ledger m \<Longrightarrow> advances (isolated H run_id) m"
  by (auto simp: advances_def same_ledger_def isolated_def run_log.grows_by_order)

lemmas isolated_rules = advances_bind [OF isolated_order(2)] advances_catch [OF isolated_order(2)]
  advances_map [OF isolated_order] advances_if

lemma isolated_pure [intro]: "advances (isolated H run_id) (returnA v)" "advances (isolated H run_id) (raiseA e)"
  "advances (isolated H run_id) (liftA u)" "advances (isolated H run_id) (run_events i)"
  by (rule isolated_still, rule still_basic)+

lemma isolated_append [intro]: "advances (isolated (w_host W) (rq_run_id r)) (append_run_event W r et a)"
proof -
  have "run_log.grows_by (w_host W) (\<lambda>e. ev_run_id e = rq_run_id r) es
      (snd (ledger_append (w_host W) (new_event r et a i ts) es))" for i ts es
    by (rule run_log.append_grows) (use ledger_append_props(2) in \<open>auto simp: appended_def\<close>)
  then have "advances (isolated (w_host W) (rq_run_id r)) (on_ledger (ledger_append (w_host W) (new_event r et a i ts)))"
    for i ts
    by (auto simp: advances_def isolated_def on_ledger_def split: prod.split) (metis snd_conv)
  then show ?thesis unfolding append_run_event_def now_def
    by (intro isolated_rules isolated_pure isolated_still [OF still_new_id] isolated_still [OF still_basic(1)])
qed

lemma isolated_appends [intro]:
  "advances (isolated (w_host W) (rq_run_id r)) (append_materialized W r c)"
  "advances (isolated (w_host W) (rq_run_id r)) (append_approval_required W r c)"
  "advances (isolated (w_host W) (rq_run_id r)) (record_approval W r c ap)"
  "advances (isolated (w_host W) (rq_run_id r)) (append_rejection W r c ap)"
  "advances (isolated (w_host W) (rq_run_id r)) (append_run_rejected W r c)"
  "advances (isolated (w_host W) (rq_run_id r)) (append_execution_failed W r c e)"
  "advances (isolated (w_host W) (rq_run_id r)) (append_success W r c out)"
  "advances (isolated (w_host W) (rq_run_id r)) (append_hard_limit W r reason n)"
  "advances (isolated (w_host W) (rq_run_id r)) (record_decision W r action)"
  unfolding append_materialized_def append_approval_required_def record_approval_def append_rejection_def
    append_run_rejected_def append_execution_failed_def append_success_def append_hard_limit_def
    record_decision_def Let_def
  by (intro isolated_rules isolated_pure isolated_append)+

lemma isolated_finished [intro]: "advances (isolated H run_id) (finished (run_projection_result W r g msg))"
  unfolding finished_def by (intro isolated_rules isolated_pure isolated_still [OF still_result])

lemma isolated_call [intro]: "advances (isolated (w_host W) (rq_run_id r)) (execute_call W r c)"
proof -
  have "advances (isolated (w_host W) (rq_run_id r)) (finish_call W r c out)" for out
    unfolding finish_call_def
    by (cases out) (auto intro!: isolated_rules isolated_still [OF still_project_success])
  then show ?thesis unfolding execute_call_def
    by (intro isolated_rules isolated_pure isolated_append isolated_still [OF still_context]
        isolated_still [OF still_attempt [OF still_perform]])
qed

lemma isolated_act [intro]: "advances (isolated (w_host W) (rq_run_id r)) (act_on W r es b action)"
proof -
  have "advances same_ledger (materialize W r proposal spec)" for proposal spec
    unfolding materialize_def by (intro still_rules still_basic still_new_id)
  then have m: "advances (isolated (w_host W) (rq_run_id r)) (materialize W r proposal spec)" for proposal spec
    by (rule isolated_still)
  show ?thesis unfolding act_on_def
    by (cases action) (auto intro!: isolated_rules m isolated_still [OF still_admit])
qed

lemma isolated_exhaust [intro]: "advances (isolated (w_host W) (rq_run_id r)) (exhaust W r limit)"
  unfolding exhaust_def by (intro isolated_rules isolated_appends isolated_finished)

lemma isolated_decide [intro]: "advances (isolated (w_host W) (rq_run_id r)) (decide W r es b)"
  unfolding decide_def
  by (cases "hard_limit_reason r es False")
    (auto intro!: isolated_rules isolated_still [OF still_attempt [OF still_provider]] split: sum.split)

lemma isolated_resolve [intro]: "advances (isolated (w_host W) (rq_run_id r)) (resolve_approval W r p st approval b)"
  unfolding resolve_approval_def
  by (cases approval; cases "cs_approval st") (auto intro!: isolated_rules)

lemma isolated_pending [intro]: "advances (isolated (w_host W) (rq_run_id r)) (execute_pending W r es st b)"
  unfolding execute_pending_def Let_def
  by (cases "hard_limit_reason r es True") (auto intro!: isolated_rules)

lemma isolated_step [intro]: "advances (isolated (w_host W) (rq_run_id r)) (loop_step W r es p approval b)"
  unfolding loop_step_def
  by (cases "pj_pending_approval p"; cases "pj_pending_execution p") (auto intro!: isolated_rules)

lemma isolated_loop [intro]: "advances (isolated (w_host W) (rq_run_id r)) (run_loop W r n approval b)"
proof (induction n arbitrary: approval b)
  case 0
  show ?case by (simp only: run_loop.simps) (rule isolated_pure)
next
  case (Suc n)
  have "advances (isolated (w_host W) (rq_run_id r)) (case o' of Finished x \<Rightarrow> returnA (Some x)
      | Again approval' b' \<Rightarrow> run_loop W r n approval' b')" for o'
    by (cases o') (auto intro: Suc.IH)
  then show ?case unfolding run_loop.simps loop_round_def by (intro isolated_rules isolated_pure isolated_step)
qed

lemma isolated_run: "advances (isolated (w_host W) (rq_run_id r)) (run_with_fuel W r approval n)"
  unfolding run_with_fuel_def initialize_or_validate_def start_run_def
  by (intro isolated_rules isolated_pure isolated_append isolated_loop isolated_still [OF still_reconcile]
      isolated_still [OF still_basic(6)] isolated_still [OF still_resume])

section \<open>Properties\<close>

text \<open>
  C1. \<^verbatim>\<open>run\<close> refines the protocol. Whatever the provider, the tools, the clock and the UUIDs answer, and
  whether the call returns or raises, the events it appends to its run are steps of the protocol one
  after the other; so a history that the protocol reaches, by any number of processes that may have
  crashed between any two appends, stays one.
\<close>

theorem run_follows_protocol:
  assumes "iso_lawful (w_host W)" "sha_lawful (w_host W)"
    and "\<And>a. approval = Some a \<Longrightarrow> approval_wf (w_host W) a"
    and "reachable (w_host W) request (history request s)"
  shows "protocol_steps W request (history request s) (history request (snd (run W request approval s)))
    \<and> reachable (w_host W) request (history request (snd (run W request approval s)))"
proof -
  have "protocol_steps W request (history request s) (history request (snd (run W request approval s)))"
    unfolding run_def by (rule followsD(1) [OF run_with_fuel_follows [OF assms(1-3)] refl])
  with reachable_steps [OF _ assms(4)] show ?thesis by blast
qed

theorem run_follows_protocol_witness:
  "reachable demo_host demo_run (history demo_run (snd (run demo_world demo_run None (demo_state demo_crashed))))
    \<and> prefix demo_crashed (history demo_run (snd (run demo_world demo_run None (demo_state demo_crashed))))"
proof -
  have h: "history demo_run (demo_state demo_crashed) = demo_crashed"
    by (simp add: history_def demo_state_def events_of_def demo_crashed_def)
  with run_follows_protocol [of demo_world None demo_run "demo_state demo_crashed"] demo_crashed_reachable
  show ?thesis by (auto simp: demo_iso_lawful demo_sha_lawful dest: protocol_steps_prefix)
qed



text \<open>
  C24. Fresh IDs. If no UUID repeats, the search for an unused ID ends with one that no event of
  the whole ledger carries, and appends nothing.
\<close>

theorem fresh_id_found:
  assumes "inj (w_uuid W)" "is_identifier pfx"
  shows "\<exists>i t. new_unique_id W pfx used_of s = (Inr i, t) \<and> i \<notin> set (used_of (ls_ledger s))
    \<and> ls_ledger t = ls_ledger s \<and> ls_store t = ls_store s \<and> ls_lineage t = ls_lineage s"
proof -
  let ?used = "used_of (ls_ledger s)"
  have "card {u \<in> set ?used. \<exists>j \<ge> ls_ticks s. u = pfx @ ''_'' @ w_uuid W j} \<le> card (set ?used)"
    by (rule card_mono) auto
  then have "card {u \<in> set ?used. \<exists>j \<ge> ls_ticks s. u = pfx @ ''_'' @ w_uuid W j} < Suc (length ?used)"
    using card_length [of ?used] by linarith
  from draw_id_total [OF assms this] obtain i t where "draw_id W pfx ?used (Suc (length ?used)) s = (Inr i, t)"
    by blast
  then have i: "new_unique_id W pfx used_of s = (Inr i, t)"
    unfolding new_unique_id_def by (simp add: bindA_app del: draw_id.simps)
  with new_unique_id_fresh [OF i] ticks_app(1) [OF i] show ?thesis by (auto simp: only_ticks_def)
qed

theorem fresh_id_found_witness:
  "\<exists>i t. new_unique_id demo_world ''call'' used_call_ids (demo_state demo_crashed) = (Inr i, t)
    \<and> i \<notin> {''call_1''}"
proof -
  have "inj (w_uuid demo_world)" by (rule injI) (simp add: replicate_eq_replicate)
  moreover have "is_identifier ''call''" by code_simp
  ultimately show ?thesis
    using fresh_id_found [of demo_world "''call''" used_call_ids "demo_state demo_crashed"]
    by (auto simp: demo_state_def demo_crashed_def used_call_ids_def List.map_filter_simps)
qed

text \<open>
  C3. A tool call is started at most once. However often a run is resumed and wherever its processes
  crashed, its events hold at most one \<^verbatim>\<open>TOOL_EXECUTION_STARTED\<close> per call ID.
\<close>

theorem started_at_most_once:
  assumes "iso_lawful (w_host W)" "sha_lawful (w_host W)"
    and "\<And>a. approval = Some a \<Longrightarrow> approval_wf (w_host W) a"
    and "reachable (w_host W) request (history request s)"
  shows "length (starts call_id (history request (snd (run W request approval s)))) \<le> 1"
  unfolding run_def
  by (rule reachable_starts [OF reachable_steps [OF _ assms(4)]])
    (rule followsD(1) [OF run_with_fuel_follows [OF assms(1-3)] refl])

theorem started_at_most_once_witness:
  "length (starts ''call_1'' (history demo_run (snd (run demo_world demo_run (Some demo_yes)
     (demo_state (demo_before @ demo_execution # demo_after)))))) \<le> 1"
  by (rule started_at_most_once)
    (simp_all add: demo_iso_lawful demo_sha_lawful demo_yes_wf demo_history demo_reachable)

text \<open>
  C2. No execution without approval. If a call of the run's events was announced as needing approval, then
  before it was started the events held its materialization and an approval with the decision
  \<^verbatim>\<open>APPROVED\<close> that is bound to the digest of that very call.
\<close>

theorem execution_is_approved:
  assumes "iso_lawful (w_host W)" "sha_lawful (w_host W)"
    and "\<And>a. approval = Some a \<Longrightarrow> approval_wf (w_host W) a"
    and "reachable (w_host W) request (history request s)"
    and "history request (snd (run W request approval s)) = es @ [e] @ fs"
    and "ev_event_type e = TOOL_EXECUTION_STARTED" "metadata_call_id e = Some call_id"
    and "has_event APPROVAL_REQUIRED call_id (es @ [e] @ fs)"
  shows "\<exists>c. tc_call_id c = call_id \<and> materialized_in (w_host W) c es \<and> approved_in (w_host W) c es"
proof -
  have r: "reachable (w_host W) request (es @ [e] @ fs)"
    using reachable_steps [OF followsD(1) [OF run_with_fuel_follows [OF assms(1-3)] refl] assms(4)]
    unfolding assms(5) [symmetric] run_def .
  then have re: "reachable (w_host W) request (es @ [e])" using reachable_prefix [of _ _ "es @ [e]" fs] by simp
  then obtain V where V: "w_host V = w_host W" "protocol_step V request es e" by (auto simp: reachable_snoc)
  from step_types(4) [OF V(2) assms(6)] V(1) assms(7) obtain c where c: "tc_call_id c = call_id"
    "materialized_in (w_host W) c es" "has_event APPROVAL_REQUIRED call_id es \<longrightarrow> approved_in (w_host W) c es"
    by auto
  have "has_event APPROVAL_REQUIRED call_id es"
  proof (rule ccontr)
    assume "\<not> has_event APPROVAL_REQUIRED call_id es"
    with assms(6,8) have "has_event APPROVAL_REQUIRED call_id fs" by simp
    then obtain q gs hs where q: "fs = gs @ [q] @ hs" "ev_event_type q = APPROVAL_REQUIRED"
      "metadata_call_id q = Some call_id" unfolding has_event_def by (metis append_Cons append_Nil split_list)
    from reachable_required [of _ _ "es @ [e] @ gs" q hs, OF _ q(2,3)] r q(1) assms(6,7) show False by simp
  qed
  with c show ?thesis by blast
qed

theorem execution_is_approved_witness:
  "\<exists>c. tc_call_id c = ''call_1'' \<and> materialized_in demo_host c demo_before \<and> approved_in demo_host c demo_before"
proof -
  let ?es = "demo_before @ [demo_execution] @ demo_after"
  let ?s = "demo_state (demo_before @ demo_execution # demo_after)"
  have "protocol_steps demo_world demo_run (history demo_run ?s) (history demo_run (snd (run demo_world demo_run None ?s)))"
    unfolding run_def
    by (rule followsD(1) [OF run_with_fuel_follows refl]) (simp_all add: demo_iso_lawful demo_sha_lawful)
  moreover have "ended ?es" by (simp add: demo_after_def ended_def)
  ultimately have "history demo_run (snd (run demo_world demo_run None ?s)) = ?es"
    by (auto simp: demo_history dest: protocol_steps_ended)
  note final = this
  have required: "has_event APPROVAL_REQUIRED ''call_1'' ?es" by (simp add: demo_before_def)
  have e: "ev_event_type demo_execution = TOOL_EXECUTION_STARTED" "metadata_call_id demo_execution = Some ''call_1''"
    by (simp_all add: demo_execution_def)
  have "reachable (w_host demo_world) demo_run (history demo_run ?s)" by (simp add: demo_history demo_reachable)
  from execution_is_approved [OF _ _ _ this final e required] show ?thesis
    by (simp add: demo_iso_lawful demo_sha_lawful)
qed

text \<open>
  C9. Server limits. A run never records more than twelve decisions nor more than eight tool calls, and
  not more than the limits of the request where it carries lower ones from an old ledger.
\<close>

theorem run_is_bounded:
  assumes "iso_lawful (w_host W)" "sha_lawful (w_host W)"
    and "\<And>a. approval = Some a \<Longrightarrow> approval_wf (w_host W) a"
    and "reachable (w_host W) request (history request s)"
    and "es = history request (snd (run W request approval s))"
  shows "length (of_type DECISION_RECORDED es) \<le> 12 \<and> length (of_type TOOL_CALL_MATERIALIZED es) \<le> 8
    \<and> int (length (of_type DECISION_RECORDED es)) \<le> max 0 (hl_max_decisions (effective_hard_limits request))
    \<and> int (length (of_type TOOL_CALL_MATERIALIZED es)) \<le> max 0 (hl_max_tool_calls (effective_hard_limits request))"
proof -
  have r: "reachable (w_host W) request es"
    using reachable_steps [OF followsD(1) [OF run_with_fuel_follows [OF assms(1-3)] refl] assms(4)]
    unfolding assms(5) run_def .
  show ?thesis
    using reachable_decisions [OF r] reachable_tool_calls [OF r] effective_limits [of request]
    by (cases "of_type DECISION_RECORDED es = []"; cases "of_type TOOL_CALL_MATERIALIZED es = []") auto
qed

theorem run_is_bounded_witness:
  "length (of_type DECISION_RECORDED (history demo_run (snd (run demo_world demo_run None (demo_state demo_crashed))))) \<le> 3
    \<and> length (of_type TOOL_CALL_MATERIALIZED (history demo_run (snd (run demo_world demo_run None (demo_state demo_crashed))))) \<le> 2"
proof -
  have h: "history demo_run (demo_state demo_crashed) = demo_crashed"
    by (simp add: history_def demo_state_def events_of_def demo_crashed_def)
  from run_is_bounded [of demo_world None demo_run "demo_state demo_crashed", OF _ _ _ _ refl]
  show ?thesis by (simp add: demo_iso_lawful demo_sha_lawful demo_crashed_reachable h demo_limits)
qed

text \<open>
  C22. Settled runs stay. Calling \<^verbatim>\<open>run\<close> for a run that has ended, is interrupted by a call that was started
  and not finished, waits for a review or, without a new approval, waits for an approval, appends
  nothing to the ledger; and a run that has ended or is interrupted takes no approval.
\<close>

theorem settled_run_stays:
  assumes "project (w_host W) (history request s) = Inr p"
    and "pj_terminal_event p \<noteq> None \<or> pj_interrupted p
      \<or> approval = None \<and> (pj_pending_approval p \<noteq> None \<or> pj_waiting_review p)"
  shows "ls_ledger (snd (run W request approval s)) = ls_ledger s
    \<and> extends (ls_store s) (ls_store (snd (run W request approval s)))
    \<and> (approval \<noteq> None \<longrightarrow> (\<exists>err. fst (run W request approval s) = Inl err))"
proof -
  have "stays request (history request s) (run_with_fuel W request approval (Suc (14 + length (ls_ledger s)))) (\<lambda>_. approval = None)"
    by (rule settled_run [OF assms(1)]) (use assms(2) in \<open>simp add: settled_def\<close>)
  then have st: "same_ledger s (snd (run W request approval s))
    \<and> (\<forall>x t. run W request approval s = (Inr x, t) \<longrightarrow> approval = None)"
    unfolding stays_def run_def by simp
  obtain o' t where o': "run W request approval s = (o', t)" by (cases "run W request approval s")
  from st have "same_ledger s t \<and> (\<forall>x. o' = Inr x \<longrightarrow> approval = None)" unfolding o' by auto
  with o' show ?thesis by (cases o') (auto simp: same_ledger_def)
qed

theorem settled_run_stays_witness:
  "ls_ledger (snd (run demo_world demo_run None (demo_state demo_reviewing))) = demo_reviewing"
proof -
  let ?s = "demo_state demo_reviewing"
  have "history demo_run ?s = demo_reviewing"
    by (simp add: history_def demo_state_def events_of_def demo_reviewing_def)
  with demo_reviewing_projection obtain p where
    p: "project (w_host demo_world) (history demo_run ?s) = Inr p" "pj_waiting_review p" by auto
  then have "ls_ledger (snd (run demo_world demo_run None ?s)) = ls_ledger ?s"
    using settled_run_stays [OF p(1), of None] by blast
  then show ?thesis by (simp add: demo_state_def)
qed



text \<open>
  C8. Runs are isolated. \<^verbatim>\<open>run\<close> keeps a valid ledger valid and every event that it held, adds events of
  its own run only, so what another run's events say is the same before and after, and it never
  changes or removes an artifact.
\<close>

theorem runs_are_isolated:
  assumes "iso_lawful (w_host W)" "ledger_valid (w_host W) (ls_ledger s)" "other \<noteq> rq_run_id request"
    and "t = snd (run W request approval s)"
  shows "ledger_valid (w_host W) (ls_ledger t) \<and> prefix (ls_ledger s) (ls_ledger t)
    \<and> events_of other (ls_ledger t) = events_of other (ls_ledger s) \<and> extends (ls_store s) (ls_store t)"
proof -
  have "isolated (w_host W) (rq_run_id request) s t"
    unfolding assms(4) run_def by (rule advancesD [OF isolated_run])
  then have g: "run_log.grows_by (w_host W) (\<lambda>e. ev_run_id e = rq_run_id request) (ls_ledger s) (ls_ledger t)"
    "extends (ls_store s) (ls_store t)" by (simp_all add: isolated_def)
  have "events_of other (ls_ledger t) = events_of other (ls_ledger s)"
    unfolding events_of_def by (rule run_log.grows_by_filter [OF g(1)]) (use assms(3) in simp)
  moreover have "ledger_valid (w_host W) (ls_ledger t)" "prefix (ls_ledger s) (ls_ledger t)"
    using g(1) assms(1,2) unfolding run_log.grows_by_def by auto
  ultimately show ?thesis using g(2) by blast
qed

theorem runs_are_isolated_witness:
  "ledger_valid demo_host (ls_ledger (snd (run demo_world demo_run None (demo_state []))))
    \<and> events_of ''run_2'' (ls_ledger (snd (run demo_world demo_run None (demo_state [])))) = []"
proof -
  have "ledger_valid (w_host demo_world) (ls_ledger (demo_state []))"
    by (simp add: ledger_valid_def event_chain_def demo_state_def)
  moreover have "''run_2'' \<noteq> rq_run_id demo_run" by (simp add: demo_run_def demo_request_def)
  ultimately show ?thesis
    using runs_are_isolated [of demo_world "demo_state []" "''run_2''" demo_run _ None, OF _ _ _ refl]
    by (simp add: demo_iso_lawful) (simp add: demo_state_def events_of_def)
qed

text \<open>
  C23. Binding. A run whose recorded digest is not the digest of the supplied request is not resumed:
  \<^verbatim>\<open>run\<close> raises \<^verbatim>\<open>RunBindingError\<close> and changes nothing.
\<close>

theorem rebinding_refused:
  assumes "ensure_request_policy W request = Inr ()" "is_identifier (rq_run_id request)"
    and "of_type RUN_STARTED (history request s) = [start]"
    and "request_sha256 (w_host W) request = Inr digest"
    and "jget (ev_metadata start) ''request_digest'' \<noteq> JStr digest"
  shows "run W request approval s = (Inl RunBindingError, s)"
proof -
  have "history request s \<noteq> []" using assms(3) by auto
  moreover have "run_events (rq_run_id request) s = (Inr (history request s), s)"
    using assms(2) by (simp add: run_events_def history_def)
  moreover have "check_binding W request start = Inl RunBindingError"
    using assms(4,5) by (simp add: check_binding_def)
  ultimately have "initialize_or_validate W request s = (Inl RunBindingError, s)"
    using assms(1,3) by (simp add: initialize_or_validate_def bindA_app resume_run_def)
  then show ?thesis by (simp add: run_def run_with_fuel_def bindA_app)
qed

theorem rebinding_refused_witness:
  "\<exists>start. run demo_world demo_run None (demo_state [start]) = (Inl RunBindingError, demo_state [start])"
proof -
  let ?start = "demo_entry ''evt_1'' RUN_STARTED (run_event_args ''STARTED'' [(''request_digest'', JNull)])"
  have i: "is_identifier (rq_run_id demo_run)"
    unfolding demo_run_def demo_request_def by code_simp
  have "jget (ev_metadata ?start) ''request_digest'' \<noteq> JStr d" for d
    by (simp add: demo_entry_def new_event_def run_event_args_def jget_def)
  moreover have "of_type RUN_STARTED (history demo_run (demo_state [?start])) = [?start]"
    by (simp add: history_def demo_state_def events_of_def)
  moreover have "request_sha256 (w_host demo_world) demo_run = Inr (sha256 demo_host (json_dumps (request_to_dict demo_run)))"
    by (simp add: demo_request_digest)
  ultimately have "run demo_world demo_run None (demo_state [?start]) = (Inl RunBindingError, demo_state [?start])"
    by (intro rebinding_refused [OF demo_policy_ok i])
  then show ?thesis by blast
qed



end
