(* ===== verification/Inspection.thy ===== *)
theory Inspection
  imports AgentLoop
begin

text \<open>
  \<^verbatim>\<open>src/molly/core/inspection.py\<close>: the read-only projection of the ledger, the store and the lineage
  that an operator sees. It reads the same events as the loop with its own checks; nothing here
  changes a store, so every operation is a function of the inspector's three stores.
\<close>

section \<open>Event types and safe metadata\<close>

definition call_event_types :: "string list" where
  "call_event_types = [TOOL_CALL_MATERIALIZED, APPROVAL_REQUIRED, APPROVAL_RECORDED, TOOL_CALL_REJECTED,
     TOOL_EXECUTION_STARTED, TOOL_EXECUTION_SUCCEEDED, TOOL_EXECUTION_FAILED]"

definition safe_metadata_keys :: "string list" where
  "safe_metadata_keys =
     [''run_id'', ''call_id'', ''success_event_id'', ''profile_ref'', ''provider_profile_ref'',
      ''model_identifier'', ''model_version'', ''job_id'', ''job_handle_id'', ''config_digest'',
      ''task_digest'', ''execution_config_digest'', ''seed'', ''seed_value'', ''resource_profile_ref'',
      ''status'']"

definition safe_key :: "string \<Rightarrow> bool" where
  "safe_key key = (key \<in> set safe_metadata_keys
     \<or> py_endswith key ''_id'' \<or> py_endswith key ''_ref'' \<or> py_endswith key ''_digest'')"

fun is_scalar :: "json \<Rightarrow> bool" where
  "is_scalar JNull = True"
| "is_scalar (JBool b) = True"
| "is_scalar (JInt i) = True"
| "is_scalar (JFloat f) = True"
| "is_scalar (JStr s) = True"
| "is_scalar (JArr xs) = False"
| "is_scalar (JObj d) = False"
| "is_scalar JOpaque = False"

text \<open>A scalar is kept, of a list its scalars, any other value is left out.\<close>

fun safe_value :: "json \<Rightarrow> json option" where
  "safe_value (JArr xs) = Some (JArr (filter is_scalar xs))"
| "safe_value v = (if is_scalar v then Some v else None)"

definition safe_metadata :: "fields \<Rightarrow> fields" where
  "safe_metadata value =
     List.map_filter (\<lambda>(key, item). map_option (Pair key) (safe_value item))
       (filter (\<lambda>(key, item). safe_key key) value)"

definition digest_json :: "host \<Rightarrow> json \<Rightarrow> string res" where
  "digest_json H value = bindE (canonical_json_bytes value) (\<lambda>b. Inr (sha256_bytes H b))"

definition artifact_ids_from_event :: "ledger_event \<Rightarrow> string list" where
  "artifact_ids_from_event e = ev_input_artifact_ids e @ ev_output_artifact_ids e"

section \<open>The projection of a call\<close>

record call_inspection =
  ti_call_id :: string
  ti_step_id :: string
  ti_tool_name :: string
  ti_tool_version :: string
  ti_tool_spec_digest :: string
  ti_tool_call_digest :: string
  ti_arguments :: fields
  ti_input_artifact_ids :: "string list"
  ti_output_artifact_ids :: "string list"
  ti_approval_required :: bool
  ti_approval_status :: "string option"
  ti_execution_status :: string
  ti_reason_summary :: string
  ti_result_data :: json
  ti_result_data_sha256 :: "string option"
  ti_failure_type :: "string option"
  ti_event_ids :: "string list"

definition inspection_text :: "string \<Rightarrow> unit res" where
  "inspection_text s =
     bindE (guardE (length s \<le> 2000) InspectionError) (\<lambda>_. guardE (CHR 0x00 \<notin> set s) InspectionError)"

text \<open>\<^verbatim>\<open>ToolCallInspection.__post_init__\<close>; the frozen result data is checked and dropped.\<close>

definition check_result_data :: "string option \<Rightarrow> json \<Rightarrow> unit res" where
  "check_result_data digest data = (case digest of
     None \<Rightarrow> Inr ()
   | Some d \<Rightarrow> bindE (validate_digest_reference d) (\<lambda>_. bindE (freeze_json data) (\<lambda>_. Inr ())))"

definition call_inspection_init :: "call_inspection \<Rightarrow> call_inspection res" where
  "call_inspection_init t =
     bindE (validate_identifier (ti_call_id t)) (\<lambda>_.
     bindE (validate_identifier (ti_step_id t)) (\<lambda>_.
     bindE (validate_identifier (ti_tool_name t)) (\<lambda>_.
     bindE (validate_identifier (ti_tool_version t)) (\<lambda>_.
     bindE (validate_digest_reference (ti_tool_spec_digest t)) (\<lambda>_.
     bindE (validate_digest_reference (ti_tool_call_digest t)) (\<lambda>_.
     bindE (freeze_json_mapping (JObj (ti_arguments t))) (\<lambda>arguments.
     bindE (mapE validate_artifact_id (ti_input_artifact_ids t)) (\<lambda>inputs.
     bindE (mapE validate_artifact_id (ti_output_artifact_ids t)) (\<lambda>outputs.
     bindE (check_opt validate_identifier (ti_approval_status t)) (\<lambda>_.
     bindE (validate_identifier (ti_execution_status t)) (\<lambda>_.
     bindE (inspection_text (ti_reason_summary t)) (\<lambda>_.
     bindE (check_result_data (ti_result_data_sha256 t) (ti_result_data t)) (\<lambda>_.
     bindE (check_opt validate_identifier (ti_failure_type t)) (\<lambda>_.
     bindE (mapE validate_identifier (ti_event_ids t)) (\<lambda>event_ids.
     Inr (t\<lparr>ti_arguments := arguments, ti_input_artifact_ids := inputs,
            ti_output_artifact_ids := outputs, ti_event_ids := event_ids\<rparr>))))))))))))))))"

definition call_inspection_fields :: "call_inspection \<Rightarrow> fields" where
  "call_inspection_fields t =
     [(''call_id'', JStr (ti_call_id t)),
      (''step_id'', JStr (ti_step_id t)),
      (''tool_name'', JStr (ti_tool_name t)),
      (''tool_version'', JStr (ti_tool_version t)),
      (''tool_spec_digest'', JStr (ti_tool_spec_digest t)),
      (''tool_call_digest'', JStr (ti_tool_call_digest t)),
      (''arguments'', JObj (ti_arguments t)),
      (''input_artifact_ids'', jstrs (ti_input_artifact_ids t)),
      (''output_artifact_ids'', jstrs (ti_output_artifact_ids t)),
      (''approval_required'', JBool (ti_approval_required t)),
      (''approval_status'', jstr_opt (ti_approval_status t)),
      (''execution_status'', JStr (ti_execution_status t)),
      (''reason_summary'', JStr (ti_reason_summary t)),
      (''event_ids'', jstrs (ti_event_ids t))]
     @ (case ti_result_data_sha256 t of
          None \<Rightarrow> []
        | Some d \<Rightarrow> [(''result_data'', ti_result_data t), (''result_data_sha256'', JStr d)])
     @ (case ti_failure_type t of None \<Rightarrow> [] | Some f \<Rightarrow> [(''failure_type'', JStr f)])"

definition call_inspection_to_dict :: "call_inspection \<Rightarrow> json" where
  "call_inspection_to_dict t = JObj (call_inspection_fields t)"

section \<open>The projection of an artifact\<close>

record artifact_inspection =
  ai_artifact_id :: string
  ai_sha256 :: string
  ai_media_type :: string
  ai_schema_name :: "string option"
  ai_schema_version :: "string option"
  ai_size_bytes :: int
  ai_stored_at :: string
  ai_producer_occurrences :: "fields list"
  ai_consumer_occurrences :: "fields list"
  ai_derived_from :: "string list"
  ai_supported_by :: "string list"

text \<open>\<^verbatim>\<open>ArtifactInspection.__post_init__\<close>\<close>

definition artifact_inspection_init :: "artifact_inspection \<Rightarrow> artifact_inspection res" where
  "artifact_inspection_init a =
     bindE (validate_artifact_id (ai_artifact_id a)) (\<lambda>_.
     bindE (validate_digest_reference (ai_sha256 a)) (\<lambda>_.
     bindE (guardE (ai_artifact_id a = ''sha256:'' @ ai_sha256 a) InspectionIntegrityError) (\<lambda>_.
     bindE (guardE (ai_media_type a \<noteq> []) InspectionError) (\<lambda>_.
     bindE (guardE (0 \<le> ai_size_bytes a) InspectionError) (\<lambda>_.
     bindE (mapE validate_artifact_id (ai_derived_from a)) (\<lambda>derived.
     bindE (mapE validate_artifact_id (ai_supported_by a)) (\<lambda>supported.
     bindE (mapE (\<lambda>d. freeze_json_mapping (JObj d)) (ai_producer_occurrences a)) (\<lambda>producers.
     bindE (mapE (\<lambda>d. freeze_json_mapping (JObj d)) (ai_consumer_occurrences a)) (\<lambda>consumers.
     Inr (a\<lparr>ai_derived_from := derived, ai_supported_by := supported,
            ai_producer_occurrences := producers, ai_consumer_occurrences := consumers\<rparr>))))))))))"

definition artifact_inspection_to_dict :: "artifact_inspection \<Rightarrow> json" where
  "artifact_inspection_to_dict a = JObj
     [(''artifact_id'', JStr (ai_artifact_id a)),
      (''sha256'', JStr (ai_sha256 a)),
      (''media_type'', JStr (ai_media_type a)),
      (''schema_name'', jstr_opt (ai_schema_name a)),
      (''schema_version'', jstr_opt (ai_schema_version a)),
      (''size_bytes'', JInt (ai_size_bytes a)),
      (''stored_at'', JStr (ai_stored_at a)),
      (''producer_occurrences'', JArr (map JObj (ai_producer_occurrences a))),
      (''consumer_occurrences'', JArr (map JObj (ai_consumer_occurrences a))),
      (''derived_from'', jstrs (ai_derived_from a)),
      (''supported_by'', jstrs (ai_supported_by a))]"

section \<open>The projection of a run\<close>

record run_inspection =
  ri_run_id :: string
  ri_request_digest :: string
  ri_goal :: string
  ri_initial_artifact_ids :: "string list"
  ri_policy_digest :: string
  ri_status :: string
  ri_decision_count :: int
  ri_tool_call_count :: int
  ri_step_count :: int
  ri_materialized_calls :: "call_inspection list"
  ri_pending_call :: "fields option"
  ri_review_request_state :: "string option"
  ri_failure_summary :: "fields list"
  ri_lineage_relations :: "fields list"
  ri_final_artifact_ids :: "string list"
  ri_referenced_artifact_ids :: "string list"
  ri_event_ids :: "string list"
  ri_ledger_sha256 :: string
  ri_lineage_sha256 :: string
  ri_runtime_profile_ref :: "string option"
  ri_runtime_profile_digest :: "string option"

text \<open>\<^verbatim>\<open>RunInspection.__post_init__\<close>; the projected calls are already checked values.\<close>

definition run_inspection_init :: "run_inspection \<Rightarrow> run_inspection res" where
  "run_inspection_init i =
     bindE (validate_identifier (ri_run_id i)) (\<lambda>_.
     bindE (validate_digest_reference (ri_request_digest i)) (\<lambda>_.
     bindE (validate_digest_reference (ri_policy_digest i)) (\<lambda>_.
     bindE (validate_identifier (ri_status i)) (\<lambda>_.
     bindE (mapE validate_artifact_id (ri_initial_artifact_ids i)) (\<lambda>initial.
     bindE (mapE validate_artifact_id (ri_final_artifact_ids i)) (\<lambda>final.
     bindE (mapE validate_artifact_id (ri_referenced_artifact_ids i)) (\<lambda>referenced.
     bindE (guardE (0 \<le> ri_decision_count i) InspectionError) (\<lambda>_.
     bindE (guardE (0 \<le> ri_tool_call_count i) InspectionError) (\<lambda>_.
     bindE (guardE (0 \<le> ri_step_count i) InspectionError) (\<lambda>_.
     bindE (freeze_opt_mapping (ri_pending_call i)) (\<lambda>pending.
     bindE (check_opt validate_identifier (ri_review_request_state i)) (\<lambda>_.
     bindE (mapE (\<lambda>d. freeze_json_mapping (JObj d)) (ri_failure_summary i)) (\<lambda>failures.
     bindE (mapE (\<lambda>d. freeze_json_mapping (JObj d)) (ri_lineage_relations i)) (\<lambda>rels.
     bindE (mapE validate_identifier (ri_event_ids i)) (\<lambda>event_ids.
     bindE (validate_digest_reference (ri_ledger_sha256 i)) (\<lambda>_.
     bindE (validate_digest_reference (ri_lineage_sha256 i)) (\<lambda>_.
     bindE (check_opt validate_identifier (ri_runtime_profile_ref i)) (\<lambda>_.
     bindE (check_opt validate_digest_reference (ri_runtime_profile_digest i)) (\<lambda>_.
     Inr (i\<lparr>ri_initial_artifact_ids := initial, ri_final_artifact_ids := final,
            ri_referenced_artifact_ids := referenced, ri_pending_call := pending,
            ri_failure_summary := failures, ri_lineage_relations := rels,
            ri_event_ids := event_ids\<rparr>))))))))))))))))))))"

definition run_inspection_to_dict :: "run_inspection \<Rightarrow> json" where
  "run_inspection_to_dict i = JObj
     [(''schema_name'', JStr ''molly.core.run-inspection''),
      (''schema_version'', JStr ''1''),
      (''run_id'', JStr (ri_run_id i)),
      (''request_digest'', JStr (ri_request_digest i)),
      (''goal'', JStr (ri_goal i)),
      (''initial_artifact_ids'', jstrs (ri_initial_artifact_ids i)),
      (''policy_digest'', JStr (ri_policy_digest i)),
      (''runtime_profile_ref'', jstr_opt (ri_runtime_profile_ref i)),
      (''runtime_profile_digest'', jstr_opt (ri_runtime_profile_digest i)),
      (''status'', JStr (ri_status i)),
      (''decision_count'', JInt (ri_decision_count i)),
      (''tool_call_count'', JInt (ri_tool_call_count i)),
      (''step_count'', JInt (ri_step_count i)),
      (''materialized_calls'', JArr (map call_inspection_to_dict (ri_materialized_calls i))),
      (''pending_call'', case ri_pending_call i of None \<Rightarrow> JNull | Some d \<Rightarrow> JObj d),
      (''review_request_state'', jstr_opt (ri_review_request_state i)),
      (''failure_summary'', JArr (map JObj (ri_failure_summary i))),
      (''lineage_relations'', JArr (map JObj (ri_lineage_relations i))),
      (''final_artifact_ids'', jstrs (ri_final_artifact_ids i)),
      (''referenced_artifact_ids'', jstrs (ri_referenced_artifact_ids i)),
      (''event_ids'', jstrs (ri_event_ids i)),
      (''ledger_sha256'', JStr (ri_ledger_sha256 i)),
      (''lineage_sha256'', JStr (ri_lineage_sha256 i))]"

definition inspection_canonical_bytes :: "run_inspection \<Rightarrow> string res" where
  "inspection_canonical_bytes i = canonical_json_bytes (run_inspection_to_dict i)"

definition inspection_digest :: "host \<Rightarrow> run_inspection \<Rightarrow> string res" where
  "inspection_digest H i = bindE (inspection_canonical_bytes i) (\<lambda>b. Inr (sha256_bytes H b))"

section \<open>The three stores\<close>

record inspector =
  in_store :: store
  in_ledger :: log_file
  in_lineage :: lineage

definition all_events :: "host \<Rightarrow> inspector \<Rightarrow> ledger_event list res" where
  "all_events H I = wrapE any_error InspectionIntegrityError (read_events H (in_ledger I))"

definition all_relations :: "host \<Rightarrow> inspector \<Rightarrow> lineage_relation list res" where
  "all_relations H I = wrapE any_error InspectionIntegrityError (relations H (in_lineage I))"

definition check_artifact :: "host \<Rightarrow> inspector \<Rightarrow> bool \<Rightarrow> string \<Rightarrow> unit res" where
  "check_artifact H I verify_bytes artifact_id =
     wrapE any_error InspectionIntegrityError
       (bindE (if verify_bytes then verify H (in_store I) artifact_id
               else read_metadata H (in_store I) artifact_id) (\<lambda>_. Inr ()))"

text \<open>\<^verbatim>\<open>_verify_all_artifact_references\<close>: every artifact that any event or relation names, once\<close>

definition referenced_artifacts :: "ledger_event list \<Rightarrow> lineage_relation list \<Rightarrow> string list" where
  "referenced_artifacts events rels =
     sort (remdups (concat (map artifact_ids_from_event events)
       @ filter (\<lambda>i. py_startswith i ''sha256:'') (concat (map (\<lambda>r. [rel_subject_id r, rel_object_id r]) rels))))"

definition check_references ::
    "host \<Rightarrow> inspector \<Rightarrow> bool \<Rightarrow> ledger_event list \<Rightarrow> lineage_relation list \<Rightarrow> unit res" where
  "check_references H I verify_bytes events rels =
     bindE (mapE (check_artifact H I verify_bytes) (referenced_artifacts events rels)) (\<lambda>_. Inr ())"

section \<open>The start of the run\<close>

definition recorded_request :: "host \<Rightarrow> fields \<Rightarrow> json \<Rightarrow> (run_request \<times> string) res" where
  "recorded_request H md raw_request =
     bindE (request_from_dict H raw_request) (\<lambda>request.
     bindE (validate_digest_reference (py_str (jget_or md ''request_digest'' (JStr '''')))) (\<lambda>digest.
     Inr (request, digest)))"

text \<open>\<^verbatim>\<open>_request_from_start\<close>; \<^verbatim>\<open>tuple\<close> of recorded inputs that are not iterable raises outside the \<^verbatim>\<open>try\<close>.\<close>

definition request_from_start :: "host \<Rightarrow> ledger_event \<Rightarrow> run_request res" where
  "request_from_start H start =
     (case jget (ev_metadata start) ''request'' of
        JObj d \<Rightarrow>
          bindE (wrapE any_error InspectionIntegrityError (recorded_request H (ev_metadata start) (JObj d)))
            (\<lambda>(request, digest).
          bindE (request_sha256 H request) (\<lambda>computed.
          bindE (guardE (computed = digest \<and> rq_run_id request = ev_run_id start) InspectionIntegrityError) (\<lambda>_.
          bindE (py_tuple (jget_or (ev_metadata start) ''initial_artifact_ids'' (JArr []))) (\<lambda>recorded_inputs.
          bindE (guardE (recorded_inputs = map JStr (rq_input_artifact_ids request)) InspectionIntegrityError) (\<lambda>_.
          bindE (guardE (jget (ev_metadata start) ''policy_digest'' = JStr (rq_tool_policy_digest request))
            InspectionIntegrityError) (\<lambda>_. Inr request))))))
      | _ \<Rightarrow> Inl InspectionIntegrityError)"

text \<open>The first event of the run is its only \<^verbatim>\<open>RUN_STARTED\<close>.\<close>

definition run_start :: "ledger_event list \<Rightarrow> ledger_event res" where
  "run_start events =
     (case of_type RUN_STARTED events of
        [start] \<Rightarrow> if ev_event_type (hd events) = RUN_STARTED then Inr start else Inl InspectionIntegrityError
      | _ \<Rightarrow> Inl InspectionIntegrityError)"

section \<open>The calls of the run\<close>

definition inspected_call_id :: "ledger_event \<Rightarrow> string option res" where
  "inspected_call_id e =
     (case jget (ev_metadata e) ''call_id'' of
        JNull \<Rightarrow> Inr None
      | JStr s \<Rightarrow> bindE (wrapE any_error InspectionIntegrityError (validate_identifier s)) (\<lambda>k. Inr (Some k))
      | _ \<Rightarrow> Inl InspectionIntegrityError)"

definition inspected_result_data :: "host \<Rightarrow> ledger_event \<Rightarrow> (json \<times> string) res" where
  "inspected_result_data H e =
     (case (map_of (ev_metadata e) ''result_data'', map_of (ev_metadata e) ''result_data_sha256'') of
        (Some value, Some raw) \<Rightarrow>
          bindE (wrapE any_error InspectionIntegrityError
            (bindE (canonical_json_bytes value) (\<lambda>encoded.
             bindE (validate_digest_reference (py_str raw)) (\<lambda>recorded. Inr (encoded, recorded))))) (\<lambda>(encoded, recorded).
          let digest = sha256_bytes H encoded in
          if length encoded > max_tool_result_data_bytes \<or> digest \<noteq> recorded then Inl InspectionIntegrityError
          else Inr (value, digest))
      | _ \<Rightarrow> Inl InspectionIntegrityError)"

text \<open>
  A group is an entry of the three dicts \<^verbatim>\<open>materialized\<close>, \<^verbatim>\<open>materialized_events\<close> and \<^verbatim>\<open>related\<close>, which have
  the same keys; the list is in the order of their insertion.
\<close>

record call_group =
  cg_call :: tool_call
  cg_event :: ledger_event
  cg_related :: "ledger_event list"

definition materialized_entry :: "host \<Rightarrow> ledger_event \<Rightarrow> string option \<Rightarrow> tool_call res" where
  "materialized_entry H e call_id =
     (case jget (ev_metadata e) ''materialized_call'' of
        JObj d \<Rightarrow>
          bindE (wrapE any_error InspectionIntegrityError (call_from_dict H (JObj d))) (\<lambda>call.
          bindE (guardE (call_id = Some (tc_call_id call) \<and> ev_step_id e = Some (tc_step_id call))
            InspectionIntegrityError) (\<lambda>_.
          bindE (guardE (ev_tool_name e = Some (tc_tool_name call) \<and> ev_tool_version e = Some (tc_tool_version call))
            InspectionIntegrityError) (\<lambda>_.
          bindE (guardE (ev_input_artifact_ids e = tc_input_artifact_ids call) InspectionIntegrityError) (\<lambda>_.
          bindE (call_computed_digest H call) (\<lambda>digest.
          bindE (guardE (jget (ev_metadata e) ''tool_call_digest'' = JStr digest) InspectionIntegrityError) (\<lambda>_.
          Inr call))))))
      | _ \<Rightarrow> Inl InspectionIntegrityError)"

definition in_groups :: "string \<Rightarrow> call_group list \<Rightarrow> bool" where
  "in_groups call_id groups = list_ex (\<lambda>g. tc_call_id (cg_call g) = call_id) groups"

definition add_related :: "string \<Rightarrow> ledger_event \<Rightarrow> call_group list \<Rightarrow> call_group list" where
  "add_related call_id e groups =
     map (\<lambda>g. if tc_call_id (cg_call g) = call_id then g\<lparr>cg_related := cg_related g @ [e]\<rparr> else g) groups"

text \<open>One round of the first loop of \<^verbatim>\<open>_project_calls\<close>\<close>

definition gather_event :: "host \<Rightarrow> call_group list \<Rightarrow> ledger_event \<Rightarrow> call_group list res" where
  "gather_event H groups e =
     bindE (inspected_call_id e) (\<lambda>call_id.
     if ev_event_type e = TOOL_CALL_MATERIALIZED then
       bindE (materialized_entry H e call_id) (\<lambda>call.
       if in_groups (tc_call_id call) groups then Inl InspectionIntegrityError
       else Inr (groups @ [\<lparr>cg_call = call, cg_event = e, cg_related = []\<rparr>]))
     else case call_id of
         None \<Rightarrow> Inr groups
       | Some k \<Rightarrow>
           if ev_event_type e \<notin> set call_event_types then Inl InspectionIntegrityError
           else if \<not> in_groups k groups then Inl InspectionIntegrityError
           else Inr (add_related k e groups))"

fun gather_calls :: "host \<Rightarrow> call_group list \<Rightarrow> ledger_event list \<Rightarrow> call_group list res" where
  "gather_calls H groups [] = Inr groups"
| "gather_calls H groups (e # es) = bindE (gather_event H groups e) (\<lambda>groups'. gather_calls H groups' es)"

text \<open>What every event of a call repeats of it\<close>

definition related_consistent :: "tool_call \<Rightarrow> string \<Rightarrow> ledger_event \<Rightarrow> bool" where
  "related_consistent call digest e =
     (ev_step_id e = Some (tc_step_id call)
      \<and> ev_tool_name e = Some (tc_tool_name call) \<and> ev_tool_version e = Some (tc_tool_version call)
      \<and> ev_input_artifact_ids e = tc_input_artifact_ids call
      \<and> jget (ev_metadata e) ''tool_call_digest'' \<in> {JNull, JStr digest})"

definition inspected_approval :: "host \<Rightarrow> tool_call \<Rightarrow> ledger_event list \<Rightarrow> approval_record option res" where
  "inspected_approval H call approval_events =
     (case approval_events of
        [] \<Rightarrow> Inr None
      | [e] \<Rightarrow>
          (case jget (ev_metadata e) ''approval'' of
             JObj d \<Rightarrow>
               bindE (wrapE any_error InspectionIntegrityError (bound_approval H call (JObj d))) (\<lambda>a. Inr (Some a))
           | _ \<Rightarrow> Inl InspectionIntegrityError)
      | _ \<Rightarrow> Inl InspectionIntegrityError)"

definition execution_status_of ::
    "approval_record option \<Rightarrow> ledger_event list \<Rightarrow> ledger_event list \<Rightarrow> string" where
  "execution_status_of approval started terminal =
     (if rejecting approval then ''REJECTED''
      else if started \<noteq> [] \<and> terminal = [] then ''INTERRUPTED''
      else case terminal of
          [] \<Rightarrow> ''PENDING''
        | e # _ \<Rightarrow> if ev_event_type e = TOOL_EXECUTION_SUCCEEDED then ''SUCCEEDED'' else ''FAILED'')"

text \<open>The class of the recorded exception; an invalid one is refused outside any \<^verbatim>\<open>try\<close>.\<close>

definition failure_type_of :: "ledger_event \<Rightarrow> string option res" where
  "failure_type_of e =
     (case jget (ev_metadata e) ''error_type'' of
        JNull \<Rightarrow> Inr None
      | JStr s \<Rightarrow> bindE (validate_identifier s) (\<lambda>t. Inr (Some t))
      | _ \<Rightarrow> Inl InspectionIntegrityError)"

text \<open>Result data, its digest and the failure type, of the event that finished the call\<close>

definition inspected_outcome ::
    "host \<Rightarrow> ledger_event list \<Rightarrow> (json \<times> string option \<times> string option) res" where
  "inspected_outcome H terminal =
     (case terminal of
        [] \<Rightarrow> Inr (JNull, None, None)
      | e # _ \<Rightarrow>
          if ev_event_type e = TOOL_EXECUTION_SUCCEEDED then
            bindE (inspected_result_data H e) (\<lambda>(data, digest). Inr (data, Some digest, None))
          else bindE (failure_type_of e) (\<lambda>failure. Inr (JNull, None, failure)))"

definition approval_status_of :: "bool \<Rightarrow> approval_record option \<Rightarrow> string option" where
  "approval_status_of required approval =
     (case approval of
        Some a \<Rightarrow> Some (ap_decision a)
      | None \<Rightarrow> if required then Some ''REQUIRED'' else None)"

definition finishing :: "ledger_event list \<Rightarrow> ledger_event list" where
  "finishing events =
     filter (\<lambda>e. ev_event_type e \<in> {TOOL_EXECUTION_SUCCEEDED, TOOL_EXECUTION_FAILED}) events"

definition success_outputs :: "ledger_event list \<Rightarrow> string list" where
  "success_outputs terminal =
     (case terminal of
        [] \<Rightarrow> []
      | e # _ \<Rightarrow> if ev_event_type e = TOOL_EXECUTION_SUCCEEDED then ev_output_artifact_ids e else [])"

definition call_inspection_of ::
    "tool_call \<Rightarrow> string \<Rightarrow> bool \<Rightarrow> approval_record option \<Rightarrow> string \<Rightarrow> ledger_event list
     \<Rightarrow> json \<times> string option \<times> string option \<Rightarrow> string list \<Rightarrow> call_inspection" where
  "call_inspection_of call digest required approval execution_status terminal outcome event_ids =
     \<lparr>ti_call_id = tc_call_id call, ti_step_id = tc_step_id call, ti_tool_name = tc_tool_name call,
      ti_tool_version = tc_tool_version call, ti_tool_spec_digest = tc_tool_spec_digest call,
      ti_tool_call_digest = digest, ti_arguments = tc_arguments call,
      ti_input_artifact_ids = tc_input_artifact_ids call, ti_output_artifact_ids = success_outputs terminal,
      ti_approval_required = required, ti_approval_status = approval_status_of required approval,
      ti_execution_status = execution_status, ti_reason_summary = tc_reason_summary call,
      ti_result_data = fst outcome, ti_result_data_sha256 = fst (snd outcome),
      ti_failure_type = snd (snd outcome), ti_event_ids = event_ids\<rparr>"

text \<open>
  One round of the second loop: the call's projection, whether it is unresolved, and its mapping if it
  is the call that waits for an approval.
\<close>

definition project_group :: "host \<Rightarrow> call_group \<Rightarrow> (call_inspection \<times> bool \<times> fields option) res" where
  "project_group H g =
     (let call = cg_call g; call_events = cg_related g;
          rejected = of_type TOOL_CALL_REJECTED call_events;
          started = of_type TOOL_EXECUTION_STARTED call_events;
          terminal = finishing call_events;
          required = (of_type APPROVAL_REQUIRED call_events \<noteq> []) in
      bindE (call_computed_digest H call) (\<lambda>digest.
      bindE (guardE (list_all (related_consistent call digest) call_events) InspectionIntegrityError) (\<lambda>_.
      bindE (inspected_approval H call (of_type APPROVAL_RECORDED call_events)) (\<lambda>approval.
      bindE (guardE (length rejected \<le> 1 \<and> length started \<le> 1 \<and> length terminal \<le> 1)
        InspectionIntegrityError) (\<lambda>_.
      bindE (guardE (rejected = [] \<or> rejecting approval) InspectionIntegrityError) (\<lambda>_.
      let execution_status = execution_status_of approval started terminal in
      bindE (inspected_outcome H terminal) (\<lambda>outcome.
      let unresolved = (execution_status = ''PENDING'') in
      bindE (if unresolved \<and> required \<and> approval = None
             then bindE (call_mapping H call) (\<lambda>m. Inr (Some m)) else Inr None) (\<lambda>pending.
      bindE (call_inspection_init (call_inspection_of call digest required approval execution_status terminal
        outcome (ev_event_id (cg_event g) # map ev_event_id call_events))) (\<lambda>inspection.
      Inr (inspection, unresolved, pending))))))))))"

definition project_calls ::
    "host \<Rightarrow> ledger_event list \<Rightarrow> (call_inspection list \<times> fields option \<times> bool) res" where
  "project_calls H events =
     bindE (gather_calls H [] events) (\<lambda>groups.
     bindE (mapE (project_group H) groups) (\<lambda>projected.
     let unresolved = length (filter (\<lambda>p. fst (snd p)) projected) in
     bindE (guardE (unresolved \<le> 1) InspectionIntegrityError) (\<lambda>_.
     Inr (map fst projected, last_of (List.map_filter (\<lambda>p. snd (snd p)) projected), unresolved > 0))))"

section \<open>Status and lineage of the run\<close>

definition left_running :: "host \<Rightarrow> ledger_event list \<Rightarrow> bool" where
  "left_running H events =
     list_ex (\<lambda>e. ev_event_type e = TOOL_EXECUTION_STARTED
       \<and> \<not> list_ex (\<lambda>later. json_eq (float_eq H) (jget (ev_metadata later) ''call_id'') (jget (ev_metadata e) ''call_id''))
           (finishing events)) events"

text \<open>\<^verbatim>\<open>_status\<close>; its last two branches, for an unresolved call and for none, are both \<^verbatim>\<open>ACTIVE\<close>.\<close>

definition inspected_status :: "host \<Rightarrow> ledger_event list \<Rightarrow> fields option \<Rightarrow> bool \<Rightarrow> string res" where
  "inspected_status H events pending_approval unresolved =
     (case last_of (filter (\<lambda>e. ev_event_type e \<in> set terminal_event_types) events) of
        Some terminal \<Rightarrow>
          bindE (guardE (ev_event_id (last events) = ev_event_id terminal) InspectionIntegrityError) (\<lambda>_.
          Inr (status_value (terminal_status terminal)))
      | None \<Rightarrow>
          if left_running H events then Inr (status_value StInterrupted)
          else if pending_approval \<noteq> None then Inr (status_value StWaitingApproval)
          else if events \<noteq> [] \<and> ev_event_type (last events) = REVIEW_REQUESTED
            then Inr (status_value StWaitingReview)
          else if unresolved then Inr (status_value StActive)
          else Inr (status_value StActive))"

definition relation_concerns :: "string \<Rightarrow> string list \<Rightarrow> lineage_relation \<Rightarrow> bool" where
  "relation_concerns run_id step_identities r =
     (let relation_run_id = jget (rel_metadata r) ''run_id'' in
      relation_run_id = JStr run_id
      \<or> relation_run_id = JNull
        \<and> (rel_subject_id r \<in> set step_identities \<or> rel_object_id r \<in> set step_identities))"

text \<open>\<^verbatim>\<open>to_dict()\<close> of a relation with its metadata filtered\<close>

definition safe_relation :: "lineage_relation \<Rightarrow> fields" where
  "safe_relation r = jset ''metadata'' (JObj (safe_metadata (rel_metadata r))) (relation_fields r)"

definition lineage_for_run ::
    "string \<Rightarrow> ledger_event list \<Rightarrow> lineage_relation list \<Rightarrow> fields list" where
  "lineage_for_run run_id events rels =
     map safe_relation (filter (relation_concerns run_id (List.map_filter ev_step_id events)) rels)"

section \<open>Inspecting\<close>

definition failure_fields :: "ledger_event \<Rightarrow> fields" where
  "failure_fields e =
     [(''event_id'', JStr (ev_event_id e)),
      (''call_id'', jget (ev_metadata e) ''call_id''),
      (''tool_name'', jstr_opt (ev_tool_name e)),
      (''error_type'', jget (ev_metadata e) ''error_type'')]"

definition review_state_of :: "ledger_event list \<Rightarrow> string option" where
  "review_state_of events =
     (if of_type REVIEW_REQUESTED events = [] then None
      else if ev_event_type (last events) = REVIEW_REQUESTED then Some ''WAITING_REVIEW''
      else Some ''REQUESTED'')"

definition runtime_profile :: "run_request \<Rightarrow> (string option \<times> string option) res" where
  "runtime_profile request =
     bindE (case jget (rq_metadata request) ''runtime_profile_ref'' of
         JNull \<Rightarrow> Inr None | JStr s \<Rightarrow> Inr (Some s) | _ \<Rightarrow> Inl InspectionIntegrityError) (\<lambda>ref.
     bindE (case jget (rq_metadata request) ''runtime_profile_digest'' of
         JNull \<Rightarrow> Inr None
       | v \<Rightarrow> bindE (wrapE any_error InspectionIntegrityError (validate_digest_reference (py_str v)))
                (\<lambda>d. Inr (Some d))) (\<lambda>digest.
     Inr (ref, digest)))"

definition final_artifacts :: "run_request \<Rightarrow> call_inspection list \<Rightarrow> string list" where
  "final_artifacts request calls =
     add_new (rq_input_artifact_ids request) (concat (map ti_output_artifact_ids calls))"

definition run_references :: "ledger_event list \<Rightarrow> string list \<Rightarrow> string list" where
  "run_references events final_ids =
     add_new (add_new [] (concat (map artifact_ids_from_event events))) final_ids"

definition materialized_steps :: "ledger_event list \<Rightarrow> string list" where
  "materialized_steps events =
     remdups (filter (\<lambda>i. i \<noteq> []) (List.map_filter ev_step_id (of_type TOOL_CALL_MATERIALIZED events)))"

text \<open>The facts that \<^verbatim>\<open>inspect_run\<close> validates, and then the view that it derives from them\<close>

definition inspected_facts ::
    "host \<Rightarrow> inspector \<Rightarrow> string \<Rightarrow> bool
     \<Rightarrow> (ledger_event list \<times> ledger_event list \<times> lineage_relation list \<times> run_request) res" where
  "inspected_facts H I run_id verify_bytes =
     bindE (wrapE any_error InspectionError (validate_identifier run_id)) (\<lambda>_.
     bindE (all_events H I) (\<lambda>all.
     let events = events_of run_id all in
     bindE (guardE (events \<noteq> []) InspectionError) (\<lambda>_.
     bindE (run_start events) (\<lambda>start.
     bindE (request_from_start H start) (\<lambda>request.
     bindE (all_relations H I) (\<lambda>rels.
     bindE (mapE (check_artifact H I verify_bytes) (rq_input_artifact_ids request)) (\<lambda>_.
     bindE (check_references H I verify_bytes all rels) (\<lambda>_.
     Inr (all, events, rels, request)))))))))"

definition derived_view ::
    "host \<Rightarrow> string \<Rightarrow> ledger_event list \<Rightarrow> ledger_event list \<Rightarrow> lineage_relation list \<Rightarrow> run_request
     \<Rightarrow> run_inspection res" where
  "derived_view H run_id all events rels request =
     bindE (project_calls H events) (\<lambda>(calls, pending_call, unresolved).
     bindE (inspected_status H events pending_call unresolved) (\<lambda>st.
     bindE (runtime_profile request) (\<lambda>(profile_ref, profile_digest).
     bindE (digest_json H (JArr (map event_to_dict all))) (\<lambda>ledger_digest.
     bindE (digest_json H (JArr (map relation_to_dict rels))) (\<lambda>lineage_digest.
     bindE (request_sha256 H request) (\<lambda>request_digest.
     run_inspection_init
       \<lparr>ri_run_id = rq_run_id request, ri_request_digest = request_digest, ri_goal = rq_goal request,
        ri_initial_artifact_ids = rq_input_artifact_ids request,
        ri_policy_digest = rq_tool_policy_digest request, ri_status = st,
        ri_decision_count = int (length (of_type DECISION_RECORDED events)),
        ri_tool_call_count = int (length (of_type TOOL_CALL_MATERIALIZED events)),
        ri_step_count = int (length (materialized_steps events)),
        ri_materialized_calls = calls, ri_pending_call = pending_call,
        ri_review_request_state = review_state_of events,
        ri_failure_summary = map failure_fields (of_type TOOL_EXECUTION_FAILED events),
        ri_lineage_relations = lineage_for_run run_id events rels,
        ri_final_artifact_ids = final_artifacts request calls,
        ri_referenced_artifact_ids = run_references events (final_artifacts request calls),
        ri_event_ids = map ev_event_id events,
        ri_ledger_sha256 = ledger_digest, ri_lineage_sha256 = lineage_digest,
        ri_runtime_profile_ref = profile_ref, ri_runtime_profile_digest = profile_digest\<rparr>))))))"

definition inspect_run :: "host \<Rightarrow> inspector \<Rightarrow> string \<Rightarrow> bool \<Rightarrow> run_inspection res" where
  "inspect_run H I run_id verify_bytes =
     bindE (inspected_facts H I run_id verify_bytes) (\<lambda>(all, events, rels, request).
     derived_view H run_id all events rels request)"

definition occurrences :: "string \<Rightarrow> string \<Rightarrow> lineage_relation list \<Rightarrow> lineage_relation list" where
  "occurrences relation_type artifact_id rels =
     filter (\<lambda>r. rel_subject_id r = artifact_id \<and> rel_relation_type r = relation_type) rels"

definition inspect_artifact :: "host \<Rightarrow> inspector \<Rightarrow> string \<Rightarrow> artifact_inspection res" where
  "inspect_artifact H I artifact_id =
     bindE (wrapE any_error InspectionIntegrityError (verify H (in_store I) artifact_id)) (\<lambda>rec.
     bindE (all_relations H I) (\<lambda>rels.
     bindE (all_events H I) (\<lambda>all.
     bindE (check_references H I True all rels) (\<lambda>_.
     artifact_inspection_init
       \<lparr>ai_artifact_id = ar_artifact_id rec, ai_sha256 = ar_sha256 rec, ai_media_type = ar_media_type rec,
        ai_schema_name = ar_schema_name rec, ai_schema_version = ar_schema_version rec,
        ai_size_bytes = ar_size_bytes rec, ai_stored_at = ar_stored_at rec,
        ai_producer_occurrences = map safe_relation (occurrences ''PRODUCED_BY'' (ar_artifact_id rec) rels),
        ai_consumer_occurrences = map safe_relation (occurrences ''CONSUMED_BY'' (ar_artifact_id rec) rels),
        ai_derived_from = map rel_object_id (occurrences ''DERIVED_FROM'' (ar_artifact_id rec) rels),
        ai_supported_by = map rel_object_id (occurrences ''SUPPORTED_BY'' (ar_artifact_id rec) rels)\<rparr>))))"

definition events_for_run :: "host \<Rightarrow> inspector \<Rightarrow> string \<Rightarrow> ledger_event list res" where
  "events_for_run H I run_id =
     bindE (inspect_run H I run_id True) (\<lambda>_.
     bindE (all_events H I) (\<lambda>all. Inr (events_of run_id all)))"

end
