(* ===== verification/InspectionLemmas.thy ===== *)
theory InspectionLemmas
  imports Inspection LoopExamples
begin

text \<open>
  How the inspector's projection relates to the ledger and to the loop's projection: the grouping of
  a run's events by call, what an accepted inspection has verified, the errors it raises, and, on the
  histories that the protocol reaches, the agreement with the loop.
\<close>

section \<open>Grouping the events of a run by call\<close>

definition concerns :: "string \<Rightarrow> ledger_event \<Rightarrow> bool" where
  "concerns k e = (ev_event_type e \<noteq> TOOL_CALL_MATERIALIZED \<and> metadata_call_id e = Some k)"

definition group_id :: "call_group \<Rightarrow> string" where
  "group_id g = tc_call_id (cg_call g)"

definition grouped :: "host \<Rightarrow> ledger_event list \<Rightarrow> call_group list \<Rightarrow> bool" where
  "grouped H es gs =
     (distinct (map group_id gs) \<and> map cg_event gs = of_type TOOL_CALL_MATERIALIZED es
      \<and> (\<forall>g \<in> set gs. materialized_entry H (cg_event g) (Some (group_id g)) = Inr (cg_call g)
           \<and> metadata_call_id (cg_event g) = Some (group_id g) \<and> cg_related g = filter (concerns (group_id g)) es)
      \<and> (\<forall>e \<in> set es. inspected_call_id e = Inr (metadata_call_id e)
           \<and> (\<forall>k. concerns k e \<longrightarrow> k \<in> group_id ` set gs)))"

lemma inspected_call_id_eq: "inspected_call_id e = Inr k \<Longrightarrow> metadata_call_id e = k"
  by (auto simp: inspected_call_id_def metadata_call_id_def split: json.splits)

lemma in_groups_iff: "in_groups k gs \<longleftrightarrow> k \<in> group_id ` set gs"
  by (auto simp: in_groups_def list_ex_iff group_id_def)

lemma materialized_entry_id: "materialized_entry H e k = Inr c \<Longrightarrow> k = Some (tc_call_id c)"
  by (auto simp: materialized_entry_def split: json.splits)

lemma group_simps [simp]:
  "group_id \<lparr>cg_call = c, cg_event = e, cg_related = rs\<rparr> = tc_call_id c"
  "group_id (g\<lparr>cg_related := rs\<rparr>) = group_id g"
  by (simp_all add: group_id_def)

lemma add_related_ids [simp]: "map group_id (add_related k e gs) = map group_id gs"
  "map cg_event (add_related k e gs) = map cg_event gs"
  by (induction gs) (simp_all add: add_related_def)

lemma gather_event_grouped:
  assumes "grouped H es gs" "gather_event H gs e = Inr gs'"
  shows "grouped H (es @ [e]) gs'"
proof -
  from assms(2) obtain ko where k: "inspected_call_id e = Inr ko" and
    step: "(if ev_event_type e = TOOL_CALL_MATERIALIZED then
       bindE (materialized_entry H e ko) (\<lambda>call.
       if in_groups (tc_call_id call) gs then Inl InspectionIntegrityError
       else Inr (gs @ [\<lparr>cg_call = call, cg_event = e, cg_related = []\<rparr>]))
     else case ko of
         None \<Rightarrow> Inr gs
       | Some k \<Rightarrow>
           if ev_event_type e \<notin> set call_event_types then Inl InspectionIntegrityError
           else if \<not> in_groups k gs then Inl InspectionIntegrityError
           else Inr (add_related k e gs)) = Inr gs'"
    by (auto simp: gather_event_def)
  note id = inspected_call_id_eq [OF k]
  show ?thesis
  proof (cases "ev_event_type e = TOOL_CALL_MATERIALIZED")
    case True
    with step obtain c where c: "materialized_entry H e ko = Inr c" "\<not> in_groups (tc_call_id c) gs"
      and gs': "gs' = gs @ [\<lparr>cg_call = c, cg_event = e, cg_related = []\<rparr>]" by (auto split: if_splits)
    note ko = materialized_entry_id [OF c(1)]
    have "filter (concerns (tc_call_id c)) es = []"
      using assms(1) c(2) by (auto simp: grouped_def filter_empty_conv in_groups_iff)
    with assms(1) True c k id ko show ?thesis
      by (auto simp: gs' grouped_def concerns_def in_groups_iff)
  next
    case False
    show ?thesis
    proof (cases ko)
      case None
      with False step assms(1) k id show ?thesis by (auto simp: grouped_def concerns_def)
    next
      case (Some i)
      with False step have i: "i \<in> group_id ` set gs" and gs': "gs' = add_related i e gs"
        by (auto simp: in_groups_iff split: if_splits)
      have ids: "group_id ` set gs' = group_id ` set gs"
        unfolding gs' set_map [symmetric] add_related_ids by simp
      have "materialized_entry H (cg_event g) (Some (group_id g)) = Inr (cg_call g)
          \<and> metadata_call_id (cg_event g) = Some (group_id g)
          \<and> cg_related g = filter (concerns (group_id g)) (es @ [e])" if g: "g \<in> set gs'" for g
      proof -
        from g gs' obtain g0 where g0: "g0 \<in> set gs"
          "g = (if group_id g0 = i then g0\<lparr>cg_related := cg_related g0 @ [e]\<rparr> else g0)"
          by (auto simp: add_related_def group_id_def)
        with assms(1) False id Some show ?thesis
          by (auto simp: grouped_def concerns_def group_id_def)
      qed
      moreover have "map group_id gs' = map group_id gs" "map cg_event gs' = map cg_event gs"
        by (simp_all add: gs')
      moreover have "inspected_call_id x = Inr (metadata_call_id x) \<and> (\<forall>k. concerns k x \<longrightarrow> k \<in> group_id ` set gs')"
        if "x \<in> set (es @ [e])" for x
        using that assms(1) i k id Some by (auto simp: grouped_def concerns_def ids)
      ultimately show ?thesis using assms(1) False by (simp add: grouped_def)
    qed
  qed
qed

lemma gather_calls_append: "gather_calls H gs (es @ fs) = bindE (gather_calls H gs es) (\<lambda>gs'. gather_calls H gs' fs)"
proof (induction es arbitrary: gs)
  case (Cons e es)
  then show ?case by (cases "gather_event H gs e") simp_all
qed simp

lemma gather_calls_grouped: "gather_calls H [] es = Inr gs \<Longrightarrow> grouped H es gs"
proof (induction es arbitrary: gs rule: rev_induct)
  case Nil
  then show ?case by (simp add: grouped_def)
next
  case (snoc e es)
  then show ?case by (auto simp: gather_calls_append intro: gather_event_grouped)
qed

text \<open>An accepted projection is one inspection per group.\<close>

lemma project_calls_groups:
  assumes "project_calls H es = Inr (calls, pending, unresolved)"
  obtains gs projected where "gather_calls H [] es = Inr gs" "grouped H es gs"
    "mapE (project_group H) gs = Inr projected" "calls = map fst projected"
    "pending = last_of (List.map_filter (\<lambda>p. snd (snd p)) projected)"
    "length (filter (\<lambda>p. fst (snd p)) projected) \<le> 1" "unresolved = (filter (\<lambda>p. fst (snd p)) projected \<noteq> [])"
  using assms gather_calls_grouped [of H es] by (auto simp: project_calls_def Let_def)

lemma call_inspection_init_keeps: 
  assumes "call_inspection_init t = Inr t'"
  shows "t' = t"
proof -
  have ids: "mapE validate_identifier xs = Inr ys \<Longrightarrow> ys = xs" "mapE validate_artifact_id xs = Inr ys \<Longrightarrow> ys = xs"
    for xs ys by (subst (asm) mapE_id_iff; simp)+
  from assms obtain inputs outputs event_ids arguments where
    "mapE validate_artifact_id (ti_input_artifact_ids t) = Inr inputs"
    "mapE validate_artifact_id (ti_output_artifact_ids t) = Inr outputs"
    "mapE validate_identifier (ti_event_ids t) = Inr event_ids"
    "freeze_json_mapping (JObj (ti_arguments t)) = Inr arguments"
    "t' = t\<lparr>ti_arguments := arguments, ti_input_artifact_ids := inputs,
      ti_output_artifact_ids := outputs, ti_event_ids := event_ids\<rparr>"
    by (simp only: call_inspection_init_def bindE_eq_Inr sum.inject) blast
  then show ?thesis by (auto dest!: ids split: if_splits)
qed

lemma pending_status: "execution_status_of ap ss fs = ''PENDING'' \<longleftrightarrow>
    \<not> rejecting ap \<and> ss = [] \<and> fs = []"
  by (auto simp: execution_status_of_def split: list.splits)

text \<open>What an accepted call says of its events\<close>

lemma project_group_facts:
  assumes "project_group H g = Inr (t, u, m)"
  obtains ap where "inspected_approval H (cg_call g) (of_type APPROVAL_RECORDED (cg_related g)) = Inr ap"
    "length (finishing (cg_related g)) \<le> 1"
    "of_type TOOL_CALL_REJECTED (cg_related g) = [] \<or> rejecting ap"
    "u \<longleftrightarrow> \<not> rejecting ap \<and> of_type TOOL_EXECUTION_STARTED (cg_related g) = [] \<and> finishing (cg_related g) = []"
    "u \<and> of_type APPROVAL_REQUIRED (cg_related g) \<noteq> [] \<and> ap = None \<and> (\<exists>d. call_mapping H (cg_call g) = Inr d \<and> m = Some d)
      \<or> \<not> (u \<and> of_type APPROVAL_REQUIRED (cg_related g) \<noteq> [] \<and> ap = None) \<and> m = None"
    "ti_output_artifact_ids t = success_outputs (finishing (cg_related g))"
    "okE (inspected_outcome H (finishing (cg_related g)))"
proof -
  let ?rel = "cg_related g"
  from assms obtain digest ap outcome where
    ap: "inspected_approval H (cg_call g) (of_type APPROVAL_RECORDED ?rel) = Inr ap" and
    len: "length (of_type TOOL_CALL_REJECTED ?rel) \<le> 1 \<and> length (of_type TOOL_EXECUTION_STARTED ?rel) \<le> 1
      \<and> length (finishing ?rel) \<le> 1" and
    rej: "of_type TOOL_CALL_REJECTED ?rel = [] \<or> rejecting ap" and
    oc: "inspected_outcome H (finishing ?rel) = Inr outcome" and
    u: "u = (execution_status_of ap (of_type TOOL_EXECUTION_STARTED ?rel) (finishing ?rel) = ''PENDING'')" and
    m: "(if u \<and> of_type APPROVAL_REQUIRED ?rel \<noteq> [] \<and> ap = None
        then bindE (call_mapping H (cg_call g)) (\<lambda>m. Inr (Some m)) else Inr None) = Inr m" and
    t: "call_inspection_init (call_inspection_of (cg_call g) digest (of_type APPROVAL_REQUIRED ?rel \<noteq> []) ap
        (execution_status_of ap (of_type TOOL_EXECUTION_STARTED ?rel) (finishing ?rel)) (finishing ?rel)
        outcome (ev_event_id (cg_event g) # map ev_event_id ?rel)) = Inr t"
    by (simp only: project_group_def Let_def bindE_eq_Inr guardE_eq_Inr sum.inject prod.inject) blast
  have "ti_output_artifact_ids t = success_outputs (finishing ?rel)"
    by (simp add: call_inspection_init_keeps [OF t] call_inspection_of_def)
  with ap len rej oc m show ?thesis
    by (intro that [of ap]) (auto simp: u pending_status split: if_splits)
qed


section \<open>The same calls as the loop\<close>

lemma scanned_calls:
  "mapE (scan_event H) es = Inr scanned \<Longrightarrow>
    list_all2 (\<lambda>e c. materialized_call H e = Inr c) (of_type TOOL_CALL_MATERIALIZED es) (List.map_filter id scanned)"
proof (induction es arbitrary: scanned)
  case (Cons e es)
  then obtain x xs where x: "scan_event H e = Inr x" "mapE (scan_event H) es = Inr xs" "scanned = x # xs" by auto
  have "x = None" if "ev_event_type e \<noteq> TOOL_CALL_MATERIALIZED"
    using x(1) that by (auto simp: scan_event_def)
  moreover have "\<exists>c. x = Some c \<and> materialized_call H e = Inr c" if "ev_event_type e = TOOL_CALL_MATERIALIZED"
    using x(1) that by (auto simp: scan_event_def)
  ultimately show ?case using Cons.IH [OF x(2)] x(3) by (auto simp: List.map_filter_simps)
qed (simp add: List.map_filter_simps)

lemma same_call: "materialized_call H e = Inr c \<Longrightarrow> materialized_entry H e k = Inr c' \<Longrightarrow> c = c'"
  by (auto simp: materialized_call_def materialized_entry_def split: json.splits if_splits)

lemma states_of_groups:
  assumes "project H es = Inr p" "grouped H es gs"
  shows "list_all2 (\<lambda>g st. call_state_of H es (cg_call g) = Inr st) gs (pj_call_states p)"
proof -
  from project_states [OF assms(1)] obtain scanned where s: "mapE (scan_event H) es = Inr scanned"
    "mapE (call_state_of H es) (List.map_filter id scanned) = Inr (pj_call_states p)" by blast
  have "of_type TOOL_CALL_MATERIALIZED es = map cg_event gs" using assms(2) by (simp add: grouped_def)
  with scanned_calls [OF s(1)]
  have "list_all2 (\<lambda>g c. materialized_call H (cg_event g) = Inr c) gs (List.map_filter id scanned)"
    by (simp add: list_all2_map1)
  moreover have "\<forall>g \<in> set gs. materialized_entry H (cg_event g) (Some (group_id g)) = Inr (cg_call g)"
    using assms(2) by (simp add: grouped_def)
  ultimately have "List.map_filter id scanned = map cg_call gs"
    by (induction rule: list_all2_induct) (auto dest: same_call)
  with s(2) show ?thesis by (simp add: mapE_eq_Inr list_all2_map1)
qed

lemma of_type_group:
  assumes "grouped H es gs" "g \<in> set gs" "t \<noteq> TOOL_CALL_MATERIALIZED"
  shows "of_type t (related_events (tc_call_id (cg_call g)) es) = of_type t (cg_related g)"
  using assms
  by (auto simp: grouped_def of_type_def related_events_def concerns_def group_id_def intro!: filter_cong)

lemma finishing_group:
  assumes "grouped H es gs" "g \<in> set gs"
  shows "finishing (related_events (tc_call_id (cg_call g)) es) = finishing (cg_related g)"
  using assms
  by (auto simp: grouped_def finishing_def related_events_def concerns_def group_id_def intro!: filter_cong)

lemma same_approval:
  assumes "at_most_one evs = Inr ae" "recorded_approval H c ae = Inr a" "inspected_approval H c evs = Inr b"
  shows "b = a"
  using assms by (auto simp: at_most_one_eq recorded_approval_def inspected_approval_def split: json.splits)

text \<open>A call's state in the loop's projection beside its group\<close>

lemma state_of_group:
  assumes "grouped H es gs" "g \<in> set gs" "call_state_of H es (cg_call g) = Inr st"
    and "inspected_approval H (cg_call g) (of_type APPROVAL_RECORDED (cg_related g)) = Inr ap"
  shows "cs_call st = cg_call g" "cs_approval st = ap"
    "cs_approval_required st = (of_type APPROVAL_REQUIRED (cg_related g) \<noteq> [])"
    "cs_started_event st = None \<longleftrightarrow> of_type TOOL_EXECUTION_STARTED (cg_related g) = []"
    "\<not> rejecting ap \<Longrightarrow> cs_terminal_event st = None \<longleftrightarrow> finishing (cg_related g) = []"
proof -
  note rel = of_type_group [OF assms(1,2)] finishing_group [OF assms(1,2)]
  from assms(3) obtain ae a re se fe where
    ae: "at_most_one (of_type APPROVAL_RECORDED (cg_related g)) = Inr ae" "recorded_approval H (cg_call g) ae = Inr a" and
    se: "at_most_one (of_type TOOL_EXECUTION_STARTED (cg_related g)) = Inr se" and
    fe: "at_most_one (finishing (cg_related g)) = Inr fe" and
    st: "st = \<lparr>cs_call = cg_call g, cs_approval_required = (of_type APPROVAL_REQUIRED (cg_related g) \<noteq> []),
        cs_approval = a, cs_approval_event = ae, cs_rejected_event = re, cs_started_event = se,
        cs_terminal_event = (if rejecting a then re else fe)\<rparr>"
    by (simp only: call_state_of_def Let_def bindE_eq_Inr sum.inject rel finishing_def [symmetric]
        event_type_distinct not_False_eq_True) blast
  from same_approval [OF ae assms(4)] have [simp]: "a = ap" by simp
  show "cs_call st = cg_call g" "cs_approval st = ap"
    "cs_approval_required st = (of_type APPROVAL_REQUIRED (cg_related g) \<noteq> [])"
    by (simp_all add: st)
  show "cs_started_event st = None \<longleftrightarrow> of_type TOOL_EXECUTION_STARTED (cg_related g) = []"
    using se by (auto simp: st at_most_one_eq)
  show "cs_terminal_event st = None \<longleftrightarrow> finishing (cg_related g) = []" if "\<not> rejecting ap"
    using fe that by (auto simp: st at_most_one_eq)
qed

lemma only_pending:
  assumes "list_all2 (\<lambda>p st. (snd (snd p) = None \<longleftrightarrow> \<not> A st)
      \<and> (\<forall>d. snd (snd p) = Some d \<longrightarrow> fst (snd p) \<and> F st = Inr d)) ps sts"
    and "length (filter (\<lambda>p. fst (snd p)) ps) \<le> 1"
  shows "(case head_of (filter A sts) of None \<Rightarrow> Inr None | Some st \<Rightarrow> bindE (F st) (\<lambda>d. Inr (Some d)))
    = Inr (last_of (List.map_filter (\<lambda>p. snd (snd p)) ps))"
  using assms
proof (induction rule: list_all2_induct)
  case Nil
  show ?case by (simp add: head_of_def last_of_def List.map_filter_simps)
next
  case (Cons p ps st sts)
  show ?case
  proof (cases "snd (snd p)")
    case None
    with Cons show ?thesis by (simp add: List.map_filter_simps split: if_splits)
  next
    case (Some d)
    with Cons have "filter (\<lambda>p. fst (snd p)) ps = []" by simp
    then have "\<forall>q \<in> set ps. \<not> fst (snd q)" by (simp add: filter_empty_conv)
    with Cons.hyps(2) have "List.map_filter (\<lambda>p. snd (snd p)) ps = []"
      by (induction rule: list_all2_induct) (auto simp: List.map_filter_simps split: option.splits)
    with Cons.hyps(1) Some show ?thesis by (simp add: List.map_filter_simps head_of_def last_of_def)
  qed
qed

lemma group_awaits:
  assumes "grouped H es gs" "g \<in> set gs" "call_state_of H es (cg_call g) = Inr st" "project_group H g = Inr q"
  shows "(snd (snd q) = None \<longleftrightarrow> \<not> awaits_approval st)
    \<and> (\<forall>d. snd (snd q) = Some d \<longrightarrow> fst (snd q) \<and> call_mapping H (cs_call st) = Inr d)"
proof -
  obtain t u m where q: "q = (t, u, m)" by (cases q)
  from project_group_facts [OF assms(4) [unfolded q]] obtain ap where
    ap: "inspected_approval H (cg_call g) (of_type APPROVAL_RECORDED (cg_related g)) = Inr ap"
    and u: "u \<longleftrightarrow> \<not> rejecting ap \<and> of_type TOOL_EXECUTION_STARTED (cg_related g) = [] \<and> finishing (cg_related g) = []"
    and m: "u \<and> of_type APPROVAL_REQUIRED (cg_related g) \<noteq> [] \<and> ap = None \<and> (\<exists>d. call_mapping H (cg_call g) = Inr d \<and> m = Some d)
      \<or> \<not> (u \<and> of_type APPROVAL_REQUIRED (cg_related g) \<noteq> [] \<and> ap = None) \<and> m = None"
    by metis
  note st = state_of_group [OF assms(1-3) ap]
  have "awaits_approval st \<longleftrightarrow> u \<and> of_type APPROVAL_REQUIRED (cg_related g) \<noteq> [] \<and> ap = None"
    using st by (auto simp: awaits_approval_def open_state_def u rejecting_def)
  with m st(1) show ?thesis by (auto simp: q)
qed

lemma list_all2_join: "list_all2 P xs ys \<Longrightarrow> list_all2 Q xs zs \<Longrightarrow>
    (\<And>x y z. x \<in> set xs \<Longrightarrow> P x y \<Longrightarrow> Q x z \<Longrightarrow> R y z) \<Longrightarrow> list_all2 R ys zs"
  unfolding list_all2_conv_all_nth by (metis nth_mem)

lemma pending_agrees:
  assumes "project H es = Inr p" "project_calls H es = Inr (calls, pending, unresolved)"
  shows "pending_mapping H p = Inr pending"
proof -
  from project_calls_groups [OF assms(2)] obtain gs projected where g: "grouped H es gs"
    "mapE (project_group H) gs = Inr projected" "pending = last_of (List.map_filter (\<lambda>p. snd (snd p)) projected)"
    "length (filter (\<lambda>p. fst (snd p)) projected) \<le> 1" by metis
  from project_states [OF assms(1)] have "projection_of es (pj_call_states p) = Inr p" by blast
  then have "pj_pending_approval p = head_of (filter awaits_approval (pj_call_states p))" by (rule projection_fields(2))
  moreover have "list_all2 (\<lambda>q st. (snd (snd q) = None \<longleftrightarrow> \<not> awaits_approval st)
      \<and> (\<forall>d. snd (snd q) = Some d \<longrightarrow> fst (snd q) \<and> call_mapping H (cs_call st) = Inr d)) projected (pj_call_states p)"
    by (rule list_all2_join [OF g(2) [unfolded mapE_eq_Inr] states_of_groups [OF assms(1) g(1)]])
      (rule group_awaits [OF g(1)], assumption+)
  ultimately show ?thesis using only_pending [OF _ g(4)] by (simp add: pending_mapping_def g(3))
qed

section \<open>Histories that the protocol reaches\<close>

lemma reachable_started:
  assumes "reachable H r es" "e \<in> set es" "ev_event_type e = TOOL_EXECUTION_STARTED"
  shows "metadata_call_id e \<noteq> None"
proof -
  from assms(2) obtain xs ys where "es = xs @ e # ys" by (auto simp: in_set_conv_decomp)
  with reachable_prefix [of H r "xs @ [e]" ys] assms(1) obtain W where "protocol_step W r xs e"
    by (auto simp: reachable_snoc)
  from step_types(4) [OF this assms(3)] show ?thesis by auto
qed

text \<open>A call that was started has no rejecting approval.\<close>

lemma reachable_not_rejected:
  assumes "reachable H r es" "call_state_of H es c = Inr st" "has_event TOOL_EXECUTION_STARTED (tc_call_id c) es"
  shows "\<not> rejecting (cs_approval st)"
proof
  let ?k = "tc_call_id c"
  assume "rejecting (cs_approval st)"
  then obtain a where a: "cs_approval st = Some a" "ap_decision a = ''REJECTED''"
    by (auto simp: rejecting_def split: option.splits)
  from call_state_facts(5) [OF assms(2) a(1)] obtain e where
    e: "e \<in> set es" "ev_event_type e = APPROVAL_RECORDED" "metadata_call_id e = Some ?k" "approval_of H e = Inr a" by blast
  from e(1) obtain xs ys where es: "es = xs @ e # ys" by (auto simp: in_set_conv_decomp)
  with reachable_prefix [of H r "xs @ [e]" ys] assms(1) obtain W where "protocol_step W r xs e"
    by (auto simp: reachable_snoc)
  from step_recorded [OF this e(2)] e(3) es have req: "has_event APPROVAL_REQUIRED ?k es" by auto
  from assms(3) obtain s where s: "s \<in> set es" "ev_event_type s = TOOL_EXECUTION_STARTED" "metadata_call_id s = Some ?k"
    by (auto simp: has_event_def)
  from s(1) obtain us vs where es': "es = us @ s # vs" by (auto simp: in_set_conv_decomp)
  with reachable_prefix [of H r "us @ [s]" vs] assms(1) obtain V where
    "protocol_step V r us s" "w_host V = H" by (auto simp: reachable_snoc)
  from step_types(4) [OF this(1) s(2)] this(2) s(3) obtain c' where c': "tc_call_id c' = ?k"
    "has_event APPROVAL_REQUIRED ?k us \<longrightarrow> approved_in H c' us" by auto
  have "\<not> has_event APPROVAL_REQUIRED ?k vs"
  proof
    assume "has_event APPROVAL_REQUIRED ?k vs"
    then obtain q where q: "q \<in> set vs" "ev_event_type q = APPROVAL_REQUIRED" "metadata_call_id q = Some ?k"
      by (auto simp: has_event_def)
    from q(1) obtain v1 v2 where "vs = v1 @ q # v2" by (auto simp: in_set_conv_decomp)
    with reachable_required [of H r "us @ s # v1" q v2 ?k] assms(1) es' q s show False by simp
  qed
  with req s es' c' have "approved_in H c' us" by auto
  then obtain e' a' where e': "e' \<in> set us" "ev_event_type e' = APPROVAL_RECORDED" "metadata_call_id e' = Some ?k"
    "approval_of H e' = Inr a'" "ap_decision a' = ''APPROVED''" using c'(1) by (auto simp: approved_in_def)
  from assms(2) obtain ae where "at_most_one (of_type APPROVAL_RECORDED (related_events ?k es)) = Inr ae"
    by (simp only: call_state_of_def Let_def bindE_eq_Inr) blast
  moreover have "{e, e'} \<subseteq> set (of_type APPROVAL_RECORDED (related_events ?k es))"
    using e e' es' by (auto simp: in_of_type_related)
  ultimately have "e = e'" by (auto simp: at_most_one_eq)
  with e(4) e'(4,5) a(2) show False by simp
qed

text \<open>Before the first call a run only starts, decides, asks for a review and ends; nothing follows the review.\<close>

lemma reachable_no_calls:
  assumes "reachable H r es" "of_type TOOL_CALL_MATERIALIZED es = []"
  shows "(\<forall>e \<in> set es. ev_event_type e \<in> {RUN_STARTED, DECISION_RECORDED, REVIEW_REQUESTED} \<union> set terminal_event_types)
    \<and> (of_type REVIEW_REQUESTED es \<noteq> [] \<longrightarrow> ended es \<or> reviewing es)"
  using assms
proof (induction rule: reachable.induct)
  case (step fs W e)
  then have IH: "\<forall>e \<in> set fs. ev_event_type e \<in> {RUN_STARTED, DECISION_RECORDED, REVIEW_REQUESTED} \<union> set terminal_event_types"
    "of_type REVIEW_REQUESTED fs \<noteq> [] \<Longrightarrow> ended fs \<or> reviewing fs" and none: "of_type TOOL_CALL_MATERIALIZED fs = []"
    and e: "ev_event_type e \<noteq> TOOL_CALL_MATERIALIZED"
    by (auto split: if_splits)
  have "\<not> materialized_in H c fs" for c
    using none by (auto simp: materialized_in_def of_type_def filter_empty_conv)
  with step.hyps(3,2) IH e show ?case
    by (cases rule: protocol_step.cases) (auto simp: reviewing_def)
qed simp


section \<open>The status\<close>

lemma inspected_id_value: "inspected_call_id e = Inr k \<Longrightarrow> jget (ev_metadata e) ''call_id'' = jstr_opt k"
  by (auto simp: inspected_call_id_def jstr_opt_def split: json.splits)

lemma left_running_iff:
  assumes "\<forall>e \<in> set es. inspected_call_id e = Inr (metadata_call_id e)"
    and "\<And>e. e \<in> set es \<Longrightarrow> ev_event_type e = TOOL_EXECUTION_STARTED \<Longrightarrow> metadata_call_id e \<noteq> None"
  shows "left_running H es \<longleftrightarrow> (\<exists>k. has_event TOOL_EXECUTION_STARTED k es
    \<and> (\<forall>e \<in> set (finishing es). metadata_call_id e \<noteq> Some k))"
proof -
  have id: "e \<in> set es \<Longrightarrow> jget (ev_metadata e) ''call_id'' = jstr_opt (metadata_call_id e)" for e
    using assms(1) inspected_id_value by blast
  have "json_eq f (jstr_opt x) (jstr_opt (Some k)) \<longleftrightarrow> x = Some k" for f x k
    by (cases x) (auto simp: jstr_opt_def)
  then have eq: "json_eq (float_eq H) (jget (ev_metadata l) ''call_id'') (jget (ev_metadata e) ''call_id'')
      \<longleftrightarrow> metadata_call_id l = Some k"
    if "l \<in> set (finishing es)" "e \<in> set es" "metadata_call_id e = Some k" for l e k
    using that id by (simp add: finishing_def)
  show ?thesis
  proof
    assume "left_running H es"
    then obtain e where e: "e \<in> set es" "ev_event_type e = TOOL_EXECUTION_STARTED"
      "\<forall>l \<in> set (finishing es). \<not> json_eq (float_eq H) (jget (ev_metadata l) ''call_id'') (jget (ev_metadata e) ''call_id'')"
      by (auto simp: left_running_def list_ex_iff)
    with assms(2) obtain k where "metadata_call_id e = Some k" by blast
    with e eq show "\<exists>k. has_event TOOL_EXECUTION_STARTED k es
      \<and> (\<forall>e \<in> set (finishing es). metadata_call_id e \<noteq> Some k)"
      unfolding has_event_def by blast
  next
    assume "\<exists>k. has_event TOOL_EXECUTION_STARTED k es \<and> (\<forall>e \<in> set (finishing es). metadata_call_id e \<noteq> Some k)"
    then show "left_running H es" using eq unfolding left_running_def list_ex_iff has_event_def by blast
  qed
qed

lemma interrupted_agrees:
  assumes "reachable H r es" "project H es = Inr p" "project_calls H es = Inr (calls, pending, unresolved)"
  shows "left_running H es = pj_interrupted p"
proof -
  from project_calls_groups [OF assms(3)] obtain gs projected where g: "grouped H es gs"
    "mapE (project_group H) gs = Inr projected" by metis
  note states = states_of_groups [OF assms(2) g(1)]
  have here: "(cs_started_event st \<noteq> None \<and> cs_terminal_event st = None)
      \<longleftrightarrow> has_event TOOL_EXECUTION_STARTED (group_id g) es \<and> (\<forall>e \<in> set (finishing es). metadata_call_id e \<noteq> Some (group_id g))"
    if gs: "g \<in> set gs" "call_state_of H es (cg_call g) = Inr st" for g st
  proof -
    from mapE_member(2) [OF g(2) gs(1)] obtain q where "project_group H g = Inr q" by blast
    then obtain ap where "inspected_approval H (cg_call g) (of_type APPROVAL_RECORDED (cg_related g)) = Inr ap"
      by (cases q) (metis project_group_facts)
    note st = state_of_group [OF g(1) gs this]
    have "finishing (cg_related g) = [] \<longleftrightarrow> (\<forall>e \<in> set (finishing es). metadata_call_id e \<noteq> Some (group_id g))"
      using finishing_group [OF g(1) gs(1), symmetric]
      by (auto simp: finishing_def related_events_def filter_empty_conv group_id_def)
    with st call_state_facts(2) [OF gs(2)] reachable_not_rejected [OF assms(1) gs(2)] show ?thesis
      by (auto simp: group_id_def)
  qed
  have member: "\<exists>st \<in> set (pj_call_states p). call_state_of H es (cg_call g) = Inr st" if "g \<in> set gs" for g
    using states that unfolding list_all2_conv_all_nth in_set_conv_nth Bex_def by metis
  have owner: "\<exists>g \<in> set gs. call_state_of H es (cg_call g) = Inr st" if "st \<in> set (pj_call_states p)" for st
    using states that unfolding list_all2_conv_all_nth in_set_conv_nth Bex_def by metis
  have grp: "\<exists>g \<in> set gs. group_id g = k" if k: "has_event TOOL_EXECUTION_STARTED k es" for k
    using k g(1) by (fastforce simp: grouped_def has_event_def concerns_def)
  from project_states [OF assms(2)] have "projection_of es (pj_call_states p) = Inr p" by blast
  then have int: "pj_interrupted p \<longleftrightarrow> (\<exists>st \<in> set (pj_call_states p). cs_started_event st \<noteq> None \<and> cs_terminal_event st = None)"
    by (auto simp: projection_fields(5) list_ex_iff)
  have "left_running H es \<longleftrightarrow> (\<exists>k. has_event TOOL_EXECUTION_STARTED k es
      \<and> (\<forall>e \<in> set (finishing es). metadata_call_id e \<noteq> Some k))"
    using g(1) reachable_started [OF assms(1)] by (intro left_running_iff) (auto simp: grouped_def)
  also have "\<dots> \<longleftrightarrow> pj_interrupted p"
  proof
    assume "\<exists>k. has_event TOOL_EXECUTION_STARTED k es \<and> (\<forall>e \<in> set (finishing es). metadata_call_id e \<noteq> Some k)"
    then obtain g where g: "g \<in> set gs" "has_event TOOL_EXECUTION_STARTED (group_id g) es"
      "\<forall>e \<in> set (finishing es). metadata_call_id e \<noteq> Some (group_id g)" using grp by blast
    with member [OF g(1)] here [OF g(1)] show "pj_interrupted p" unfolding int by blast
  next
    assume "pj_interrupted p"
    then obtain st where "st \<in> set (pj_call_states p)" "cs_started_event st \<noteq> None \<and> cs_terminal_event st = None"
      unfolding int by blast
    with owner [OF this(1)] here show "\<exists>k. has_event TOOL_EXECUTION_STARTED k es
        \<and> (\<forall>e \<in> set (finishing es). metadata_call_id e \<noteq> Some k)" by blast
  qed
  finally show ?thesis .
qed

lemma review_agrees:
  assumes "reachable H r es" "project H es = Inr p" "\<not> ended es" "distinct (map ev_event_id es)"
  shows "pj_waiting_review p = reviewing es"
proof -
  from project_states [OF assms(2)] obtain scanned where s: "mapE (scan_event H) es = Inr scanned"
    "mapE (call_state_of H es) (List.map_filter id scanned) = Inr (pj_call_states p)"
    "projection_of es (pj_call_states p) = Inr p" by blast
  note w = projection_fields(7) [OF s(3)]
  have "\<not> reviewing es" if "\<not> pj_waiting_review p" using project_facts(5) [OF assms(2) that] .
  moreover have "reviewing es" if p: "pj_waiting_review p"
  proof (cases "pj_call_states p = []")
    case True
    from s(2) True have "List.map_filter id scanned = []" by (simp add: mapE_eq_Inr)
    with scanned_calls [OF s(1)] have "of_type TOOL_CALL_MATERIALIZED es = []" by simp
    with reachable_no_calls [OF assms(1)] p w assms(3) show ?thesis by simp
  next
    case False
    with p w have r: "of_type REVIEW_REQUESTED es \<noteq> []"
      "ev_event_id (last es) = ev_event_id (last (of_type REVIEW_REQUESTED es))" by simp_all
    then have m: "last (of_type REVIEW_REQUESTED es) \<in> set (of_type REVIEW_REQUESTED es)" by simp
    then have "last (of_type REVIEW_REQUESTED es) \<in> set es" "es \<noteq> []" by (auto simp: of_type_def)
    with r(2) assms(4) have "last es = last (of_type REVIEW_REQUESTED es)"
      by (metis distinct_map inj_onD last_in_set)
    with m \<open>es \<noteq> []\<close> show ?thesis by (auto simp: reviewing_def of_type_def)
  qed
  ultimately show ?thesis by blast
qed

lemma status_agrees:
  assumes "reachable H r es" "project H es = Inr p" "project_calls H es = Inr (calls, pending, unresolved)"
    and "distinct (map ev_event_id es)" "inspected_status H es pending unresolved = Inr st"
  shows "st = status_value (projected_status p)"
proof (cases "pj_terminal_event p")
  case (Some t)
  moreover from project_states [OF assms(2)] have "projection_of es (pj_call_states p) = Inr p" by blast
  ultimately show ?thesis
    using assms(5) by (simp add: projection_fields(1) inspected_status_def projected_status_def)
next
  case None
  moreover from project_states [OF assms(2)] have p: "projection_of es (pj_call_states p) = Inr p" by blast
  moreover have "\<not> ended es" using project_facts(1) [OF assms(2)] None by simp
  moreover have "pending = None \<longleftrightarrow> pj_pending_approval p = None"
    using pending_agrees [OF assms(2,3)] by (auto simp: pending_mapping_def split: option.splits)
  ultimately show ?thesis
    using assms(5) interrupted_agrees [OF assms(1-3)] review_agrees [OF assms(1,2) _ assms(4)]
    by (auto simp: projection_fields(1) [OF p] inspected_status_def projected_status_def reviewing_def)
qed

section \<open>Artifacts and counts\<close>

lemma call_inspection_step: "call_inspection_init t = Inr t' \<Longrightarrow> is_identifier (ti_step_id t)"
  by (simp only: call_inspection_init_def bindE_eq_Inr validate_identifier_eq) blast

lemma project_group_step:
  assumes "project_group H g = Inr q"
  shows "is_identifier (tc_step_id (cg_call g))"
proof -
  from assms obtain d req ap x fs oc ids t where "call_inspection_init (call_inspection_of (cg_call g) d req ap x fs oc ids) = Inr t"
    by (simp only: project_group_def Let_def bindE_eq_Inr guardE_eq_Inr sum.inject) blast
  from call_inspection_step [OF this] show ?thesis by (simp add: call_inspection_of_def)
qed

lemma materialized_steps_eq:
  assumes "project_calls H es = Inr (calls, pending, unresolved)"
  shows "materialized_steps es = remdups (List.map_filter ev_step_id (of_type TOOL_CALL_MATERIALIZED es))"
proof -
  from project_calls_groups [OF assms] obtain gs projected where g: "grouped H es gs"
    "mapE (project_group H) gs = Inr projected" by metis
  have "ev_step_id e \<noteq> Some []" if "e \<in> set (of_type TOOL_CALL_MATERIALIZED es)" for e
  proof -
    from that g(1) have "e \<in> cg_event ` set gs" unfolding grouped_def by (metis image_set)
    then obtain x where x: "x \<in> set gs" "cg_event x = e" by blast
    with g(1) have "materialized_entry H e (Some (group_id x)) = Inr (cg_call x)" by (auto simp: grouped_def)
    then have "ev_step_id e = Some (tc_step_id (cg_call x))"
      by (auto simp: materialized_entry_def split: json.splits)
    moreover from mapE_member(2) [OF g(2) x(1)] have "is_identifier (tc_step_id (cg_call x))"
      by (auto dest: project_group_step)
    ultimately show ?thesis by (auto simp: is_identifier_def)
  qed
  then have "filter (\<lambda>i. i \<noteq> []) (List.map_filter ev_step_id (of_type TOOL_CALL_MATERIALIZED es))
      = List.map_filter ev_step_id (of_type TOOL_CALL_MATERIALIZED es)"
    by (intro filter_True) (auto simp: List.map_filter_def)
  then show ?thesis by (simp add: materialized_steps_def)
qed

lemma reachable_finished:
  assumes "reachable H r es" "e \<in> set (finishing es)"
  shows "metadata_call_id e \<noteq> None"
proof -
  from assms(2) have e: "e \<in> set es" "ev_event_type e \<in> {TOOL_EXECUTION_SUCCEEDED, TOOL_EXECUTION_FAILED}"
    by (auto simp: finishing_def)
  from e(1) obtain xs ys where "es = xs @ e # ys" by (auto simp: in_set_conv_decomp)
  with reachable_prefix [of H r "xs @ [e]" ys] assms(1) obtain W where "protocol_step W r xs e"
    by (auto simp: reachable_snoc)
  from step_types(5) [OF this e(2)] show ?thesis by auto
qed

lemma in_finishing_group: "grouped H es gs \<Longrightarrow> g \<in> set gs \<Longrightarrow>
    e \<in> set (finishing (cg_related g)) \<longleftrightarrow> e \<in> set (finishing es) \<and> metadata_call_id e = Some (group_id g)"
  by (auto simp: grouped_def finishing_def concerns_def)

lemma in_success_outputs: "length fs \<le> 1 \<Longrightarrow> i \<in> set (success_outputs fs) \<longleftrightarrow>
    (\<exists>e \<in> set fs. ev_event_type e = TOOL_EXECUTION_SUCCEEDED \<and> i \<in> set (ev_output_artifact_ids e))"
  by (cases fs) (auto simp: success_outputs_def)

lemma outputs_agree:
  assumes "reachable H r es" "project_calls H es = Inr (calls, pending, unresolved)"
  shows "set (concat (map ti_output_artifact_ids calls))
    = set (concat (map ev_output_artifact_ids (of_type TOOL_EXECUTION_SUCCEEDED es)))"
proof -
  from project_calls_groups [OF assms(2)] obtain gs projected where g: "grouped H es gs"
    "mapE (project_group H) gs = Inr projected" "calls = map fst projected" by metis
  have one: "set (ti_output_artifact_ids (fst q)) = {i. \<exists>e \<in> set (finishing es).
      metadata_call_id e = Some (group_id x) \<and> ev_event_type e = TOOL_EXECUTION_SUCCEEDED \<and> i \<in> set (ev_output_artifact_ids e)}"
    if "x \<in> set gs" "project_group H x = Inr q" for x q
  proof -
    obtain t u m where q: "q = (t, u, m)" by (cases q)
    from project_group_facts [OF that(2) [unfolded q]]
    have "length (finishing (cg_related x)) \<le> 1" "ti_output_artifact_ids t = success_outputs (finishing (cg_related x))"
      by metis+
    then show ?thesis
      using in_finishing_group [OF g(1) that(1)] by (auto simp: q in_success_outputs Bex_def)
  qed
  have grp: "\<exists>x \<in> set gs. metadata_call_id e = Some (group_id x)" if e: "e \<in> set (finishing es)" for e
    using g(1) reachable_finished [OF assms(1) e] e by (fastforce simp: grouped_def finishing_def concerns_def)
  have succ: "e \<in> set (of_type TOOL_EXECUTION_SUCCEEDED es) \<longleftrightarrow>
      e \<in> set (finishing es) \<and> ev_event_type e = TOOL_EXECUTION_SUCCEEDED" for e
    by (auto simp: of_type_def finishing_def)
  have proj: "(\<exists>q \<in> set projected. i \<in> set (ti_output_artifact_ids (fst q))) \<longleftrightarrow>
      (\<exists>x \<in> set gs. \<exists>q. project_group H x = Inr q \<and> i \<in> set (ti_output_artifact_ids (fst q)))" for i
    using mapE_member [OF g(2)] by (metis sum.inject(2))
  have all: "\<exists>q. project_group H x = Inr q" if "x \<in> set gs" for x
    using mapE_member(2) [OF g(2) that] by blast
  show ?thesis
  proof (rule set_eqI)
    fix i
    have "i \<in> set (concat (map ti_output_artifact_ids calls)) \<longleftrightarrow>
        (\<exists>x \<in> set gs. \<exists>q. project_group H x = Inr q \<and> i \<in> set (ti_output_artifact_ids (fst q)))"
      unfolding proj [symmetric] by (simp add: g(3))
    also have "\<dots> \<longleftrightarrow> (\<exists>x \<in> set gs. \<exists>e \<in> set (finishing es). metadata_call_id e = Some (group_id x)
        \<and> ev_event_type e = TOOL_EXECUTION_SUCCEEDED \<and> i \<in> set (ev_output_artifact_ids e))"
      using one all by blast
    also have "\<dots> \<longleftrightarrow> (\<exists>e \<in> set (finishing es). ev_event_type e = TOOL_EXECUTION_SUCCEEDED
        \<and> i \<in> set (ev_output_artifact_ids e))"
      using grp by blast
    also have "\<dots> \<longleftrightarrow> i \<in> set (concat (map ev_output_artifact_ids (of_type TOOL_EXECUTION_SUCCEEDED es)))"
      by (auto simp: succ Bex_def)
    finally show "i \<in> set (concat (map ti_output_artifact_ids calls)) \<longleftrightarrow>
      i \<in> set (concat (map ev_output_artifact_ids (of_type TOOL_EXECUTION_SUCCEEDED es)))" .
  qed
qed

section \<open>What an accepted inspection has read\<close>

lemma run_inspection_init_keeps:
  assumes "run_inspection_init i = Inr j"
  shows "j = i"
proof -
  have ids: "mapE validate_identifier xs = Inr ys \<Longrightarrow> ys = xs" "mapE validate_artifact_id xs = Inr ys \<Longrightarrow> ys = xs"
    "mapE (\<lambda>d. if fields_ok d then Inr d else Inl CoreContractError) ds = Inr fs \<Longrightarrow> fs = ds" "freeze_opt_mapping m = Inr n \<Longrightarrow> n = m"
    for xs ys ds fs m n
    by (subst (asm) mapE_id_iff; simp split: if_splits)+ (auto simp: freeze_opt_mapping_def split: option.splits if_splits)
  from assms obtain a b c d e f g where
    "mapE validate_artifact_id (ri_initial_artifact_ids i) = Inr a"
    "mapE validate_artifact_id (ri_final_artifact_ids i) = Inr b"
    "mapE validate_artifact_id (ri_referenced_artifact_ids i) = Inr c"
    "freeze_opt_mapping (ri_pending_call i) = Inr d"
    "mapE (\<lambda>d. freeze_json_mapping (JObj d)) (ri_failure_summary i) = Inr e"
    "mapE (\<lambda>d. freeze_json_mapping (JObj d)) (ri_lineage_relations i) = Inr f"
    "mapE validate_identifier (ri_event_ids i) = Inr g"
    "j = i\<lparr>ri_initial_artifact_ids := a, ri_final_artifact_ids := b, ri_referenced_artifact_ids := c,
       ri_pending_call := d, ri_failure_summary := e, ri_lineage_relations := f, ri_event_ids := g\<rparr>"
    by (simp only: run_inspection_init_def bindE_eq_Inr sum.inject) blast
  then show ?thesis by (auto dest!: ids)
qed

lemma inspect_run_parts:
  assumes "inspect_run H I k vb = Inr i"
  obtains all rels q calls pending unresolved st where
    "read_events H (in_ledger I) = Inr all" "relations H (in_lineage I) = Inr rels"
    "events_of k all \<noteq> []" "\<And>a. a \<in> set (rq_input_artifact_ids q) \<Longrightarrow> okE (check_artifact H I vb a)"
    "\<And>a. a \<in> set (referenced_artifacts all rels) \<Longrightarrow> okE (check_artifact H I vb a)"
    "project_calls H (events_of k all) = Inr (calls, pending, unresolved)"
    "inspected_status H (events_of k all) pending unresolved = Inr st"
    "ri_initial_artifact_ids i = rq_input_artifact_ids q" "ri_status i = st" "ri_pending_call i = pending"
    "ri_decision_count i = int (length (of_type DECISION_RECORDED (events_of k all)))"
    "ri_tool_call_count i = int (length (of_type TOOL_CALL_MATERIALIZED (events_of k all)))"
    "ri_step_count i = int (length (materialized_steps (events_of k all)))"
    "ri_final_artifact_ids i = final_artifacts q calls" "ri_run_id i = rq_run_id q"
    "ri_referenced_artifact_ids i = run_references (events_of k all) (final_artifacts q calls)"
    "ri_event_ids i = map ev_event_id (events_of k all)" "ri_materialized_calls i = calls"
proof -
  from assms obtain all rels q where f: "inspected_facts H I k vb = Inr (all, events_of k all, rels, q)"
    "derived_view H k all (events_of k all) rels q = Inr i"
    by (auto simp: inspect_run_def inspected_facts_def Let_def)
  from f(1) obtain xs ys where facts: "read_events H (in_ledger I) = Inr all" "relations H (in_lineage I) = Inr rels"
    "events_of k all \<noteq> []" "mapE (check_artifact H I vb) (rq_input_artifact_ids q) = Inr xs"
    "mapE (check_artifact H I vb) (referenced_artifacts all rels) = Inr ys"
    by (auto simp: inspected_facts_def Let_def all_events_def all_relations_def check_references_def)
  have ok: "mapE (check_artifact H I vb) as = Inr us \<Longrightarrow> a \<in> set as \<Longrightarrow> okE (check_artifact H I vb a)" for as us a
    using mapE_member(2) [of "check_artifact H I vb" as us a] by (auto simp: okE_eq)
  from f(2) obtain pc where "project_calls H (events_of k all) = Inr pc" by (auto simp: derived_view_def)
  then obtain calls pending unresolved where p: "project_calls H (events_of k all) = Inr (calls, pending, unresolved)"
    by (cases pc) auto
  from f(2) obtain st where st: "inspected_status H (events_of k all) pending unresolved = Inr st"
    and i: "\<exists>rd pr pd ld nd. run_inspection_init
       \<lparr>ri_run_id = rq_run_id q, ri_request_digest = rd, ri_goal = rq_goal q,
        ri_initial_artifact_ids = rq_input_artifact_ids q,
        ri_policy_digest = rq_tool_policy_digest q, ri_status = st,
        ri_decision_count = int (length (of_type DECISION_RECORDED (events_of k all))),
        ri_tool_call_count = int (length (of_type TOOL_CALL_MATERIALIZED (events_of k all))),
        ri_step_count = int (length (materialized_steps (events_of k all))),
        ri_materialized_calls = calls, ri_pending_call = pending,
        ri_review_request_state = review_state_of (events_of k all),
        ri_failure_summary = map failure_fields (of_type TOOL_EXECUTION_FAILED (events_of k all)),
        ri_lineage_relations = lineage_for_run k (events_of k all) rels,
        ri_final_artifact_ids = final_artifacts q calls,
        ri_referenced_artifact_ids = run_references (events_of k all) (final_artifacts q calls),
        ri_event_ids = map ev_event_id (events_of k all),
        ri_ledger_sha256 = ld, ri_lineage_sha256 = nd,
        ri_runtime_profile_ref = pr, ri_runtime_profile_digest = pd\<rparr> = Inr i"
    by (simp only: derived_view_def p bindE_simps prod.case case_prod_beta bindE_eq_Inr fst_conv snd_conv) blast
  from i obtain rd pr pd ld nd where "i = \<lparr>ri_run_id = rq_run_id q, ri_request_digest = rd, ri_goal = rq_goal q,
        ri_initial_artifact_ids = rq_input_artifact_ids q,
        ri_policy_digest = rq_tool_policy_digest q, ri_status = st,
        ri_decision_count = int (length (of_type DECISION_RECORDED (events_of k all))),
        ri_tool_call_count = int (length (of_type TOOL_CALL_MATERIALIZED (events_of k all))),
        ri_step_count = int (length (materialized_steps (events_of k all))),
        ri_materialized_calls = calls, ri_pending_call = pending,
        ri_review_request_state = review_state_of (events_of k all),
        ri_failure_summary = map failure_fields (of_type TOOL_EXECUTION_FAILED (events_of k all)),
        ri_lineage_relations = lineage_for_run k (events_of k all) rels,
        ri_final_artifact_ids = final_artifacts q calls,
        ri_referenced_artifact_ids = run_references (events_of k all) (final_artifacts q calls),
        ri_event_ids = map ev_event_id (events_of k all),
        ri_ledger_sha256 = ld, ri_lineage_sha256 = nd,
        ri_runtime_profile_ref = pr, ri_runtime_profile_digest = pd\<rparr>"
    using run_inspection_init_keeps by blast
  with facts ok [OF facts(4)] ok [OF facts(5)] p st show ?thesis
    by (intro that [of all rels q calls pending unresolved st]) simp_all
qed

text \<open>Without the protocol: a call's outputs are outputs of some event.\<close>

lemma outputs_recorded:
  assumes "project_calls H es = Inr (calls, pending, unresolved)"
  shows "set (concat (map ti_output_artifact_ids calls)) \<subseteq> (\<Union>e \<in> set es. set (ev_output_artifact_ids e))"
proof
  fix i
  assume i: "i \<in> set (concat (map ti_output_artifact_ids calls))"
  from project_calls_groups [OF assms] obtain gs projected where g: "grouped H es gs"
    "mapE (project_group H) gs = Inr projected" "calls = map fst projected" by metis
  with i obtain q where q: "q \<in> set projected" "i \<in> set (ti_output_artifact_ids (fst q))" by auto
  from mapE_member(1) [OF g(2) q(1)] obtain x where x: "x \<in> set gs" "project_group H x = Inr q" by blast
  obtain t u m where t: "q = (t, u, m)" by (cases q)
  from project_group_facts [OF x(2) [unfolded t]] have "length (finishing (cg_related x)) \<le> 1"
    "ti_output_artifact_ids t = success_outputs (finishing (cg_related x))" by metis+
  with q(2) t obtain e where "e \<in> set (finishing (cg_related x))" "i \<in> set (ev_output_artifact_ids e)"
    by (auto simp: in_success_outputs)
  then show "i \<in> (\<Union>e \<in> set es. set (ev_output_artifact_ids e))"
    by (auto simp: in_finishing_group [OF g(1) x(1)]) (auto simp: finishing_def)
qed

end
