(* ===== verification/InspectionExamples.thy ===== *)
theory InspectionExamples
  imports InspectionLemmas
begin

text \<open>
  Concrete stores for the witnesses of the inspection's properties: a ledger file with a run that waits
  for a review, a store with one artifact and a lineage that names it; and a run whose tool failed
  with an exception class that begins with an underscore.
\<close>

section \<open>A ledger file with given entries\<close>

lemma logged_event:
  assumes H: "os_lawful H" "iso_lawful H" "sha_lawful H" and lf: "readable_as H lf es"
    and e: "event_init H (new_event r et a i ts) = Inr q" "event_json_wf H (new_event r et a i ts)"
    and "i \<notin> ev_event_id ` set es"
  obtains lf' x where "readable_as H lf' (es @ [x])" "appended r et a x" "ev_event_id x = i"
proof -
  let ?d = "last_digest ev_event_sha256 es"
  have "ledger_valid H es" using lf read_events_valid [OF H(2)] unfolding readable_as_def by blast
  then have "pred_option (\<lambda>x. okE (validate_digest_reference x)) ?d"
    by (cases es rule: rev_cases) (auto simp: ledger_valid_def event_wf_def event_init_eq event_checks_def)
  from seal_event_total [OF H(2,3) e(1) this] obtain p where p: "seal_event H ?d q = Inr p" by blast
  note q = event_init_keeps [OF e(1)]
  from p assms(7) q(1) have prep: "prepare_append H es q = Inr p"
    by (auto simp: prepare_append_def list_ex_iff new_event_def image_iff)
  have "event_json_wf H q" using e event_init_json_wf by blast
  from append_event_file [OF H(1,2) lf this prep] obtain lf' where lf': "readable_as H lf' (es @ [canon_event p])" by blast
  have "ledger_append H (new_event r et a i ts) es = (Inr p, es @ [canon_event p])"
    using e(1) prep by (simp add: ledger_append_def)
  note x = ledger_append_props [OF this]
  show ?thesis by (rule that [OF lf' x(2)]) (simp add: x(4))
qed

lemma run_event_init:
  assumes "request_wf demo_host r" "is_identifier et" "is_identifier st" "is_identifier i" "fields_ok md"
  shows "event_init demo_host (new_event r et (run_event_args st md) i demo_time)
    = Inr (new_event r et (run_event_args st md) i demo_time)"
proof -
  have "is_identifier (rq_run_id r)" using assms(1) by (simp add: request_wf_def request_init_eq request_checks_def)
  with assms demo_time_fixed show ?thesis
    by (simp add: event_init_eq event_checks_def new_event_def run_event_args_def)
qed

section \<open>A run that waits for a review\<close>

lemma demo_run_strings:
  "is_identifier ''STARTED''" "is_identifier ''PROPOSED''" "is_identifier ''WAITING_REVIEW''"
  "is_identifier ''evt_1''" "is_identifier ''evt_2''" "is_identifier ''evt_3''"
  "is_identifier RUN_STARTED" "is_identifier DECISION_RECORDED" "is_identifier REVIEW_REQUESTED"
  unfolding event_type_defs by code_simp+

lemma demo_metadata_ok: "fields_ok demo_start_metadata"
proof -
  have "json_ok (request_to_dict demo_run)"
    using demo_run_wf by (intro request_json_ok) (simp add: request_wf_def request_init_eq)
  moreover have "\<not> sensitive_key ''request''" "\<not> sensitive_key ''request_digest''"
    "\<not> sensitive_key ''policy_digest''" "\<not> sensitive_key ''initial_artifact_ids''"
    by (simp_all add: sensitive_key_eval)
  ultimately show ?thesis by (simp add: demo_start_metadata_def)
qed

lemma demo_metadata_json: "json_wf (float_of demo_host) (JObj demo_start_metadata)"
  by (simp add: demo_start_metadata_def request_to_dict_def request_fields_def budget_json_def demo_run_def demo_request_def)

lemma demo_review_log:
  obtains lf e1 e2 e3 where "readable_as demo_host lf [e1, e2, e3]"
    "appended demo_run RUN_STARTED (run_event_args ''STARTED'' demo_start_metadata) e1"
    "appended demo_run DECISION_RECORDED (run_event_args ''PROPOSED'' []) e2"
    "appended demo_run REVIEW_REQUESTED (run_event_args ''WAITING_REVIEW'' []) e3"
    "ev_event_id e1 = ''evt_1''" "ev_event_id e2 = ''evt_2''" "ev_event_id e3 = ''evt_3''"
proof -
  note lawful = demo_os_lawful demo_iso_lawful demo_sha_lawful
  have wf: "json_wf (float_of demo_host) (JObj md) \<Longrightarrow>
      event_json_wf demo_host (new_event demo_run et (run_event_args st md) i demo_time)" for md et st i
    by (simp add: event_json_wf_def new_event_def run_event_args_def)
  note init = run_event_init [OF demo_run_wf]
  obtain l1 e1 where 1: "readable_as demo_host l1 [e1]"
    "appended demo_run RUN_STARTED (run_event_args ''STARTED'' demo_start_metadata) e1" "ev_event_id e1 = ''evt_1''"
    by (rule logged_event [OF lawful empty_log_readable
        init [OF demo_run_strings(7,1,4) demo_metadata_ok] wf [OF demo_metadata_json]]) auto
  obtain l2 e2 where 2: "readable_as demo_host l2 ([e1] @ [e2])"
    "appended demo_run DECISION_RECORDED (run_event_args ''PROPOSED'' []) e2" "ev_event_id e2 = ''evt_2''"
    by (rule logged_event [OF lawful 1(1) init [OF demo_run_strings(8,2,5)] wf]) (auto simp: 1(3))
  obtain l3 e3 where 3: "readable_as demo_host l3 (([e1] @ [e2]) @ [e3])"
    "appended demo_run REVIEW_REQUESTED (run_event_args ''WAITING_REVIEW'' []) e3" "ev_event_id e3 = ''evt_3''"
    by (rule logged_event [OF lawful 2(1) init [OF demo_run_strings(9,3,6)] wf]) (auto simp: 1(3) 2(3))
  from that 1 2 3 show ?thesis by simp
qed


text \<open>Its history is one that the protocol reaches, and both projections accept it.\<close>

lemma appended_run_event:
  "appended r et (run_event_args st md) e \<Longrightarrow> map_of md ''call_id'' = None \<Longrightarrow>
    metadata_call_id e = None \<and> inspected_call_id e = Inr None \<and> ev_event_type e = et \<and> ev_run_id e = rq_run_id r
    \<and> ev_step_id e = None \<and> ev_input_artifact_ids e = [] \<and> ev_output_artifact_ids e = [] \<and> ev_metadata e = norm_obj md"
  by (simp add: appended_def run_event_args_def metadata_call_id_def inspected_call_id_def jget_def)

lemma demo_review_facts:
  assumes "appended demo_run RUN_STARTED (run_event_args ''STARTED'' demo_start_metadata) e1"
    and "appended demo_run DECISION_RECORDED (run_event_args ''PROPOSED'' []) e2"
    and "appended demo_run REVIEW_REQUESTED (run_event_args ''WAITING_REVIEW'' []) e3"
  shows "reachable demo_host demo_run [e1, e2, e3]"
    "\<exists>p. project demo_host [e1, e2, e3] = Inr p"
    "project_calls demo_host [e1, e2, e3] = Inr ([], None, False)"
    "inspected_status demo_host [e1, e2, e3] None False = Inr ''WAITING_REVIEW''"
    "events_of (rq_run_id demo_run) [e1, e2, e3] = [e1, e2, e3]" "run_start [e1, e2, e3] = Inr e1"
    "referenced_artifacts [e1, e2, e3] rels = referenced_artifacts [] rels"
    "run_references [e1, e2, e3] [] = []"
proof -
  have "map_of demo_start_metadata ''call_id'' = None" by (simp add: demo_start_metadata_def)
  note f = appended_run_event [OF assms(1) this] appended_run_event [OF assms(2)] appended_run_event [OF assms(3)]
  note step = reachable.step [of demo_host demo_run _ demo_world, OF _ demo_world_simps(1)]
  note limit = hard_limit_reason_def counts_def demo_limits Let_def List.map_filter_simps
  have "reachable demo_host demo_run ([] @ [e1])" by (rule step, rule nothing, rule Start) (simp add: f)
  then have "reachable demo_host demo_run ([e1] @ [e2])"
    by (rule_tac step, simp, rule_tac Decide) (simp_all add: limit f reviewing_def)
  then have "reachable demo_host demo_run (([e1] @ [e2]) @ [e3])"
    by (rule_tac step, simp, rule_tac StopRun) (simp_all add: f)
  then show "reachable demo_host demo_run [e1, e2, e3]" by simp
  have "scan_event demo_host e1 = Inr None" "scan_event demo_host e2 = Inr None" "scan_event demo_host e3 = Inr None"
    using f by (simp_all add: scan_event_def check_opt_def)
  then show "\<exists>p. project demo_host [e1, e2, e3] = Inr p"
    using f by (simp add: project_def List.map_filter_simps projection_of_def last_of_def head_of_def)
  show "project_calls demo_host [e1, e2, e3] = Inr ([], None, False)"
    using f by (simp add: project_calls_def gather_event_def last_of_def List.map_filter_simps)
  show "inspected_status demo_host [e1, e2, e3] None False = Inr ''WAITING_REVIEW''"
    using f by (simp add: inspected_status_def last_of_def left_running_def)
  show "events_of (rq_run_id demo_run) [e1, e2, e3] = [e1, e2, e3]" using f by (simp add: events_of_def)
  show "run_start [e1, e2, e3] = Inr e1" using f by (simp add: run_start_def)
  show "referenced_artifacts [e1, e2, e3] rels = referenced_artifacts [] rels" "run_references [e1, e2, e3] [] = []"
    using f by (simp_all add: referenced_artifacts_def run_references_def artifact_ids_from_event_def)
qed

lemma demo_request_from_start:
  assumes "appended demo_run RUN_STARTED (run_event_args ''STARTED'' demo_start_metadata) e"
  shows "request_from_start demo_host e = Inr (canon_request demo_run)"
proof -
  let ?sha = "sha256 demo_host (json_dumps (request_to_dict demo_run))"
  have md: "jget (ev_metadata e) ''request'' = jnorm (request_to_dict demo_run)"
    "jget (ev_metadata e) ''request_digest'' = JStr ?sha" "jget (ev_metadata e) ''policy_digest'' = JStr demo_policy_digest"
    "jget (ev_metadata e) ''initial_artifact_ids'' = jstrs []" "ev_run_id e = rq_run_id demo_run"
    "jget_or (ev_metadata e) ''request_digest'' x = JStr ?sha" "jget_or (ev_metadata e) ''initial_artifact_ids'' x = jstrs []" for x
    using assms by (simp_all add: appended_def run_event_args_def demo_start_metadata_def jget_def jget_or_def)
  obtain d where d: "jnorm (request_to_dict demo_run) = JObj d" by (simp add: request_to_dict_def)
  have "request_from_dict demo_host (JObj d) = Inr (canon_request demo_run)"
    using request_codec.dec_norm [OF demo_run_wf] d by simp
  moreover have "is_sha256 ?sha" using demo_sha_lawful by (simp add: sha_lawful_def)
  moreover have "rq_input_artifact_ids demo_run = []" "rq_tool_policy_digest demo_run = demo_policy_digest"
    by (simp_all add: demo_run_def demo_request_def)
  ultimately show ?thesis
    by (simp add: request_from_start_def md d recorded_request_def demo_request_digest jstrs_def)
qed

section \<open>A store and a lineage beside it\<close>

definition demo_produced :: lineage_relation where
  "demo_produced = \<lparr>rel_relation_type = ''PRODUCED_BY'', rel_subject_id = ar_artifact_id demo_record,
     rel_object_id = ''step_1'', rel_relation_id = ''rel_1'', rel_created_at = demo_time,
     rel_metadata = [(''run_id'', JStr ''run_1''), (''note'', JStr ''x'')],
     rel_previous_relation_sha256 = None, rel_relation_sha256 = None\<rparr>"

definition demo_inspector :: "store \<Rightarrow> log_file \<Rightarrow> inspector" where
  "demo_inspector s lf = \<lparr>in_store = s, in_ledger = lf,
     in_lineage = demo_lineage\<lparr>lin_relations := [demo_produced]\<rparr>\<rparr>"

lemma demo_inspector_relations: "relations H (in_lineage (demo_inspector s lf)) = Inr [demo_produced]"
  by (simp add: demo_inspector_def relations_def demo_lineage_def)

lemma demo_referenced: "referenced_artifacts [] [demo_produced] = [ar_artifact_id demo_record]"
proof -
  have "py_startswith (ar_artifact_id demo_record) ''sha256:''" "\<not> py_startswith ''step_1'' ''sha256:''"
    by (simp_all add: demo_record_def)
  then show ?thesis by (simp add: referenced_artifacts_def demo_produced_def)
qed

lemma demo_relation_ok: "json_ok (relation_to_dict demo_produced)" "fields_ok (safe_relation demo_produced)"
proof -
  have "\<not> sensitive_key ''note''" "\<not> sensitive_key ''run_id''" by (simp_all add: sensitive_key_eval)
  then show "json_ok (relation_to_dict demo_produced)"
    by (simp add: relation_to_dict_def relation_fields_def relation_body_def demo_produced_def)
  have "safe_metadata (rel_metadata demo_produced) = [(''run_id'', JStr ''run_1'')]"
    unfolding demo_produced_def by code_simp
  with \<open>\<not> sensitive_key ''run_id''\<close> show "fields_ok (safe_relation demo_produced)"
    by (simp add: safe_relation_def relation_fields_def relation_body_def demo_produced_def)
qed

lemma demo_inspected:
  obtains s lf e1 e2 e3 i where "inspect_run demo_host (demo_inspector s lf) (rq_run_id demo_run) True = Inr i"
    "read_events demo_host lf = Inr [e1, e2, e3]" "ri_status i = ''WAITING_REVIEW''"
    "reachable demo_host demo_run [e1, e2, e3]" "\<exists>p. project demo_host [e1, e2, e3] = Inr p"
    "events_of (rq_run_id demo_run) [e1, e2, e3] = [e1, e2, e3]" "ri_initial_artifact_ids i = rq_input_artifact_ids demo_run"
    "ev_run_id e1 = rq_run_id demo_run"
proof -
  obtain lf e1 e2 e3 where lf: "readable_as demo_host lf [e1, e2, e3]"
    and a: "appended demo_run RUN_STARTED (run_event_args ''STARTED'' demo_start_metadata) e1"
      "appended demo_run DECISION_RECORDED (run_event_args ''PROPOSED'' []) e2"
      "appended demo_run REVIEW_REQUESTED (run_event_args ''WAITING_REVIEW'' []) e3"
    and ids: "ev_event_id e1 = ''evt_1''" "ev_event_id e2 = ''evt_2''" "ev_event_id e3 = ''evt_3''"
    using demo_review_log by blast
  note f = demo_review_facts [OF a]
  have ty: "ev_event_type e1 = RUN_STARTED" "ev_event_type e2 = DECISION_RECORDED" "ev_event_type e3 = REVIEW_REQUESTED"
    "ev_run_id e1 = rq_run_id demo_run"
    using a by (simp_all add: appended_def)
  obtain s where s: "abs_store demo_host s = [ar_artifact_id demo_record \<mapsto> (demo_record, ''data'')]"
    using demo_put_runs by metis
  then have "abs_store demo_host s (ar_artifact_id demo_record) = Some (demo_record, ''data'')" by simp
  then have v: "verify demo_host s (ar_artifact_id demo_record) = Inr demo_record"
    by (auto simp: abs_store_def split: sum.splits)
  let ?I = "demo_inspector s lf"
  have read: "read_events demo_host lf = Inr [e1, e2, e3]" using lf by (simp add: readable_as_def)
  have q: "rq_input_artifact_ids demo_run = []" by (simp add: demo_run_def demo_request_def)
  have strings: "is_identifier ''WAITING_REVIEW''" "is_identifier (rq_run_id demo_run)" "is_sha256 (rq_tool_policy_digest demo_run)"
    using demo_run_strings demo_run_wf
    by (auto simp: request_wf_def request_init_eq request_checks_def demo_run_def)
  have facts: "inspected_facts demo_host ?I (rq_run_id demo_run) True
      = Inr ([e1, e2, e3], [e1, e2, e3], [demo_produced], canon_request demo_run)"
  proof -
    have "all_events demo_host ?I = Inr [e1, e2, e3]" by (simp add: all_events_def demo_inspector_def read)
    moreover have "all_relations demo_host ?I = Inr [demo_produced]"
      by (simp add: all_relations_def demo_inspector_relations)
    moreover have "check_artifact demo_host ?I True (ar_artifact_id demo_record) = Inr ()"
      by (simp add: check_artifact_def) (simp add: demo_inspector_def v)
    ultimately show ?thesis
      using strings(2) by (simp add: inspected_facts_def Let_def f demo_request_from_start [OF a(1)] q
          check_references_def demo_referenced)
  qed
  have "list_all event_checks [e1, e2, e3]"
    using read_events_valid [OF demo_iso_lawful read]
    by (auto simp: ledger_valid_def event_wf_def event_init_eq)
  then have digests: "\<exists>x. digest_json demo_host (JArr [event_to_dict e1, event_to_dict e2, event_to_dict e3]) = Inr x \<and> is_sha256 x"
    "\<exists>x. digest_json demo_host (JArr [relation_to_dict demo_produced]) = Inr x \<and> is_sha256 x"
    "\<exists>x. request_sha256 demo_host (canon_request demo_run) = Inr x \<and> is_sha256 x"
    using demo_sha_lawful demo_relation_ok(1) event_json_ok
    by (simp_all add: digest_json_def canonical_json_bytes_eq sha256_bytes_def sha_lawful_def demo_request_digest)
  have profile: "runtime_profile (canon_request demo_run) = Inr (None, None)"
    by (simp add: runtime_profile_def jget_def demo_run_def demo_request_def)
  have concerned: "lineage_for_run (rq_run_id demo_run) [e1, e2, e3] [demo_produced] = [safe_relation demo_produced]"
    by (simp add: lineage_for_run_def relation_concerns_def demo_produced_def jget_def demo_run_def demo_request_def)
  have "\<exists>i. derived_view demo_host (rq_run_id demo_run) [e1, e2, e3] [e1, e2, e3] [demo_produced]
      (canon_request demo_run) = Inr i \<and> ri_status i = ''WAITING_REVIEW'' \<and> ri_initial_artifact_ids i = []"
    using digests strings demo_relation_ok(2) demo_run_strings(4-6)
    by (auto simp: derived_view_def f profile concerned run_inspection_init_def final_artifacts_def q ids ty
        freeze_opt_mapping_def review_state_of_def materialized_steps_def check_opt_def List.map_filter_simps)
  then obtain i where "inspect_run demo_host ?I (rq_run_id demo_run) True = Inr i" "ri_status i = ''WAITING_REVIEW''"
    "ri_initial_artifact_ids i = rq_input_artifact_ids demo_run" by (auto simp: inspect_run_def facts q)
  from that [OF this(1) read this(2) f(1,2,5) this(3) ty(4)] show ?thesis .
qed

section \<open>A run whose tool failed\<close>

text \<open>The history that the loop leaves when the tool of its first call raises an exception class\<close>

definition demo_bound_materialized :: ledger_event where
  "demo_bound_materialized = demo_entry ''evt_3'' TOOL_CALL_MATERIALIZED (call_event_args demo_bound ''MATERIALIZED''
     [(''call_id'', JStr ''call_1''), (''tool_call_digest'', jstr_opt (tc_tool_call_digest demo_bound)),
      (''materialized_call'', call_json demo_bound)])"

definition demo_failure :: "error \<Rightarrow> ledger_event" where
  "demo_failure x = demo_step ''evt_5'' TOOL_EXECUTION_FAILED [(''error_type'', JStr (safe_error_type x))]"

definition failed_run :: "error \<Rightarrow> ledger_event list" where
  "failed_run x = [demo_started, demo_bound_materialized, demo_step ''evt_4'' TOOL_EXECUTION_STARTED [], demo_failure x]"

lemma failed_run_calls [simp]:
  "ev_event_type demo_bound_materialized = TOOL_CALL_MATERIALIZED" "ev_event_type (demo_failure x) = TOOL_EXECUTION_FAILED"
  "metadata_call_id demo_bound_materialized = Some ''call_1''" "metadata_call_id (demo_failure x) = Some ''call_1''"
  by (simp_all add: demo_bound_materialized_def demo_failure_def)
    (simp add: metadata_call_id_def jget_def demo_entry_def new_event_def call_event_args_def)

lemma demo_bound_digest:
  "call_computed_digest demo_host (canon_call demo_bound) = Inr (call_sha demo_host demo_bound)"
  "tc_tool_call_digest demo_bound = Some (call_sha demo_host demo_bound)"
  using demo_bound_wf by (simp_all add: call_computed_eq call_wf_iff call_checks_def)

lemma demo_bound_call: "materialized_call demo_host demo_bound_materialized = Inr (canon_call demo_bound)"
  unfolding demo_bound_materialized_def
  by (rule materialized_event(1) [OF demo_bound_wf demo_entry_appended]) simp_all

lemma demo_failure_appended: "appended demo_run TOOL_EXECUTION_FAILED (call_event_args demo_bound TOOL_EXECUTION_FAILED
    (call_metadata demo_bound @ [(''error_type'', JStr (safe_error_type x))])) (demo_failure x)"
  by (simp add: demo_failure_def demo_step_def demo_entry_appended)

text \<open>The loop goes on with it, whatever the class.\<close>

lemma failed_run_projects: "\<exists>p. project demo_host (failed_run x) = Inr p \<and> projected_status p = StActive"
proof -
  have i: "is_identifier ''call_1''" by code_simp
  have scan: "scan_event demo_host demo_started = Inr None"
    "scan_event demo_host demo_bound_materialized = Inr (Some (canon_call demo_bound))"
    "scan_event demo_host (demo_step ''evt_4'' TOOL_EXECUTION_STARTED []) = Inr None"
    "scan_event demo_host (demo_failure x) = Inr None"
    using i by (simp_all add: scan_event_def check_opt_def demo_bound_call)
  have related: "related_events ''call_1'' (failed_run x)
      = [demo_bound_materialized, demo_step ''evt_4'' TOOL_EXECUTION_STARTED [], demo_failure x]"
    by (simp add: related_events_def failed_run_def)
  have m: "related_matches (canon_call demo_bound) (call_sha demo_host demo_bound) demo_bound_materialized"
    "related_matches (canon_call demo_bound) (call_sha demo_host demo_bound) (demo_step j et md)"
    "related_matches (canon_call demo_bound) (call_sha demo_host demo_bound) (demo_failure x)"
    for et md j
    by (simp_all add: related_matches_def demo_failure_def demo_step_def demo_entry_def new_event_def call_event_args_def
        call_metadata_def jget_def demo_bound_digest jstr_opt_def)
  have "\<exists>st. call_state_of demo_host (failed_run x) (canon_call demo_bound) = Inr st
      \<and> cs_started_event st \<noteq> None \<and> cs_terminal_event st \<noteq> None"
    by (simp add: call_state_of_def related demo_bound_digest m recorded_approval_def rejecting_def)
  then obtain st where "call_state_of demo_host (failed_run x) (canon_call demo_bound) = Inr st"
    "cs_started_event st \<noteq> None" "cs_terminal_event st \<noteq> None" by blast
  moreover from this have "mapE (call_state_of demo_host (failed_run x)) [canon_call demo_bound] = Inr [st]" by simp
  ultimately show ?thesis
    by (simp add: project_def failed_run_def scan List.map_filter_simps projection_of_def last_of_def head_of_def
        awaits_approval_def awaits_execution_def open_state_def projected_status_def)
qed

text \<open>The inspector accepts it for a class whose name is an identifier.\<close>

lemma failed_run_inspected:
  assumes "is_identifier (safe_error_type x)"
  shows "okE (project_calls demo_host (failed_run x))"
proof -
  have i: "is_identifier ''call_1''" by code_simp
  have ids: "inspected_call_id demo_started = Inr None" "inspected_call_id demo_bound_materialized = Inr (Some ''call_1'')"
    "inspected_call_id (demo_step j et md) = Inr (Some ''call_1'')" "inspected_call_id (demo_failure x) = Inr (Some ''call_1'')"
    for j et md
    using i by (simp_all add: inspected_call_id_def demo_failure_def demo_bound_materialized_def demo_started_def
        demo_step_def demo_entry_def new_event_def call_event_args_def run_event_args_def call_metadata_def jget_def
        demo_start_metadata_def)
  have entry: "materialized_entry demo_host demo_bound_materialized (Some ''call_1'') = Inr (canon_call demo_bound)"
  proof -
    have "call_from_dict demo_host (JObj (norm_obj (call_fields demo_bound))) = Inr (canon_call demo_bound)"
      using call_from_fields_wf(2) [OF demo_bound_wf] by (simp add: call_json_def)
    then show ?thesis
      by (simp add: materialized_entry_def demo_bound_materialized_def demo_entry_def new_event_def call_event_args_def
          jget_def call_json_def demo_bound_digest jstr_opt_def del: call_from_dict.simps)
  qed
  have c: "related_consistent (canon_call demo_bound) (call_sha demo_host demo_bound) (demo_step j et md)"
    "related_consistent (canon_call demo_bound) (call_sha demo_host demo_bound) (demo_failure x)"
    for et md j
    by (simp_all add: related_consistent_def demo_failure_def demo_step_def demo_entry_def new_event_def call_event_args_def
        call_metadata_def jget_def demo_bound_digest jstr_opt_def)
  have fail: "failure_type_of (demo_failure x) = Inr (Some (safe_error_type x))"
    using assms by (simp add: failure_type_of_def demo_failure_def demo_step_def demo_entry_def new_event_def
        call_event_args_def call_metadata_def jget_def)
  have eids: "is_identifier ''FAILED''" "is_identifier ''evt_3''" "is_identifier ''evt_4''" "is_identifier ''evt_5''"
    by code_simp+
  have e: "ev_event_id demo_bound_materialized = ''evt_3''" "ev_event_id (demo_step ''evt_4'' et md) = ''evt_4''"
    "ev_event_id (demo_failure x) = ''evt_5''" for et md
    by (simp_all add: demo_bound_materialized_def demo_failure_def demo_step_def)
  have "call_wf demo_host demo_bound" by (rule demo_bound_wf)
  then have "okE (project_group demo_host \<lparr>cg_call = canon_call demo_bound, cg_event = demo_bound_materialized,
      cg_related = [demo_step ''evt_4'' TOOL_EXECUTION_STARTED [], demo_failure x]\<rparr>)"
    using assms eids
    by (simp add: project_group_def Let_def demo_bound_digest c finishing_def inspected_approval_def
        execution_status_of_def rejecting_def inspected_outcome_def fail call_inspection_init_def call_inspection_of_def
        call_wf_iff call_checks_def approval_status_of_def success_outputs_def inspection_text_def check_result_data_def
        check_opt_def e mapE_id list_all_iff)
  then show ?thesis
    by (auto simp: project_calls_def failed_run_def gather_event_def ids entry in_groups_def call_event_types_def
        add_related_def okE_eq)
qed

end
