(* ===== verification/InspectionProperties.thy ===== *)
theory InspectionProperties
  imports InspectionExamples
begin

text \<open>
  The properties of \<^verbatim>\<open>inspection.py\<close> with the concrete stores of their witnesses.
\<close>

section \<open>The exceptions of an inspection\<close>

definition raises :: "error set \<Rightarrow> 'a res \<Rightarrow> bool" where
  "raises S m = (\<forall>e. m = Inl e \<longrightarrow> e \<in> S)"

lemma raises_simps [simp, intro]: "raises S (Inr x)" "e \<in> S \<Longrightarrow> raises S (Inl e)" "e \<in> S \<Longrightarrow> raises S (guardE b e)"
  by (auto simp: raises_def)

lemma raises_bind [intro]: "raises S m \<Longrightarrow> (\<And>x. m = Inr x \<Longrightarrow> raises S (f x)) \<Longrightarrow> raises S (bindE m f)"
  by (auto simp: raises_def bindE_eq_Inl)

lemma raises_wrap [intro]: "e \<in> S \<Longrightarrow> raises S (wrapE any_error e m)"
  by (cases m) (auto simp: raises_def any_error_def)

lemma raises_map [intro]: "(\<And>x. raises S (f x)) \<Longrightarrow> raises S (mapE f xs)"
  by (induction xs) auto

lemma raises_case [intro]: "raises S m \<Longrightarrow> (\<And>x. raises S (f x)) \<Longrightarrow> raises S (case u of None \<Rightarrow> m | Some x \<Rightarrow> f x)"
  "(\<And>x y. q = (x, y) \<Longrightarrow> raises S (g x y)) \<Longrightarrow> raises S (case q of (x, y) \<Rightarrow> g x y)"
  "(b \<Longrightarrow> raises S m) \<Longrightarrow> (\<not> b \<Longrightarrow> raises S n) \<Longrightarrow> raises S (if b then m else n)"
  by (auto split: option.split prod.split)

lemma raises_contract [intro]:
  assumes "CoreContractError \<in> S"
  shows "raises S (validate_identifier s)" "raises S (validate_artifact_id s)" "raises S (validate_digest_reference s)"
    "raises S (freeze_json v)" "raises S (freeze_json_mapping v)" "raises S (canonical_json_bytes v)"
  using assms
  by (auto simp: raises_def validate_identifier_def validate_artifact_id_def validate_digest_reference_def
      validate_sha256_def artifact_sha256_def freeze_json_eq canonical_json_bytes_eq freeze_json_mapping_def bindE_eq_Inl Let_def
      split: if_splits json.splits)

lemma raises_check [intro]: "(\<And>x. raises S (f x)) \<Longrightarrow> raises S (check_opt f u)"
  by (auto simp: check_opt_def split: option.split)

definition inspection_errors :: "error set" where
  "inspection_errors = {InspectionError, InspectionIntegrityError, CoreContractError, TypeError}"

lemma inspection_errors_simps [simp]:
  "InspectionError \<in> inspection_errors" "InspectionIntegrityError \<in> inspection_errors"
  "CoreContractError \<in> inspection_errors" "TypeError \<in> inspection_errors"
  by (simp_all add: inspection_errors_def)

lemma raises_digests [intro]:
  "raises inspection_errors (request_sha256 H r)" "raises inspection_errors (call_computed_digest H c)"
  "raises inspection_errors (call_mapping H c)" "raises inspection_errors (digest_json H v)"
  unfolding request_sha256_def call_computed_digest_def call_mapping_def json_sha256_def digest_json_def
  by (rule raises_bind raises_contract raises_simps | simp)+

lemma raises_facts: "raises inspection_errors (inspected_facts H I k vb)"
proof -
  have "raises inspection_errors (py_tuple v)" for v by (cases v) (auto simp: raises_def)
  then have start: "raises inspection_errors (request_from_start H e)" for e
    unfolding request_from_start_def
    by (auto split: json.split intro!: raises_bind raises_wrap raises_simps raises_digests)
  have "raises inspection_errors (run_start es)" for es by (auto simp: run_start_def split: list.split)
  with start show ?thesis
    unfolding inspected_facts_def Let_def all_events_def all_relations_def check_artifact_def check_references_def
    by (intro raises_bind raises_wrap raises_simps raises_map) auto
qed

lemma raises_gather: "raises inspection_errors (gather_calls H gs es)"
proof (induction es arbitrary: gs)
  case (Cons e es)
  have "raises inspection_errors (inspected_call_id e)"
    unfolding inspected_call_id_def by (auto split: json.split intro!: raises_bind raises_wrap)
  moreover have "raises inspection_errors (materialized_entry H e k)" for k
    unfolding materialized_entry_def
    by (auto split: json.split intro!: raises_bind raises_wrap raises_simps raises_digests)
  ultimately have "raises inspection_errors (gather_event H gs e)"
    unfolding gather_event_def by (auto split: option.split intro!: raises_bind)
  with Cons.IH show ?case by auto
qed simp

lemma raises_group: "raises inspection_errors (project_group H g)"
proof -
  have approval: "raises inspection_errors (inspected_approval H c es)" for c es
    by (auto simp: inspected_approval_def split: list.split json.split intro!: raises_bind raises_wrap)
  have "raises inspection_errors (inspected_result_data H e)" "raises inspection_errors (failure_type_of e)" for e
    by (auto simp: inspected_result_data_def failure_type_of_def Let_def split: option.split json.split
        intro!: raises_bind raises_wrap)
  then have outcome: "raises inspection_errors (inspected_outcome H es)" for es
    by (auto simp: inspected_outcome_def split: list.split intro!: raises_bind)
  have "raises inspection_errors (call_inspection_init t)" for t
    unfolding call_inspection_init_def inspection_text_def check_result_data_def
    by (intro raises_bind raises_simps raises_contract raises_map raises_check raises_case; simp)
  with approval outcome show ?thesis
    unfolding project_group_def Let_def
    by (intro raises_bind raises_simps raises_digests raises_case; simp)
qed

lemma raises_view: "raises inspection_errors (derived_view H k all es rels q)"
proof -
  have calls: "raises inspection_errors (project_calls H es)"
    unfolding project_calls_def Let_def
    by (intro raises_bind raises_gather raises_map raises_group raises_simps) simp
  have status: "raises inspection_errors (inspected_status H es p u)" for p u
    unfolding inspected_status_def by (intro raises_case raises_bind raises_simps) simp_all
  have profile: "raises inspection_errors (runtime_profile q)"
    unfolding runtime_profile_def by (auto split: json.split intro!: raises_bind)
  have "raises inspection_errors (freeze_opt_mapping m)" for m
    by (auto simp: freeze_opt_mapping_def split: option.split)
  then have init: "raises inspection_errors (run_inspection_init i)" for i
    unfolding run_inspection_init_def
    by (intro raises_bind raises_simps raises_contract raises_map raises_check; simp)
  show ?thesis unfolding derived_view_def
    by (intro raises_bind raises_case(2) raises_digests calls status profile init)
qed

section \<open>Properties\<close>

text \<open>The artifacts that events and relations name\<close>

definition named_artifacts :: "ledger_event list \<Rightarrow> lineage_relation list \<Rightarrow> string set" where
  "named_artifacts events rels =
     (\<Union>e \<in> set events. set (ev_input_artifact_ids e) \<union> set (ev_output_artifact_ids e))
     \<union> (\<Union>x \<in> set rels. {y \<in> {rel_subject_id x, rel_object_id x}. py_startswith y ''sha256:''})"

text \<open>
  C11. One history, one answer. Where a readable ledger holds a history of the run that the protocol
  reaches, and both the loop's projection and the inspector accept it, the operator sees what the loop
  acts on: the same status, the same counts against the hard limits, the same pending call and the same
  artifacts, whatever the two read it from.
\<close>

theorem inspection_agrees_with_loop:
  assumes "iso_lawful H" "read_events H (in_ledger I) = Inr all"
    and "reachable H r (events_of (rq_run_id r) all)" "project H (events_of (rq_run_id r) all) = Inr p"
    and "inspect_run H I (rq_run_id r) verify_bytes = Inr i" "ri_initial_artifact_ids i = rq_input_artifact_ids r"
  shows "ri_status i = status_value (projected_status p) \<and> pending_mapping H p = Inr (ri_pending_call i)
    \<and> (ri_decision_count i, ri_tool_call_count i, ri_step_count i) = counts (events_of (rq_run_id r) all)
    \<and> set (ri_final_artifact_ids i) = set (visible_artifacts r (events_of (rq_run_id r) all))"
proof -
  let ?es = "events_of (rq_run_id r) all"
  from inspect_run_parts [OF assms(5)] obtain all' q calls pending unresolved st where
    all': "read_events H (in_ledger I) = Inr all'" and
    v: "project_calls H (events_of (rq_run_id r) all') = Inr (calls, pending, unresolved)"
      "inspected_status H (events_of (rq_run_id r) all') pending unresolved = Inr st"
      "ri_initial_artifact_ids i = rq_input_artifact_ids q" "ri_status i = st" "ri_pending_call i = pending"
      "ri_decision_count i = int (length (of_type DECISION_RECORDED (events_of (rq_run_id r) all')))"
      "ri_tool_call_count i = int (length (of_type TOOL_CALL_MATERIALIZED (events_of (rq_run_id r) all')))"
      "ri_step_count i = int (length (materialized_steps (events_of (rq_run_id r) all')))"
      "ri_final_artifact_ids i = final_artifacts q calls"
    by metis
  have [simp]: "all' = all" using all' assms(2) by simp
  have "distinct (map ev_event_id all)"
    using read_events_valid [OF assms(1,2)] unfolding ledger_valid_def event_chain_def
    by (blast dest: chain_from_distinct)
  then have "distinct (map ev_event_id ?es)" by (simp add: events_of_def distinct_map_filter)
  from status_agrees [OF assms(3,4) _ this] v have "ri_status i = status_value (projected_status p)" by simp
  moreover have "pending_mapping H p = Inr (ri_pending_call i)" using pending_agrees [OF assms(4)] v by simp
  moreover have "(ri_decision_count i, ri_tool_call_count i, ri_step_count i) = counts ?es"
    using materialized_steps_eq v by (simp add: counts_def)
  moreover have "set (ri_final_artifact_ids i) = set (visible_artifacts r ?es)"
    using outputs_agree [OF assms(3)] v assms(6) by (simp add: final_artifacts_def visible_artifacts_def)
  ultimately show ?thesis by simp
qed

theorem inspection_agrees_with_loop_witness:
  "\<exists>s lf i. inspect_run demo_host (demo_inspector s lf) (rq_run_id demo_run) True = Inr i
    \<and> ri_status i = ''WAITING_REVIEW'' \<and> (\<exists>es p. es \<noteq> [] \<and> project demo_host es = Inr p
      \<and> status_value (projected_status p) = ''WAITING_REVIEW'' \<and> ri_decision_count i = fst (counts es))"
proof -
  obtain s lf e1 e2 e3 i where i: "inspect_run demo_host (demo_inspector s lf) (rq_run_id demo_run) True = Inr i"
    "read_events demo_host lf = Inr [e1, e2, e3]" "ri_status i = ''WAITING_REVIEW''"
    "reachable demo_host demo_run [e1, e2, e3]" "\<exists>p. project demo_host [e1, e2, e3] = Inr p"
    "events_of (rq_run_id demo_run) [e1, e2, e3] = [e1, e2, e3]" "ri_initial_artifact_ids i = rq_input_artifact_ids demo_run"
    using demo_inspected by metis
  then obtain p where p: "project demo_host [e1, e2, e3] = Inr p" by blast
  have "read_events demo_host (in_ledger (demo_inspector s lf)) = Inr [e1, e2, e3]" using i(2) by (simp add: demo_inspector_def)
  from inspection_agrees_with_loop [OF demo_iso_lawful this _ _ i(1,7)] i p
  have "status_value (projected_status p) = ''WAITING_REVIEW''" "ri_decision_count i = fst (counts [e1, e2, e3])"
    by (auto simp: prod_eq_iff)
  with i(1,3) p show ?thesis by blast
qed



text \<open>
  C31. How an inspection fails. Whatever is in the three stores, \<^verbatim>\<open>inspect_run\<close> raises an inspection error
  or, where the code validates outside its \<^verbatim>\<open>try\<close> blocks, \<^verbatim>\<open>CoreContractError\<close> or \<^verbatim>\<open>TypeError\<close>; no error of
  the stores and of the codecs behind it gets through.
\<close>

theorem inspection_errors_only:
  "case inspect_run H I run_id verify_bytes of
     Inl e \<Rightarrow> is_a e InspectionError \<or> e = CoreContractError \<or> e = TypeError
   | Inr i \<Rightarrow> True"
proof -
  have "raises inspection_errors (inspect_run H I run_id verify_bytes)"
    unfolding inspect_run_def by (intro raises_bind raises_case(2) raises_facts raises_view)
  then show ?thesis
    by (auto simp: raises_def inspection_errors_def is_a.simps split: sum.split)
qed



end
