(* ===== verification/Urls.thy ===== *)
theory Urls
  imports Ids
begin

text \<open>
  The parts of Python's \<^verbatim>\<open>urllib.parse\<close> (as of CPython 3.11) that the acquisition component calls. A text is a
  \<^typ>\<open>string\<close> of code points below 256, as everywhere in the development; the texts that
  percent-decoding answers may leave this range, so they are kept as their UTF-8 bytes.
  \<^verbatim>\<open>ipaddress.ip_address\<close> is the argument \<open>ip\<close> of the definitions that use it.
\<close>

section \<open>Addresses\<close>

record address =
  addr_text :: string                 \<comment> \<open>\<^verbatim>\<open>str(address)\<close>\<close>
  addr_version :: nat                 \<comment> \<open>4 or 6\<close>
  addr_is_global :: bool
  addr_is_loopback :: bool
  addr_is_private :: bool
  addr_is_link_local :: bool
  addr_is_multicast :: bool
  addr_is_unspecified :: bool
  addr_is_reserved :: bool

text \<open>\<^verbatim>\<open>ipaddress.ip_address\<close>: \<open>None\<close> is the \<^verbatim>\<open>ValueError\<close> of a text that is no address.\<close>

type_synonym ip_parser = "string \<Rightarrow> address option"

section \<open>Splitting\<close>

text \<open>\<^verbatim>\<open>str.partition(c)\<close> and \<^verbatim>\<open>str.rpartition(c)\<close>; the flag says that the separator occurs.\<close>

definition py_partition :: "char \<Rightarrow> string \<Rightarrow> string \<times> bool \<times> string" where
  "py_partition c s =
     (takeWhile (\<lambda>x. x \<noteq> c) s, c \<in> set s, tl (dropWhile (\<lambda>x. x \<noteq> c) s))"

definition py_rpartition :: "char \<Rightarrow> string \<Rightarrow> string \<times> bool \<times> string" where
  "py_rpartition c s =
     (if c \<in> set s
      then (rev (tl (dropWhile (\<lambda>x. x \<noteq> c) (rev s))), True, rev (takeWhile (\<lambda>x. x \<noteq> c) (rev s)))
      else ([], False, s))"

definition is_ascii_alpha :: "char \<Rightarrow> bool" where
  "is_ascii_alpha c = (is_ascii_upper c \<or> is_ascii_lower c)"

record split_result =
  su_scheme :: string
  su_netloc :: string
  su_path :: string
  su_query :: string
  su_fragment :: string

definition scheme_char :: "char \<Rightarrow> bool" where
  "scheme_char c = (is_ascii_alnum c \<or> c \<in> {CHR ''+'', CHR ''-'', CHR ''.''})"

definition split_scheme :: "string \<Rightarrow> string \<Rightarrow> string \<times> string" where
  "split_scheme dflt url =
     (let (head, has_colon, rest) = py_partition (CHR '':'') url in
      if has_colon \<and> head \<noteq> [] \<and> is_ascii_alpha (hd head) \<and> list_all scheme_char head
      then (py_lower head, rest) else (dflt, url))"

definition authority_end :: "char \<Rightarrow> bool" where
  "authority_end c = (c \<in> {CHR ''/'', CHR ''?'', CHR ''#''})"

definition split_netloc :: "string \<Rightarrow> string \<times> string" where
  "split_netloc url =
     (if py_startswith url ''//''
      then (takeWhile (\<lambda>c. \<not> authority_end c) (drop 2 url), dropWhile (\<lambda>c. \<not> authority_end c) (drop 2 url))
      else ([], url))"

definition is_hex :: "char \<Rightarrow> bool" where
  "is_hex c = (is_ascii_digit c \<or> (97 \<le> code c \<and> code c \<le> 102) \<or> (65 \<le> code c \<and> code c \<le> 70))"

text \<open>
  \<^verbatim>\<open>_check_bracketed_host\<close>: \<^verbatim>\<open>v\<close>, hexadecimal digits, a dot and a non-empty rest, or an IPv6
  address. The second component of the netloc check, that NFKC normalisation of a netloc yields no
  delimiter, never fails for code points below 256.
\<close>

definition bracketed_host_ok :: "ip_parser \<Rightarrow> string \<Rightarrow> bool" where
  "bracketed_host_ok ip host =
     (if py_startswith host ''v''
      then takeWhile is_hex (tl host) \<noteq> []
           \<and> (case dropWhile is_hex (tl host) of CHR ''.'' # _ # _ \<Rightarrow> True | _ \<Rightarrow> False)
      else (case ip host of None \<Rightarrow> False | Some a \<Rightarrow> addr_version a \<noteq> 4))"

definition netloc_ok :: "ip_parser \<Rightarrow> string \<Rightarrow> bool" where
  "netloc_ok ip netloc =
     ((CHR ''['' \<in> set netloc) = (CHR '']'' \<in> set netloc)
      \<and> (CHR ''['' \<in> set netloc \<longrightarrow>
           bracketed_host_ok ip (fst (py_partition (CHR '']'')
             (snd (snd (py_partition (CHR ''['') netloc)))))))"

text \<open>Leading control characters and spaces go, and every tab and line break.\<close>

definition clean_url :: "string \<Rightarrow> string" where
  "clean_url url =
     filter (\<lambda>c. code c \<notin> {9, 10, 13}) (dropWhile (\<lambda>c. code c \<le> 32) url)"

definition urlsplit_with :: "ip_parser \<Rightarrow> string \<Rightarrow> string \<Rightarrow> split_result res" where
  "urlsplit_with ip dflt url =
     (let (scheme, rest) = split_scheme dflt (clean_url url);
          (netloc, rest) = split_netloc rest;
          (rest, _, fragment) = py_partition (CHR ''#'') rest;
          (path, _, query) = py_partition (CHR ''?'') rest
      in if \<not> netloc_ok ip netloc then Inl ValueError
         else Inr \<lparr>su_scheme = scheme, su_netloc = netloc, su_path = path, su_query = query,
                   su_fragment = fragment\<rparr>)"

definition urlsplit :: "ip_parser \<Rightarrow> string \<Rightarrow> split_result res" where
  "urlsplit ip url = urlsplit_with ip [] url"

text \<open>The properties \<^verbatim>\<open>username\<close>, \<^verbatim>\<open>password\<close>, \<^verbatim>\<open>hostname\<close> and \<^verbatim>\<open>port\<close>; the port raises.\<close>

definition su_username :: "split_result \<Rightarrow> string option" where
  "su_username u =
     (let (userinfo, have_info, _) = py_rpartition (CHR ''@'') (su_netloc u) in
      if have_info then Some (fst (py_partition (CHR '':'') userinfo)) else None)"

definition su_password :: "split_result \<Rightarrow> string option" where
  "su_password u =
     (let (userinfo, have_info, _) = py_rpartition (CHR ''@'') (su_netloc u);
          (_, have_password, password) = py_partition (CHR '':'') userinfo in
      if have_info \<and> have_password then Some password else None)"

definition host_and_port :: "split_result \<Rightarrow> string \<times> string" where
  "host_and_port u =
     (case py_rpartition (CHR ''@'') (su_netloc u) of (_, _, hostinfo) \<Rightarrow>
      case py_partition (CHR ''['') hostinfo of (_, have_open_br, bracketed) \<Rightarrow>
        if have_open_br
        then (case py_partition (CHR '']'') bracketed of (hostname, _, port) \<Rightarrow>
                (hostname, snd (snd (py_partition (CHR '':'') port))))
        else (case py_partition (CHR '':'') hostinfo of (hostname, _, port) \<Rightarrow> (hostname, port)))"

definition su_hostname :: "split_result \<Rightarrow> string option" where
  "su_hostname u =
     (let (hostname, _) = host_and_port u;
          (name, percent, zone) = py_partition (CHR ''%'') hostname
      in if hostname = [] then None
         else Some (py_lower name @ (if percent then CHR ''%'' # zone else [])))"

definition su_port :: "split_result \<Rightarrow> int option res" where
  "su_port u =
     (let (_, port) = host_and_port u in
      if port = [] then Inr None
      else if \<not> list_all is_ascii_digit port then Inl ValueError
      else if read_nat port > 65535 then Inl ValueError
      else Inr (Some (int (read_nat port))))"

section \<open>Percent encoding\<close>

definition utf8_char :: "char \<Rightarrow> string" where
  "utf8_char c =
     (if code c < 128 then [c] else [char_of (192 + code c div 64), char_of (128 + code c mod 64)])"

text \<open>\<^verbatim>\<open>str.encode("utf-8")\<close>\<close>

definition utf8_encode :: "string \<Rightarrow> string" where
  "utf8_encode s = concat (map utf8_char s)"

text \<open>
  \<^verbatim>\<open>bytes.decode("utf-8", "replace")\<close>, answered as the UTF-8 bytes of the decoded text: a
  maximal ill-formed part becomes the replacement character.
\<close>

definition replacement :: string where
  "replacement = [CHR 0xEF, CHR 0xBF, CHR 0xBD]"

definition continuation :: "char \<Rightarrow> bool" where
  "continuation c = (128 \<le> code c \<and> code c \<le> 191)"

text \<open>The bounds of the second byte of a sequence, and its length, by the first byte.\<close>

definition lead_bounds :: "nat \<Rightarrow> (nat \<times> nat \<times> nat) option" where
  "lead_bounds b =
     (if 194 \<le> b \<and> b \<le> 223 then Some (128, 191, 2)
      else if b = 224 then Some (160, 191, 3)
      else if b = 237 then Some (128, 159, 3)
      else if 225 \<le> b \<and> b \<le> 239 then Some (128, 191, 3)
      else if b = 240 then Some (144, 191, 4)
      else if 241 \<le> b \<and> b \<le> 243 then Some (128, 191, 4)
      else if b = 244 then Some (128, 143, 4)
      else None)"

definition second_ok :: "char \<Rightarrow> char \<Rightarrow> bool" where
  "second_ok c d = (case lead_bounds (code c) of
     None \<Rightarrow> False | Some (lo, hi, _) \<Rightarrow> lo \<le> code d \<and> code d \<le> hi)"

definition seq_length :: "char \<Rightarrow> nat" where
  "seq_length c = (case lead_bounds (code c) of None \<Rightarrow> 1 | Some (_, _, n) \<Rightarrow> n)"

text \<open>How many bytes of the text belong to the sequence that its first byte opens.\<close>

fun seq_taken :: "string \<Rightarrow> nat" where
  "seq_taken [] = 0"
| "seq_taken [c] = 1"
| "seq_taken (c # d # s) =
     (if \<not> second_ok c d then 1
      else 2 + length (takeWhile continuation (take (seq_length c - 2) s)))"

function utf8_replace :: "string \<Rightarrow> string" where
  "utf8_replace [] = []"
| "utf8_replace (c # s) =
     (if code c < 128 then c # utf8_replace s
      else let n = seq_taken (c # s) in
        (if lead_bounds (code c) \<noteq> None \<and> n = seq_length c then take n (c # s) else replacement)
        @ utf8_replace (drop (n - 1) s))"
  by pat_completeness auto
termination
  by (relation "measure length") auto

definition hex_val :: "char \<Rightarrow> nat" where
  "hex_val c = (if is_ascii_digit c then code c - 48
     else if 97 \<le> code c then code c - 87 else code c - 55)"

fun unquote_to_bytes :: "string \<Rightarrow> string" where
  "unquote_to_bytes [] = []"
| "unquote_to_bytes (c # s) =
     (if c \<noteq> CHR ''%'' then c # unquote_to_bytes s
      else case s of
        a # b # t \<Rightarrow> if is_hex a \<and> is_hex b
          then char_of (16 * hex_val a + hex_val b) # unquote_to_bytes t
          else c # unquote_to_bytes s
      | _ \<Rightarrow> c # unquote_to_bytes s)"

text \<open>
  \<^verbatim>\<open>unquote\<close>. CPython decodes the ASCII stretches of the text one by one and keeps the characters
  between them; no byte of an encoded character continues or opens a sequence of its
  neighbours, so decoding the whole is the same.
\<close>

definition unquote :: "string \<Rightarrow> string" where
  "unquote s = utf8_replace (unquote_to_bytes (utf8_encode s))"

definition unquote_plus :: "string \<Rightarrow> string" where
  "unquote_plus s = unquote (map (\<lambda>c. if c = CHR ''+'' then CHR '' '' else c) s)"

definition quote_safe :: "char \<Rightarrow> bool" where
  "quote_safe c = (is_ascii_alnum c \<or> c \<in> {CHR ''_'', CHR ''.'', CHR ''-'', CHR ''~''})"

definition hex_upper :: "nat \<Rightarrow> char" where
  "hex_upper d = (if d < 10 then char_of (48 + d) else char_of (55 + d))"

definition quote_byte :: "char \<Rightarrow> string" where
  "quote_byte c = (if quote_safe c then [c]
     else [CHR ''%'', hex_upper (code c div 16), hex_upper (code c mod 16)])"

text \<open>\<^verbatim>\<open>quote(text, safe="")\<close> and \<^verbatim>\<open>quote_plus(text)\<close> of a text given by its UTF-8 bytes\<close>

definition quote :: "string \<Rightarrow> string" where
  "quote b = concat (map quote_byte b)"

definition quote_plus :: "string \<Rightarrow> string" where
  "quote_plus b = concat (map (\<lambda>c. if c = CHR '' '' then ''+'' else quote_byte c) b)"

section \<open>Queries\<close>

type_synonym query = "(string \<times> string) list"

definition parse_field :: "string \<Rightarrow> string \<times> string" where
  "parse_field nv = (let (name, _, val) = py_partition (CHR ''='') nv in
     (unquote_plus name, unquote_plus val))"

text \<open>\<^verbatim>\<open>parse_qsl(qs, keep_blank_values=True, strict_parsing=strict)\<close>\<close>

definition parse_qsl :: "bool \<Rightarrow> string \<Rightarrow> query res" where
  "parse_qsl strict qs =
     (if qs = [] then Inr []
      else let fields = filter (\<lambda>nv. nv \<noteq> [] \<or> strict) (py_split (CHR ''&'') qs) in
        if strict \<and> list_ex (\<lambda>nv. CHR ''='' \<notin> set nv) fields then Inl ValueError
        else Inr (map parse_field fields))"

definition urlencode :: "query \<Rightarrow> string" where
  "urlencode pairs =
     join_with (CHR ''&'') (map (\<lambda>(k, v). quote_plus k @ CHR ''='' # quote_plus v) pairs)"

section \<open>Joining\<close>

text \<open>The scheme tables of \<^verbatim>\<open>urllib.parse\<close>\<close>

definition uses_relative :: "string list" where
  "uses_relative = [[], ''ftp'', ''http'', ''gopher'', ''nntp'', ''imap'', ''wais'', ''file'',
     ''https'', ''shttp'', ''mms'', ''prospero'', ''rtsp'', ''rtspu'', ''sftp'', ''svn'',
     ''svn+ssh'', ''ws'', ''wss'']"

definition uses_netloc :: "string list" where
  "uses_netloc = [[], ''ftp'', ''http'', ''gopher'', ''nntp'', ''telnet'', ''imap'', ''wais'',
     ''file'', ''mms'', ''https'', ''shttp'', ''snews'', ''prospero'', ''rtsp'', ''rtspu'',
     ''rsync'', ''svn'', ''svn+ssh'', ''sftp'', ''nfs'', ''git'', ''git+ssh'', ''ws'', ''wss'']"

definition uses_params :: "string list" where
  "uses_params = [[], ''ftp'', ''hdl'', ''prospero'', ''http'', ''imap'', ''https'', ''shttp'',
     ''rtsp'', ''rtspu'', ''sip'', ''sips'', ''mms'', ''sftp'', ''tel'']"

definition urlunsplit :: "split_result \<Rightarrow> string" where
  "urlunsplit u =
     (let url = (if su_netloc u \<noteq> [] \<or> su_scheme u \<noteq> [] \<and> su_scheme u \<in> set uses_netloc
                    \<or> py_startswith (su_path u) ''//''
                 then ''//'' @ su_netloc u @
                   (if su_path u \<noteq> [] \<and> hd (su_path u) \<noteq> CHR ''/'' then CHR ''/'' # su_path u
                    else su_path u)
                 else su_path u);
          url = (if su_scheme u \<noteq> [] then su_scheme u @ CHR '':'' # url else url);
          url = (if su_query u \<noteq> [] then url @ CHR ''?'' # su_query u else url)
      in if su_fragment u \<noteq> [] then url @ CHR ''#'' # su_fragment u else url)"

text \<open>\<^verbatim>\<open>urlparse\<close> takes the parameters after the first semicolon of the last segment off the path.\<close>

definition split_params :: "string \<Rightarrow> string \<Rightarrow> string \<times> string" where
  "split_params scheme path =
     (if scheme \<in> set uses_params \<and> CHR '';'' \<in> set path
      then let (before, slash, last_segment) = py_rpartition (CHR ''/'') path;
               (segment, has_params, params) = py_partition (CHR '';'') last_segment
           in if has_params then (before @ (if slash then ''/'' else []) @ segment, params)
              else (path, [])
      else (path, []))"

definition urlunparse :: "split_result \<Rightarrow> string \<Rightarrow> string" where
  "urlunparse u params =
     urlunsplit (if params \<noteq> [] then u\<lparr>su_path := su_path u @ CHR '';'' # params\<rparr> else u)"

text \<open>Resolve \<^verbatim>\<open>.\<close> and \<^verbatim>\<open>..\<close> over the segments seen so far (the last segment first).\<close>

fun resolve_segments :: "string list \<Rightarrow> string list \<Rightarrow> string list" where
  "resolve_segments acc [] = rev acc"
| "resolve_segments acc (seg # segs) =
     (if seg = ''..'' then resolve_segments (tl acc) segs
      else if seg = ''.'' then resolve_segments acc segs
      else resolve_segments (seg # acc) segs)"

text \<open>\<^verbatim>\<open>segments[1:-1] = filter(None, segments[1:-1])\<close>\<close>

definition drop_empty_inner :: "string list \<Rightarrow> string list" where
  "drop_empty_inner segs =
     take 1 segs @ filter (\<lambda>s. s \<noteq> []) (butlast (drop 1 segs))
       @ (if length segs < 2 then [] else [last segs])"

definition join_path :: "string \<Rightarrow> string \<Rightarrow> string" where
  "join_path bpath path =
     (let base_parts = py_split (CHR ''/'') bpath;
          base_parts = (if last base_parts \<noteq> [] then butlast base_parts else base_parts);
          segments = (if py_startswith path ''/'' then py_split (CHR ''/'') path
                      else drop_empty_inner (base_parts @ py_split (CHR ''/'') path));
          resolved = resolve_segments [] segments
            @ (if last segments \<in> {''.'', ''..''} then [[]] else []);
          joined = join_with (CHR ''/'') resolved
      in if joined = [] then ''/'' else joined)"

definition urljoin :: "ip_parser \<Rightarrow> string \<Rightarrow> string \<Rightarrow> string res" where
  "urljoin ip base url =
     (if base = [] then Inr url
      else if url = [] then Inr base
      else bindE (urlsplit ip base) (\<lambda>b.
        bindE (urlsplit_with ip (su_scheme b) url) (\<lambda>u.
        let (bpath, bparams) = split_params (su_scheme b) (su_path b);
            (path, params) = split_params (su_scheme u) (su_path u);
            netloc = (if su_scheme u \<in> set uses_netloc then su_netloc b else su_netloc u)
        in if su_scheme u \<noteq> su_scheme b \<or> su_scheme u \<notin> set uses_relative then Inr url
           else if su_scheme u \<in> set uses_netloc \<and> su_netloc u \<noteq> []
           then Inr (urlunparse (u\<lparr>su_path := path\<rparr>) params)
           else if path = [] \<and> params = []
           then Inr (urlunparse (u\<lparr>su_netloc := netloc, su_path := bpath,
                  su_query := (if su_query u = [] then su_query b else su_query u)\<rparr>) bparams)
           else Inr (urlunparse (u\<lparr>su_netloc := netloc, su_path := join_path bpath path\<rparr>) params))))"


section \<open>Lemmas\<close>

lemma py_partition_here [simp]: "c \<notin> set a \<Longrightarrow> py_partition c (a @ c # b) = (a, True, b)"
proof -
  assume "c \<notin> set a"
  then have "\<And>x. x \<in> set a \<Longrightarrow> x \<noteq> c" by auto
  then show ?thesis by (simp add: py_partition_def takeWhile_append2 dropWhile_append2)
qed

lemma py_partition_none [simp]: "c \<notin> set s \<Longrightarrow> py_partition c s = (s, False, [])"
proof -
  assume "c \<notin> set s"
  then have n: "\<forall>x \<in> set s. x \<noteq> c" by auto
  then have "takeWhile (\<lambda>x. x \<noteq> c) s = s" "dropWhile (\<lambda>x. x \<noteq> c) s = []"
    by (simp_all only: takeWhile_eq_all_conv dropWhile_eq_Nil_conv)
  with \<open>c \<notin> set s\<close> show ?thesis unfolding py_partition_def by (metis list.sel(2))
qed

lemma py_rpartition_none [simp]: "c \<notin> set s \<Longrightarrow> py_rpartition c s = ([], False, s)"
  by (simp add: py_rpartition_def)

text \<open>Splitting a joined list of pieces that are free of the separator\<close>

lemma split_acc_free: "sep \<notin> set s \<Longrightarrow> split_acc sep acc s = [rev acc @ s]"
  by (induction s arbitrary: acc) auto

lemma split_acc_append: "sep \<notin> set s \<Longrightarrow> split_acc sep acc (s @ sep # t) = (rev acc @ s) # split_acc sep [] t"
  by (induction s arbitrary: acc) auto

lemma py_split_join: "xs \<noteq> [] \<Longrightarrow> (\<And>x. x \<in> set xs \<Longrightarrow> sep \<notin> set x) \<Longrightarrow>
    py_split sep (join_with sep xs) = xs"
  by (induction sep xs rule: join_with.induct) (auto simp: py_split_def split_acc_free split_acc_append)

lemma py_split_free [simp]: "sep \<notin> set s \<Longrightarrow> py_split sep s = [s]"
  by (simp add: py_split_def split_acc_free)

subsection \<open>Percent encoding\<close>

definition ascii :: "string \<Rightarrow> bool" where
  "ascii s = list_all (\<lambda>c. code c < 128) s"

lemma ascii_simps [simp]: "ascii []" "ascii (c # s) \<longleftrightarrow> code c < 128 \<and> ascii s"
  "ascii (s @ t) \<longleftrightarrow> ascii s \<and> ascii t"
  by (auto simp: ascii_def)

lemma utf8_encode_ascii: "ascii s \<Longrightarrow> utf8_encode s = s"
  by (induction s) (auto simp: utf8_encode_def utf8_char_def)

lemma code_char_eq [simp]: "code (CHR ''%'') = 37" "code (CHR '' '') = 32" "code (CHR ''+'') = 43"
  "code (CHR ''/'') = 47" "code (CHR ''?'') = 63" "code (CHR ''#'') = 35" "code (CHR ''&'') = 38"
  "code (CHR ''='') = 61" "code (CHR '':'') = 58" "code (CHR ''@'') = 64" "code (CHR ''['') = 91"
  "code (CHR '']'') = 93" "code (CHR ''.'') = 46" "code (CHR ''-'') = 45" "code (CHR ''_'') = 95"
  "code (CHR ''~'') = 126" "code (CHR '';'') = 59" "code (CHR ''('') = 40" "code (CHR '')'') = 41"
  by code_simp+

lemma hex_upper_code: "d < 16 \<Longrightarrow> code (hex_upper d) = (if d < 10 then 48 + d else 55 + d)"
  by (simp add: hex_upper_def)

lemma hex_upper_is_hex [simp]: "d < 16 \<Longrightarrow> is_hex (hex_upper d)"
  by (simp add: is_hex_def is_ascii_digit_def hex_upper_code)

lemma hex_val_upper [simp]: "d < 16 \<Longrightarrow> hex_val (hex_upper d) = d"
  by (simp add: hex_val_def is_ascii_digit_def hex_upper_code)

lemma quote_safe_code: "quote_safe c \<Longrightarrow> code c < 128 \<and> code c \<notin> {37, 32, 43, 38, 61, 35, 47, 63}"
  by (auto simp: quote_safe_def is_ascii_alnum_def is_ascii_upper_def is_ascii_lower_def is_ascii_digit_def)

text \<open>The characters of a quoted text\<close>

definition quoted_char :: "char \<Rightarrow> bool" where
  "quoted_char c = (quote_safe c \<or> c \<in> {CHR ''%'', CHR ''+''})"

lemma hex_upper_safe: "d < 16 \<Longrightarrow> quote_safe (hex_upper d)"
  by (simp add: quote_safe_def is_ascii_alnum_def is_ascii_upper_def is_ascii_digit_def hex_upper_code)

lemma code_div_16 [simp]: "code c div 16 < 16"
  using code_less [of c] by (simp add: less_mult_imp_div_less)

lemma quoted_char_intros: "quote_safe c \<Longrightarrow> quoted_char c" "quoted_char (CHR ''%'')" "quoted_char (CHR ''+'')"
  by (simp_all add: quoted_char_def)

lemma hex_upper_quoted [simp]: "d < 16 \<Longrightarrow> quoted_char (hex_upper d)"
  by (intro quoted_char_intros(1) hex_upper_safe)

lemma quote_byte_chars: "x \<in> set (quote_byte c) \<Longrightarrow> quoted_char x"
  unfolding quote_byte_def
  by (cases "quote_safe c") (auto intro: quoted_char_intros)

lemma quote_plus_simps [simp]:
  "quote_plus [] = []"
  "quote_plus (c # b) = (if c = CHR '' '' then ''+'' else quote_byte c) @ quote_plus b"
  by (simp_all add: quote_plus_def)

lemma quote_plus_chars: "x \<in> set (quote_plus b) \<Longrightarrow> quoted_char x"
  by (induction b) (auto intro: quoted_char_intros quote_byte_chars split: if_splits)

lemma quoted_char_code: "quoted_char c \<Longrightarrow> code c < 128 \<and> 32 < code c \<and> code c \<notin> {38, 61, 35, 47, 63}"
  by (auto simp: quoted_char_def dest: quote_safe_code)
     (auto simp: quote_safe_def is_ascii_alnum_def is_ascii_upper_def is_ascii_lower_def is_ascii_digit_def)

lemma not_in_quote_plus:
  "CHR ''&'' \<notin> set (quote_plus b)" "CHR ''='' \<notin> set (quote_plus b)" "CHR ''#'' \<notin> set (quote_plus b)"
  using quote_plus_chars [of _ b] quoted_char_code by fastforce+

lemma ascii_quote_plus: "ascii (quote_plus b)"
  using quote_plus_chars [of _ b] quoted_char_code by (auto simp: ascii_def list_all_iff)

definition plus_to_space :: "string \<Rightarrow> string" where
  "plus_to_space s = map (\<lambda>c. if c = CHR ''+'' then CHR '' '' else c) s"

lemma plus_to_space_append: "plus_to_space (s @ t) = plus_to_space s @ plus_to_space t"
  by (simp add: plus_to_space_def)

lemma hex_upper_not_plus [simp]: "d < 16 \<Longrightarrow> hex_upper d \<noteq> CHR ''+''"
  using hex_upper_safe [of d] quote_safe_code [of "hex_upper d"] by auto

lemma unquote_quote_bytes: "unquote_to_bytes (plus_to_space (quote_plus b)) = b"
proof (induction b)
  case Nil
  show ?case by (simp add: plus_to_space_def)
next
  case (Cons c b)
  consider "c = CHR '' ''" | "c \<noteq> CHR '' ''" "quote_safe c" | "c \<noteq> CHR '' ''" "\<not> quote_safe c" by blast
  then show ?case
  proof cases
    case 1
    then show ?thesis using Cons.IH by (simp add: plus_to_space_def)
  next
    case 2
    then have "c \<noteq> CHR ''+''" "c \<noteq> CHR ''%''" using quote_safe_code [of c] by auto
    with 2 show ?thesis using Cons.IH by (simp add: quote_byte_def plus_to_space_def)
  next
    case 3
    then show ?thesis using Cons.IH by (simp add: quote_byte_def plus_to_space_def)
  qed
qed

subsection \<open>UTF-8\<close>

text \<open>One well-formed sequence of more than one byte\<close>

definition utf8_block :: "string \<Rightarrow> bool" where
  "utf8_block b = (case b of
     c # d # s \<Rightarrow> 128 \<le> code c \<and> lead_bounds (code c) \<noteq> None \<and> second_ok c d
       \<and> seq_length c = 2 + length s \<and> list_all continuation s
   | _ \<Rightarrow> False)"

lemma utf8_replace_block: "utf8_block b \<Longrightarrow> utf8_replace (b @ t) = b @ utf8_replace t"
proof -
  assume b: "utf8_block b"
  then obtain c d s where s: "b = c # d # s" by (auto simp: utf8_block_def split: list.splits)
  with b have w: "128 \<le> code c" "lead_bounds (code c) \<noteq> None" "second_ok c d"
      "seq_length c = 2 + length s" "list_all continuation s"
    by (auto simp: utf8_block_def)
  have "takeWhile continuation s = s" using w(5) by (metis list_all_iff takeWhile_eq_all_conv)
  moreover have "seq_taken (c # d # s @ t) = 2 + length (takeWhile continuation s)" using w(3,4) by simp
  ultimately have "seq_taken (c # d # s @ t) = 2 + length s" by metis
  with w(1,2,4) s show ?thesis by simp
qed

lemma replacement_block: "utf8_block replacement"
  by code_simp

lemma seq_length_2: "lead_bounds n \<noteq> None \<Longrightarrow> \<exists>lo hi k. lead_bounds n = Some (lo, hi, k) \<and> 2 \<le> k"
  by (auto simp: lead_bounds_def split: if_splits)

lemma taken_block:
  assumes "128 \<le> code c" "lead_bounds (code c) \<noteq> None" "seq_taken (c # s) = seq_length c"
  shows "utf8_block (take (seq_length c) (c # s))"
proof -
  have two: "2 \<le> seq_length c" using seq_length_2 [OF assms(2)] by (auto simp: seq_length_def)
  then obtain d t where s: "s = d # t" using assms(3) by (cases s) auto
  have ok: "second_ok c d" using assms(3) two s by (auto split: if_splits)
  let ?t = "take (seq_length c - 2) t"
  have "length (takeWhile continuation ?t) = seq_length c - 2" using assms(3) ok s two by simp
  then have len: "length ?t = seq_length c - 2" and all: "takeWhile continuation ?t = ?t"
    by (metis add_diff_cancel_right' diff_diff_cancel length_take length_takeWhile_le min.absorb2
          le_antisym min.cobounded2, metis le_antisym length_take length_takeWhile_le
          min.cobounded2 takeWhile_eq_take take_all)
  have "take (seq_length c) (c # s) = c # d # ?t" using two s by (cases "seq_length c") (auto simp: take_Cons')
  moreover have "list_all continuation ?t" using all by (simp add: takeWhile_eq_all_conv list_all_iff)
  ultimately show ?thesis using assms two ok len by (simp add: utf8_block_def)
qed

lemma utf8_replace_idem [simp]: "utf8_replace (utf8_replace s) = utf8_replace s"
proof (induction s rule: utf8_replace.induct)
  case 1
  show ?case by simp
next
  case (2 c s)
  show ?case
  proof (cases "code c < 128")
    case True
    with 2 show ?thesis by simp
  next
    case False
    let ?n = "seq_taken (c # s)"
    define b where "b = (if lead_bounds (code c) \<noteq> None \<and> ?n = seq_length c then take ?n (c # s) else replacement)"
    have eq: "utf8_replace (c # s) = b @ utf8_replace (drop (?n - 1) s)"
      using False by (simp add: b_def Let_def)
    have "utf8_block b" using False taken_block [of c s] replacement_block by (auto simp: b_def)
    with eq 2 False show ?thesis by (simp add: utf8_replace_block)
  qed
qed

definition utf8_text :: "string \<Rightarrow> bool" where
  "utf8_text b = (utf8_replace b = b)"

lemma utf8_text_unquote [simp]: "utf8_text (unquote s)"
  by (simp add: utf8_text_def unquote_def)

lemma utf8_text_ascii: "ascii s \<Longrightarrow> utf8_text s"
  by (induction s) (auto simp: utf8_text_def)

lemma unquote_quote_plus: "utf8_text b \<Longrightarrow> unquote_plus (quote_plus b) = b"
proof -
  assume b: "utf8_text b"
  have "ascii (plus_to_space (quote_plus b))"
    using ascii_quote_plus [of b] by (auto simp: ascii_def plus_to_space_def list_all_iff)
  then have "unquote_plus (quote_plus b) = utf8_replace (unquote_to_bytes (plus_to_space (quote_plus b)))"
    by (simp add: unquote_plus_def unquote_def plus_to_space_def utf8_encode_ascii)
  with b show ?thesis by (simp add: unquote_quote_bytes utf8_text_def)
qed

subsection \<open>Queries\<close>

definition query_text_ok :: "query \<Rightarrow> bool" where
  "query_text_ok q = list_all (\<lambda>(k, v). utf8_text k \<and> utf8_text v) q"

lemma parse_qsl_text: "parse_qsl strict s = Inr q \<Longrightarrow> query_text_ok q"
  by (auto simp: parse_qsl_def query_text_ok_def list_all_iff parse_field_def unquote_plus_def
      Let_def py_partition_def split: if_splits)

lemma parse_quoted_field:
  "utf8_text k \<Longrightarrow> utf8_text v \<Longrightarrow> parse_field (quote_plus k @ CHR ''='' # quote_plus v) = (k, v)"
  by (simp add: parse_field_def not_in_quote_plus unquote_quote_plus)

lemma parse_qsl_urlencode: "query_text_ok q \<Longrightarrow> parse_qsl strict (urlencode q) = Inr q"
proof (cases q)
  case Nil
  then show ?thesis by (simp add: parse_qsl_def urlencode_def)
next
  case (Cons p ps)
  assume ok: "query_text_ok q"
  let ?f = "\<lambda>(k, v). quote_plus k @ CHR ''='' # quote_plus v"
  have split: "py_split (CHR ''&'') (urlencode q) = map ?f q"
    unfolding urlencode_def using Cons by (subst py_split_join) (auto simp: not_in_quote_plus)
  have ne: "urlencode q \<noteq> []"
  proof
    assume "urlencode q = []"
    then have "map ?f q = [[]]" using split by (simp add: py_split_def)
    then show False by (auto simp: Cons split: prod.splits)
  qed
  have id: "filter (\<lambda>nv. nv \<noteq> [] \<or> strict) (map ?f q) = map ?f q"
    by (rule filter_True) auto
  have "list_ex (\<lambda>nv. CHR ''='' \<notin> set nv) (map ?f q) = False"
    by (auto simp: list_ex_iff)
  moreover have "map (parse_field \<circ> ?f) q = map (\<lambda>x. x) q"
    using ok by (intro map_cong) (auto simp: query_text_ok_def list_all_iff parse_quoted_field)
  ultimately show ?thesis using ne
    by (simp only: parse_qsl_def split id Let_def if_False list.map_comp) simp
qed


subsection \<open>Splitting what was put together\<close>

definition line_char :: "char \<Rightarrow> bool" where
  "line_char c = (code c \<in> {9, 10, 13})"

definition netloc_char :: "char \<Rightarrow> bool" where
  "netloc_char c = (\<not> authority_end c \<and> \<not> line_char c \<and> c \<noteq> CHR ''['' \<and> c \<noteq> CHR '']'')"

definition path_char :: "char \<Rightarrow> bool" where
  "path_char c = (\<not> line_char c \<and> c \<noteq> CHR ''?'' \<and> c \<noteq> CHR ''#'')"

definition query_char :: "char \<Rightarrow> bool" where
  "query_char c = (\<not> line_char c \<and> c \<noteq> CHR ''#'')"

abbreviation https_parts :: "string \<Rightarrow> string \<Rightarrow> string \<Rightarrow> split_result" where
  "https_parts n p q \<equiv>
     \<lparr>su_scheme = ''https'', su_netloc = n, su_path = p, su_query = q, su_fragment = []\<rparr>"

definition query_tail :: "string \<Rightarrow> string" where
  "query_tail q = (if q = [] then [] else CHR ''?'' # q)"

lemma urlunsplit_https:
  assumes "n \<noteq> []" "py_startswith p ''/''"
  shows "urlunsplit (https_parts n p q) = ''https:'' @ ''//'' @ n @ p @ query_tail q"
proof -
  from assms obtain p' where "p = CHR ''/'' # p'" by (cases p) auto
  with assms show ?thesis by (simp add: urlunsplit_def query_tail_def Let_def)
qed

lemma split_scheme_https: "split_scheme [] (''https:'' @ s) = (''https'', s)"
proof -
  have "py_partition (CHR '':'') (''https'' @ CHR '':'' # s) = (''https'', True, s)"
    by (rule py_partition_here) simp
  moreover have "list_all scheme_char ''https''" "is_ascii_alpha (CHR ''h'')" "py_lower ''https'' = ''https''"
    by code_simp+
  ultimately show ?thesis by (simp add: split_scheme_def)
qed

lemma split_netloc_authority:
  assumes "list_all netloc_char n" "r = [] \<or> authority_end (hd r)"
  shows "split_netloc (''//'' @ n @ r) = (n, r)"
proof -
  have n: "\<And>c. c \<in> set n \<Longrightarrow> \<not> authority_end c"
    using assms(1) by (auto simp: list_all_iff netloc_char_def)
  have "takeWhile (\<lambda>c. \<not> authority_end c) r = []" "dropWhile (\<lambda>c. \<not> authority_end c) r = r"
    using assms(2) by (cases r; simp)+
  with n show ?thesis by (simp add: split_netloc_def takeWhile_append2 dropWhile_append2)
qed

lemma clean_url_id: "(\<And>c. c \<in> set u \<Longrightarrow> \<not> line_char c) \<Longrightarrow> u = c # cs \<Longrightarrow> 32 < code c \<Longrightarrow> clean_url u = u"
  by (auto simp: clean_url_def line_char_def intro: filter_True)

lemma urlsplit_https:
  assumes n: "n \<noteq> []" "list_all netloc_char n"
    and p: "py_startswith p ''/''" "list_all path_char p"
    and q: "list_all query_char q"
  shows "urlsplit ip (urlunsplit (https_parts n p q)) = Inr (https_parts n p q)"
proof -
  from p(1) obtain p' where p': "p = CHR ''/'' # p'" by (cases p) auto
  let ?u = "''https:'' @ ''//'' @ n @ p @ query_tail q"
  have "list_all (\<lambda>c. \<not> line_char c) ''https:''" "list_all (\<lambda>c. \<not> line_char c) ''//''"
      "\<not> line_char (CHR ''?'')"
    by code_simp+
  moreover have "list_all (\<lambda>c. \<not> line_char c) n" "list_all (\<lambda>c. \<not> line_char c) p"
      "list_all (\<lambda>c. \<not> line_char c) q"
    using n(2) p(2) q by (auto simp: list_all_iff netloc_char_def path_char_def query_char_def)
  ultimately have "list_all (\<lambda>c. \<not> line_char c) ?u"
    by (simp only: list_all_append query_tail_def list.pred_inject split: if_splits) simp
  then have lines: "\<not> line_char c" if "c \<in> set ?u" for c
    using that unfolding list_all_iff by (rule bspec)
  have clean: "clean_url ?u = ?u"
    by (rule clean_url_id [OF lines]) (assumption, rule append_Cons, code_simp)
  have net: "split_netloc (''//'' @ n @ p @ query_tail q) = (n, p @ query_tail q)"
    by (rule split_netloc_authority [OF n(2)]) (simp add: p' authority_end_def)
  have "CHR ''#'' \<notin> set (p @ query_tail q)"
    using p(2) q by (auto simp: list_all_iff path_char_def query_char_def query_tail_def)
  then have frag: "py_partition (CHR ''#'') (p @ query_tail q) = (p @ query_tail q, False, [])"
    by (rule py_partition_none)
  have np: "CHR ''?'' \<notin> set p" using p(2) by (auto simp: list_all_iff path_char_def)
  have query: "\<exists>b. py_partition (CHR ''?'') (p @ query_tail q) = (p, b, q)"
    using np by (cases "q = []") (auto simp: query_tail_def)
  have "CHR ''['' \<notin> set n" "CHR '']'' \<notin> set n"
    using n(2) by (auto simp: list_all_iff netloc_char_def)
  then have "netloc_ok ip n" by (simp add: netloc_ok_def)
  with query show ?thesis
    by (auto simp only: urlunsplit_https [OF n(1) p(1)] urlsplit_def urlsplit_with_def clean
        split_scheme_https net frag Let_def prod.case if_False not_True_eq_False)
qed

text \<open>The parts of an authority that is a host name with or without a port\<close>

definition plain_host_char :: "char \<Rightarrow> bool" where
  "plain_host_char c = (netloc_char c \<and> c \<noteq> CHR '':'' \<and> c \<noteq> CHR ''@'' \<and> c \<noteq> CHR ''%'')"

definition port_suffix :: "int option \<Rightarrow> string" where
  "port_suffix port = (case port of None \<Rightarrow> [] | Some p \<Rightarrow> CHR '':'' # dec_int p)"

lemma dec_int_nonneg: "0 \<le> p \<Longrightarrow> dec_int p = dec_nat (nat p)"
  by (simp add: dec_int_def)

lemma dec_int_digit: "0 \<le> p \<Longrightarrow> c \<in> set (dec_int p) \<Longrightarrow> is_ascii_digit c"
  by (auto simp: dec_int_nonneg dec_nat_digits)

lemma digit_netloc_char: "is_ascii_digit c \<Longrightarrow> netloc_char c"
  by (auto simp: is_ascii_digit_def netloc_char_def authority_end_def line_char_def)

lemma digit_plain: "is_ascii_digit c \<Longrightarrow> c \<noteq> CHR ''@'' \<and> c \<noteq> CHR ''[''"
  by (auto simp: is_ascii_digit_def)

text \<open>The network location of the URL is this host name with this port.\<close>

definition plain_authority :: "string \<Rightarrow> int option \<Rightarrow> split_result \<Rightarrow> bool" where
  "plain_authority h port u =
     (h \<noteq> [] \<and> list_all plain_host_char h \<and> su_netloc u = h @ port_suffix port
      \<and> (case port of None \<Rightarrow> True | Some p \<Rightarrow> 0 \<le> p \<and> p \<le> 65535))"

lemma plain_host_free: "list_all plain_host_char h \<Longrightarrow>
    CHR ''@'' \<notin> set h \<and> CHR ''['' \<notin> set h \<and> CHR '':'' \<notin> set h \<and> CHR ''%'' \<notin> set h \<and> list_all netloc_char h"
  by (auto simp: list_all_iff plain_host_char_def netloc_char_def)

lemma port_suffix_free: "case port of None \<Rightarrow> True | Some p \<Rightarrow> 0 \<le> p \<Longrightarrow>
    CHR ''@'' \<notin> set (port_suffix port) \<and> CHR ''['' \<notin> set (port_suffix port) \<and> list_all netloc_char (port_suffix port)"
proof (cases port)
  case None
  then show ?thesis by (simp add: port_suffix_def)
next
  case (Some p)
  assume "case port of None \<Rightarrow> True | Some p \<Rightarrow> 0 \<le> p"
  with Some have d: "\<And>c. c \<in> set (dec_int p) \<Longrightarrow> is_ascii_digit c" by (simp add: dec_int_digit)
  have "netloc_char (CHR '':'')" by code_simp
  with Some d digit_plain digit_netloc_char show ?thesis
    by (fastforce simp: port_suffix_def list_all_iff)
qed

lemma plain_authority_range:
  "plain_authority h port u \<Longrightarrow> case port of None \<Rightarrow> True | Some p \<Rightarrow> 0 \<le> p"
  by (cases port) (auto simp: plain_authority_def)

lemma plain_netloc_chars: "plain_authority h port u \<Longrightarrow> list_all netloc_char (su_netloc u)"
  using plain_host_free [of h] port_suffix_free [OF plain_authority_range, of h port u]
  by (simp add: plain_authority_def)

lemma plain_rpartition: "plain_authority h port u \<Longrightarrow>
    py_rpartition (CHR ''@'') (su_netloc u) = ([], False, su_netloc u)"
  using plain_host_free [of h] port_suffix_free [OF plain_authority_range, of h port u]
  by (intro py_rpartition_none) (simp add: plain_authority_def)

lemma plain_host_and_port:
  assumes "plain_authority h port u"
  shows "host_and_port u = (h, case port of None \<Rightarrow> [] | Some p \<Rightarrow> dec_int p)"
proof -
  note free = plain_host_free [of h] port_suffix_free [OF plain_authority_range, of h port u]
  have "py_partition (CHR ''['') (su_netloc u) = (su_netloc u, False, [])"
    using free assms by (intro py_partition_none) (simp add: plain_authority_def)
  moreover have "\<exists>b. py_partition (CHR '':'') (su_netloc u) = (h, b, case port of None \<Rightarrow> [] | Some p \<Rightarrow> dec_int p)"
    using free assms by (cases port) (auto simp: plain_authority_def port_suffix_def)
  ultimately show ?thesis using plain_rpartition [OF assms] by (auto simp: host_and_port_def)
qed

lemma plain_hostname: "plain_authority h port u \<Longrightarrow> su_hostname u = Some (py_lower h)"
  using plain_host_free [of h]
  by (simp add: su_hostname_def plain_host_and_port) (auto simp: plain_authority_def)

lemma plain_port:
  assumes "plain_authority h port u"
  shows "su_port u = Inr port"
proof (cases port)
  case None
  with assms show ?thesis by (simp add: su_port_def plain_host_and_port)
next
  case (Some p)
  with assms have p: "0 \<le> p" "p \<le> 65535" by (auto simp: plain_authority_def)
  then have "read_nat (dec_int p) = nat p" "dec_int p \<noteq> []" "list_all is_ascii_digit (dec_int p)"
    by (auto simp: dec_int_nonneg list_all_iff dec_nat_digits)
  with p Some assms show ?thesis by (simp add: su_port_def plain_host_and_port)
qed

lemma plain_userinfo: "plain_authority h port u \<Longrightarrow> su_username u = None \<and> su_password u = None"
  by (simp add: su_username_def su_password_def plain_rpartition)

end
