(* ===== verification/AcquisitionModels.thy ===== *)
theory AcquisitionModels
  imports Complex_Main Urls
begin

text \<open>
  \<^verbatim>\<open>src/molly/acquisition/models.py\<close>: the server-owned configuration of the acquisition component
  (routes, providers, the aggregate), access material, the bibliographic records and the
  provenance of an acquired body, each with the checks of its constructor.

  A Python number that is an int or a float is \<open>number\<close>; a float is the rational it denotes
  (the checks refuse NaN and the infinities, which are not represented). The environment has what
  the component takes from the standard library's tables: addresses, the \<^verbatim>\<open>repr\<close> of a float
  (for configuration digests) and Unicode normalisation.
\<close>

record acq_env =
  env_host :: host
  env_ip :: ip_parser                   \<comment> \<open>\<^verbatim>\<open>ipaddress.ip_address\<close>\<close>
  env_float_repr :: "rat \<Rightarrow> string"
  env_nfkc :: "string \<Rightarrow> string"          \<comment> \<open>\<^verbatim>\<open>unicodedata.normalize("NFKC", text)\<close>\<close>

datatype number = IntNum int | FloatNum rat

fun num_val :: "number \<Rightarrow> rat" where
  "num_val (IntNum i) = of_int i"
| "num_val (FloatNum q) = q"

fun num_json :: "acq_env \<Rightarrow> number \<Rightarrow> json" where
  "num_json E (IntNum i) = JInt i"
| "num_json E (FloatNum q) = JFloat (Finite (env_float_repr E q))"

section \<open>Constants and closed vocabularies\<close>

definition max_response_bytes :: int where "max_response_bytes = 25 * 1024 * 1024"
definition max_query_length :: int where "max_query_length = 512"
definition max_result_limit :: int where "max_result_limit = 20"
definition max_redirects :: nat where "max_redirects = 5"
definition max_connect_timeout :: rat where "max_connect_timeout = 10"
definition max_read_timeout :: rat where "max_read_timeout = 30"
definition max_total_timeout :: rat where "max_total_timeout = 60"

definition accepted_media_types :: "string list" where
  "accepted_media_types =
     [''application/json'', ''application/xml'', ''text/xml'', ''text/html'', ''application/pdf'']"

definition provider_classes :: "string list" where
  "provider_classes = [''METADATA'', ''OA_RESOLUTION'', ''FULL_TEXT'']"

definition access_statuses :: "string list" where
  "access_statuses = [''CONFIGURED_AUTHORIZED'', ''VERIFIED_OPEN_ACCESS'']"

datatype artifact_class = PUBLIC_ARTIFACT | PRIVATE_ARTIFACT | RUNTIME_SECRET | CREDENTIAL_REFERENCE

fun class_value :: "artifact_class \<Rightarrow> string" where
  "class_value PUBLIC_ARTIFACT = ''PUBLIC_ARTIFACT''"
| "class_value PRIVATE_ARTIFACT = ''PRIVATE_ARTIFACT''"
| "class_value RUNTIME_SECRET = ''RUNTIME_SECRET''"
| "class_value CREDENTIAL_REFERENCE = ''CREDENTIAL_REFERENCE''"

definition artifact_classes :: "string list" where
  "artifact_classes =
     map class_value [PUBLIC_ARTIFACT, PRIVATE_ARTIFACT, RUNTIME_SECRET, CREDENTIAL_REFERENCE]"

datatype acquisition_status = FOUND | NOT_FOUND | NO_ELIGIBLE_SOURCE | CACHE_HIT | ACQUIRED

fun status_value :: "acquisition_status \<Rightarrow> string" where
  "status_value FOUND = ''FOUND''"
| "status_value NOT_FOUND = ''NOT_FOUND''"
| "status_value NO_ELIGIBLE_SOURCE = ''NO_ELIGIBLE_SOURCE''"
| "status_value CACHE_HIT = ''CACHE_HIT''"
| "status_value ACQUIRED = ''ACQUIRED''"

datatype content_family = JSON_family | XML_family | HTML_family | PDF_family

fun family_value :: "content_family \<Rightarrow> string" where
  "family_value JSON_family = ''json''"
| "family_value XML_family = ''xml''"
| "family_value HTML_family = ''html''"
| "family_value PDF_family = ''pdf''"

definition content_families :: "string list" where
  "content_families = map family_value [JSON_family, XML_family, HTML_family, PDF_family]"

text \<open>The dictionary from media types to families that the provenance and the cache share\<close>

definition media_families :: "(string \<times> content_family) list" where
  "media_families =
     [(''application/json'', JSON_family), (''application/xml'', XML_family),
      (''text/xml'', XML_family), (''text/html'', HTML_family), (''application/pdf'', PDF_family)]"

text \<open>\<^verbatim>\<open>value.casefold().split(";", 1)[0].strip()\<close>\<close>

definition media_of :: "string \<Rightarrow> string" where
  "media_of value = py_strip (fst (py_partition (CHR '';'') (py_casefold value)))"

section \<open>Bounded text\<close>

definition ctrl_text_char :: "char \<Rightarrow> bool" where
  "ctrl_text_char c = (c \<in> {CHR 0x00, CHR 0x0D, CHR 0x0A})"

definition bounded_text :: "nat \<Rightarrow> string \<Rightarrow> string res" where
  "bounded_text maximum value =
     (if py_strip value = [] then Inl AcquisitionConfigurationError
      else if length value > maximum \<or> list_ex ctrl_text_char value
      then Inl AcquisitionConfigurationError
      else Inr value)"

definition enum_value :: "string list \<Rightarrow> string \<Rightarrow> string res" where
  "enum_value names value =
     (let normalized = py_strip value in
      if normalized \<in> set names then Inr normalized
      else if py_upper normalized \<in> set names then Inr (py_upper normalized)
      else Inl AcquisitionConfigurationError)"

definition label_char :: "char \<Rightarrow> bool" where
  "label_char c = (is_ascii_lower c \<or> is_ascii_digit c)"

text \<open>\<^verbatim>\<open>[a-z0-9](?:[a-z0-9-]{0,61}[a-z0-9])?\<close>\<close>

definition dns_label :: "string \<Rightarrow> bool" where
  "dns_label s = (s \<noteq> [] \<and> length s \<le> 63 \<and> label_char (hd s) \<and> label_char (last s)
     \<and> list_all (\<lambda>c. label_char c \<or> c = CHR ''-'') s)"

definition dns_hostname :: "string \<Rightarrow> bool" where
  "dns_hostname s = list_all dns_label (py_split (CHR ''.'') s)"

definition canonical_config_host :: "ip_parser \<Rightarrow> string \<Rightarrow> string res" where
  "canonical_config_host ip value =
     bindE (bounded_text 253 value) (\<lambda>_.
     bindE (guardE (value = py_strip value \<and> \<not> py_endswith value ''.'' \<and> \<not> list_ex py_isspace value)
       AcquisitionConfigurationError) (\<lambda>_.
     bindE (guardE (list_all (\<lambda>c. code c \<le> 127) value) AcquisitionConfigurationError) (\<lambda>_.
     bindE (guardE (\<not> list_ex (\<lambda>c. c \<in> {CHR ''/'', CHR '':'', CHR ''@''}) value)
       AcquisitionConfigurationError) (\<lambda>_.
     bindE (guardE (dns_hostname (py_casefold value)) AcquisitionConfigurationError) (\<lambda>_.
     bindE (guardE (ip (py_casefold value) = None) AcquisitionConfigurationError) (\<lambda>_.
     Inr (py_casefold value)))))))"

definition unique_texts :: "string list \<Rightarrow> string list res" where
  "unique_texts values =
     bindE (mapE (bounded_text 128) values) (\<lambda>normalized.
     if distinct normalized then Inr normalized else Inl AcquisitionConfigurationError)"

section \<open>Retry policy\<close>

record retry_policy =
  rp_initial_delay :: number
  rp_maximum_delay :: number
  rp_maximum_retries :: int
  rp_jitter_fraction :: number
  rp_maximum_retry_after :: number

definition retry_policy_init :: "retry_policy \<Rightarrow> retry_policy res" where
  "retry_policy_init p =
     (if \<not> (0 < num_val (rp_initial_delay p) \<and> num_val (rp_initial_delay p) \<le> 32)
      then Inl AcquisitionConfigurationError
      else if \<not> (num_val (rp_initial_delay p) \<le> num_val (rp_maximum_delay p)
                 \<and> num_val (rp_maximum_delay p) \<le> 32)
      then Inl AcquisitionConfigurationError
      else if \<not> (0 \<le> rp_maximum_retries p \<and> rp_maximum_retries p \<le> 3)
      then Inl AcquisitionConfigurationError
      else if \<not> (0 \<le> num_val (rp_jitter_fraction p) \<and> num_val (rp_jitter_fraction p) \<le> 1)
      then Inl AcquisitionConfigurationError
      else if \<not> (0 \<le> num_val (rp_maximum_retry_after p) \<and> num_val (rp_maximum_retry_after p) \<le> 32)
      then Inl AcquisitionConfigurationError
      else Inr p)"

definition retry_policy_to_dict :: "acq_env \<Rightarrow> retry_policy \<Rightarrow> json" where
  "retry_policy_to_dict E p = JObj
     [(''initial_delay_seconds'', num_json E (rp_initial_delay p)),
      (''maximum_delay_seconds'', num_json E (rp_maximum_delay p)),
      (''maximum_retries'', JInt (rp_maximum_retries p)),
      (''jitter_fraction'', num_json E (rp_jitter_fraction p)),
      (''maximum_retry_after_seconds'', num_json E (rp_maximum_retry_after p))]"

section \<open>Routes\<close>

record provider_route =
  pr_route_id :: string
  pr_host :: string
  pr_path_template :: string
  pr_port :: int
  pr_scheme :: string
  pr_path_prefix :: "string option"
  pr_allowed_methods :: "string list"
  pr_allowed_query_fields :: "string list"
  pr_allowed_header_names :: "string list"
  pr_accepted_content_types :: "string list"
  pr_access_basis :: string
  pr_license_status :: string
  pr_redistribution_basis :: string
  pr_access_profile_ref :: "string option"
  pr_route_policy_version :: string
  pr_provider_id :: string
  pr_access_status :: string

definition unsafe_path_char :: "char \<Rightarrow> bool" where
  "unsafe_path_char c = (c \<in> {CHR 0x00, CHR ''?'', CHR ''#'', CHR 0x5C})"

definition has_segment :: "string \<Rightarrow> string \<Rightarrow> bool" where
  "has_segment seg path = (seg \<in> set (py_split (CHR ''/'') path))"

definition check_route_path :: "string \<Rightarrow> unit res" where
  "check_route_path value =
     (if value \<noteq> [] \<and> (\<not> py_startswith value ''/'' \<or> list_ex unsafe_path_char value)
      then Inl AcquisitionConfigurationError
      else if value \<noteq> [] \<and> has_segment ''..'' value then Inl AcquisitionConfigurationError
      else Inr ())"

text \<open>The prefix that is derived from the template when none is configured\<close>

definition derived_prefix :: "provider_route \<Rightarrow> string" where
  "derived_prefix r = (case pr_path_prefix r of
     Some p \<Rightarrow> p
   | None \<Rightarrow> let static = fst (py_partition (CHR ''{'') (pr_path_template r))
             in if static = [] then ''/'' else static)"

definition query_field_ok :: "string \<Rightarrow> bool" where
  "query_field_ok s = (1 \<le> length s \<and> length s \<le> 64
     \<and> list_all (\<lambda>c. is_ascii_alnum c \<or> c \<in> {CHR ''_'', CHR ''.'', CHR ''-''}) s)"

definition header_name_ok :: "nat \<Rightarrow> string \<Rightarrow> bool" where
  "header_name_ok maximum s = (1 \<le> length s \<and> length s \<le> maximum
     \<and> list_all (\<lambda>c. label_char c \<or> c = CHR ''-'') s)"

text \<open>\<^verbatim>\<open>ProviderRoute.__post_init__\<close>\<close>

definition route_init :: "acq_env \<Rightarrow> provider_route \<Rightarrow> provider_route res" where
  "route_init E r =
     bindE (validate_identifier (pr_route_id r)) (\<lambda>_.
     bindE (canonical_config_host (env_ip E) (pr_host r)) (\<lambda>host.
     bindE (guardE (1 \<le> pr_port r \<and> pr_port r \<le> 65535) AcquisitionConfigurationError) (\<lambda>_.
     bindE (guardE (py_casefold (pr_scheme r) = ''https'') AcquisitionConfigurationError) (\<lambda>_.
     bindE (check_route_path (pr_path_template r)) (\<lambda>_.
     bindE (check_route_path (case pr_path_prefix r of None \<Rightarrow> [] | Some p \<Rightarrow> p)) (\<lambda>_.
     bindE (guardE (derived_prefix r \<noteq> []) AcquisitionConfigurationError) (\<lambda>_.
     bindE (guardE (map py_upper (pr_allowed_methods r) = [''GET'']) AcquisitionConfigurationError) (\<lambda>_.
     bindE (unique_texts (pr_allowed_query_fields r)) (\<lambda>query_fields.
     bindE (guardE (list_all query_field_ok query_fields) AcquisitionConfigurationError) (\<lambda>_.
     bindE (guardE (list_all (header_name_ok 64) (map py_casefold (pr_allowed_header_names r)))
       AcquisitionConfigurationError) (\<lambda>_.
     bindE (unique_texts (map py_casefold (pr_allowed_header_names r))) (\<lambda>header_names.
     bindE (guardE (pr_accepted_content_types r \<noteq> []
         \<and> list_all (\<lambda>m. m \<in> set accepted_media_types) (map media_of (pr_accepted_content_types r)))
       AcquisitionConfigurationError) (\<lambda>_.
     bindE (unique_texts (map media_of (pr_accepted_content_types r))) (\<lambda>media.
     bindE (mapE (bounded_text 256) [pr_access_basis r, pr_license_status r,
         pr_redistribution_basis r, pr_route_policy_version r]) (\<lambda>_.
     bindE (check_opt validate_reference (pr_access_profile_ref r)) (\<lambda>_.
     bindE (if pr_provider_id r \<noteq> [] then validate_identifier (pr_provider_id r) else Inr []) (\<lambda>_.
     bindE (enum_value access_statuses (pr_access_status r)) (\<lambda>status.
     Inr (r\<lparr>pr_host := host, pr_scheme := ''https'', pr_path_prefix := Some (derived_prefix r),
            pr_allowed_methods := [''GET''], pr_allowed_query_fields := query_fields,
            pr_allowed_header_names := header_names, pr_accepted_content_types := media,
            pr_access_status := status\<rparr>)))))))))))))))))))"

text \<open>\<^verbatim>\<open>dataclasses.replace\<close> runs the constructor again.\<close>

definition with_provider :: "acq_env \<Rightarrow> string \<Rightarrow> provider_route \<Rightarrow> provider_route res" where
  "with_provider E pid r =
     (if pr_provider_id r \<noteq> [] \<and> pr_provider_id r \<noteq> pid then Inl AcquisitionConfigurationError
      else route_init E (r\<lparr>pr_provider_id := pid\<rparr>))"

definition path_value_char :: "char \<Rightarrow> bool" where
  "path_value_char c = (ctrl_text_char c \<or> c \<in> {CHR ''?'', CHR ''#'', CHR 0x5C})"

fun render_values :: "(string \<times> string) list \<Rightarrow> string \<Rightarrow> string res" where
  "render_values [] rendered = Inr rendered"
| "render_values ((key, value) # values) rendered =
     (if list_ex path_value_char value then Inl AcquisitionConfigurationError
      else render_values values (py_replace (CHR ''{'' # key @ ''}'') value rendered))"

definition render_path :: "provider_route \<Rightarrow> (string \<times> string) list \<Rightarrow> string res" where
  "render_path r values =
     bindE (render_values values (pr_path_template r)) (\<lambda>rendered.
     if CHR ''{'' \<in> set rendered \<or> CHR ''}'' \<in> set rendered then Inl AcquisitionConfigurationError
     else if \<not> py_startswith rendered ''/'' \<or> has_segment ''..'' rendered
     then Inl AcquisitionConfigurationError
     else Inr rendered)"

definition route_binding :: "provider_route \<Rightarrow> json" where
  "route_binding r = JObj
     [(''provider_id'', JStr (pr_provider_id r)),
      (''route_id'', JStr (pr_route_id r)),
      (''host'', JStr (pr_host r)),
      (''port'', JInt (pr_port r)),
      (''scheme'', JStr (pr_scheme r)),
      (''path_template'', JStr (pr_path_template r)),
      (''path_prefix'', jstr_opt (pr_path_prefix r)),
      (''allowed_methods'', jstrs (pr_allowed_methods r)),
      (''allowed_query_fields'', jstrs (pr_allowed_query_fields r)),
      (''allowed_header_names'', jstrs (pr_allowed_header_names r)),
      (''accepted_content_types'', jstrs (pr_accepted_content_types r)),
      (''access_basis'', JStr (pr_access_basis r)),
      (''license_status'', JStr (pr_license_status r)),
      (''redistribution_basis'', JStr (pr_redistribution_basis r)),
      (''access_profile_ref'', jstr_opt (pr_access_profile_ref r)),
      (''route_policy_version'', JStr (pr_route_policy_version r)),
      (''access_status'', JStr (pr_access_status r))]"


section \<open>Providers\<close>

record provider_config =
  pc_provider_id :: string
  pc_provider_class :: string
  pc_routes :: "provider_route list"
  pc_connect_timeout :: number
  pc_read_timeout :: number
  pc_total_timeout :: number
  pc_max_response_bytes :: int
  pc_max_concurrent_requests :: int
  pc_requests_per_second :: number
  pc_retry_policy :: retry_policy
  pc_access_profile_ref :: "string option"
  pc_route_policy_version :: string
  pc_logical_access_policy :: string

text \<open>The loop over the routes; the second argument holds the route IDs seen so far.\<close>

fun bind_routes :: "acq_env \<Rightarrow> string \<Rightarrow> string list \<Rightarrow> provider_route list \<Rightarrow> provider_route list res" where
  "bind_routes E pid seen [] = Inr []"
| "bind_routes E pid seen (r # rs) =
     bindE (with_provider E pid r) (\<lambda>route.
     if pr_route_id route \<in> set seen then Inl AcquisitionConfigurationError
     else bindE (bind_routes E pid (pr_route_id route # seen) rs) (\<lambda>routes. Inr (route # routes)))"

text \<open>\<^verbatim>\<open>0 < value <= maximum\<close>\<close>

definition in_bound :: "number \<Rightarrow> rat \<Rightarrow> bool" where
  "in_bound n maximum = (0 < num_val n \<and> num_val n \<le> maximum)"

definition provider_config_init :: "acq_env \<Rightarrow> provider_config \<Rightarrow> provider_config res" where
  "provider_config_init E c =
     bindE (validate_identifier (pc_provider_id c)) (\<lambda>_.
     bindE (enum_value provider_classes (pc_provider_class c)) (\<lambda>class.
     bindE (guardE (in_bound (pc_connect_timeout c) max_connect_timeout) AcquisitionConfigurationError) (\<lambda>_.
     bindE (guardE (in_bound (pc_read_timeout c) max_read_timeout) AcquisitionConfigurationError) (\<lambda>_.
     bindE (guardE (in_bound (pc_total_timeout c) max_total_timeout) AcquisitionConfigurationError) (\<lambda>_.
     bindE (guardE (0 < pc_max_response_bytes c \<and> pc_max_response_bytes c \<le> max_response_bytes)
       AcquisitionConfigurationError) (\<lambda>_.
     bindE (guardE (0 < pc_max_concurrent_requests c \<and> pc_max_concurrent_requests c \<le> 2)
       AcquisitionConfigurationError) (\<lambda>_.
     bindE (guardE (in_bound (pc_requests_per_second c) 1) AcquisitionConfigurationError) (\<lambda>_.
     bindE (bounded_text 128 (pc_route_policy_version c)) (\<lambda>_.
     bindE (bounded_text 256 (pc_logical_access_policy c)) (\<lambda>_.
     bindE (check_opt validate_reference (pc_access_profile_ref c)) (\<lambda>_.
     bindE (bind_routes E (pc_provider_id c) [] (pc_routes c)) (\<lambda>routes.
     bindE (guardE (routes \<noteq> []) AcquisitionConfigurationError) (\<lambda>_.
     Inr (c\<lparr>pc_provider_class := class, pc_routes := routes\<rparr>))))))))))))))"

definition provider_route_of :: "provider_config \<Rightarrow> string \<Rightarrow> provider_route res" where
  "provider_route_of c route_id =
     bindE (validate_identifier route_id) (\<lambda>_.
     case find (\<lambda>r. pr_route_id r = route_id) (pc_routes c) of
       Some r \<Rightarrow> Inr r
     | None \<Rightarrow> Inl AcquisitionConfigurationError)"

definition provider_binding :: "acq_env \<Rightarrow> provider_config \<Rightarrow> json" where
  "provider_binding E c = JObj
     [(''provider_id'', JStr (pc_provider_id c)),
      (''provider_class'', JStr (pc_provider_class c)),
      (''routes'', JArr (map route_binding (pc_routes c))),
      (''connect_timeout_seconds'', num_json E (pc_connect_timeout c)),
      (''read_timeout_seconds'', num_json E (pc_read_timeout c)),
      (''total_timeout_seconds'', num_json E (pc_total_timeout c)),
      (''max_response_bytes'', JInt (pc_max_response_bytes c)),
      (''max_concurrent_requests'', JInt (pc_max_concurrent_requests c)),
      (''requests_per_second'', num_json E (pc_requests_per_second c)),
      (''retry_policy'', retry_policy_to_dict E (pc_retry_policy c)),
      (''access_profile_ref'', jstr_opt (pc_access_profile_ref c)),
      (''route_policy_version'', JStr (pc_route_policy_version c)),
      (''logical_access_policy'', JStr (pc_logical_access_policy c))]"

definition provider_config_digest :: "acq_env \<Rightarrow> provider_config \<Rightarrow> string res" where
  "provider_config_digest E c = json_sha256 (env_host E) (provider_binding E c)"

section \<open>The aggregate configuration\<close>

record acquisition_config =
  ac_providers :: "provider_config list"
  ac_full_text_routes :: "provider_route list"
  ac_route_policy_version :: string
  ac_max_query_length :: int
  ac_max_result_limit :: int

text \<open>The identity of a full-text route in the set that the constructor keeps\<close>

definition route_key :: "provider_route \<Rightarrow> string \<times> string" where
  "route_key r = (pr_provider_id r, pr_route_id r)"

fun check_full_text :: "string list \<Rightarrow> (string \<times> string) list \<Rightarrow> provider_route list \<Rightarrow> unit res" where
  "check_full_text providers seen [] = Inr ()"
| "check_full_text providers seen (r # rs) =
     (if pr_provider_id r = [] then Inl AcquisitionConfigurationError
      else if pr_provider_id r \<notin> set providers then Inl AcquisitionConfigurationError
      else if route_key r \<in> set seen then Inl AcquisitionConfigurationError
      else check_full_text providers (route_key r # seen) rs)"

text \<open>
  Add the routes of one full-text provider that are not there yet. The key that the code
  looks up is the provider's ID with the route's ID.
\<close>

fun add_provider_routes :: "string \<Rightarrow> (string \<times> string) list \<Rightarrow> provider_route list \<Rightarrow>
    provider_route list \<times> (string \<times> string) list" where
  "add_provider_routes pid seen [] = ([], seen)"
| "add_provider_routes pid seen (r # rs) =
     (if (pid, pr_route_id r) \<in> set seen then add_provider_routes pid seen rs
      else let (more, seen') = add_provider_routes pid ((pid, pr_route_id r) # seen) rs
           in (r # more, seen'))"

fun add_full_text :: "(string \<times> string) list \<Rightarrow> provider_config list \<Rightarrow> provider_route list" where
  "add_full_text seen [] = []"
| "add_full_text seen (c # cs) =
     (if pc_provider_class c = ''FULL_TEXT''
      then let (more, seen') = add_provider_routes (pc_provider_id c) seen (pc_routes c)
           in more @ add_full_text seen' cs
      else add_full_text seen cs)"

definition acquisition_config_init :: "acquisition_config \<Rightarrow> acquisition_config res" where
  "acquisition_config_init c =
     bindE (bounded_text 128 (ac_route_policy_version c)) (\<lambda>_.
     bindE (guardE (1 \<le> ac_max_query_length c \<and> ac_max_query_length c \<le> max_query_length)
       AcquisitionConfigurationError) (\<lambda>_.
     bindE (guardE (1 \<le> ac_max_result_limit c \<and> ac_max_result_limit c \<le> max_result_limit)
       AcquisitionConfigurationError) (\<lambda>_.
     bindE (guardE (distinct (map pc_provider_id (ac_providers c))) AcquisitionConfigurationError) (\<lambda>_.
     bindE (check_full_text (map pc_provider_id (ac_providers c)) [] (ac_full_text_routes c)) (\<lambda>_.
     Inr (c\<lparr>ac_full_text_routes := ac_full_text_routes c
       @ add_full_text (map route_key (ac_full_text_routes c)) (ac_providers c)\<rparr>))))))"

definition providers_for :: "acquisition_config \<Rightarrow> string \<Rightarrow> provider_config list res" where
  "providers_for c class =
     bindE (enum_value provider_classes class) (\<lambda>v.
     Inr (filter (\<lambda>p. pc_provider_class p = v) (ac_providers c)))"

definition config_provider :: "acquisition_config \<Rightarrow> string \<Rightarrow> provider_config res" where
  "config_provider c pid =
     bindE (validate_identifier pid) (\<lambda>_.
     case find (\<lambda>p. pc_provider_id p = pid) (ac_providers c) of
       Some p \<Rightarrow> Inr p
     | None \<Rightarrow> Inl AcquisitionConfigurationError)"

definition config_binding :: "acq_env \<Rightarrow> acquisition_config \<Rightarrow> json" where
  "config_binding E c = JObj
     [(''route_policy_version'', JStr (ac_route_policy_version c)),
      (''max_query_length'', JInt (ac_max_query_length c)),
      (''max_result_limit'', JInt (ac_max_result_limit c)),
      (''providers'', JArr (map (provider_binding E) (ac_providers c))),
      (''full_text_routes'', JArr (map route_binding (ac_full_text_routes c)))]"

definition config_digest :: "acq_env \<Rightarrow> acquisition_config \<Rightarrow> string res" where
  "config_digest E c = json_sha256 (env_host E) (config_binding E c)"

section \<open>Access material\<close>

record access_material =
  am_headers :: "(string \<times> string) list"
  am_query_params :: "(string \<times> string) list"
  am_secret_values :: "string list"

text \<open>\<^verbatim>\<open>normalized[f(key)] = value\<close> for the items in order\<close>

fun dict_set :: "'k \<Rightarrow> 'v \<Rightarrow> ('k \<times> 'v) list \<Rightarrow> ('k \<times> 'v) list" where
  "dict_set k v [] = [(k, v)]"
| "dict_set k v ((k', v') # d) = (if k = k' then (k, v) # d else (k', v') # dict_set k v d)"

fun normalize_material :: "(string \<Rightarrow> string) \<Rightarrow> (string \<times> string) list \<Rightarrow> (string \<times> string) list \<Rightarrow>
    (string \<times> string) list res" where
  "normalize_material f acc [] = Inr acc"
| "normalize_material f acc ((key, value) # d) =
     (if py_strip key = [] then Inl AcquisitionConfigurationError
      else if list_ex ctrl_text_char (key @ value) then Inl AcquisitionConfigurationError
      else normalize_material f (dict_set (f key) value acc) d)"

definition access_material_init :: "access_material \<Rightarrow> access_material res" where
  "access_material_init m =
     bindE (normalize_material py_casefold [] (am_headers m)) (\<lambda>headers.
     bindE (normalize_material (\<lambda>k. k) [] (am_query_params m)) (\<lambda>query_params.
     bindE (guardE (list_all (\<lambda>s. s \<noteq> []) (am_secret_values m)) AcquisitionConfigurationError) (\<lambda>_.
     Inr \<lparr>am_headers = headers, am_query_params = query_params,
          am_secret_values = am_secret_values m\<rparr>)))"

text \<open>\<^verbatim>\<open>EphemeralAccessMaterial()\<close>\<close>

definition no_material :: access_material where
  "no_material = \<lparr>am_headers = [], am_query_params = [], am_secret_values = []\<rparr>"

definition all_secret_values :: "access_material \<Rightarrow> string list" where
  "all_secret_values m =
     add_new [] (am_secret_values m @ map snd (am_headers m) @ map snd (am_query_params m))"

section \<open>Bibliographic records and source candidates\<close>

record metadata_record =
  md_provider :: string
  md_provider_record_id :: "string option"
  md_doi :: "string option"
  md_title :: "string option"
  md_authors :: "string list"
  md_publication_year :: "int option"
  md_publication_date :: "string option"
  md_venue :: "string option"
  md_work_type :: "string option"
  md_oa_status :: "string option"
  md_license_hint :: "string option"

definition metadata_record_init :: "metadata_record \<Rightarrow> metadata_record res" where
  "metadata_record_init r =
     bindE (validate_identifier (md_provider r)) (\<lambda>_.
     bindE (check_opt validate_reference (md_provider_record_id r)) (\<lambda>_.
     bindE (check_opt validate_reference (md_doi r)) (\<lambda>_.
     bindE (mapE (check_opt (bounded_text 2000)) [md_title r, md_publication_date r, md_venue r,
         md_work_type r, md_oa_status r, md_license_hint r]) (\<lambda>_.
     bindE (mapE (bounded_text 512) (md_authors r)) (\<lambda>authors.
     bindE (guardE (length authors \<le> 100) AcquisitionIntegrityError) (\<lambda>_.
     bindE (guardE (case md_publication_year r of None \<Rightarrow> True | Some y \<Rightarrow> 1000 \<le> y \<and> y \<le> 3000)
       AcquisitionIntegrityError) (\<lambda>_.
     Inr (r\<lparr>md_authors := authors\<rparr>))))))))"

definition jint_opt :: "int option \<Rightarrow> json" where
  "jint_opt o' = (case o' of None \<Rightarrow> JNull | Some i \<Rightarrow> JInt i)"

definition metadata_record_to_dict :: "metadata_record \<Rightarrow> json" where
  "metadata_record_to_dict r = JObj
     [(''provider'', JStr (md_provider r)),
      (''provider_record_id'', jstr_opt (md_provider_record_id r)),
      (''doi'', jstr_opt (md_doi r)),
      (''title'', jstr_opt (md_title r)),
      (''authors'', jstrs (md_authors r)),
      (''publication_year'', jint_opt (md_publication_year r)),
      (''publication_date'', jstr_opt (md_publication_date r)),
      (''venue'', jstr_opt (md_venue r)),
      (''work_type'', jstr_opt (md_work_type r)),
      (''oa_status'', jstr_opt (md_oa_status r)),
      (''license_hint'', jstr_opt (md_license_hint r))]"

record source_candidate =
  sc_url :: string
  sc_content_type_hint :: "string option"
  sc_license_status :: "string option"
  sc_access_status :: "string option"
  sc_source_kind :: "string option"
  sc_version :: "string option"

definition source_candidate_init :: "source_candidate \<Rightarrow> source_candidate res" where
  "source_candidate_init c =
     bindE (bounded_text 8192 (sc_url c)) (\<lambda>_.
     bindE (mapE (check_opt (bounded_text 512)) [sc_content_type_hint c, sc_license_status c,
         sc_access_status c, sc_source_kind c, sc_version c]) (\<lambda>_.
     Inr c))"


section \<open>Provenance\<close>

record acq_provenance =
  av_schema_version :: string
  av_acquisition_id :: string
  av_provider :: string
  av_provider_config_digest :: string
  av_route_policy_version :: string
  av_request_identity :: string
  av_canonical_identifier :: string
  av_source_url :: string
  av_resolved_url :: string
  av_redirect_chain :: "string list"
  av_response_status :: int
  av_retrieved_at :: string
  av_access_status :: string
  av_license_status :: string
  av_access_basis :: string
  av_redistribution_basis :: string
  av_artifact_class :: string
  av_content_type :: string
  av_content_family :: string
  av_content_sha256 :: string
  av_content_artifact_id :: string
  av_cache_identity :: string
  av_cache_status :: string
  av_access_profile_ref :: "string option"
  av_evaluated_candidates :: "string list"
  av_resolution_provider :: "string option"
  av_resolution_provider_config_digest :: "string option"
  av_resolution_request_identity :: "string option"
  av_resolution_cache_identity :: "string option"
  av_resolution_body_sha256 :: "string option"
  av_resolution_route_policy_version :: "string option"
  av_resolution_retrieved_at :: "string option"

text \<open>No whitespace or control character, and an HTTPS URL with a host and nothing forbidden\<close>

definition url_char_ok :: "char \<Rightarrow> bool" where
  "url_char_ok c = (\<not> py_isspace c \<and> 32 \<le> code c)"

definition https_url :: "split_result \<Rightarrow> bool" where
  "https_url u = (py_casefold (su_scheme u) = ''https'' \<and> su_hostname u \<noteq> None
     \<and> su_username u = None \<and> su_password u = None \<and> su_fragment u = [])"

definition validate_recorded_url :: "ip_parser \<Rightarrow> string \<Rightarrow> unit res" where
  "validate_recorded_url ip value =
     (if \<not> list_all url_char_ok value then Inl AcquisitionIntegrityError
      else case urlsplit ip value of
        Inl _ \<Rightarrow> Inl AcquisitionIntegrityError
      | Inr u \<Rightarrow> if https_url u then Inr () else Inl AcquisitionIntegrityError)"

definition recorded_url :: "ip_parser \<Rightarrow> string \<Rightarrow> unit res" where
  "recorded_url ip value =
     bindE (bounded_text 8192 value) (\<lambda>_. validate_recorded_url ip value)"

text \<open>The resolution binding: the five fields are all there, and well-formed, or all absent.\<close>

definition text_or_empty :: "string option \<Rightarrow> string" where
  "text_or_empty o' = (case o' of None \<Rightarrow> [] | Some s \<Rightarrow> s)"

definition resolution_values :: "acq_provenance \<Rightarrow> string option list" where
  "resolution_values p = [av_resolution_provider p, av_resolution_provider_config_digest p,
     av_resolution_request_identity p, av_resolution_cache_identity p, av_resolution_body_sha256 p]"

definition check_resolution :: "acq_provenance \<Rightarrow> unit res" where
  "check_resolution p =
     (if list_all (\<lambda>v. v = None) (resolution_values p) then Inr ()
      else if list_ex (\<lambda>v. v = None) (resolution_values p) then Inl AcquisitionIntegrityError
      else bindE (validate_identifier (text_or_empty (av_resolution_provider p))) (\<lambda>_.
           bindE (validate_digest_reference (text_or_empty (av_resolution_provider_config_digest p))) (\<lambda>_.
           bindE (validate_reference (text_or_empty (av_resolution_request_identity p))) (\<lambda>_.
           bindE (validate_digest_reference (text_or_empty (av_resolution_cache_identity p))) (\<lambda>_.
           bindE (validate_sha256 (text_or_empty (av_resolution_body_sha256 p))) (\<lambda>_. Inr ()))))))"

definition normalize_opt :: "host \<Rightarrow> string option \<Rightarrow> string option res" where
  "normalize_opt H o' = (case o' of
     None \<Rightarrow> Inr None
   | Some t \<Rightarrow> bindE (normalize_timestamp H t) (\<lambda>t'. Inr (Some t')))"

text \<open>\<^verbatim>\<open>AcquisitionProvenance.__post_init__\<close>\<close>

definition provenance_init :: "acq_env \<Rightarrow> acq_provenance \<Rightarrow> acq_provenance res" where
  "provenance_init E p =
     bindE (validate_identifier (av_schema_version p)) (\<lambda>_.
     bindE (validate_identifier (av_acquisition_id p)) (\<lambda>_.
     bindE (validate_identifier (av_provider p)) (\<lambda>_.
     bindE (validate_digest_reference (av_provider_config_digest p)) (\<lambda>_.
     bindE (bounded_text 128 (av_route_policy_version p)) (\<lambda>_.
     bindE (validate_reference (av_request_identity p)) (\<lambda>_.
     bindE (validate_reference (av_canonical_identifier p)) (\<lambda>_.
     bindE (recorded_url (env_ip E) (av_source_url p)) (\<lambda>_.
     bindE (recorded_url (env_ip E) (av_resolved_url p)) (\<lambda>_.
     bindE (mapE (bounded_text 8192) (av_redirect_chain p)) (\<lambda>_.
     bindE (mapE (validate_recorded_url (env_ip E)) (av_redirect_chain p)) (\<lambda>_.
     bindE (guardE (100 \<le> av_response_status p \<and> av_response_status p \<le> 599)
       AcquisitionIntegrityError) (\<lambda>_.
     bindE (normalize_timestamp (env_host E) (av_retrieved_at p)) (\<lambda>retrieved_at.
     bindE (mapE (bounded_text 512) [av_access_status p, av_license_status p, av_access_basis p,
         av_redistribution_basis p, av_content_type p, av_cache_status p]) (\<lambda>_.
     bindE (enum_value artifact_classes (av_artifact_class p)) (\<lambda>class.
     bindE (guardE (class \<noteq> class_value RUNTIME_SECRET \<and> class \<noteq> class_value CREDENTIAL_REFERENCE)
       AcquisitionIntegrityError) (\<lambda>_.
     bindE (enum_value content_families (av_content_family p)) (\<lambda>family.
     bindE (guardE (map_option family_value (map_of media_families (media_of (av_content_type p)))
         = Some family) AcquisitionIntegrityError) (\<lambda>_.
     bindE (validate_sha256 (av_content_sha256 p)) (\<lambda>_.
     bindE (validate_artifact_id (av_content_artifact_id p)) (\<lambda>_.
     bindE (artifact_id_for_sha256 (av_content_sha256 p)) (\<lambda>expected_id.
     bindE (guardE (av_content_artifact_id p = expected_id) AcquisitionIntegrityError) (\<lambda>_.
     bindE (validate_digest_reference (av_cache_identity p)) (\<lambda>_.
     bindE (mapE (bounded_text 8192) (av_evaluated_candidates p)) (\<lambda>_.
     bindE (check_opt validate_reference (av_access_profile_ref p)) (\<lambda>_.
     bindE (check_resolution p) (\<lambda>_.
     bindE (check_opt (bounded_text 128) (av_resolution_route_policy_version p)) (\<lambda>_.
     bindE (normalize_opt (env_host E) (av_resolution_retrieved_at p)) (\<lambda>resolution_retrieved_at.
     Inr (p\<lparr>av_retrieved_at := retrieved_at, av_artifact_class := class,
            av_content_family := family,
            av_resolution_retrieved_at := resolution_retrieved_at\<rparr>)))))))))))))))))))))))))))))"

definition digest_opt :: "string option \<Rightarrow> json res" where
  "digest_opt o' = (case o' of
     None \<Rightarrow> Inr JNull | Some d \<Rightarrow> bindE (validate_digest_reference d) (\<lambda>v. Inr (JStr v)))"

text \<open>Writing the provenance strips the prefix of the digest references.\<close>

definition provenance_to_dict :: "acq_provenance \<Rightarrow> json res" where
  "provenance_to_dict p =
     bindE (validate_digest_reference (av_provider_config_digest p)) (\<lambda>provider_config_digest.
     bindE (validate_digest_reference (av_cache_identity p)) (\<lambda>cache_identity.
     bindE (digest_opt (av_resolution_provider_config_digest p)) (\<lambda>resolution_config_digest.
     bindE (digest_opt (av_resolution_cache_identity p)) (\<lambda>resolution_cache_identity.
     Inr (JObj
       [(''schema_version'', JStr (av_schema_version p)),
        (''acquisition_id'', JStr (av_acquisition_id p)),
        (''provider'', JStr (av_provider p)),
        (''provider_config_digest'', JStr provider_config_digest),
        (''route_policy_version'', JStr (av_route_policy_version p)),
        (''request_identity'', JStr (av_request_identity p)),
        (''canonical_identifier'', JStr (av_canonical_identifier p)),
        (''source_url'', JStr (av_source_url p)),
        (''resolved_url'', JStr (av_resolved_url p)),
        (''redirect_chain'', jstrs (av_redirect_chain p)),
        (''response_status'', JInt (av_response_status p)),
        (''retrieved_at'', JStr (av_retrieved_at p)),
        (''access_status'', JStr (av_access_status p)),
        (''license_status'', JStr (av_license_status p)),
        (''access_basis'', JStr (av_access_basis p)),
        (''redistribution_basis'', JStr (av_redistribution_basis p)),
        (''artifact_class'', JStr (av_artifact_class p)),
        (''content_type'', JStr (av_content_type p)),
        (''content_family'', JStr (av_content_family p)),
        (''content_sha256'', JStr (av_content_sha256 p)),
        (''content_artifact_id'', JStr (av_content_artifact_id p)),
        (''cache_identity'', JStr cache_identity),
        (''cache_status'', JStr (av_cache_status p)),
        (''access_profile_ref'', jstr_opt (av_access_profile_ref p)),
        (''evaluated_candidates'', jstrs (av_evaluated_candidates p)),
        (''resolution_provider'', jstr_opt (av_resolution_provider p)),
        (''resolution_provider_config_digest'', resolution_config_digest),
        (''resolution_request_identity'', jstr_opt (av_resolution_request_identity p)),
        (''resolution_cache_identity'', resolution_cache_identity),
        (''resolution_body_sha256'', jstr_opt (av_resolution_body_sha256 p)),
        (''resolution_route_policy_version'', jstr_opt (av_resolution_route_policy_version p)),
        (''resolution_retrieved_at'', jstr_opt (av_resolution_retrieved_at p))])))))"

definition provenance_bytes :: "acq_provenance \<Rightarrow> string res" where
  "provenance_bytes p = bindE (provenance_to_dict p) canonical_json_bytes"

section \<open>Lemmas: full-text routes\<close>

lemma route_init_provider: "route_init E r = Inr r' \<Longrightarrow> pr_provider_id r' = pr_provider_id r"
  unfolding route_init_def bindE_eq_Inr by (elim exE conjE) auto

lemma with_provider_binds: "with_provider E pid r = Inr r' \<Longrightarrow> pr_provider_id r' = pid"
  by (auto simp: with_provider_def dest!: route_init_provider split: if_splits)

lemma bind_routes_bound: "bind_routes E pid seen rs = Inr routes \<Longrightarrow> \<forall>r \<in> set routes. pr_provider_id r = pid"
  by (induction rs arbitrary: seen routes) (auto dest: with_provider_binds split: if_splits)

lemma provider_config_bound:
  "provider_config_init E c = Inr c' \<Longrightarrow> \<forall>r \<in> set (pc_routes c'). pr_provider_id r = pc_provider_id c'"
  unfolding provider_config_init_def bindE_eq_Inr by (elim exE conjE) (auto dest!: bind_routes_bound)

lemma check_full_text_ok:
  "check_full_text ps seen rs = Inr u \<longleftrightarrow>
     (\<forall>r \<in> set rs. pr_provider_id r \<noteq> [] \<and> pr_provider_id r \<in> set ps)
     \<and> distinct (map route_key rs) \<and> set (map route_key rs) \<inter> set seen = {}"
  by (induction rs arbitrary: seen) auto

text \<open>What the routes of a list of providers add to the keys that are there\<close>

lemma add_provider_routes_keys:
  assumes "\<forall>r \<in> set rs. pr_provider_id r = pid"
  shows "set (snd (add_provider_routes pid seen rs)) = set seen \<union> route_key ` set (fst (add_provider_routes pid seen rs))"
    "set (fst (add_provider_routes pid seen rs)) \<subseteq> set rs"
    "route_key ` set rs \<subseteq> set (snd (add_provider_routes pid seen rs))"
    "distinct (map route_key (fst (add_provider_routes pid seen rs)))"
    "route_key ` set (fst (add_provider_routes pid seen rs)) \<inter> set seen = {}"
proof -
  have "set (snd (add_provider_routes pid seen rs)) = set seen \<union> route_key ` set (fst (add_provider_routes pid seen rs))
    \<and> set (fst (add_provider_routes pid seen rs)) \<subseteq> set rs
    \<and> route_key ` set rs \<subseteq> set (snd (add_provider_routes pid seen rs))
    \<and> distinct (map route_key (fst (add_provider_routes pid seen rs)))
    \<and> route_key ` set (fst (add_provider_routes pid seen rs)) \<inter> set seen = {}"
    using assms
  proof (induction rs arbitrary: seen)
    case (Cons r rs)
    then have rest: "\<forall>r \<in> set rs. pr_provider_id r = pid" and key: "(pid, pr_route_id r) = route_key r"
      by (auto simp: route_key_def)
    show ?case
    proof (cases "route_key r \<in> set seen")
      case True
      then show ?thesis using Cons.IH [OF rest, of seen] by (auto simp: key)
    next
      case False
      then show ?thesis using Cons.IH [OF rest, of "route_key r # seen"]
        by (simp add: key case_prod_beta Let_def) blast
    qed
  qed simp
  then show "set (snd (add_provider_routes pid seen rs)) = set seen \<union> route_key ` set (fst (add_provider_routes pid seen rs))"
    "set (fst (add_provider_routes pid seen rs)) \<subseteq> set rs"
    "route_key ` set rs \<subseteq> set (snd (add_provider_routes pid seen rs))"
    "distinct (map route_key (fst (add_provider_routes pid seen rs)))"
    "route_key ` set (fst (add_provider_routes pid seen rs)) \<inter> set seen = {}"
    by blast+
qed

definition routes_bound :: "provider_config list \<Rightarrow> bool" where
  "routes_bound cs = (\<forall>c \<in> set cs. \<forall>r \<in> set (pc_routes c). pr_provider_id r = pc_provider_id c)"

lemma add_full_text_keys:
  assumes "routes_bound cs"
  shows "distinct (map route_key (add_full_text seen cs))"
    "route_key ` set (add_full_text seen cs) \<inter> set seen = {}"
    "set (add_full_text seen cs) \<subseteq> (\<Union>c \<in> set cs. set (pc_routes c))"
    "\<forall>c \<in> set cs. pc_provider_class c = ''FULL_TEXT'' \<longrightarrow>
       route_key ` set (pc_routes c) \<subseteq> set seen \<union> route_key ` set (add_full_text seen cs)"
proof -
  have "distinct (map route_key (add_full_text seen cs))
      \<and> route_key ` set (add_full_text seen cs) \<inter> set seen = {}
      \<and> set (add_full_text seen cs) \<subseteq> (\<Union>c \<in> set cs. set (pc_routes c))
      \<and> (\<forall>c \<in> set cs. pc_provider_class c = ''FULL_TEXT'' \<longrightarrow>
         route_key ` set (pc_routes c) \<subseteq> set seen \<union> route_key ` set (add_full_text seen cs))"
    using assms
  proof (induction cs arbitrary: seen)
    case (Cons c cs)
    then have rest: "routes_bound cs" and c: "\<forall>r \<in> set (pc_routes c). pr_provider_id r = pc_provider_id c"
      by (auto simp: routes_bound_def)
    show ?case
    proof (cases "pc_provider_class c = ''FULL_TEXT''")
      case True
      obtain more seen' where a: "add_provider_routes (pc_provider_id c) seen (pc_routes c) = (more, seen')" by fastforce
      note k = add_provider_routes_keys [OF c, where seen = seen, unfolded a fst_conv snd_conv]
      note ih = Cons.IH [OF rest, of seen']
      have add: "add_full_text seen (c # cs) = more @ add_full_text seen' cs" by (simp add: True a)
      have "distinct (map route_key (more @ add_full_text seen' cs))" using k ih by auto
      moreover have "route_key ` set (more @ add_full_text seen' cs) \<inter> set seen = {}" using k ih by auto
      moreover have "set (more @ add_full_text seen' cs) \<subseteq> (\<Union>c \<in> set (c # cs). set (pc_routes c))" using k ih by auto
      moreover have "route_key ` set (pc_routes x) \<subseteq> set seen \<union> route_key ` set (more @ add_full_text seen' cs)"
        if "x \<in> set (c # cs)" "pc_provider_class x = ''FULL_TEXT''" for x
      proof -
        have "route_key ` set (pc_routes x) \<subseteq> set seen' \<union> route_key ` set (add_full_text seen' cs)"
          using k(3) ih that by (cases "x = c") auto
        then show ?thesis by (simp add: k(1) image_Un Un_assoc)
      qed
      ultimately show ?thesis unfolding add by blast
    next
      case False
      then show ?thesis using Cons.IH [OF rest, of seen] by auto
    qed
  qed simp
  then show "distinct (map route_key (add_full_text seen cs))"
    "route_key ` set (add_full_text seen cs) \<inter> set seen = {}"
    "set (add_full_text seen cs) \<subseteq> (\<Union>c \<in> set cs. set (pc_routes c))"
    "\<forall>c \<in> set cs. pc_provider_class c = ''FULL_TEXT'' \<longrightarrow>
       route_key ` set (pc_routes c) \<subseteq> set seen \<union> route_key ` set (add_full_text seen cs)"
    by blast+
qed

lemma add_full_text_done:
  assumes "\<forall>c \<in> set cs. pc_provider_class c = ''FULL_TEXT'' \<longrightarrow> route_key ` set (pc_routes c) \<subseteq> set seen"
    and "routes_bound cs"
  shows "add_full_text seen cs = []"
proof -
  have none: "add_provider_routes pid seen rs = ([], seen)"
    if "route_key ` set rs \<subseteq> set seen" "\<forall>r \<in> set rs. pr_provider_id r = pid" for pid rs
    using that by (induction rs) (auto simp: route_key_def)
  show ?thesis using assms by (induction cs) (auto simp: none routes_bound_def)
qed

section \<open>Property\<close>


end
