(* ===== verification/AcquisitionPolicy.thy ===== *)
theory AcquisitionPolicy
  imports AcquisitionModels
begin

text \<open>
  \<^verbatim>\<open>src/molly/acquisition/policy.py\<close>: identifiers, search queries, the validation of a URL against
  one configured route, DNS answers, content types, redaction and the classification of a
  route. The query of a canonical URL is kept as the UTF-8 bytes of its decoded texts.
\<close>

section \<open>Names\<close>

definition secret_query_names :: "string list" where
  "secret_query_names =
     [''access_token'', ''api_key'', ''apikey'', ''auth'', ''authorization'', ''credential'',
      ''email'', ''key'', ''mailto'', ''password'', ''passwd'', ''secret'', ''token'']"

text \<open>\<^verbatim>\<open>needle in text\<close>\<close>

fun py_contains :: "string \<Rightarrow> string \<Rightarrow> bool" where
  "py_contains needle [] = (needle = [])"
| "py_contains needle (c # cs) = (py_startswith (c # cs) needle \<or> py_contains needle cs)"

section \<open>Identifiers, queries and limits\<close>

definition doi_char :: "char \<Rightarrow> bool" where
  "doi_char c = (label_char c \<or> c \<in> {CHR ''-'', CHR ''.'', CHR ''_'', CHR '';'', CHR ''('',
     CHR '')'', CHR ''/'', CHR '':''})"

text \<open>\<^verbatim>\<open>10\.\d{4,9}/[-._;()/:a-z0-9]+\<close>\<close>

definition doi_shape :: "string \<Rightarrow> bool" where
  "doi_shape s =
     (let digits = takeWhile is_ascii_digit (drop 3 s);
          rest = dropWhile is_ascii_digit (drop 3 s)
      in py_startswith s ''10.'' \<and> 4 \<le> length digits \<and> length digits \<le> 9
         \<and> py_startswith rest ''/'' \<and> tl rest \<noteq> [] \<and> list_all doi_char (tl rest))"

text \<open>The part of the candidate that names the identifier\<close>

definition doi_candidate :: "ip_parser \<Rightarrow> string \<Rightarrow> string res" where
  "doi_candidate ip candidate =
     (if py_startswith (py_casefold candidate) ''doi:'' then Inr (drop 4 candidate)
      else if py_startswith (py_casefold candidate) ''https://doi.org/'' then
        bindE (urlsplit ip candidate) (\<lambda>u.
        if su_username u \<noteq> None \<or> su_password u \<noteq> None \<or> su_fragment u \<noteq> []
        then Inl AcquisitionPolicyError
        else if map_option py_casefold (su_hostname u) \<noteq> Some ''doi.org'' then Inl AcquisitionPolicyError
        else bindE (su_port u) (\<lambda>port.
          if port \<noteq> None \<and> port \<noteq> Some 443 then Inl AcquisitionPolicyError
          else if su_query u \<noteq> [] then Inl AcquisitionPolicyError
          else Inr (dropWhile (\<lambda>c. c = CHR ''/'') (su_path u))))
      else if py_contains ''://'' candidate then Inl AcquisitionPolicyError
      else Inr candidate)"

definition normalize_doi :: "ip_parser \<Rightarrow> string \<Rightarrow> string res" where
  "normalize_doi ip value =
     (let candidate = py_strip value in
      if length candidate > 512 \<or> candidate = [] \<or> list_ex py_isspace candidate
      then Inl AcquisitionPolicyError
      else if list_ex (\<lambda>c. code c < 32 \<or> code c = 127) candidate then Inl AcquisitionPolicyError
      else bindE (doi_candidate ip candidate) (\<lambda>named.
        let doi = py_casefold (py_strip named) in
        if \<not> doi_shape doi then Inl AcquisitionPolicyError
        else if has_segment ''..'' doi \<or> CHR ''#'' \<in> set doi \<or> CHR ''?'' \<in> set doi
        then Inl AcquisitionPolicyError
        else Inr doi))"

text \<open>\<^verbatim>\<open>text.split()\<close>: the stretches without whitespace; the first argument is the open one, reversed.\<close>

fun words_acc :: "string \<Rightarrow> string \<Rightarrow> string list" where
  "words_acc acc [] = (if acc = [] then [] else [rev acc])"
| "words_acc acc (c # cs) =
     (if py_isspace c then (if acc = [] then words_acc [] cs else rev acc # words_acc [] cs)
      else words_acc (c # acc) cs)"

definition normalize_search_query :: "acq_env \<Rightarrow> int \<Rightarrow> string \<Rightarrow> string res" where
  "normalize_search_query E maximum value =
     (let normalized = join_with (CHR '' '') (words_acc [] (env_nfkc E value)) in
      if normalized = [] \<or> int (length normalized) > maximum \<or> list_ex (\<lambda>c. code c < 32) normalized
      then Inl AcquisitionPolicyError
      else Inr normalized)"

definition normalize_result_limit :: "int \<Rightarrow> json \<Rightarrow> int res" where
  "normalize_result_limit maximum value = (case value of
     JInt i \<Rightarrow> if 1 \<le> i \<and> i \<le> maximum then Inr i else Inl AcquisitionPolicyError
   | _ \<Rightarrow> Inl AcquisitionPolicyError)"

section \<open>URLs\<close>

record canonical_url =
  cu_value :: string
  cu_hostname :: string
  cu_port :: int
  cu_path :: string
  cu_query :: query

definition canonical_hostname :: "string \<Rightarrow> string res" where
  "canonical_hostname hostname =
     (if hostname = [] \<or> py_endswith hostname ''.'' then Inl AcquisitionPolicyError
      else if list_ex (\<lambda>c. code c > 127 \<or> py_isspace c) hostname then Inl AcquisitionPolicyError
      else Inr (py_casefold hostname))"

definition unsafe_url_path_char :: "char \<Rightarrow> bool" where
  "unsafe_url_path_char c = (c \<in> {CHR 0x00, CHR 0x0D, CHR 0x0A, CHR 0x5C})"

definition safe_path :: "string \<Rightarrow> string res" where
  "safe_path path =
     (if path = [] then Inr ''/''
      else if \<not> py_startswith path ''/'' \<or> list_ex unsafe_url_path_char path
      then Inl AcquisitionPolicyError
      else if list_ex (\<lambda>part. part \<in> {''.'', ''..''}) (py_split (CHR ''/'') (unquote path))
      then Inl AcquisitionPolicyError
      else Inr path)"

text \<open>\<^verbatim>\<open>prefix.rstrip("/") + "/"\<close>\<close>

definition prefix_directory :: "string \<Rightarrow> string" where
  "prefix_directory p = rev (dropWhile (\<lambda>c. c = CHR ''/'') (rev p)) @ ''/''"

definition path_within :: "string \<Rightarrow> string \<Rightarrow> bool" where
  "path_within pfx path = (path = pfx \<or> pfx = ''/'' \<or> py_startswith path (prefix_directory pfx))"

text \<open>The hostname and explicit port of the URL, every failure being the same exception\<close>

definition url_authority :: "ip_parser \<Rightarrow> string \<Rightarrow> (split_result \<times> string \<times> int option) res" where
  "url_authority ip value =
     wrapE (\<lambda>e. is_a e ValueError) AcquisitionPolicyError
       (bindE (urlsplit ip value) (\<lambda>u.
        bindE (canonical_hostname (case su_hostname u of None \<Rightarrow> [] | Some h \<Rightarrow> h)) (\<lambda>hostname.
        bindE (su_port u) (\<lambda>port. Inr (u, hostname, port)))))"

definition canonical_netloc :: "string \<Rightarrow> int option \<Rightarrow> int \<Rightarrow> string" where
  "canonical_netloc hostname explicit_port allowed_port =
     (if explicit_port = None \<or> allowed_port = 443 then hostname
      else hostname @ CHR '':'' # dec_int allowed_port)"

definition canonicalize_url :: "ip_parser \<Rightarrow> string list \<Rightarrow> int \<Rightarrow> string \<Rightarrow> string list \<Rightarrow> string \<Rightarrow>
    canonical_url res" where
  "canonicalize_url ip allowed_hosts allowed_port path_prefix allowed_fields value =
     (if value = [] \<or> length value > 16384 then Inl AcquisitionPolicyError
      else if \<not> list_all url_char_ok value then Inl AcquisitionPolicyError
      else bindE (url_authority ip value) (\<lambda>(u, hostname, explicit_port).
        if py_casefold (su_scheme u) \<noteq> ''https'' then Inl AcquisitionPolicyError
        else if su_username u \<noteq> None \<or> su_password u \<noteq> None \<or> CHR ''@'' \<in> set (su_netloc u)
        then Inl AcquisitionPolicyError
        else if su_fragment u \<noteq> [] then Inl AcquisitionPolicyError
        else if explicit_port \<noteq> None \<and> explicit_port \<noteq> Some allowed_port
        then Inl AcquisitionPolicyError
        else bindE (mapE canonical_hostname allowed_hosts) (\<lambda>hosts.
          if hostname \<notin> set hosts then Inl AcquisitionPolicyError
          else if ip hostname \<noteq> None then Inl AcquisitionPolicyError
          else bindE (safe_path (su_path u)) (\<lambda>path.
            bindE (safe_path path_prefix) (\<lambda>pfx.
            if \<not> path_within pfx path then Inl AcquisitionPolicyError
            else bindE (wrapE (\<lambda>e. is_a e ValueError) AcquisitionPolicyError
                          (parse_qsl True (su_query u))) (\<lambda>pairs.
              if \<not> distinct (map fst pairs) then Inl AcquisitionPolicyError
              else if list_ex (\<lambda>k. k \<notin> set (map utf8_encode allowed_fields)) (map fst pairs)
              then Inl AcquisitionPolicyError
              else let sorted_pairs = sort_key fst pairs;
                       canonical = urlunsplit \<lparr>su_scheme = ''https'',
                         su_netloc = canonical_netloc hostname explicit_port allowed_port,
                         su_path = path, su_query = urlencode sorted_pairs, su_fragment = []\<rparr>
                   in Inr \<lparr>cu_value = canonical, cu_hostname = hostname, cu_port = allowed_port,
                           cu_path = path, cu_query = sorted_pairs\<rparr>))))))"

text \<open>The keyword arguments that every caller takes from the route\<close>

definition route_prefix :: "provider_route \<Rightarrow> string" where
  "route_prefix r = (case pr_path_prefix r of None \<Rightarrow> ''/'' | Some p \<Rightarrow> if p = [] then ''/'' else p)"

definition canonicalize_on_route :: "ip_parser \<Rightarrow> provider_route \<Rightarrow> string \<Rightarrow> canonical_url res" where
  "canonicalize_on_route ip r value =
     canonicalize_url ip [pr_host r] (pr_port r) (route_prefix r) (pr_allowed_query_fields r) value"

fun query_text :: "string \<times> json \<Rightarrow> (string \<times> string) res" where
  "query_text (k, JStr s) = Inr (utf8_encode k, utf8_encode s)"
| "query_text (k, JInt i) = Inr (utf8_encode k, dec_int i)"
| "query_text (k, _) = Inl AcquisitionPolicyError"

definition join_route_url :: "ip_parser \<Rightarrow> provider_route \<Rightarrow> string \<Rightarrow> fields \<Rightarrow> canonical_url res" where
  "join_route_url ip r path query =
     (if \<not> py_startswith path ''/'' then Inl AcquisitionPolicyError
      else bindE (mapE query_text query) (\<lambda>pairs.
        let netloc = (if pr_port r = 443 then pr_host r
                      else pr_host r @ CHR '':'' # dec_int (pr_port r));
            raw = urlunsplit \<lparr>su_scheme = pr_scheme r, su_netloc = netloc, su_path = path,
                    su_query = urlencode pairs, su_fragment = []\<rparr>
        in canonicalize_on_route ip r raw))"

definition resolve_redirect :: "ip_parser \<Rightarrow> string \<Rightarrow> string \<Rightarrow> provider_route \<Rightarrow> canonical_url res" where
  "resolve_redirect ip base_url location r =
     (if location = [] \<or> length location > 16384 then Inl AcquisitionPolicyError
      else if \<not> list_all url_char_ok location then Inl AcquisitionPolicyError
      else bindE (urljoin ip base_url location) (canonicalize_on_route ip r))"

section \<open>DNS answers\<close>

definition public_address :: "address \<Rightarrow> bool" where
  "public_address a = (addr_is_global a \<and> \<not> addr_is_loopback a \<and> \<not> addr_is_private a
     \<and> \<not> addr_is_link_local a \<and> \<not> addr_is_multicast a \<and> \<not> addr_is_unspecified a
     \<and> \<not> addr_is_reserved a)"

fun check_addresses :: "ip_parser \<Rightarrow> string list \<Rightarrow> string list \<Rightarrow> string list res" where
  "check_addresses ip normalized [] = Inr normalized"
| "check_addresses ip normalized (v # vs) = (case ip v of
     None \<Rightarrow> Inl AcquisitionPolicyError
   | Some a \<Rightarrow> if \<not> public_address a then Inl AcquisitionPolicyError
       else check_addresses ip (if addr_text a \<in> set normalized then normalized
                                else normalized @ [addr_text a]) vs)"

definition validate_resolved_addresses :: "ip_parser \<Rightarrow> string \<Rightarrow> string list \<Rightarrow> string list res" where
  "validate_resolved_addresses ip hostname addresses =
     bindE (canonical_hostname hostname) (\<lambda>_.
     bindE (check_addresses ip [] addresses) (\<lambda>normalized.
     if normalized = [] then Inl AcquisitionPolicyError else Inr normalized))"

section \<open>Content types\<close>

definition content_family_for_media_type :: "string \<Rightarrow> content_family res" where
  "content_family_for_media_type value = (case map_of media_families (media_of value) of
     None \<Rightarrow> Inl AcquisitionPolicyError | Some family \<Rightarrow> Inr family)"

text \<open>The values of the header; \<open>None\<close> when it is missing.\<close>

definition normalize_content_type :: "string list option \<Rightarrow> string list \<Rightarrow> string res" where
  "normalize_content_type values allowed = (case values of
     None \<Rightarrow> Inl AcquisitionPolicyError
   | Some candidates \<Rightarrow>
       let normalized = map media_of candidates in
       if normalized = [] \<or> list_ex (\<lambda>m. m = [] \<or> m \<notin> set accepted_media_types) normalized
       then Inl AcquisitionPolicyError
       else if length (remdups normalized) \<noteq> 1 then Inl AcquisitionPolicyError
       else if hd normalized \<notin> set allowed then Inl AcquisitionPolicyError
       else Inr (hd normalized))"

section \<open>Redaction\<close>

definition redacted_mark :: string where
  "redacted_mark = ''<redacted>''"

definition redact_all :: "string list \<Rightarrow> string \<Rightarrow> string" where
  "redact_all secrets value =
     foldl (\<lambda>v secret. if secret = [] then v else py_replace secret redacted_mark v) value secrets"

definition redact_text :: "string list \<Rightarrow> string \<Rightarrow> string" where
  "redact_text secrets value = take 16384 (redact_all secrets value)"

text \<open>
  \<^verbatim>\<open>str.casefold\<close> of a text given by its UTF-8 bytes, as far as the normalised key can tell: the
  code points whose folding has ASCII letters, and an underscore for a byte of any other.
\<close>

definition folding_table :: "(string \<times> string) list" where
  "folding_table =
     [([CHR 0xC3, CHR 0x9F], ''ss''), ([CHR 0xC4, CHR 0xB0], ''i_''), ([CHR 0xC5, CHR 0x89], ''_n''),
      ([CHR 0xC5, CHR 0xBF], ''s''), ([CHR 0xC7, CHR 0xB0], ''j_''),
      ([CHR 0xE1, CHR 0xBA, CHR 0x96], ''h_''), ([CHR 0xE1, CHR 0xBA, CHR 0x97], ''t_''),
      ([CHR 0xE1, CHR 0xBA, CHR 0x98], ''w_''), ([CHR 0xE1, CHR 0xBA, CHR 0x99], ''y_''),
      ([CHR 0xE1, CHR 0xBA, CHR 0x9A], ''a_''), ([CHR 0xE1, CHR 0xBA, CHR 0x9E], ''ss''),
      ([CHR 0xE2, CHR 0x84, CHR 0xAA], ''k''), ([CHR 0xEF, CHR 0xAC, CHR 0x80], ''ff''),
      ([CHR 0xEF, CHR 0xAC, CHR 0x81], ''fi''), ([CHR 0xEF, CHR 0xAC, CHR 0x82], ''fl''),
      ([CHR 0xEF, CHR 0xAC, CHR 0x83], ''ffi''), ([CHR 0xEF, CHR 0xAC, CHR 0x84], ''ffl''),
      ([CHR 0xEF, CHR 0xAC, CHR 0x85], ''st''), ([CHR 0xEF, CHR 0xAC, CHR 0x86], ''st'')]"

definition folding_of :: "string \<Rightarrow> (string \<times> string) option" where
  "folding_of s = find (\<lambda>(b, _). py_startswith s b) folding_table"

function fold_bytes :: "string \<Rightarrow> string" where
  "fold_bytes [] = []"
| "fold_bytes (c # s) = (case folding_of (c # s) of
     Some (b, f) \<Rightarrow> f @ fold_bytes (drop (length b - 1) s)
   | None \<Rightarrow> (if is_ascii_upper c then char_of (code c + 32) else if code c < 128 then c else CHR ''_'')
              # fold_bytes s)"
  by pat_completeness auto
termination
  by (relation "measure length") auto

text \<open>\<^verbatim>\<open>re.sub(r"[^a-z0-9]+", "_", key.casefold()).strip("_")\<close>\<close>

definition query_key :: "string \<Rightarrow> string" where
  "query_key key = strip_by (\<lambda>c. c = CHR ''_'') (collapse_runs False (fold_bytes key))"

definition secret_query_key :: "string \<Rightarrow> bool" where
  "secret_query_key key =
     (query_key key \<in> set (map (\<lambda>n. strip_by (\<lambda>c. c = CHR ''_'') (collapse_runs False n)) secret_query_names))"

definition safe_pairs :: "string list \<Rightarrow> query \<Rightarrow> query" where
  "safe_pairs secrets pairs =
     map (\<lambda>(k, v). (k, if v \<in> set (map utf8_encode secrets) then redacted_mark else v))
       (filter (\<lambda>(k, v). \<not> secret_query_key k) pairs)"

definition sanitize_url :: "ip_parser \<Rightarrow> string list \<Rightarrow> string \<Rightarrow> string" where
  "sanitize_url ip secret_values value =
     (let secrets = filter (\<lambda>s. s \<noteq> []) secret_values;
          redacted = redact_all secrets value
      in case urlsplit ip redacted of
           Inl _ \<Rightarrow> redact_text secrets redacted
         | Inr u \<Rightarrow> (case parse_qsl False (su_query u) of
             Inl _ \<Rightarrow> redact_text secrets redacted
           | Inr pairs \<Rightarrow> urlunsplit (u\<lparr>su_query := urlencode (safe_pairs secrets pairs),
               su_fragment := []\<rparr>)))"

text \<open>The value is given by its bytes.\<close>

definition assert_no_secret_values :: "string \<Rightarrow> string list \<Rightarrow> unit res" where
  "assert_no_secret_values payload secrets =
     (if list_ex (\<lambda>s. s \<noteq> [] \<and> py_contains (utf8_encode s) payload) secrets
      then Inl CredentialLeakError else Inr ())"

section \<open>Routes and cache keys\<close>

definition classify_route :: "provider_route \<Rightarrow> artifact_class res" where
  "classify_route r =
     (let access = py_strip (py_casefold (pr_access_basis r));
          license = py_strip (py_casefold (pr_license_status r));
          redistribution = py_strip (py_casefold (pr_redistribution_basis r))
      in if list_ex (\<lambda>t. t \<in> {''unknown'', ''denied'', ''unverified'', ''not-verified''}) [access, license]
         then Inl AcquisitionPolicyError
         else if py_startswith redistribution ''verified'' \<or> py_contains ''public-safe'' redistribution
                 \<or> redistribution \<in> {''cc-by'', ''cc0'', ''public-domain''}
         then Inr PUBLIC_ARTIFACT
         else if access \<noteq> [] \<and> license \<noteq> [] then Inr PRIVATE_ARTIFACT
         else Inl AcquisitionPolicyError)"

definition cache_digest :: "host \<Rightarrow> json \<Rightarrow> string res" where
  "cache_digest H binding = json_sha256 H binding"


section \<open>Lemmas\<close>

subsection \<open>Host names\<close>

lemma is_a_policy [simp]: "is_a ValueError ValueError" "is_a AcquisitionPolicyError ValueError"
  by (simp_all add: is_a.simps)

lemma casefold_id: "list_all (\<lambda>c. code c < 128 \<and> \<not> is_ascii_upper c) s \<Longrightarrow> py_casefold s = s"
  by (induction s) (auto simp: py_casefold_def casefold_char_def Let_def)

lemma lower_id: "list_all (\<lambda>c. code c < 128 \<and> \<not> is_ascii_upper c) s \<Longrightarrow> py_lower s = s"
  by (induction s) (auto simp: py_lower_def lower_char_def Let_def)

lemma label_char_code: "label_char c \<Longrightarrow> code c < 128 \<and> \<not> is_ascii_upper c \<and> \<not> py_isspace c \<and> 32 < code c
    \<and> code c \<notin> {47, 63, 35, 91, 93, 58, 64, 37, 46, 61, 38}"
  by (auto simp: label_char_def is_ascii_lower_def is_ascii_digit_def is_ascii_upper_def py_isspace_def Let_def)

definition host_char :: "char \<Rightarrow> bool" where
  "host_char c = (label_char c \<or> c = CHR ''-'' \<or> c = CHR ''.'')"

lemma host_char_code: "host_char c \<Longrightarrow> code c < 128 \<and> \<not> is_ascii_upper c \<and> \<not> py_isspace c \<and> 32 < code c
    \<and> code c \<notin> {47, 63, 35, 91, 93, 58, 64, 37}"
  by (auto simp: host_char_def dest: label_char_code)
     (auto simp: is_ascii_upper_def py_isspace_def Let_def)

lemma host_char_plain: "host_char c \<Longrightarrow> plain_host_char c"
  using host_char_code [of c]
  by (auto simp: plain_host_char_def netloc_char_def authority_end_def line_char_def py_isspace_def Let_def)

lemma join_with_chars: "set (join_with sep xs) \<subseteq> insert sep (\<Union> (set ` set xs))"
  by (induction sep xs rule: join_with.induct) auto

lemma split_acc_snoc: "[] \<in> set (split_acc sep acc (s @ [sep]))"
  by (induction s arbitrary: acc) auto

definition host_ok :: "string \<Rightarrow> bool" where
  "host_ok h = (h \<noteq> [] \<and> list_all host_char h \<and> \<not> py_endswith h ''.'')"

lemma dns_hostname_ok: "dns_hostname h \<Longrightarrow> host_ok h"
proof -
  assume d: "dns_hostname h"
  then have labels: "\<And>p. p \<in> set (py_split (CHR ''.'') h) \<Longrightarrow> dns_label p"
    by (simp add: dns_hostname_def list_all_iff)
  have "h \<noteq> []" using labels by (auto simp: py_split_def dns_label_def)
  moreover have "list_all host_char h"
    using join_with_chars [of "CHR ''.''" "py_split (CHR ''.'') h"] labels
    by (fastforce simp: list_all_iff host_char_def dns_label_def)
  moreover have "\<not> py_endswith h ''.''"
  proof
    assume "py_endswith h ''.''"
    then obtain s where "h = s @ ''.''"
      by (auto simp: py_endswith_def py_startswith_iff prefix_def)
    then have "[] \<in> set (py_split (CHR ''.'') h)" using split_acc_snoc [of "CHR ''.''"] by (simp add: py_split_def)
    then show False using labels by (auto simp: dns_label_def)
  qed
  ultimately show ?thesis by (simp add: host_ok_def)
qed

lemma host_ok_facts:
  assumes "host_ok h"
  shows "py_casefold h = h" "py_lower h = h" "canonical_hostname h = Inr h" "list_all plain_host_char h"
    "list_all url_char_ok h" "h \<noteq> []"
proof -
  from assms have c: "\<And>c. c \<in> set h \<Longrightarrow> host_char c" by (simp add: host_ok_def list_all_iff)
  then have "list_all (\<lambda>c. code c < 128 \<and> \<not> is_ascii_upper c) h"
    using host_char_code by (simp add: list_all_iff)
  then show "py_casefold h = h" "py_lower h = h" by (rule casefold_id, rule lower_id)
  then show "canonical_hostname h = Inr h"
    using assms c host_char_code by (fastforce simp: canonical_hostname_def host_ok_def list_ex_iff)
  show "list_all plain_host_char h" using c host_char_plain by (simp add: list_all_iff)
  show "list_all url_char_ok h" using c host_char_code by (fastforce simp: list_all_iff url_char_ok_def)
  show "h \<noteq> []" using assms by (simp add: host_ok_def)
qed

lemma canonical_config_host_ok: "canonical_config_host ip v = Inr h \<Longrightarrow> host_ok h \<and> ip h = None"
  by (auto simp: canonical_config_host_def dns_hostname_ok)

text \<open>What the constructor of a route guarantees about it\<close>

definition route_ok :: "ip_parser \<Rightarrow> provider_route \<Rightarrow> bool" where
  "route_ok ip r = (host_ok (pr_host r) \<and> ip (pr_host r) = None \<and> 1 \<le> pr_port r \<and> pr_port r \<le> 65535
     \<and> pr_scheme r = ''https'' \<and> route_prefix r \<noteq> [])"

lemma route_init_ok: "route_init E r0 = Inr r \<Longrightarrow> route_ok (env_ip E) r"
  by (auto simp: route_init_def route_ok_def route_prefix_def dest!: canonical_config_host_ok)

subsection \<open>The parts of a split URL\<close>

lemma in_set_tlD: "x \<in> set (tl s) \<Longrightarrow> x \<in> set s"
  by (cases s) auto

lemma py_partition_set:
  "py_partition c s = (a, b, t) \<Longrightarrow> set a \<subseteq> set s \<and> c \<notin> set a \<and> set t \<subseteq> set s"
  by (auto simp: py_partition_def dest: set_takeWhileD in_set_tlD set_dropWhileD)

lemma urlsplit_path:
  assumes "urlsplit ip v = Inr u"
  shows "set (su_path u) \<subseteq> set v" "CHR ''?'' \<notin> set (su_path u)" "CHR ''#'' \<notin> set (su_path u)"
proof -
  obtain scheme r1 where s: "split_scheme [] (clean_url v) = (scheme, r1)" by fastforce
  obtain netloc r2 where n: "split_netloc r1 = (netloc, r2)" by fastforce
  obtain r3 b fragment where f: "py_partition (CHR ''#'') r2 = (r3, b, fragment)" by (metis prod_cases3)
  obtain path b' query where q: "py_partition (CHR ''?'') r3 = (path, b', query)" by (metis prod_cases3)
  have u: "su_path u = path"
    using assms by (auto simp: urlsplit_def urlsplit_with_def s n f q split: if_splits)
  have "set (clean_url v) \<subseteq> set v" by (auto simp: clean_url_def dest: set_dropWhileD)
  moreover have "set r1 \<subseteq> set (clean_url v)"
    using s by (auto simp: split_scheme_def py_partition_def Let_def split: if_splits
        dest: in_set_tlD set_dropWhileD)
  moreover have "set r2 \<subseteq> set r1"
    using n by (auto simp: split_netloc_def split: if_splits dest: set_dropWhileD in_set_dropD)
  moreover have "set r3 \<subseteq> set r2 \<and> CHR ''#'' \<notin> set r3" using py_partition_set [OF f] by simp
  moreover have "set path \<subseteq> set r3 \<and> CHR ''?'' \<notin> set path" using py_partition_set [OF q] by simp
  ultimately show "set (su_path u) \<subseteq> set v" "CHR ''?'' \<notin> set (su_path u)" "CHR ''#'' \<notin> set (su_path u)"
    unfolding u by blast+
qed

lemma safe_root: "safe_path ''/'' = Inr ''/''"
  by code_simp

lemma safe_path_facts:
  assumes "safe_path p = Inr p'"
  shows "py_startswith p' ''/''" "safe_path p' = Inr p'" "p' = (if p = [] then ''/'' else p)"
  using assms safe_root by (cases "p = []"; auto simp: safe_path_def split: if_splits)+

lemma urlencode_chars: "x \<in> set (urlencode q) \<Longrightarrow> quoted_char x \<or> x = CHR ''&'' \<or> x = CHR ''=''"
  using join_with_chars [of "CHR ''&''" "map (\<lambda>(k, v). quote_plus k @ CHR ''='' # quote_plus v) q"]
  by (fastforce simp: urlencode_def dest: quote_plus_chars)

lemma urlencode_query_chars: "list_all query_char (urlencode q)" "list_all url_char_ok (urlencode q)"
proof -
  have *: "32 < code x \<and> code x < 128 \<and> code x \<noteq> 35" if "x \<in> set (urlencode q)" for x
    using urlencode_chars [OF that] quoted_char_code [of x] by auto
  then have "\<And>x. x \<in> set (urlencode q) \<Longrightarrow> x \<noteq> CHR ''#''" by fastforce
  with * show "list_all query_char (urlencode q)"
    by (fastforce simp: list_all_iff query_char_def line_char_def)
  show "list_all url_char_ok (urlencode q)"
    using * by (fastforce simp: list_all_iff url_char_ok_def py_isspace_def Let_def)
qed


subsection \<open>The form of a canonical URL\<close>

text \<open>The port that a canonical URL of the route writes out\<close>

definition canonical_port :: "provider_route \<Rightarrow> int option \<Rightarrow> bool" where
  "canonical_port r port = (port = None \<or> port = Some (pr_port r) \<and> pr_port r \<noteq> 443)"

definition canonical_query :: "provider_route \<Rightarrow> query \<Rightarrow> bool" where
  "canonical_query r q = (query_text_ok q \<and> distinct (map fst q) \<and> sort_key fst q = q
     \<and> list_all (\<lambda>k. k \<in> set (map utf8_encode (pr_allowed_query_fields r))) (map fst q))"

definition canonical_path :: "provider_route \<Rightarrow> string \<Rightarrow> bool" where
  "canonical_path r p = (list_all path_char p \<and> list_all url_char_ok p \<and> safe_path p = Inr p
     \<and> safe_path (route_prefix r) = Inr (route_prefix r) \<and> path_within (route_prefix r) p)"

definition canonical_parts :: "provider_route \<Rightarrow> int option \<Rightarrow> string \<Rightarrow> query \<Rightarrow> split_result" where
  "canonical_parts r port p q = https_parts (pr_host r @ port_suffix port) p (urlencode q)"

lemma query_text_ok_sort: "query_text_ok q \<Longrightarrow> query_text_ok (sort_key f q)"
  by (simp add: query_text_ok_def list_all_iff)

lemma safe_prefix: "route_ok ip r \<Longrightarrow> safe_path (route_prefix r) = Inr p \<Longrightarrow> p = route_prefix r"
  using safe_path_facts(3) [of "route_prefix r" p] by (simp add: route_ok_def)

lemma url_char_not_line: "url_char_ok c \<Longrightarrow> \<not> line_char c"
  by (auto simp: url_char_ok_def line_char_def)

lemma canonicalize_form:
  assumes r: "route_ok ip r" and c: "canonicalize_on_route ip r v = Inr cu"
  obtains port where "canonical_port r port" "canonical_path r (cu_path cu)" "canonical_query r (cu_query cu)"
    "cu_value cu = urlunsplit (canonical_parts r port (cu_path cu) (cu_query cu))"
    "cu_hostname cu = pr_host r" "cu_port cu = pr_port r"
proof -
  have host: "canonical_hostname (pr_host r) = Inr (pr_host r)"
    using r host_ok_facts(3) by (simp add: route_ok_def)
  note defs = canonicalize_on_route_def canonicalize_url_def
  from c obtain u h explicit where auth: "url_authority ip v = Inr (u, h, explicit)"
    by (cases "url_authority ip v") (auto simp: defs split: if_splits)
  from c obtain path where path: "safe_path (su_path u) = Inr path"
    by (cases "safe_path (su_path u)") (auto simp: defs auth host split: if_splits)
  from c obtain pfx where pfx: "safe_path (route_prefix r) = Inr pfx"
    by (cases "safe_path (route_prefix r)") (auto simp: defs auth host path split: if_splits)
  from c obtain pairs where pairs: "parse_qsl True (su_query u) = Inr pairs"
    by (cases "parse_qsl True (su_query u)") (auto simp: defs auth host path pfx split: if_splits)
  from c have v: "list_all url_char_ok v" and e: "explicit = None \<or> explicit = Some (pr_port r)"
    and within: "path_within pfx path" and d: "distinct (map fst pairs)"
    and k: "\<not> list_ex (\<lambda>k. k \<notin> set (map utf8_encode (pr_allowed_query_fields r))) (map fst pairs)"
    and cu: "cu = \<lparr>cu_value = urlunsplit (https_parts (canonical_netloc (pr_host r) explicit (pr_port r)) path
          (urlencode (sort_key fst pairs))),
        cu_hostname = pr_host r, cu_port = pr_port r, cu_path = path, cu_query = sort_key fst pairs\<rparr>"
    by (simp_all add: defs auth host path pfx pairs Let_def split: if_splits)
  have u: "urlsplit ip v = Inr u" using auth by (auto simp: url_authority_def)
  let ?port = "if explicit = None \<or> pr_port r = 443 then None else Some (pr_port r)"
  have port: "canonical_port r ?port" using e by (auto simp: canonical_port_def)
  note sp = urlsplit_path [OF u] safe_path_facts [OF path]
  have root: "list_all url_char_ok ''/''" by code_simp
  have chars: "list_all url_char_ok path" using sp v root by (auto simp: list_all_iff)
  moreover have "list_all path_char path"
    using sp url_char_not_line chars by (fastforce simp: list_all_iff path_char_def)
  moreover have "pfx = route_prefix r" using safe_prefix [OF r pfx] .
  ultimately have p: "canonical_path r path" using sp pfx within by (simp add: canonical_path_def)
  have q: "canonical_query r (sort_key fst pairs)"
    using d k parse_qsl_text [OF pairs]
    by (simp add: canonical_query_def query_text_ok_sort list_all_iff list_ex_iff)
  show ?thesis
  proof (rule that [OF port])
    show "cu_value cu = urlunsplit (canonical_parts r ?port (cu_path cu) (cu_query cu))"
      by (simp add: cu canonical_parts_def port_suffix_def canonical_netloc_def)
  qed (use p q cu in simp_all)
qed

lemma canonical_authority:
  assumes "route_ok ip r" "canonical_port r port"
  shows "plain_authority (pr_host r) port (canonical_parts r port p q)"
  using assms host_ok_facts(4,6) [of "pr_host r"]
  by (auto simp: plain_authority_def canonical_parts_def canonical_port_def route_ok_def)

text \<open>A URL of this form splits into the parts it was put together from.\<close>

lemma canonical_split:
  assumes r: "route_ok ip r" and port: "canonical_port r port" and p: "canonical_path r p"
  shows "urlsplit ip (urlunsplit (canonical_parts r port p q)) = Inr (canonical_parts r port p q)"
proof -
  note a = canonical_authority [OF r port]
  have "list_all netloc_char (pr_host r @ port_suffix port)"
    using plain_netloc_chars [OF a] by (simp add: canonical_parts_def)
  moreover have "pr_host r @ port_suffix port \<noteq> []" using a by (simp add: plain_authority_def)
  ultimately show ?thesis
    using p safe_path_facts(1) [of p p]
    unfolding canonical_parts_def by (intro urlsplit_https) (auto simp: canonical_path_def urlencode_query_chars)
qed

lemma canonical_parts_simps [simp]:
  "su_scheme (canonical_parts r port p q) = ''https''"
  "su_path (canonical_parts r port p q) = p"
  "su_query (canonical_parts r port p q) = urlencode q"
  "su_fragment (canonical_parts r port p q) = []"
  by (simp_all add: canonical_parts_def)

lemma canonical_components:
  assumes "route_ok ip r" "canonical_port r port"
  shows "su_hostname (canonical_parts r port p q) = Some (pr_host r)"
    "su_username (canonical_parts r port p q) = None"
    "su_password (canonical_parts r port p q) = None"
    "su_port (canonical_parts r port p q) = Inr port"
    "CHR ''@'' \<notin> set (su_netloc (canonical_parts r port p q))"
proof -
  note a = canonical_authority [OF assms, of p q]
  show "su_hostname (canonical_parts r port p q) = Some (pr_host r)"
    using plain_hostname [OF a] host_ok_facts(2) assms(1) by (simp add: route_ok_def)
  show "su_username (canonical_parts r port p q) = None" "su_password (canonical_parts r port p q) = None"
    using plain_userinfo [OF a] by simp_all
  show "su_port (canonical_parts r port p q) = Inr port" by (rule plain_port [OF a])
  show "CHR ''@'' \<notin> set (su_netloc (canonical_parts r port p q))"
    using plain_rpartition [OF a] by (auto simp: py_rpartition_def split: if_splits)
qed

lemma canonical_chars:
  assumes r: "route_ok ip r" and port: "canonical_port r port" and p: "canonical_path r p"
  shows "list_all url_char_ok (urlunsplit (canonical_parts r port p q))"
proof -
  have "list_all url_char_ok (port_suffix port)"
  proof (cases port)
    case (Some n)
    with port r have "0 \<le> n" by (auto simp: canonical_port_def route_ok_def)
    then have "list_all is_ascii_digit (dec_int n)" by (simp add: list_all_iff dec_int_digit)
    then have "list_all url_char_ok (dec_int n)"
      by (rule list.pred_mono_strong) (auto simp: url_char_ok_def is_ascii_digit_def py_isspace_def Let_def)
    moreover have "url_char_ok (CHR '':'')" by code_simp
    ultimately show ?thesis by (simp add: port_suffix_def Some)
  qed (simp add: port_suffix_def)
  moreover have "list_all url_char_ok (pr_host r)" "pr_host r \<noteq> []"
    using r host_ok_facts(5,6) by (simp_all add: route_ok_def)
  moreover have "list_all url_char_ok ''https:''" "list_all url_char_ok ''//''" "url_char_ok (CHR ''?'')"
    by code_simp+
  ultimately show ?thesis
    using p safe_path_facts(1) [of p p]
    by (simp only: canonical_parts_def urlunsplit_https append_is_Nil_conv simp_thms canonical_path_def)
       (simp add: query_tail_def urlencode_query_chars)
qed

lemma canonical_nonempty:
  assumes "route_ok ip r" "canonical_port r port" "canonical_path r p"
  shows "urlunsplit (canonical_parts r port p q) \<noteq> []"
proof -
  have "pr_host r @ port_suffix port \<noteq> []" using assms(1) by (simp add: route_ok_def host_ok_def)
  moreover have "py_startswith p ''/''" using assms(3) safe_path_facts(1) by (auto simp: canonical_path_def)
  ultimately show ?thesis by (simp add: canonical_parts_def urlunsplit_https)
qed

lemma parse_canonical_query: "canonical_query r q \<Longrightarrow> parse_qsl strict (urlencode q) = Inr q"
  by (simp add: canonical_query_def parse_qsl_urlencode)

section \<open>Properties\<close>

text \<open>What a URL must be for a request on the route, as the URL parser reads it\<close>

definition on_route :: "ip_parser \<Rightarrow> provider_route \<Rightarrow> string \<Rightarrow> bool" where
  "on_route ip r v = (case urlsplit ip v of
     Inl _ \<Rightarrow> False
   | Inr u \<Rightarrow> su_scheme u = ''https'' \<and> su_hostname u = Some (pr_host r)
       \<and> su_port u \<in> {Inr None, Inr (Some (pr_port r))}
       \<and> su_username u = None \<and> su_password u = None \<and> su_fragment u = []
       \<and> path_within (route_prefix r) (su_path u)
       \<and> list_all (\<lambda>part. part \<notin> {''.'', ''..''}) (py_split (CHR ''/'') (unquote (su_path u)))
       \<and> (case parse_qsl True (su_query u) of
            Inl _ \<Rightarrow> False
          | Inr q \<Rightarrow> distinct (map fst q)
              \<and> list_all (\<lambda>k. k \<in> set (map utf8_encode (pr_allowed_query_fields r))) (map fst q)))"

lemma safe_path_segments: "safe_path p = Inr p \<Longrightarrow>
    list_all (\<lambda>part. part \<notin> {''.'', ''..''}) (py_split (CHR ''/'') (unquote p))"
  by (auto simp: safe_path_def list_all_iff list_ex_iff split: if_splits)

lemma canonical_on_route:
  assumes r: "route_ok ip r" and c: "canonicalize_on_route ip r v = Inr cu"
  shows "on_route ip r (cu_value cu)"
proof -
  from canonicalize_form [OF assms] obtain port where
    port: "canonical_port r port" and p: "canonical_path r (cu_path cu)" and q: "canonical_query r (cu_query cu)"
    and val: "cu_value cu = urlunsplit (canonical_parts r port (cu_path cu) (cu_query cu))" by blast
  have "list_all (\<lambda>part. part \<notin> {''.'', ''..''}) (py_split (CHR ''/'') (unquote (cu_path cu)))"
    using p by (intro safe_path_segments) (simp add: canonical_path_def)
  then show ?thesis
    using port p q
    by (auto simp: on_route_def val canonical_split [OF r port p] canonical_components [OF r port]
        parse_canonical_query [OF q] canonical_port_def canonical_path_def canonical_query_def)
qed

lemma canonicalize_idem:
  assumes r: "route_ok ip r" and c: "canonicalize_on_route ip r v = Inr cu"
    and len: "length (cu_value cu) \<le> 16384"
  shows "canonicalize_on_route ip r (cu_value cu) = Inr cu"
proof -
  from canonicalize_form [OF r c] obtain port where
    port: "canonical_port r port" and p: "canonical_path r (cu_path cu)" and q: "canonical_query r (cu_query cu)"
    and val: "cu_value cu = urlunsplit (canonical_parts r port (cu_path cu) (cu_query cu))"
    and hp: "cu_hostname cu = pr_host r" "cu_port cu = pr_port r" by blast
  note split = canonical_split [OF r port p, of "cu_query cu"]
  note comp = canonical_components [OF r port, of "cu_path cu" "cu_query cu"]
  have host: "canonical_hostname (pr_host r) = Inr (pr_host r)" "ip (pr_host r) = None"
    using r host_ok_facts(3) by (simp_all add: route_ok_def)
  have auth: "url_authority ip (cu_value cu)
      = Inr (canonical_parts r port (cu_path cu) (cu_query cu), pr_host r, port)"
    by (simp add: url_authority_def val split comp host)
  have ne: "cu_value cu \<noteq> []" unfolding val by (rule canonical_nonempty [OF r port p])
  have chars: "list_all url_char_ok (cu_value cu)" unfolding val by (rule canonical_chars [OF r port p])
  have keys: "\<not> list_ex (\<lambda>k. k \<notin> set (map utf8_encode (pr_allowed_query_fields r))) (map fst (cu_query cu))"
    using q by (simp add: canonical_query_def list_ex_iff list_all_iff)
  have "canonical_netloc (pr_host r) port (pr_port r) = pr_host r @ port_suffix port"
    using port by (auto simp: canonical_port_def port_suffix_def canonical_netloc_def)
  then have "urlunsplit (https_parts (canonical_netloc (pr_host r) port (pr_port r)) (cu_path cu)
      (urlencode (cu_query cu))) = cu_value cu"
    by (simp add: val canonical_parts_def)
  moreover have "\<lparr>cu_value = cu_value cu, cu_hostname = pr_host r, cu_port = pr_port r,
      cu_path = cu_path cu, cu_query = cu_query cu\<rparr> = cu"
    using hp by (cases cu) simp
  moreover have "port = None \<or> port = Some (pr_port r)" using port by (auto simp: canonical_port_def)
  moreover have "py_casefold ''https'' = ''https''" by code_simp
  moreover have "safe_path (cu_path cu) = Inr (cu_path cu)" "safe_path (route_prefix r) = Inr (route_prefix r)"
      "path_within (route_prefix r) (cu_path cu)"
    using p by (simp_all add: canonical_path_def)
  moreover have "distinct (map fst (cu_query cu))" "sort_key fst (cu_query cu) = cu_query cu"
    using q by (simp_all add: canonical_query_def)
  ultimately show ?thesis
    using len ne chars keys comp host
    by (simp add: canonicalize_on_route_def canonicalize_url_def auth parse_canonical_query [OF q] Let_def)
qed


subsection \<open>Redaction of canonical URLs\<close>

lemma safe_pairs_none: "safe_pairs [] q = filter (\<lambda>(k, v). \<not> secret_query_key k) q"
  by (induction q) (auto simp: safe_pairs_def)

lemma query_text_ok_filter: "query_text_ok q \<Longrightarrow> query_text_ok (filter P q)"
  by (simp add: query_text_ok_def list_all_iff)

lemma sanitize_canonical_parts:
  assumes r: "route_ok ip r" and port: "canonical_port r port" and p: "canonical_path r p" and q: "query_text_ok q"
  shows "sanitize_url ip [] (urlunsplit (canonical_parts r port p q))
    = urlunsplit (canonical_parts r port p (filter (\<lambda>(k, v). \<not> secret_query_key k) q))"
  using canonical_split [OF r port p, of q] parse_qsl_urlencode [OF q]
  by (simp add: sanitize_url_def redact_all_def safe_pairs_none) (simp add: canonical_parts_def)

subsection \<open>Identifiers\<close>

lemma doi_shape_chars: "doi_shape d \<Longrightarrow> c \<in> set d \<Longrightarrow> doi_char c"
proof -
  assume d: "doi_shape d" and c: "c \<in> set d"
  let ?r = "dropWhile is_ascii_digit (drop 3 d)"
  from d obtain t where t: "d = ''10.'' @ t" by (auto simp: doi_shape_def Let_def py_startswith_iff prefix_def)
  from d have r: "py_startswith ?r ''/''" "list_all doi_char (tl ?r)" by (simp_all add: doi_shape_def Let_def)
  then obtain r' where r': "?r = CHR ''/'' # r'" by (cases ?r) auto
  have "list_all doi_char ''10.''" "doi_char (CHR ''/'')" by code_simp+
  moreover have "list_all doi_char (takeWhile is_ascii_digit t)"
    by (auto simp: list_all_iff doi_char_def label_char_def dest: set_takeWhileD)
  moreover have "list_all doi_char r'" using r(2) r' by simp
  ultimately have "list_all doi_char (''10.'' @ takeWhile is_ascii_digit t @ CHR ''/'' # r')"
    by (simp only: list_all_append list.pred_inject simp_thms)
  moreover have "d = ''10.'' @ takeWhile is_ascii_digit t @ CHR ''/'' # r'"
    using t r' takeWhile_dropWhile_id [of is_ascii_digit t] by simp
  ultimately show ?thesis using c unfolding list_all_iff by blast
qed

lemma doi_char_code: "doi_char c \<Longrightarrow> code c < 127 \<and> 32 < code c \<and> \<not> is_ascii_upper c \<and> \<not> py_isspace c"
proof -
  let ?P = "\<lambda>c. code c < 127 \<and> 32 < code c \<and> \<not> is_ascii_upper c \<and> \<not> py_isspace c"
  assume "doi_char c"
  then have "label_char c \<or> c \<in> set ''-._;()/:''" by (auto simp: doi_char_def)
  moreover have "label_char c \<Longrightarrow> ?P c"
    by (auto simp: label_char_def is_ascii_lower_def is_ascii_digit_def is_ascii_upper_def py_isspace_def Let_def)
  moreover have "list_all ?P ''-._;()/:''" by code_simp
  ultimately show ?thesis unfolding list_all_iff by blast
qed

lemma doi_shape_normal:
  assumes "doi_shape d"
  shows "py_casefold d = d" "py_strip d = d" "\<not> list_ex py_isspace d"
    "\<not> list_ex (\<lambda>c. code c < 32 \<or> code c = 127) d" "d \<noteq> []"
    "\<not> py_startswith d ''doi:''" "\<not> py_startswith d ''https://doi.org/''"
proof -
  have c: "code x < 127 \<and> 32 < code x \<and> \<not> is_ascii_upper x \<and> \<not> py_isspace x" if "x \<in> set d" for x
    using doi_char_code [OF doi_shape_chars [OF assms that]] .
  then show "py_casefold d = d" by (intro casefold_id) (fastforce simp: list_all_iff)
  show "py_strip d = d" using c unfolding py_strip_def by (intro strip_by_none) blast
  show "\<not> list_ex py_isspace d" using c by (auto simp: list_ex_iff)
  show "\<not> list_ex (\<lambda>c. code c < 32 \<or> code c = 127) d" using c by (fastforce simp: list_ex_iff)
  from assms have "py_startswith d ''10.''" by (simp add: doi_shape_def Let_def)
  then obtain t where t: "d = ''10.'' @ t" by (auto simp: py_startswith_iff prefix_def)
  then show "d \<noteq> []" "\<not> py_startswith d ''doi:''" "\<not> py_startswith d ''https://doi.org/''"
    by simp_all
qed

subsection \<open>DNS answers\<close>

lemma check_addresses_eq: "check_addresses ip acc vs = Inr xs \<longleftrightarrow>
    (\<forall>v \<in> set vs. \<exists>a. ip v = Some a \<and> public_address a) \<and> xs = add_new acc (map (addr_text \<circ> the \<circ> ip) vs)"
  by (induction ip acc vs rule: check_addresses.induct) (auto split: option.splits)

section \<open>Properties\<close>


text \<open>
  C19. Canonicalisation is idempotent: the canonical URL is accepted for the same route and
  is its own canonical form, unless percent encoding has made it longer than any accepted URL.
\<close>

theorem canonical_url_stable:
  assumes "route_init E r0 = Inr r" "canonicalize_on_route (env_ip E) r v = Inr cu"
  shows "canonicalize_on_route (env_ip E) r (cu_value cu)
    = (if length (cu_value cu) > 16384 then Inl AcquisitionPolicyError else Inr cu)"
  using canonicalize_idem [OF route_init_ok [OF assms(1)] assms(2)]
  by (auto simp: canonicalize_on_route_def canonicalize_url_def)


text \<open>
  The normal form of a DOI is its own normal form, except when it contains a
  scheme separator or casefolding has made it longer than 512 characters: then it is refused.
\<close>

theorem normalize_doi_again:
  assumes "normalize_doi ip v = Inr d"
  shows "normalize_doi ip d
    = (if length d > 512 \<or> py_contains ''://'' d then Inl AcquisitionPolicyError else Inr d)"
proof -
  from assms have shape: "doi_shape d" and seg: "\<not> has_segment ''..'' d" "CHR ''#'' \<notin> set d" "CHR ''?'' \<notin> set d"
    by (auto simp: normalize_doi_def Let_def split: if_splits)
  note n = doi_shape_normal [OF shape]
  have "doi_candidate ip d = (if py_contains ''://'' d then Inl AcquisitionPolicyError else Inr d)"
    using n by (simp add: doi_candidate_def)
  with n shape seg show ?thesis by (simp add: normalize_doi_def)
qed


end
