(* ===== verification/AcquisitionCache.thy ===== *)
theory AcquisitionCache
  imports AcquisitionPolicy Artifacts
begin

text \<open>
  \<^verbatim>\<open>src/molly/acquisition/cache.py\<close>: the manifest of a cached response and the no-replace cache of
  bodies and manifests, whose \<^verbatim>\<open>get\<close> and \<^verbatim>\<open>put\<close> bind a response to the request it answers.
\<close>

section \<open>Manifests\<close>

record cache_entry =
  ce_schema_version :: string
  ce_cache_identity :: string
  ce_provider :: string
  ce_provider_config_digest :: string
  ce_route_policy_version :: string
  ce_request_identity :: string
  ce_canonical_identifier :: "string option"
  ce_route_id :: string
  ce_request_shape :: fields
  ce_source_url :: string
  ce_resolved_url :: string
  ce_redirect_chain :: "string list"
  ce_response_status :: int
  ce_retrieved_at :: string
  ce_access_status :: string
  ce_license_status :: string
  ce_access_basis :: string
  ce_redistribution_basis :: string
  ce_content_type :: string
  ce_content_family :: string
  ce_body_sha256 :: string
  ce_body_size :: int
  ce_artifact_class :: string
  ce_access_profile_ref :: "string option"
  ce_cache_status :: string
  ce_stored_at :: string

definition validate_cache_url :: "ip_parser \<Rightarrow> string \<Rightarrow> unit res" where
  "validate_cache_url ip value =
     (if value = [] \<or> \<not> list_all url_char_ok value then Inl AcquisitionCacheError
      else case urlsplit ip value of
        Inl _ \<Rightarrow> Inl AcquisitionCacheError
      | Inr u \<Rightarrow>
          if \<not> https_url u then Inl AcquisitionCacheError
          else if sanitize_url ip [] value \<noteq> value then Inl AcquisitionCacheError
          else Inr ())"

definition cache_text_ok :: "string \<Rightarrow> bool" where
  "cache_text_ok value = (py_strip value \<noteq> [] \<and> length value \<le> 512 \<and> \<not> list_ex ctrl_text_char value)"

text \<open>\<^verbatim>\<open>CacheEntry.__post_init__\<close>\<close>

definition cache_entry_init :: "acq_env \<Rightarrow> cache_entry \<Rightarrow> cache_entry res" where
  "cache_entry_init E e =
     bindE (validate_identifier (ce_schema_version e)) (\<lambda>_.
     bindE (validate_digest_reference (ce_cache_identity e)) (\<lambda>_.
     bindE (validate_identifier (ce_provider e)) (\<lambda>_.
     bindE (validate_digest_reference (ce_provider_config_digest e)) (\<lambda>_.
     bindE (validate_digest_reference (ce_request_identity e)) (\<lambda>_.
     bindE (validate_identifier (ce_route_id e)) (\<lambda>_.
     bindE (validate_identifier (ce_route_policy_version e)) (\<lambda>_.
     bindE (check_opt validate_reference (ce_canonical_identifier e)) (\<lambda>_.
     bindE (wrapE (\<lambda>_. True) AcquisitionCacheError (freeze_json_mapping (JObj (ce_request_shape e)))) (\<lambda>shape.
     bindE (guardE (100 \<le> ce_response_status e \<and> ce_response_status e \<le> 599) AcquisitionCacheError) (\<lambda>_.
     bindE (normalize_timestamp (env_host E) (ce_retrieved_at e)) (\<lambda>retrieved_at.
     bindE (guardE (list_all cache_text_ok [ce_access_status e, ce_license_status e, ce_access_basis e,
         ce_redistribution_basis e, ce_cache_status e]) AcquisitionCacheError) (\<lambda>_.
     bindE (guardE (ce_access_status e \<in> set access_statuses) AcquisitionCacheError) (\<lambda>_.
     bindE (check_opt validate_reference (ce_access_profile_ref e)) (\<lambda>_.
     bindE (validate_sha256 (ce_body_sha256 e)) (\<lambda>_.
     bindE (guardE (0 \<le> ce_body_size e \<and> ce_body_size e \<le> max_response_bytes) AcquisitionCacheError) (\<lambda>_.
     bindE (guardE (ce_artifact_class e \<in> set artifact_classes) AcquisitionCacheError) (\<lambda>_.
     bindE (guardE (ce_artifact_class e \<notin> {class_value RUNTIME_SECRET, class_value CREDENTIAL_REFERENCE})
       AcquisitionCacheError) (\<lambda>_.
     bindE (guardE (media_of (ce_content_type e) \<in> set accepted_media_types) AcquisitionCacheError) (\<lambda>_.
     bindE (guardE (ce_content_family e \<in> set content_families) AcquisitionCacheError) (\<lambda>_.
     bindE (guardE (map_option family_value (map_of media_families (media_of (ce_content_type e)))
         = Some (ce_content_family e)) AcquisitionCacheError) (\<lambda>_.
     bindE (validate_cache_url (env_ip E) (ce_source_url e)) (\<lambda>_.
     bindE (validate_cache_url (env_ip E) (ce_resolved_url e)) (\<lambda>_.
     bindE (mapE (validate_cache_url (env_ip E)) (ce_redirect_chain e)) (\<lambda>_.
     bindE (normalize_timestamp (env_host E) (ce_stored_at e)) (\<lambda>stored_at.
     Inr (e\<lparr>ce_request_shape := shape, ce_retrieved_at := retrieved_at,
            ce_content_type := media_of (ce_content_type e), ce_stored_at := stored_at\<rparr>))))))))))))))))))))))))))"

definition cache_entry_fields :: "string \<Rightarrow> string \<Rightarrow> cache_entry \<Rightarrow> fields" where
  "cache_entry_fields identity cfg e =
     [(''schema_version'', JStr (ce_schema_version e)),
      (''cache_identity'', JStr identity),
      (''provider'', JStr (ce_provider e)),
      (''provider_config_digest'', JStr cfg),
      (''route_policy_version'', JStr (ce_route_policy_version e)),
      (''request_identity'', JStr (ce_request_identity e)),
      (''canonical_identifier'', jstr_opt (ce_canonical_identifier e)),
      (''route_id'', JStr (ce_route_id e)),
      (''request_shape'', JObj (ce_request_shape e)),
      (''source_url'', JStr (ce_source_url e)),
      (''resolved_url'', JStr (ce_resolved_url e)),
      (''redirect_chain'', jstrs (ce_redirect_chain e)),
      (''response_status'', JInt (ce_response_status e)),
      (''retrieved_at'', JStr (ce_retrieved_at e)),
      (''access_status'', JStr (ce_access_status e)),
      (''license_status'', JStr (ce_license_status e)),
      (''access_basis'', JStr (ce_access_basis e)),
      (''redistribution_basis'', JStr (ce_redistribution_basis e)),
      (''content_type'', JStr (ce_content_type e)),
      (''content_family'', JStr (ce_content_family e)),
      (''body_sha256'', JStr (ce_body_sha256 e)),
      (''body_size'', JInt (ce_body_size e)),
      (''artifact_class'', JStr (ce_artifact_class e)),
      (''access_profile_ref'', jstr_opt (ce_access_profile_ref e)),
      (''cache_status'', JStr (ce_cache_status e)),
      (''stored_at'', JStr (ce_stored_at e))]"

text \<open>\<^verbatim>\<open>to_dict\<close> writes the two digest references without their prefix.\<close>

definition cache_entry_to_dict :: "cache_entry \<Rightarrow> fields res" where
  "cache_entry_to_dict e =
     bindE (validate_digest_reference (ce_cache_identity e)) (\<lambda>identity.
     bindE (validate_digest_reference (ce_provider_config_digest e)) (\<lambda>config_digest.
     Inr (cache_entry_fields identity config_digest e)))"

text \<open>\<^verbatim>\<open>str(value[key])\<close>\<close>

definition text_item :: "fields \<Rightarrow> string \<Rightarrow> string res" where
  "text_item d k = bindE (jitem d k) (\<lambda>v. Inr (py_str v))"

text \<open>A redirect that is not a string fails the URL check.\<close>

fun url_str :: "json \<Rightarrow> string res" where
  "url_str (JStr s) = Inr s"
| "url_str _ = Inl AcquisitionCacheError"

definition cache_entry_decode :: "acq_env \<Rightarrow> fields \<Rightarrow> cache_entry res" where
  "cache_entry_decode E d =
     bindE (text_item d ''schema_version'') (\<lambda>schema_version.
     bindE (text_item d ''cache_identity'') (\<lambda>cache_identity.
     bindE (text_item d ''provider'') (\<lambda>provider.
     bindE (text_item d ''provider_config_digest'') (\<lambda>provider_config_digest.
     bindE (text_item d ''route_policy_version'') (\<lambda>route_policy_version.
     bindE (text_item d ''request_identity'') (\<lambda>request_identity.
     bindE (text_item d ''route_id'') (\<lambda>route_id.
     bindE (bindE (jitem d ''request_shape'') py_dict) (\<lambda>request_shape.
     bindE (text_item d ''source_url'') (\<lambda>source_url.
     bindE (text_item d ''resolved_url'') (\<lambda>resolved_url.
     bindE (bindE (py_tuple (jget_or d ''redirect_chain'' (JArr []))) (mapE url_str)) (\<lambda>redirect_chain.
     bindE (bindE (jitem d ''response_status'') (py_int (int_of_float (env_host E)))) (\<lambda>response_status.
     bindE (text_item d ''retrieved_at'') (\<lambda>retrieved_at.
     bindE (text_item d ''access_status'') (\<lambda>access_status.
     bindE (text_item d ''license_status'') (\<lambda>license_status.
     bindE (text_item d ''access_basis'') (\<lambda>access_basis.
     bindE (text_item d ''redistribution_basis'') (\<lambda>redistribution_basis.
     bindE (text_item d ''content_type'') (\<lambda>content_type.
     bindE (text_item d ''content_family'') (\<lambda>content_family.
     bindE (text_item d ''body_sha256'') (\<lambda>body_sha256.
     bindE (bindE (jitem d ''body_size'') (py_int (int_of_float (env_host E)))) (\<lambda>body_size.
     bindE (text_item d ''artifact_class'') (\<lambda>artifact_class.
     bindE (text_item d ''cache_status'') (\<lambda>cache_status.
     bindE (text_item d ''stored_at'') (\<lambda>stored_at.
     cache_entry_init E
       \<lparr>ce_schema_version = schema_version, ce_cache_identity = cache_identity, ce_provider = provider,
        ce_provider_config_digest = provider_config_digest,
        ce_route_policy_version = route_policy_version, ce_request_identity = request_identity,
        ce_canonical_identifier = str_or_none (jget d ''canonical_identifier''),
        ce_route_id = route_id, ce_request_shape = request_shape, ce_source_url = source_url,
        ce_resolved_url = resolved_url, ce_redirect_chain = redirect_chain,
        ce_response_status = response_status, ce_retrieved_at = retrieved_at,
        ce_access_status = access_status, ce_license_status = license_status,
        ce_access_basis = access_basis, ce_redistribution_basis = redistribution_basis,
        ce_content_type = content_type, ce_content_family = content_family,
        ce_body_sha256 = body_sha256, ce_body_size = body_size, ce_artifact_class = artifact_class,
        ce_access_profile_ref = str_or_none (jget d ''access_profile_ref''),
        ce_cache_status = cache_status, ce_stored_at = stored_at\<rparr>))))))))))))))))))))))))"

definition cache_entry_from_dict :: "acq_env \<Rightarrow> json \<Rightarrow> cache_entry res" where
  "cache_entry_from_dict E value = (case value of
     JObj d \<Rightarrow> wrapE decode_error AcquisitionCacheError (cache_entry_decode E d)
   | _ \<Rightarrow> Inl AcquisitionCacheError)"

section \<open>The cache's directories and files\<close>

text \<open>
  \<^verbatim>\<open>AcquisitionCache.__init__\<close>: the nodes at the root, at \<^verbatim>\<open>entries\<close> and at \<^verbatim>\<open>bodies\<close>. The root only
  refuses a symbolic link; the other two are also checked after their creation.
\<close>

definition cache_directory :: "(fsnode option, unit) act" where
  "cache_directory n =
     (if n = Some FSSymlink then (Inl AcquisitionCacheError, n) else mkdir_exist_ok n)"

record cache_dirs =
  cd_root :: "fsnode option"
  cd_entries :: "fsnode option"
  cd_bodies :: "fsnode option"

definition open_cache :: "(cache_dirs, unit) act" where
  "open_cache s =
     (case cache_directory (cd_root s) of
        (Inl e, n) \<Rightarrow> (Inl e, s\<lparr>cd_root := n\<rparr>)
      | (Inr _, n) \<Rightarrow>
         (case cache_directory (cd_entries s) of
            (Inl e, n') \<Rightarrow> (Inl e, s\<lparr>cd_root := n, cd_entries := n'\<rparr>)
          | (Inr _, n') \<Rightarrow>
              (let (r, n'') = cache_directory (cd_bodies s)
               in (r, s\<lparr>cd_root := n, cd_entries := n', cd_bodies := n''\<rparr>))))"

text \<open>
  The opened cache: the nodes at \<^verbatim>\<open>bodies/<two digits>\<close>, \<^verbatim>\<open>bodies/<two digits>/<digest>\<close> and
  \<^verbatim>\<open>entries/<digest>.json\<close>. A digest has no separator in it, so no path leaves the root.
\<close>

record cache =
  ca_prefixes :: "string \<Rightarrow> fsnode option"
  ca_bodies :: "string \<Rightarrow> fsnode option"
  ca_entries :: "string \<Rightarrow> fsnode option"

definition body_node :: "cache \<Rightarrow> string \<Rightarrow> fsnode option" where
  "body_node s digest = (if ca_prefixes s (take 2 digest) = Some FSDir then ca_bodies s digest else None)"

definition entry_node :: "cache \<Rightarrow> string \<Rightarrow> fsnode option" where
  "entry_node s digest = ca_entries s digest"

definition create_body_prefix :: "string \<Rightarrow> (cache, unit) act" where
  "create_body_prefix digest s =
     (let (r, n) = cache_directory (ca_prefixes s (take 2 digest))
      in (r, s\<lparr>ca_prefixes := (ca_prefixes s)(take 2 digest := n)\<rparr>))"

text \<open>\<^verbatim>\<open>_paths\<close>: the digest stands for both paths.\<close>

definition cache_paths :: "string \<Rightarrow> (cache, string) act" where
  "cache_paths cache_identity =
     bindA (liftA (validate_digest_reference cache_identity)) (\<lambda>digest.
     bindA (create_body_prefix digest) (\<lambda>_.
     asksA (\<lambda>s. if entry_node s digest = Some FSSymlink \<or> body_node s digest = Some FSSymlink
                then Inl AcquisitionCacheError else Inr digest)))"

definition publish_body :: "string \<Rightarrow> string \<Rightarrow> (cache, bool) act" where
  "publish_body digest payload s =
     (if body_node s digest = Some FSSymlink then (Inl AcquisitionCacheError, s)
      else if ca_prefixes s (take 2 digest) \<noteq> Some FSDir then (Inl OSError, s)
      else if ca_bodies s digest \<noteq> None then (Inr False, s)
      else (Inr True, s\<lparr>ca_bodies := (ca_bodies s)(digest := Some (FSFile payload))\<rparr>))"

definition publish_entry :: "string \<Rightarrow> string \<Rightarrow> (cache, bool) act" where
  "publish_entry digest payload s =
     (if entry_node s digest = Some FSSymlink then (Inl AcquisitionCacheError, s)
      else if entry_node s digest \<noteq> None then (Inr False, s)
      else (Inr True, s\<lparr>ca_entries := (ca_entries s)(digest := Some (FSFile payload))\<rparr>))"

definition read_body :: "host \<Rightarrow> string \<Rightarrow> fsnode option \<Rightarrow> string res" where
  "read_body H expected_sha256 node = (case node of
     Some (FSFile body) \<Rightarrow>
       if sha256_bytes H body \<noteq> expected_sha256 then Inl AcquisitionIntegrityError else Inr body
   | _ \<Rightarrow> Inl AcquisitionCacheError)"

definition read_entry :: "acq_env \<Rightarrow> fsnode option \<Rightarrow> cache_entry res" where
  "read_entry E node = (case node of
     Some (FSFile raw) \<Rightarrow>
       (case loads_bytes (float_of (env_host E)) raw of
          None \<Rightarrow> Inl AcquisitionCacheError
        | Some value \<Rightarrow>
            bindE (wrapE (\<lambda>_. True) AcquisitionCacheError (canonical_json_bytes value)) (\<lambda>canonical.
            if canonical @ [CHR 0x0A] \<noteq> raw then Inl AcquisitionCacheError
            else cache_entry_from_dict E value))
   | _ \<Rightarrow> Inl AcquisitionCacheError)"

section \<open>Operations\<close>

text \<open>\<^verbatim>\<open>for key, expected in expected_binding.items()\<close>\<close>

fun check_expected :: "host \<Rightarrow> fields \<Rightarrow> fields \<Rightarrow> unit res" where
  "check_expected H d [] = Inr ()"
| "check_expected H d ((key, expected) # binding) =
     (if \<not> json_eq (float_eq H) (jget d key) expected then Inl AcquisitionCacheError
      else check_expected H d binding)"

text \<open>What \<^verbatim>\<open>get\<close> does once the paths are there\<close>

definition read_cached :: "acq_env \<Rightarrow> string \<Rightarrow> fields \<Rightarrow> string list \<Rightarrow> string \<Rightarrow> cache \<Rightarrow>
    (cache_entry \<times> string) option res" where
  "read_cached E cache_identity expected secrets digest s =
     (if entry_node s digest = None \<and> body_node s digest = None then Inr None
      else if entry_node s digest = None \<or> body_node s digest = None then Inl AcquisitionCacheError
      else
        bindE (read_entry E (entry_node s digest)) (\<lambda>entry.
        bindE (validate_digest_reference cache_identity) (\<lambda>expected_identity.
        bindE (validate_digest_reference (ce_cache_identity entry)) (\<lambda>identity.
        bindE (guardE (identity = expected_identity) AcquisitionCacheError) (\<lambda>_.
        bindE (cache_entry_to_dict entry) (\<lambda>d.
        bindE (check_expected (env_host E) d expected) (\<lambda>_.
        bindE (read_body (env_host E) (ce_body_sha256 entry) (body_node s digest)) (\<lambda>body.
        bindE (guardE (int (length body) = ce_body_size entry) AcquisitionIntegrityError) (\<lambda>_.
        bindE (assert_no_secret_values body secrets) (\<lambda>_.
        bindE (canonical_json_bytes (JObj d)) (\<lambda>text.
        bindE (assert_no_secret_values text secrets) (\<lambda>_.
        Inr (Some (entry, body))))))))))))))"

definition cache_get :: "acq_env \<Rightarrow> string \<Rightarrow> fields \<Rightarrow> string list \<Rightarrow>
    (cache, (cache_entry \<times> string) option) act" where
  "cache_get E cache_identity expected secrets =
     bindA (cache_paths cache_identity) (\<lambda>digest.
     asksA (read_cached E cache_identity expected secrets digest))"

text \<open>\<^verbatim>\<open>candidate.setdefault(key, value)\<close>\<close>

definition set_default :: "string \<Rightarrow> json \<Rightarrow> fields \<Rightarrow> fields" where
  "set_default k v d = (if map_of d k = None then d @ [(k, v)] else d)"

text \<open>The arguments of \<^verbatim>\<open>put\<close>\<close>

record cache_fill =
  cf_identity :: string
  cf_body :: string
  cf_manifest :: fields
  cf_secrets :: "string list"

definition candidate_manifest :: "host \<Rightarrow> string \<Rightarrow> cache_fill \<Rightarrow> fields" where
  "candidate_manifest H identity a =
     set_default ''body_size'' (JInt (int (length (cf_body a))))
       (set_default ''body_sha256'' (JStr (sha256_bytes H (cf_body a)))
         (set_default ''cache_identity'' (JStr identity) (cf_manifest a)))"

text \<open>The manifest that \<^verbatim>\<open>put\<close> is going to publish, with its text\<close>

definition fill_entry :: "acq_env \<Rightarrow> cache_fill \<Rightarrow> (string \<times> cache_entry \<times> fields \<times> string) res" where
  "fill_entry E a =
     bindE (validate_digest_reference (cf_identity a)) (\<lambda>identity.
     bindE (assert_no_secret_values (cf_body a) (cf_secrets a)) (\<lambda>_.
     let candidate = candidate_manifest (env_host E) identity a in
     bindE (text_item candidate ''cache_identity'') (\<lambda>named.
     bindE (validate_digest_reference named) (\<lambda>named_identity.
     bindE (guardE (named_identity = identity) AcquisitionCacheError) (\<lambda>_.
     bindE (text_item candidate ''body_sha256'') (\<lambda>digest.
     bindE (guardE (digest = sha256_bytes (env_host E) (cf_body a)) AcquisitionIntegrityError) (\<lambda>_.
     bindE (bindE (jitem candidate ''body_size'') (py_int (int_of_float (env_host E)))) (\<lambda>size.
     bindE (guardE (size = int (length (cf_body a))) AcquisitionIntegrityError) (\<lambda>_.
     bindE (cache_entry_from_dict E (JObj candidate)) (\<lambda>entry.
     bindE (cache_entry_to_dict entry) (\<lambda>d.
     bindE (canonical_json_bytes (JObj d)) (\<lambda>text.
     bindE (assert_no_secret_values (text @ [CHR 0x0A]) (cf_secrets a)) (\<lambda>_.
     Inr (identity, entry, d, text @ [CHR 0x0A]))))))))))))))"

text \<open>
  \<open>I n\<close> is what other processes do to the cache before the \<open>n\<close>th step of this one;
  \<open>undisturbed\<close> is a cache that no other process uses.
\<close>

type_synonym cache_interference = "nat \<Rightarrow> cache \<Rightarrow> cache"

definition undisturbed :: cache_interference where
  "undisturbed n s = s"

definition next_step :: "cache_interference \<Rightarrow> nat \<Rightarrow> (cache, 'a) act \<Rightarrow> (cache, 'a) act" where
  "next_step I n m = bindA (modifyA (I n)) (\<lambda>_. m)"

definition fill_body :: "acq_env \<Rightarrow> cache_interference \<Rightarrow> string \<Rightarrow> string \<Rightarrow> (cache, unit) act" where
  "fill_body E I digest body =
     bindA (next_step I 1 (asksA (\<lambda>s. Inr (entry_node s digest \<noteq> None)))) (\<lambda>entry_there.
     bindA (next_step I 2 (asksA (\<lambda>s. Inr (body_node s digest \<noteq> None)))) (\<lambda>body_there.
     bindA (liftA (guardE (entry_there = body_there) AcquisitionCacheError)) (\<lambda>_.
     bindA (next_step I 3 (asksA (\<lambda>s. Inr (body_node s digest \<noteq> None)))) (\<lambda>present.
     bindA (if present then returnA False else next_step I 4 (publish_body digest body)) (\<lambda>_.
     bindA (next_step I 5 (asksA (\<lambda>s.
        read_body (env_host E) (sha256_bytes (env_host E) body) (body_node s digest)))) (\<lambda>existing.
     liftA (guardE (existing = body) AcquisitionIntegrityError)))))))"

text \<open>\<^verbatim>\<open>stored_at\<close> is not compared.\<close>

definition without_stored_at :: "fields \<Rightarrow> fields" where
  "without_stored_at d = filter (\<lambda>(k, v). k \<noteq> ''stored_at'') d"

definition same_manifest :: "acq_env \<Rightarrow> fields \<Rightarrow> cache_entry \<Rightarrow> cache_entry res" where
  "same_manifest E d existing =
     bindE (cache_entry_to_dict existing) (\<lambda>existing_value.
     if \<not> json_eq (float_eq (env_host E)) (JObj (without_stored_at existing_value))
            (JObj (without_stored_at d))
     then Inl AcquisitionCacheError else Inr existing)"

definition fill_manifest :: "acq_env \<Rightarrow> cache_interference \<Rightarrow> string \<Rightarrow> fields \<Rightarrow> string \<Rightarrow>
    (cache, cache_entry) act" where
  "fill_manifest E I digest d payload =
     bindA (next_step I 6 (asksA (\<lambda>s. Inr (entry_node s digest \<noteq> None)))) (\<lambda>present.
     if present
     then next_step I 7 (asksA (\<lambda>s. bindE (read_entry E (entry_node s digest)) (same_manifest E d)))
     else bindA (next_step I 8 (publish_entry digest payload)) (\<lambda>_.
       next_step I 9 (asksA (\<lambda>s. read_entry E (entry_node s digest)))))"

definition cache_put_in :: "acq_env \<Rightarrow> cache_interference \<Rightarrow> cache_fill \<Rightarrow> (cache, cache_entry) act" where
  "cache_put_in E I a =
     bindA (liftA (fill_entry E a)) (\<lambda>(identity, entry, d, payload).
     bindA (next_step I 0 (cache_paths identity)) (\<lambda>digest.
     bindA (fill_body E I digest (cf_body a)) (\<lambda>_.
     fill_manifest E I digest d payload)))"

definition cache_put :: "acq_env \<Rightarrow> cache_fill \<Rightarrow> (cache, cache_entry) act" where
  "cache_put E = cache_put_in E undisturbed"


section \<open>Lemmas: the manifest codec\<close>

definition entry_canon :: "cache_entry \<Rightarrow> cache_entry" where
  "entry_canon e = e\<lparr>ce_request_shape := norm_obj (ce_request_shape e)\<rparr>"

text \<open>A manifest that its constructor leaves alone, with digest references without a prefix\<close>

definition entry_wf :: "acq_env \<Rightarrow> cache_entry \<Rightarrow> bool" where
  "entry_wf E e = (cache_entry_init E e = Inr e \<and> is_sha256 (ce_cache_identity e)
     \<and> is_sha256 (ce_provider_config_digest e) \<and> json_wf (float_of (env_host E)) (JObj (ce_request_shape e)))"

abbreviation entry_enc :: "cache_entry \<Rightarrow> json" where
  "entry_enc e \<equiv> JObj (cache_entry_fields (ce_cache_identity e) (ce_provider_config_digest e) e)"

lemma cache_entry_fields_lookup [simp]:
  "map_of (cache_entry_fields i c e) ''schema_version'' = Some (JStr (ce_schema_version e))"
  "map_of (cache_entry_fields i c e) ''cache_identity'' = Some (JStr i)"
  "map_of (cache_entry_fields i c e) ''provider'' = Some (JStr (ce_provider e))"
  "map_of (cache_entry_fields i c e) ''provider_config_digest'' = Some (JStr c)"
  "map_of (cache_entry_fields i c e) ''route_policy_version'' = Some (JStr (ce_route_policy_version e))"
  "map_of (cache_entry_fields i c e) ''request_identity'' = Some (JStr (ce_request_identity e))"
  "map_of (cache_entry_fields i c e) ''canonical_identifier'' = Some (jstr_opt (ce_canonical_identifier e))"
  "map_of (cache_entry_fields i c e) ''route_id'' = Some (JStr (ce_route_id e))"
  "map_of (cache_entry_fields i c e) ''request_shape'' = Some (JObj (ce_request_shape e))"
  "map_of (cache_entry_fields i c e) ''source_url'' = Some (JStr (ce_source_url e))"
  "map_of (cache_entry_fields i c e) ''resolved_url'' = Some (JStr (ce_resolved_url e))"
  "map_of (cache_entry_fields i c e) ''redirect_chain'' = Some (jstrs (ce_redirect_chain e))"
  "map_of (cache_entry_fields i c e) ''response_status'' = Some (JInt (ce_response_status e))"
  "map_of (cache_entry_fields i c e) ''retrieved_at'' = Some (JStr (ce_retrieved_at e))"
  "map_of (cache_entry_fields i c e) ''access_status'' = Some (JStr (ce_access_status e))"
  "map_of (cache_entry_fields i c e) ''license_status'' = Some (JStr (ce_license_status e))"
  "map_of (cache_entry_fields i c e) ''access_basis'' = Some (JStr (ce_access_basis e))"
  "map_of (cache_entry_fields i c e) ''redistribution_basis'' = Some (JStr (ce_redistribution_basis e))"
  "map_of (cache_entry_fields i c e) ''content_type'' = Some (JStr (ce_content_type e))"
  "map_of (cache_entry_fields i c e) ''content_family'' = Some (JStr (ce_content_family e))"
  "map_of (cache_entry_fields i c e) ''body_sha256'' = Some (JStr (ce_body_sha256 e))"
  "map_of (cache_entry_fields i c e) ''body_size'' = Some (JInt (ce_body_size e))"
  "map_of (cache_entry_fields i c e) ''artifact_class'' = Some (JStr (ce_artifact_class e))"
  "map_of (cache_entry_fields i c e) ''access_profile_ref'' = Some (jstr_opt (ce_access_profile_ref e))"
  "map_of (cache_entry_fields i c e) ''cache_status'' = Some (JStr (ce_cache_status e))"
  "map_of (cache_entry_fields i c e) ''stored_at'' = Some (JStr (ce_stored_at e))"
  by (simp_all add: cache_entry_fields_def)

lemma url_strs [simp]: "mapE url_str (map JStr xs) = Inr xs"
  by (induction xs) simp_all

text \<open>Evaluate a chain of binds from its head.\<close>

lemma bindE_weak_cong: "m = m' \<Longrightarrow> bindE m f = bindE m' f"
  by simp

lemma text_item_eq: "text_item d k = (case map_of d k of None \<Rightarrow> Inl KeyError | Some v \<Rightarrow> Inr (py_str v))"
  by (simp add: text_item_def jitem_def split: option.splits)

lemmas entry_decode_eval = text_item_eq jitem_def jget_def jget_or_def jstrs_def cache_entry_fields_lookup
  option.case bindE_simps py_str.simps py_dict.simps py_tuple.simps url_strs py_int.simps jget_jstr_opt

lemma entry_decode_fields:
  "cache_entry_decode E (cache_entry_fields (ce_cache_identity e) (ce_provider_config_digest e) e)
     = cache_entry_init E e"
  unfolding cache_entry_decode_def
  by (simp only: entry_decode_eval cong: bindE_weak_cong) (rule arg_cong [where f = "cache_entry_init E"], simp)

lemma jnorm_list_strs: "jnorm_list (map JStr xs) = map JStr xs"
  by (induction xs) simp_all

lemma entry_decode_norm:
  "cache_entry_decode E (norm_obj (cache_entry_fields (ce_cache_identity e) (ce_provider_config_digest e) e))
     = cache_entry_init E (entry_canon e)"
  unfolding cache_entry_decode_def
  by (simp only: entry_decode_eval map_of_norm_obj option.map jnorm.simps jnorm_jstr_opt jnorm_obj_norm
        jnorm_list_strs cong: bindE_weak_cong)
     (rule arg_cong [where f = "cache_entry_init E"], simp add: entry_canon_def norm_obj_def)

lemma entry_keys_ok [simp]:
  "\<not> sensitive_key ''cache_identity''" "\<not> sensitive_key ''provider''" "\<not> sensitive_key ''provider_config_digest''"
  "\<not> sensitive_key ''route_policy_version''" "\<not> sensitive_key ''request_identity''"
  "\<not> sensitive_key ''canonical_identifier''" "\<not> sensitive_key ''route_id''" "\<not> sensitive_key ''request_shape''"
  "\<not> sensitive_key ''source_url''" "\<not> sensitive_key ''resolved_url''" "\<not> sensitive_key ''redirect_chain''"
  "\<not> sensitive_key ''response_status''" "\<not> sensitive_key ''retrieved_at''" "\<not> sensitive_key ''access_status''"
  "\<not> sensitive_key ''license_status''" "\<not> sensitive_key ''access_basis''" "\<not> sensitive_key ''redistribution_basis''"
  "\<not> sensitive_key ''content_type''" "\<not> sensitive_key ''content_family''" "\<not> sensitive_key ''body_sha256''"
  "\<not> sensitive_key ''body_size''" "\<not> sensitive_key ''artifact_class''" "\<not> sensitive_key ''access_profile_ref''"
  "\<not> sensitive_key ''cache_status''"
  by (simp_all add: sensitive_key_eval)

lemma entry_fields_ok: "fields_ok (cache_entry_fields i c e) = fields_ok (ce_request_shape e)"
  by (simp add: cache_entry_fields_def)

lemma entry_json_wf: "json_wf fl (JObj (cache_entry_fields i c e)) = json_wf fl (JObj (ce_request_shape e))"
  by (simp add: cache_entry_fields_def)

lemma media_of_fixed: "m \<in> set accepted_media_types \<Longrightarrow> media_of m = m"
proof -
  have "list_all (\<lambda>m. media_of m = m) accepted_media_types" by code_simp
  then show "m \<in> set accepted_media_types \<Longrightarrow> media_of m = m" by (simp add: list_all_iff)
qed

text \<open>The constructor is a projection, and what it accepts does not depend on the order of the shape.\<close>

lemma cache_entry_init_facts:
  assumes "cache_entry_init E e = Inr e'"
  shows "\<exists>retrieved_at stored_at. normalize_timestamp (env_host E) (ce_retrieved_at e) = Inr retrieved_at
      \<and> normalize_timestamp (env_host E) (ce_stored_at e) = Inr stored_at
      \<and> e' = e\<lparr>ce_retrieved_at := retrieved_at, ce_content_type := media_of (ce_content_type e),
                ce_stored_at := stored_at\<rparr>"
    "fields_ok (ce_request_shape e)" "media_of (ce_content_type e) \<in> set accepted_media_types"
    "is_sha256 (ce_body_sha256 e)" "okE (validate_digest_reference (ce_cache_identity e))"
    "okE (validate_digest_reference (ce_provider_config_digest e))"
  using assms by (auto simp: cache_entry_init_def okE_eq split: if_splits)


lemma cache_entry_init_shape:
  assumes "cache_entry_init E e = Inr e'" "fields_ok sh"
  shows "cache_entry_init E (e\<lparr>ce_request_shape := sh\<rparr>) = Inr (e'\<lparr>ce_request_shape := sh\<rparr>)"
  using assms by (auto simp: cache_entry_init_def cong: bindE_weak_cong split: if_splits)

lemma cache_entry_init_fixed:
  assumes iso: "iso_lawful (env_host E)" and init: "cache_entry_init E e = Inr e'"
  shows "cache_entry_init E e' = Inr e'"
proof -
  note f = cache_entry_init_facts [OF init]
  from f(1) obtain t1 t2 where t: "normalize_timestamp (env_host E) (ce_retrieved_at e) = Inr t1"
      "normalize_timestamp (env_host E) (ce_stored_at e) = Inr t2"
    and e': "e' = e\<lparr>ce_retrieved_at := t1, ce_content_type := media_of (ce_content_type e), ce_stored_at := t2\<rparr>"
    by blast
  note t' = normalize_timestamp_fixed [OF iso t(1)] normalize_timestamp_fixed [OF iso t(2)]
  note m = media_of_fixed [OF f(3)]
  from init show ?thesis unfolding e' by (auto simp: cache_entry_init_def t' m split: if_splits)
qed


lemma cache_entry_init_digests:
  assumes "cache_entry_init E e = Inr e" "is_sha256 i" "is_sha256 c"
  shows "cache_entry_init E (e\<lparr>ce_cache_identity := i, ce_provider_config_digest := c\<rparr>)
    = Inr (e\<lparr>ce_cache_identity := i, ce_provider_config_digest := c\<rparr>)"
proof -
  note f = cache_entry_init_facts [OF assms(1)]
  from f(1) have "ce_content_type e = media_of (ce_content_type e)"
      "normalize_timestamp (env_host E) (ce_retrieved_at e) = Inr (ce_retrieved_at e)"
      "normalize_timestamp (env_host E) (ce_stored_at e) = Inr (ce_stored_at e)"
    by (metis cache_entry.ext_inject cache_entry.surjective cache_entry.update_convs(14,19,26))+
  then show ?thesis using assms by (auto simp: cache_entry_init_def split: if_splits)
qed

text \<open>Where the fields that \<open>put\<close> checks come from\<close>

lemma cache_entry_decode_sources:
  assumes "cache_entry_decode E d = Inr e"
  shows "\<exists>e0. cache_entry_init E e0 = Inr e"
    "text_item d ''cache_identity'' = Inr (ce_cache_identity e)"
    "text_item d ''body_sha256'' = Inr (ce_body_sha256 e)"
    "bindE (jitem d ''body_size'') (py_int (int_of_float (env_host E))) = Inr (ce_body_size e)"
    "bindE (jitem d ''request_shape'') py_dict = Inr (ce_request_shape e)"
proof -
  have "\<exists>e0. cache_entry_init E e0 = Inr e
      \<and> text_item d ''cache_identity'' = Inr (ce_cache_identity e0)
      \<and> text_item d ''body_sha256'' = Inr (ce_body_sha256 e0)
      \<and> bindE (jitem d ''body_size'') (py_int (int_of_float (env_host E))) = Inr (ce_body_size e0)
      \<and> bindE (jitem d ''request_shape'') py_dict = Inr (ce_request_shape e0)"
    using assms unfolding cache_entry_decode_def bindE_eq_Inr
    apply (elim exE conjE)
    apply (intro exI conjI)
            apply assumption
    apply simp_all
    done
  then obtain e0 where i: "cache_entry_init E e0 = Inr e"
    and src: "text_item d ''cache_identity'' = Inr (ce_cache_identity e0)"
      "text_item d ''body_sha256'' = Inr (ce_body_sha256 e0)"
      "bindE (jitem d ''body_size'') (py_int (int_of_float (env_host E))) = Inr (ce_body_size e0)"
      "bindE (jitem d ''request_shape'') py_dict = Inr (ce_request_shape e0)"
    by blast
  from cache_entry_init_facts(1) [OF i] have "ce_cache_identity e = ce_cache_identity e0"
      "ce_body_sha256 e = ce_body_sha256 e0" "ce_body_size e = ce_body_size e0"
      "ce_request_shape e = ce_request_shape e0"
    by auto
  with i src show "\<exists>e0. cache_entry_init E e0 = Inr e"
    "text_item d ''cache_identity'' = Inr (ce_cache_identity e)"
    "text_item d ''body_sha256'' = Inr (ce_body_sha256 e)"
    "bindE (jitem d ''body_size'') (py_int (int_of_float (env_host E))) = Inr (ce_body_size e)"
    "bindE (jitem d ''request_shape'') py_dict = Inr (ce_request_shape e)"
    by auto
qed

lemma cache_entry_from_dict_decode:
  "cache_entry_from_dict E v = Inr e \<longleftrightarrow> (\<exists>d. v = JObj d \<and> cache_entry_decode E d = Inr e)"
  by (cases v) (auto simp: cache_entry_from_dict_def)

interpretation entry_codec: record_codec entry_enc "cache_entry_from_dict E" "entry_wf E" entry_canon
  for E
proof
  fix r
  assume wf: "entry_wf E r"
  then show "cache_entry_from_dict E (entry_enc r) = Inr r"
    by (simp add: cache_entry_from_dict_def entry_decode_fields entry_wf_def)
  have "fields_ok (norm_obj (ce_request_shape r))"
    using wf cache_entry_init_facts(2) [of E r r] by (simp add: entry_wf_def)
  then show "cache_entry_from_dict E (jnorm (entry_enc r)) = Inr (entry_canon r)"
    using wf cache_entry_init_shape [of E r r]
    by (simp add: cache_entry_from_dict_def jnorm_obj_norm entry_decode_norm entry_wf_def entry_canon_def del: jnorm.simps)
next
  fix r
  show "jnorm (entry_enc (entry_canon r)) = jnorm (entry_enc r)"
    by (simp add: cache_entry_fields_def entry_canon_def jnorm_obj_norm del: jnorm.simps)
       (rule norm_obj_cong, simp add: jnorm_obj_norm)
qed


section \<open>Lemmas: what a fill writes\<close>

text \<open>The shape of the request in the manifest of a fill is a well-formed JSON object.\<close>

definition shape_ok :: "acq_env \<Rightarrow> cache_fill \<Rightarrow> bool" where
  "shape_ok E a = (case map_of (cf_manifest a) ''request_shape'' of
     Some (JObj sh) \<Rightarrow> json_wf (float_of (env_host E)) (JObj sh) | _ \<Rightarrow> False)"

lemma set_default_other [simp]: "k \<noteq> k' \<Longrightarrow> map_of (set_default k v d) k' = map_of d k'"
  by (simp add: set_default_def map_add_def split: option.splits)

lemma validate_digest_stripped: "validate_digest_reference v = Inr i \<Longrightarrow> validate_digest_reference i = Inr i"
  using validate_digest_result [of v i] by simp

lemma fill_entry_facts:
  assumes fill: "fill_entry E a = Inr (identity, entry, d, text)" and iso: "iso_lawful (env_host E)"
    and shape: "shape_ok E a"
  obtains w where "entry_wf E w" "ce_cache_identity w = identity" "d = cache_entry_fields identity (ce_provider_config_digest w) w"
    "ce_body_sha256 w = sha256 (env_host E) (cf_body a)" "ce_body_size w = int (length (cf_body a))"
    "validate_digest_reference (cf_identity a) = Inr identity" "is_sha256 identity"
    "text = json_dumps (entry_enc w) @ [CHR 0x0A]"
proof -
  let ?c = "candidate_manifest (env_host E) identity a"
  from fill obtain named i cfg t where id: "validate_digest_reference (cf_identity a) = Inr identity"
    and named: "text_item ?c ''cache_identity'' = Inr named" "validate_digest_reference named = Inr identity"
    and sha: "text_item ?c ''body_sha256'' = Inr (sha256 (env_host E) (cf_body a))"
    and size: "bindE (jitem ?c ''body_size'') (py_int (int_of_float (env_host E))) = Inr (int (length (cf_body a)))"
    and dec: "cache_entry_from_dict E (JObj ?c) = Inr entry"
    and i: "validate_digest_reference (ce_cache_identity entry) = Inr i"
    and cfg: "validate_digest_reference (ce_provider_config_digest entry) = Inr cfg"
    and di: "d = cache_entry_fields i cfg entry"
    and bytes: "canonical_json_bytes (JObj d) = Inr t" "text = t @ [CHR 0x0A]"
    unfolding fill_entry_def Let_def cache_entry_to_dict_def sha256_bytes_def bindE_eq_Inr guardE_eq_Inr
    by blast
  note src = cache_entry_decode_sources [OF dec [unfolded cache_entry_from_dict_def json.case wrapE_eq_Inr]]
  have "i = identity" using src(2) named i by simp
  with di have d: "d = cache_entry_fields identity cfg entry" by simp
  from src(1) iso have init: "cache_entry_init E entry = Inr entry" by (auto dest: cache_entry_init_fixed)
  let ?w = "entry\<lparr>ce_cache_identity := identity, ce_provider_config_digest := cfg\<rparr>"
  note ids = validate_digest_result [OF id] validate_digest_result [OF cfg]
  have "map_of ?c ''request_shape'' = map_of (cf_manifest a) ''request_shape''"
    by (simp add: candidate_manifest_def)
  then have "json_wf (float_of (env_host E)) (JObj (ce_request_shape entry))"
    using shape src(5) by (auto simp: shape_ok_def jitem_def split: option.splits json.splits)
  with cache_entry_init_digests [OF init ids] ids have wf: "entry_wf E ?w" by (simp add: entry_wf_def)
  have same: "cache_entry_fields identity cfg ?w = d" by (simp add: d cache_entry_fields_def)
  show ?thesis
  proof (rule that [OF wf])
    show "text = json_dumps (entry_enc ?w) @ [CHR 0x0A]"
      using bytes same by (simp add: canonical_json_bytes_eq split: if_splits)
  qed (use same src sha size id ids in simp_all)
qed

lemma read_written_entry:
  assumes "entry_wf E w"
  shows "read_entry E (Some (FSFile (json_dumps (entry_enc w) @ [CHR 0x0A]))) = Inr (entry_canon w)"
proof -
  from assms have jw: "json_wf (float_of (env_host E)) (entry_enc w)" and ok: "fields_ok (ce_request_shape w)"
    using cache_entry_init_facts(2) [of E w w] by (simp_all add: entry_wf_def entry_json_wf del: json_wf.simps)
  have "canonical_json_bytes (jnorm (entry_enc w)) = Inr (json_dumps (entry_enc w))"
    by (simp only: canonical_json_bytes_eq json_ok_jnorm json_dumps_jnorm) (simp add: entry_fields_ok ok)
  then show ?thesis
    using entry_codec.dec_norm [OF assms] by (simp add: read_entry_def loads_bytes_dumps_line [OF jw])
qed

lemma read_entry_init: "read_entry E n = Inr e \<Longrightarrow> (\<exists>e0. cache_entry_init E e0 = Inr e) \<and> (\<exists>raw. n = Some (FSFile raw))"
  by (auto simp: read_entry_def cache_entry_from_dict_decode dest!: cache_entry_decode_sources(1)
      split: option.splits fsnode.splits if_splits)

lemma read_body_eq [simp]: "read_body H d n = Inr b \<longleftrightarrow> n = Some (FSFile b) \<and> sha256 H b = d"
  by (auto simp: read_body_def sha256_bytes_def split: option.splits fsnode.splits)

text \<open>The cache holds this manifest and body under this digest.\<close>

definition holds_response :: "acq_env \<Rightarrow> cache \<Rightarrow> string \<Rightarrow> cache_entry \<Rightarrow> string \<Rightarrow> bool" where
  "holds_response E s digest e body =
     (read_entry E (entry_node s digest) = Inr e \<and> body_node s digest = Some (FSFile body)
      \<and> validate_digest_reference (ce_cache_identity e) = Inr digest
      \<and> sha256 (env_host E) body = ce_body_sha256 e \<and> ce_body_size e = int (length body))"

lemma body_node_prefix: "body_node s digest = Some n \<Longrightarrow> ca_prefixes s (take 2 digest) = Some FSDir"
  by (simp add: body_node_def split: if_splits)

lemma create_body_prefix_there:
  "ca_prefixes s (take 2 digest) = Some FSDir \<Longrightarrow> create_body_prefix digest s = (Inr (), s)"
  by (simp add: create_body_prefix_def cache_directory_def mkdir_exist_ok_def fun_upd_idem)

lemma cache_get_hit:
  assumes h: "holds_response E s digest e body" and id: "validate_digest_reference identity = Inr digest"
    and expected: "bindE (cache_entry_to_dict e) (\<lambda>d. check_expected (env_host E) d expected) = Inr ()"
  shows "cache_get E identity expected [] s = (Inr (Some (e, body)), s)"
proof -
  note hd = h [unfolded holds_response_def]
  from read_entry_init [of E "entry_node s digest" e] hd obtain e0 raw where
    init: "cache_entry_init E e0 = Inr e" and raw: "entry_node s digest = Some (FSFile raw)" by blast
  from expected obtain d where d: "cache_entry_to_dict e = Inr d" "check_expected (env_host E) d expected = Inr ()"
    by auto
  have "fields_ok (ce_request_shape e)" using cache_entry_init_facts(1,2) [OF init] by auto
  then have bytes: "\<exists>t. canonical_json_bytes (JObj d) = Inr t"
    using d(1) by (auto simp: cache_entry_to_dict_def canonical_json_bytes_eq entry_fields_ok)
  have pre: "create_body_prefix digest s = (Inr (), s)"
    using hd body_node_prefix create_body_prefix_there by blast
  have paths: "cache_paths identity s = (Inr digest, s)"
    using hd raw by (simp add: cache_paths_def bindA_def liftA_def asksA_def id pre)
  show ?thesis
    using hd raw d bytes
    by (auto simp: cache_get_def bindA_def asksA_def paths read_cached_def id assert_no_secret_values_def)
qed

lemma cache_get_found:
  assumes "cache_get E identity expected secrets s = (Inr (Some (e, body)), s')"
  obtains digest d where "validate_digest_reference identity = Inr digest" "holds_response E s' digest e body"
    "cache_entry_to_dict e = Inr d" "check_expected (env_host E) d expected = Inr ()"
    "assert_no_secret_values body secrets = Inr ()"
proof -
  from assms obtain digest where p: "cache_paths identity s = (Inr digest, s')"
    and r: "read_cached E identity expected secrets digest s' = Inr (Some (e, body))"
    by (auto simp: cache_get_def bindA_def asksA_def split: prod.splits sum.splits)
  from p have id: "validate_digest_reference identity = Inr digest"
    by (auto simp: cache_paths_def bindA_def liftA_def asksA_def split: prod.splits sum.splits if_splits)
  from r id obtain d where "holds_response E s' digest e body" "cache_entry_to_dict e = Inr d"
      "check_expected (env_host E) d expected = Inr ()" "assert_no_secret_values body secrets = Inr ()"
    by (auto simp: read_cached_def holds_response_def split: if_splits)
  with id show ?thesis by (rule that)
qed


section \<open>Lemmas: filling the cache\<close>

lemma next_step_undisturbed [simp]: "next_step undisturbed n m = m"
  by (simp add: next_step_def undisturbed_def bindA_def modifyA_def fun_eq_iff)

lemma map_of_without_stored_at [simp]:
  "k \<noteq> ''stored_at'' \<Longrightarrow> map_of (without_stored_at d) k = map_of d k"
  by (induction d) (auto simp: without_stored_at_def)

lemma same_manifest_facts:
  assumes "same_manifest E (cache_entry_fields i c w) e = Inr e'"
  shows "e' = e" "validate_digest_reference (ce_cache_identity e) = Inr i"
    "ce_body_sha256 e = ce_body_sha256 w" "ce_body_size e = ce_body_size w"
proof -
  let ?d = "cache_entry_fields i c w"
  from assms obtain x where x: "cache_entry_to_dict e = Inr x"
    by (cases "cache_entry_to_dict e") (simp_all add: same_manifest_def)
  then obtain j c' where to_dict: "validate_digest_reference (ce_cache_identity e) = Inr j"
    and d: "x = cache_entry_fields j c' e"
    unfolding cache_entry_to_dict_def bindE_eq_Inr by blast
  have cond: "e' = e \<and> json_eq (float_eq (env_host E)) (JObj (without_stored_at x)) (JObj (without_stored_at ?d))"
    using assms unfolding same_manifest_def x bindE_simps by (simp only: sum.simps split: if_splits)
  then have e': "e' = e" and eq: "json_eq (float_eq (env_host E))
      (JObj (without_stored_at (cache_entry_fields j c' e))) (JObj (without_stored_at ?d))"
    unfolding d by blast+
  have field: "\<exists>u. map_of (cache_entry_fields i c w) k = Some u \<and> json_eq (float_eq (env_host E)) v u"
    if "map_of (cache_entry_fields j c' e) k = Some v" "k \<noteq> ''stored_at''" for k v
  proof -
    have "map_of (without_stored_at (cache_entry_fields j c' e)) k = Some v" using that by simp
    then have "(k, v) \<in> set (without_stored_at (cache_entry_fields j c' e))" by (rule map_of_SomeD)
    with eq have "\<exists>u. map_of (without_stored_at (cache_entry_fields i c w)) k = Some u
        \<and> json_eq (float_eq (env_host E)) v u"
      unfolding json_eq.simps json.case eq_members_iff by blast
    with that(2) show ?thesis by simp
  qed
  show "e' = e" by (rule e')
  from field [of "''cache_identity''" "JStr j"] to_dict
  show "validate_digest_reference (ce_cache_identity e) = Inr i" by simp
  from field [of "''body_sha256''" "JStr (ce_body_sha256 e)"]
  show "ce_body_sha256 e = ce_body_sha256 w" by simp
  from field [of "''body_size''" "JInt (ce_body_size e)"]
  show "ce_body_size e = ce_body_size w" by (simp add: num_eq_def)
qed

lemma publish_body_node:
  "publish_body digest b s = (Inr x, s') \<Longrightarrow> ca_entries s' = ca_entries s
     \<and> (body_node s digest = None \<longrightarrow> body_node s' digest = Some (FSFile b))"
  by (auto simp: publish_body_def body_node_def split: if_splits)

lemma fill_body_result:
  assumes "fill_body E undisturbed digest body s = (Inr u, s')"
  shows "body_node s' digest = Some (FSFile body)" "ca_entries s' = ca_entries s"
    "(entry_node s digest \<noteq> None) = (body_node s digest \<noteq> None)"
  using assms
  by (auto simp: fill_body_def bindA_eq_Inr asksA_def liftA_def returnA_def
      dest!: publish_body_node split: if_splits)

lemma cache_put_holds:
  assumes put: "cache_put E a s = (Inr e, s')" and iso: "iso_lawful (env_host E)" and shape: "shape_ok E a"
  obtains identity where "validate_digest_reference (cf_identity a) = Inr identity"
    "holds_response E s' identity e (cf_body a)"
proof -
  from put obtain x where fill0: "fill_entry E a = Inr x"
    by (auto simp: cache_put_def cache_put_in_def bindA_eq_Inr liftA_def)
  obtain identity entry d bytes where fill: "fill_entry E a = Inr (identity, entry, d, bytes)"
    using fill0 by (cases x) auto
  from put obtain digest s1 s2 where paths: "cache_paths identity s = (Inr digest, s1)"
    and body: "fill_body E undisturbed digest (cf_body a) s1 = (Inr (), s2)"
    and rest: "fill_manifest E undisturbed digest d bytes s2 = (Inr e, s')"
    by (auto simp: cache_put_def cache_put_in_def bindA_eq_Inr liftA_def fill)
  obtain w where w: "entry_wf E w" "ce_cache_identity w = identity"
      "d = cache_entry_fields identity (ce_provider_config_digest w) w"
      "ce_body_sha256 w = sha256 (env_host E) (cf_body a)" "ce_body_size w = int (length (cf_body a))"
      "validate_digest_reference (cf_identity a) = Inr identity" "is_sha256 identity"
      "bytes = json_dumps (entry_enc w) @ [CHR 0x0A]"
    using fill_entry_facts [OF fill iso shape] .
  have digest: "digest = identity" using paths w(7)
    by (auto simp: cache_paths_def bindA_eq_Inr liftA_def asksA_def split: if_splits)
  note fb = fill_body_result [OF body]
  show ?thesis
  proof (cases "entry_node s2 digest")
    case None
    with rest have "publish_entry digest bytes s2 = (Inr True, s')" and e: "read_entry E (entry_node s' digest) = Inr e"
      by (auto simp: fill_manifest_def bindA_eq_Inr asksA_def publish_entry_def)
    with None have s': "entry_node s' digest = Some (FSFile bytes)" "body_node s' digest = body_node s2 digest"
      by (auto simp: publish_entry_def entry_node_def body_node_def)
    have "e = entry_canon w" using e s'(1) read_written_entry [OF w(1)] w(8) by simp
    then show ?thesis using s' e fb(1) w digest
      by (intro that [OF w(6)]) (simp add: holds_response_def entry_canon_def)
  next
    case (Some n)
    with rest obtain existing where s': "s' = s2" and r: "read_entry E (entry_node s2 digest) = Inr existing"
      and same: "same_manifest E d existing = Inr e"
      by (auto simp: fill_manifest_def bindA_eq_Inr asksA_def)
    note sm = same_manifest_facts [OF same [unfolded w(3)]]
    then show ?thesis using s' r fb(1) w digest
      by (intro that [OF w(6)]) (simp add: holds_response_def)
  qed
qed

section \<open>Lemmas: nothing published is replaced\<close>

definition cache_extends :: "cache \<Rightarrow> cache \<Rightarrow> bool" where
  "cache_extends s t = ((\<forall>p. ca_prefixes s p \<noteq> None \<longrightarrow> ca_prefixes t p = ca_prefixes s p)
     \<and> (\<forall>d. ca_bodies s d \<noteq> None \<longrightarrow> ca_bodies t d = ca_bodies s d)
     \<and> (\<forall>d. ca_entries s d \<noteq> None \<longrightarrow> ca_entries t d = ca_entries s d))"

lemma cache_extends_order: "reflp cache_extends" "transp cache_extends"
  by (auto simp: reflp_def transp_def cache_extends_def)

lemma cache_directory_keeps: "n \<noteq> None \<Longrightarrow> snd (cache_directory n) = n"
  by (auto simp: cache_directory_def mkdir_exist_ok_def split: option.splits fsnode.splits)

lemma cache_publish_extends:
  "advances cache_extends (publish_body d b)" "advances cache_extends (publish_entry d b)"
  "advances cache_extends (create_body_prefix d)"
  by (auto simp: advances_def publish_body_def publish_entry_def create_body_prefix_def cache_extends_def
      entry_node_def cache_directory_keeps case_prod_beta)

definition cache_additive :: "cache_interference \<Rightarrow> bool" where
  "cache_additive I = (\<forall>n s. cache_extends s (I n s))"

lemmas cache_extends_rules = advances_bind [OF cache_extends_order(2)] advances_pure [OF cache_extends_order(1)]
  advances_modify advances_if cache_publish_extends

lemma next_step_extends:
  "cache_additive I \<Longrightarrow> advances cache_extends m \<Longrightarrow> advances cache_extends (next_step I n m)"
  unfolding next_step_def by (intro cache_extends_rules) (simp_all add: cache_additive_def)

lemma cache_put_extends:
  assumes "cache_additive I"
  shows "advances cache_extends (cache_put_in E I a)"
proof -
  have "advances cache_extends (case x of (identity, entry, d, payload) \<Rightarrow>
     bindA (next_step I 0 (cache_paths identity)) (\<lambda>digest.
     bindA (fill_body E I digest (cf_body a)) (\<lambda>_.
     fill_manifest E I digest d payload)))" for x
    unfolding fill_body_def fill_manifest_def cache_paths_def
    by (cases x, simp only: prod.case) (intro cache_extends_rules next_step_extends assms)
  then show ?thesis unfolding cache_put_in_def by (intro cache_extends_rules)
qed

lemma holds_response_extends:
  assumes "holds_response E s digest e body" "cache_extends s t"
  shows "holds_response E t digest e body"
proof -
  from assms(1) have h: "read_entry E (entry_node s digest) = Inr e" "body_node s digest = Some (FSFile body)"
    by (simp_all add: holds_response_def)
  from read_entry_init [OF h(1)] obtain raw where "ca_entries s digest = Some (FSFile raw)"
    by (auto simp: entry_node_def)
  with assms(2) have "entry_node t digest = entry_node s digest"
    by (simp add: entry_node_def cache_extends_def)
  moreover have "ca_prefixes s (take 2 digest) = Some FSDir" "ca_bodies s digest = Some (FSFile body)"
    using h(2) body_node_prefix [OF h(2)] by (simp_all add: body_node_def)
  with assms(2) have "body_node t digest = body_node s digest"
    by (simp add: body_node_def cache_extends_def)
  ultimately show ?thesis using assms(1) by (simp add: holds_response_def)
qed

section \<open>Lemmas: interrupted fills\<close>

text \<open>A body without a manifest\<close>

definition partial_response :: "cache \<Rightarrow> string \<Rightarrow> bool" where
  "partial_response s digest = (entry_node s digest = None
     \<and> (case body_node s digest of Some (FSFile _) \<Rightarrow> True | _ \<Rightarrow> False))"

lemma partial_paths:
  assumes "partial_response s digest" "validate_digest_reference identity = Inr digest"
  shows "cache_paths identity s = (Inr digest, s)"
proof -
  from assms(1) obtain b where b: "body_node s digest = Some (FSFile b)" and e: "entry_node s digest = None"
    by (auto simp: partial_response_def split: option.splits fsnode.splits)
  have "create_body_prefix digest s = (Inr (), s)"
    using b body_node_prefix create_body_prefix_there by blast
  with b e assms(2) show ?thesis by (simp add: cache_paths_def bindA_def liftA_def asksA_def)
qed

lemma partial_get:
  assumes "partial_response s digest" "validate_digest_reference identity = Inr digest"
  shows "cache_get E identity expected secrets s = (Inl AcquisitionCacheError, s)"
  using assms(1) partial_paths [OF assms]
  by (auto simp: cache_get_def bindA_def asksA_def read_cached_def partial_response_def split: option.splits)

lemma partial_put:
  assumes "partial_response s digest" "validate_digest_reference (cf_identity a) = Inr digest"
  shows "snd (cache_put E a s) = s \<and> (\<exists>e. fst (cache_put E a s) = Inl e)"
proof (cases "fill_entry E a")
  case (Inl e)
  then show ?thesis by (simp add: cache_put_def cache_put_in_def bindA_def liftA_def)
next
  case (Inr x)
  obtain identity entry d bytes where x: "x = (identity, entry, d, bytes)" by (cases x) auto
  have id: "identity = digest" using Inr assms(2) by (auto simp: x fill_entry_def Let_def)
  have "validate_digest_reference identity = Inr digest"
    using validate_digest_stripped [OF assms(2)] by (simp add: id)
  note paths = partial_paths [OF assms(1) this]
  have "fill_body E undisturbed digest (cf_body a) s = (Inl AcquisitionCacheError, s)"
    using assms(1) by (auto simp: fill_body_def bindA_def asksA_def liftA_def partial_response_def split: option.splits)
  then show ?thesis using Inr by (simp add: cache_put_def cache_put_in_def bindA_def liftA_def x paths)
qed

section \<open>Lemmas: a fresh identity\<close>

lemma cache_put_fresh:
  assumes fill: "fill_entry E a = Inr (identity, entry, d, bytes)" and iso: "iso_lawful (env_host E)"
    and shape: "shape_ok E a" and pre: "ca_prefixes s (take 2 identity) \<in> {None, Some FSDir}"
    and free: "ca_bodies s identity = None" "ca_entries s identity = None"
  obtains w s' where "cache_put E a s = (Inr (entry_canon w), s')" "entry_wf E w"
    "d = cache_entry_fields identity (ce_provider_config_digest w) w"
proof -
  obtain w where w: "entry_wf E w" "d = cache_entry_fields identity (ce_provider_config_digest w) w"
      "validate_digest_reference (cf_identity a) = Inr identity" "bytes = json_dumps (entry_enc w) @ [CHR 0x0A]"
    using fill_entry_facts [OF fill iso shape] .
  let ?s1 = "s\<lparr>ca_prefixes := (ca_prefixes s)(take 2 identity := Some FSDir)\<rparr>"
  let ?s2 = "?s1\<lparr>ca_bodies := (ca_bodies ?s1)(identity := Some (FSFile (cf_body a)))\<rparr>"
  let ?s3 = "?s2\<lparr>ca_entries := (ca_entries ?s2)(identity := Some (FSFile bytes))\<rparr>"
  have nodes: "entry_node ?s1 identity = None" "body_node ?s1 identity = None"
      "body_node ?s2 identity = Some (FSFile (cf_body a))" "entry_node ?s2 identity = None"
      "entry_node ?s3 identity = Some (FSFile bytes)"
    using free by (simp_all add: entry_node_def body_node_def)
  have "create_body_prefix identity s = (Inr (), ?s1)"
    using pre by (auto simp: create_body_prefix_def cache_directory_def mkdir_exist_ok_def fun_upd_idem_iff)
  then have paths: "cache_paths identity s = (Inr identity, ?s1)"
    using validate_digest_stripped [OF w(3)] nodes by (simp add: cache_paths_def bindA_def liftA_def asksA_def)
  have "publish_body identity (cf_body a) ?s1 = (Inr True, ?s2)"
    using free nodes(2) by (simp add: publish_body_def)
  then have body: "fill_body E undisturbed identity (cf_body a) ?s1 = (Inr (), ?s2)"
    using nodes by (simp add: fill_body_def bindA_def asksA_def liftA_def read_body_def sha256_bytes_def)
  have "publish_entry identity bytes ?s2 = (Inr True, ?s3)" using nodes(4) by (simp add: publish_entry_def)
  then have "fill_manifest E undisturbed identity d bytes ?s2 = (Inr (entry_canon w), ?s3)"
    using nodes(4,5) read_written_entry [OF w(1)] w(4)
    by (simp add: fill_manifest_def bindA_def asksA_def del: fun_upd_apply)
  with body paths have "cache_put E a s = (Inr (entry_canon w), ?s3)"
    by (simp add: cache_put_def cache_put_in_def bindA_def liftA_def fill del: fun_upd_apply)
  from that [OF this w(1,2)] show ?thesis .
qed

section \<open>Properties\<close>



text \<open>
  C15. Nothing that the cache holds is ever replaced: whatever a fill returns or raises, and
  whatever other processes add between its steps, every response that was held before is held after.
\<close>

theorem fill_replaces_nothing:
  assumes "cache_additive I" "holds_response E s digest e body"
  shows "holds_response E (snd (cache_put_in E I a s)) digest e body"
  by (rule holds_response_extends [OF assms(2) advancesD [OF cache_put_extends [OF assms(1)]]])

text \<open>
  C17. A fill that stops after it has published the body, before the manifest, makes its
  identity unusable for good: no later request and no later fill under this identity succeeds, and none of
  them changes the cache.
\<close>

theorem interrupted_fill_never_heals:
  assumes "fill_body E undisturbed digest body s = (Inr (), s')" "entry_node s digest = None"
    and "validate_digest_reference identity = Inr digest"
    and "validate_digest_reference (cf_identity a) = Inr digest"
  shows "cache_get E identity expected secrets s' = (Inl AcquisitionCacheError, s')
    \<and> snd (cache_put E a s') = s' \<and> \<not> okE (fst (cache_put E a s'))"
proof -
  have "partial_response s' digest"
    using fill_body_result [OF assms(1)] assms(2) by (simp add: partial_response_def entry_node_def)
  from partial_get [OF this assms(3)] partial_put [OF this assms(4), of E] show ?thesis by (auto simp: okE_eq)
qed

end
