(* ===== verification/AcquisitionExamples.thy ===== *)
theory AcquisitionExamples
  imports AcquisitionCache
begin

text \<open>
  A concrete environment, route, URL and fill, on which the properties of the acquisition policy and of
  the cache are witnessed.
\<close>

section \<open>A route and a URL\<close>

definition demo_acq :: acq_env where
  "demo_acq = \<lparr>env_host = demo_host, env_ip = (\<lambda>_. None), env_float_repr = (\<lambda>_. ''1.0''), env_nfkc = (\<lambda>s. s)\<rparr>"

definition demo_route_config :: provider_route where
  "demo_route_config = \<lparr>pr_route_id = ''lookup'', pr_host = ''API.Example.org'', pr_path_template = ''/works/{doi}'',
     pr_port = 443, pr_scheme = ''https'', pr_path_prefix = None, pr_allowed_methods = [''get''],
     pr_allowed_query_fields = [''b'', ''api_key''], pr_allowed_header_names = [''accept''],
     pr_accepted_content_types = [''application/json''], pr_access_basis = ''configured'',
     pr_license_status = ''cc'', pr_redistribution_basis = ''verified'', pr_access_profile_ref = None,
     pr_route_policy_version = ''v1'', pr_provider_id = ''crossref'',
     pr_access_status = ''CONFIGURED_AUTHORIZED''\<rparr>"

definition demo_acq_route :: provider_route where
  "demo_acq_route = demo_route_config\<lparr>pr_host := ''api.example.org'', pr_path_prefix := Some ''/works/'',
     pr_allowed_methods := [''GET'']\<rparr>"

lemma demo_route_init: "route_init demo_acq demo_route_config = Inr demo_acq_route"
  by code_simp

definition demo_url :: string where
  "demo_url = ''HTTPS://API.example.org/works/x%20y?b=%41+&api_key=k''"

definition demo_canonical :: canonical_url where
  "demo_canonical = \<lparr>cu_value = ''https://api.example.org/works/x%20y?api_key=k&b=A+'',
     cu_hostname = ''api.example.org'', cu_port = 443, cu_path = ''/works/x%20y'',
     cu_query = [(''api_key'', ''k''), (''b'', ''A '')]\<rparr>"

lemma demo_canonicalized: "canonicalize_on_route (env_ip demo_acq) demo_acq_route demo_url = Inr demo_canonical"
  by code_simp


theorem canonical_url_stable_witness:
  "canonicalize_on_route (env_ip demo_acq) demo_acq_route ''https://api.example.org/works/x%20y?api_key=k&b=A+''
    = Inr demo_canonical"
  using canonical_url_stable [OF demo_route_init demo_canonicalized] by (simp add: demo_canonical_def)


text \<open>The second DOI is a normal form that is refused when it is given again.\<close>

theorem normalize_doi_again_witness:
  "normalize_doi (env_ip demo_acq) ''10.1000/abc'' = Inr ''10.1000/abc''
   \<and> normalize_doi (env_ip demo_acq) ''doi:10.1000/a://b'' = Inr ''10.1000/a://b''
   \<and> normalize_doi (env_ip demo_acq) ''10.1000/a://b'' = Inl AcquisitionPolicyError"
proof -
  have "normalize_doi (env_ip demo_acq) ''DOI:10.1000/ABC'' = Inr ''10.1000/abc''" by code_simp
  from normalize_doi_again [OF this]
  have normal: "normalize_doi (env_ip demo_acq) ''10.1000/abc'' = Inr ''10.1000/abc''" by simp
  have odd: "normalize_doi (env_ip demo_acq) ''doi:10.1000/a://b'' = Inr ''10.1000/a://b''" by code_simp
  from normalize_doi_again [OF odd]
  have "normalize_doi (env_ip demo_acq) ''10.1000/a://b'' = Inl AcquisitionPolicyError" by simp
  with normal odd show ?thesis by blast
qed

definition demo_resolver :: ip_parser where
  "demo_resolver s = (if s = ''93.184.216.34''
     then Some \<lparr>addr_text = s, addr_version = 4, addr_is_global = True, addr_is_loopback = False,
       addr_is_private = False, addr_is_link_local = False, addr_is_multicast = False,
       addr_is_unspecified = False, addr_is_reserved = False\<rparr> else None)"


section \<open>A configuration\<close>

definition demo_retry :: retry_policy where
  "demo_retry = \<lparr>rp_initial_delay = FloatNum 1, rp_maximum_delay = FloatNum 32, rp_maximum_retries = 3,
     rp_jitter_fraction = FloatNum (1 / 4), rp_maximum_retry_after = FloatNum 32\<rparr>"

definition demo_provider_args :: provider_config where
  "demo_provider_args = \<lparr>pc_provider_id = ''crossref'', pc_provider_class = ''FULL_TEXT'',
     pc_routes = [demo_route_config], pc_connect_timeout = IntNum 10, pc_read_timeout = IntNum 30,
     pc_total_timeout = IntNum 60, pc_max_response_bytes = 1000, pc_max_concurrent_requests = 2,
     pc_requests_per_second = IntNum 1, pc_retry_policy = demo_retry, pc_access_profile_ref = None,
     pc_route_policy_version = ''v1'', pc_logical_access_policy = ''configured''\<rparr>"

definition demo_provider :: provider_config where
  "demo_provider = demo_provider_args\<lparr>pc_routes := [demo_acq_route]\<rparr>"

lemma demo_provider_init: "provider_config_init demo_acq demo_provider_args = Inr demo_provider"
proof -
  have "demo_route_config\<lparr>pr_provider_id := ''crossref''\<rparr> = demo_route_config"
    by (simp add: demo_route_config_def)
  then have bound: "with_provider demo_acq ''crossref'' demo_route_config = Inr demo_acq_route"
    using demo_route_init by (simp add: with_provider_def demo_route_config_def)
  have "validate_identifier ''crossref'' = Inr ''crossref''" "enum_value provider_classes ''FULL_TEXT'' = Inr ''FULL_TEXT''"
    "bounded_text 128 ''v1'' = Inr ''v1''" "bounded_text 256 ''configured'' = Inr ''configured''"
    by code_simp+
  then show ?thesis
    by (simp add: provider_config_init_def demo_provider_def demo_provider_args_def bound in_bound_def
        max_connect_timeout_def max_read_timeout_def max_total_timeout_def max_response_bytes_def)
qed

definition demo_configuration :: acquisition_config where
  "demo_configuration = \<lparr>ac_providers = [demo_provider], ac_full_text_routes = [],
     ac_route_policy_version = ''v1'', ac_max_query_length = 512, ac_max_result_limit = 20\<rparr>"


section \<open>A fill\<close>

definition demo_digest :: string where
  "demo_digest = replicate 64 (CHR ''a'')"

definition demo_response :: string where
  "demo_response = ''{}''"

definition demo_entry :: cache_entry where
  "demo_entry = \<lparr>ce_schema_version = ''v1'', ce_cache_identity = demo_digest, ce_provider = ''crossref'',
     ce_provider_config_digest = demo_digest, ce_route_policy_version = ''v1'',
     ce_request_identity = demo_digest, ce_canonical_identifier = Some ''10.1000/abc'',
     ce_route_id = ''lookup'', ce_request_shape = [(''method'', JStr ''GET'')],
     ce_source_url = ''https://api.example.org/works/x'', ce_resolved_url = ''https://api.example.org/works/x'',
     ce_redirect_chain = [], ce_response_status = 200, ce_retrieved_at = demo_time,
     ce_access_status = ''CONFIGURED_AUTHORIZED'', ce_license_status = ''cc'', ce_access_basis = ''configured'',
     ce_redistribution_basis = ''verified'', ce_content_type = ''application/json'', ce_content_family = ''json'',
     ce_body_sha256 = sha256 demo_host demo_response, ce_body_size = 2, ce_artifact_class = ''PRIVATE_ARTIFACT'',
     ce_access_profile_ref = None, ce_cache_status = ''MISS'', ce_stored_at = demo_time\<rparr>"

definition demo_manifest :: fields where
  "demo_manifest = cache_entry_fields demo_digest demo_digest demo_entry"

definition demo_fill :: cache_fill where
  "demo_fill = \<lparr>cf_identity = demo_digest, cf_body = demo_response, cf_manifest = demo_manifest, cf_secrets = []\<rparr>"

lemma demo_digest_sha: "is_sha256 demo_digest"
  by code_simp

definition demo_source :: string where
  "demo_source = ''https://api.example.org/works/x''"

lemma demo_source_cached: "validate_cache_url (env_ip demo_acq) demo_source = Inr ()"
  by code_simp

lemma demo_names:
  "validate_identifier ''v1'' = Inr ''v1''" "validate_identifier ''crossref'' = Inr ''crossref''"
  "validate_identifier ''lookup'' = Inr ''lookup''" 
  "is_reference ''10.1000/abc''" "\<not> sensitive_key ''method''"
  by code_simp+

lemma demo_access:
  "cache_text_ok ''CONFIGURED_AUTHORIZED''" "cache_text_ok ''cc''" "cache_text_ok ''configured''"
  "cache_text_ok ''verified''" "cache_text_ok ''MISS''"
  "''CONFIGURED_AUTHORIZED'' \<in> set access_statuses" "''PRIVATE_ARTIFACT'' \<in> set artifact_classes"
  "media_of ''application/json'' = ''application/json''" "''application/json'' \<in> set accepted_media_types"
  "''json'' \<in> set content_families"
  "map_of media_families ''application/json'' = Some JSON_family"
  by code_simp+

lemma demo_body_sha: "validate_sha256 (sha256 demo_host demo_response) = Inr (sha256 demo_host demo_response)"
  by code_simp

lemma demo_entry_init: "cache_entry_init demo_acq demo_entry = Inr demo_entry"
  using demo_source_cached demo_digest_sha demo_time_fixed demo_body_sha
  by (simp add: cache_entry_init_def demo_entry_def demo_names demo_access demo_source_def
      max_response_bytes_def okE_eq class_value.simps) (simp add: demo_acq_def)

lemma demo_decoded: "cache_entry_from_dict demo_acq (JObj demo_manifest) = Inr demo_entry"
  using entry_decode_fields [of demo_acq demo_entry] demo_entry_init
  by (simp add: cache_entry_from_dict_def demo_manifest_def demo_entry_def)

lemma demo_filled: "fill_entry demo_acq demo_fill =
    Inr (demo_digest, demo_entry, demo_manifest, json_dumps (JObj demo_manifest) @ [CHR 0x0A])"
proof -
  have host: "env_host demo_acq = demo_host" by (simp add: demo_acq_def)
  have candidate: "candidate_manifest demo_host demo_digest demo_fill = demo_manifest"
    by (simp add: candidate_manifest_def set_default_def demo_fill_def demo_manifest_def)
  have d: "cache_entry_to_dict demo_entry = Inr demo_manifest"
    using demo_digest_sha by (simp add: cache_entry_to_dict_def demo_manifest_def demo_entry_def)
  have fields: "map_of demo_manifest ''cache_identity'' = Some (JStr demo_digest)"
    "map_of demo_manifest ''body_sha256'' = Some (JStr (sha256 demo_host demo_response))"
    "map_of demo_manifest ''body_size'' = Some (JInt 2)"
    by (simp_all add: demo_manifest_def demo_entry_def)
  have "fields_ok (ce_request_shape demo_entry)" by (simp add: demo_entry_def demo_names)
  then have bytes: "canonical_json_bytes (JObj demo_manifest) = Inr (json_dumps (JObj demo_manifest))"
    by (simp add: canonical_json_bytes_eq demo_manifest_def entry_fields_ok)
  have args: "cf_identity demo_fill = demo_digest" "cf_body demo_fill = demo_response" "cf_secrets demo_fill = []"
    by (simp_all add: demo_fill_def)
  have "int (length demo_response) = 2" by (simp add: demo_response_def)
  then show ?thesis
    unfolding fill_entry_def Let_def host args
    by (simp add: candidate demo_digest_sha assert_no_secret_values_def text_item_eq jitem_def fields
        sha256_bytes_def demo_decoded d bytes)
qed

definition demo_cache :: cache where
  "demo_cache = \<lparr>ca_prefixes = (\<lambda>_. None), ca_bodies = (\<lambda>_. None), ca_entries = (\<lambda>_. None)\<rparr>"

definition demo_binding :: fields where
  "demo_binding = [(''provider'', JStr ''crossref''), (''response_status'', JInt 200)]"

lemma demo_fill_ok: "iso_lawful (env_host demo_acq)" "shape_ok demo_acq demo_fill" "cf_identity demo_fill = demo_digest"
    "cf_body demo_fill = demo_response" "cf_secrets demo_fill = []"
  by (simp_all add: demo_acq_def demo_iso_lawful shape_ok_def demo_fill_def demo_manifest_def demo_entry_def json_wf.simps)

lemma demo_cache_free:
  "ca_prefixes demo_cache (take 2 demo_digest) \<in> {None, Some FSDir}"
  "ca_bodies demo_cache demo_digest = None" "ca_entries demo_cache demo_digest = None"
  by (simp_all add: demo_cache_def)

lemma demo_cache_filled:
  obtains e s' where "cache_put demo_acq demo_fill demo_cache = (Inr e, s')"
    "bindE (cache_entry_to_dict e) (\<lambda>d. check_expected (env_host demo_acq) d demo_binding) = Inr ()"
proof -
  obtain w s' where put: "cache_put demo_acq demo_fill demo_cache = (Inr (entry_canon w), s')"
    and w: "entry_wf demo_acq w" and d: "demo_manifest = cache_entry_fields demo_digest (ce_provider_config_digest w) w"
    by (rule cache_put_fresh [OF demo_filled demo_fill_ok(1,2) demo_cache_free])
  have "map_of demo_manifest ''provider'' = Some (JStr ''crossref'')"
    "map_of demo_manifest ''response_status'' = Some (JInt 200)"
    by (simp_all add: demo_manifest_def demo_entry_def)
  then have "ce_provider w = ''crossref''" "ce_response_status w = 200" by (simp_all add: d)
  with w have "bindE (cache_entry_to_dict (entry_canon w)) (\<lambda>d. check_expected (env_host demo_acq) d demo_binding) = Inr ()"
    by (simp add: entry_wf_def cache_entry_to_dict_def entry_canon_def demo_binding_def jget_def)
  from that [OF put this] show ?thesis .
qed


text \<open>A cache with one response\<close>

lemma demo_held:
  obtains e s where "holds_response demo_acq s demo_digest e demo_response"
    "cache_get demo_acq demo_digest demo_binding [] s = (Inr (Some (e, demo_response)), s)"
proof -
  obtain e s' where put: "cache_put demo_acq demo_fill demo_cache = (Inr e, s')"
    and b: "bindE (cache_entry_to_dict e) (\<lambda>d. check_expected (env_host demo_acq) d demo_binding) = Inr ()"
    by (rule demo_cache_filled)
  have id: "validate_digest_reference demo_digest = Inr demo_digest" by (simp add: demo_digest_sha)
  from cache_put_holds [OF put demo_fill_ok(1,2)] have h: "holds_response demo_acq s' demo_digest e demo_response"
    by (metis demo_fill_ok(3,4) id old.sum.inject(2))
  from that [OF h cache_get_hit [OF h id b]] show ?thesis .
qed


theorem fill_replaces_nothing_witness:
  "\<exists>e s. holds_response demo_acq s demo_digest e demo_response
     \<and> holds_response demo_acq (snd (cache_put_in demo_acq undisturbed (demo_fill\<lparr>cf_body := ''[]''\<rparr>) s))
          demo_digest e demo_response"
proof -
  obtain e s where h: "holds_response demo_acq s demo_digest e demo_response" by (rule demo_held)
  have "cache_additive undisturbed"
    using cache_extends_order(1) by (simp add: cache_additive_def undisturbed_def reflp_def)
  from fill_replaces_nothing [OF this h] h show ?thesis by blast
qed

definition demo_prefix_cache :: cache where
  "demo_prefix_cache = demo_cache\<lparr>ca_prefixes := (\<lambda>_. Some FSDir)\<rparr>"

definition demo_interrupted :: cache where
  "demo_interrupted = demo_prefix_cache\<lparr>ca_bodies := (\<lambda>_. None)(demo_digest := Some (FSFile demo_response))\<rparr>"

lemma demo_stopped: "fill_body demo_acq undisturbed demo_digest demo_response demo_prefix_cache = (Inr (), demo_interrupted)"
  by (simp add: fill_body_def bindA_def asksA_def liftA_def demo_prefix_cache_def demo_cache_def
      demo_interrupted_def entry_node_def body_node_def publish_body_def read_body_def sha256_bytes_def)

theorem interrupted_fill_never_heals_witness:
  "cache_get demo_acq demo_digest [] [] demo_interrupted = (Inl AcquisitionCacheError, demo_interrupted)
   \<and> snd (cache_put demo_acq demo_fill demo_interrupted) = demo_interrupted
   \<and> \<not> okE (fst (cache_put demo_acq demo_fill demo_interrupted))"
  by (rule interrupted_fill_never_heals [OF demo_stopped])
     (simp_all add: demo_fill_ok demo_digest_sha demo_prefix_cache_def demo_cache_def entry_node_def)

end
