(* ===== verification/Spec2Isabelle.thy ===== *)
theory Spec2Isabelle
  imports Reviews LoopProperties InspectionProperties AcquisitionExamples
begin

text \<open>
  A verification library of Molly's Core, the package \<^verbatim>\<open>src/src/molly/core\<close>: the host-owned part of an
  agent runtime that keeps artifacts, an append-only run ledger and their lineage, and drives a run in
  which an untrusted decision provider proposes actions and only the host executes them; and of the
  policy side of literature acquisition, \<^verbatim>\<open>src/src/molly/acquisition\<close>: which URLs, addresses and
  contents a configured route admits, and the cache that keeps what was fetched.

  The program. \<^verbatim>\<open>ids.py\<close> validates identifiers, digests and timestamps and prints canonical JSON.
  \<^verbatim>\<open>_persistence.py\<close> appends lines to a file under a lock. On these rest the run ledger (\<^verbatim>\<open>ledger.py\<close>: sealed
  events, each naming its predecessor's digest), the artifact store (\<^verbatim>\<open>artifacts.py\<close>: content-addressed bytes
  and a metadata record, published without replacement) and the lineage (\<^verbatim>\<open>lineage.py\<close>: provenance relations
  in a log like the ledger's). \<^verbatim>\<open>tools.py\<close> holds the specifications, the registry, the policy, the closed
  grammar of actions, the materialized call with its digest and what an executor returns; \<^verbatim>\<open>approvals.py\<close>,
  \<^verbatim>\<open>reviews.py\<close> and \<^verbatim>\<open>validation.py\<close> the records of human decisions and checks; \<^verbatim>\<open>runs.py\<close> the request, the
  context that the provider sees and the result. \<^verbatim>\<open>agent_loop.py\<close> composes them: it projects the events of
  a run, decides from the projection what happens next, and appends the next event before and after
  every effect, so that a run can be resumed wherever its process stopped.

  Theories, in the order they build on each other:

  \<^item> \<^verbatim>\<open>Prelude\<close>: exception classes with their subclass order, results (\<open>'a res\<close>, an exception or a value),
    actions (\<open>('s, 'a) act\<close>, a state that survives an exception) and the rules that compose facts about them
    (\<open>advances\<close>: a relation between start and end state; \<open>ensures\<close>: pre- and postconditions).
  \<^item> \<^verbatim>\<open>PyText\<close>, \<^verbatim>\<open>Json\<close>, \<^verbatim>\<open>JsonCodec\<close>: Python's string operations, \<^verbatim>\<open>json.dumps\<close> and \<^verbatim>\<open>json.loads\<close> as the Core
    calls them, and the round trip between them.
  \<^item> \<^verbatim>\<open>Ids\<close>: \<^verbatim>\<open>ids.py\<close>, with the record \<open>host\<close> of what is not the repository's code (SHA-256, \<^verbatim>\<open>datetime\<close>,
    float literals, JSON schema validation, \<^verbatim>\<open>os.write\<close>) and the laws that proofs assume of it.
  \<^item> \<^verbatim>\<open>Interfaces\<close>: the contracts as locales: record codecs, hash chains, append-only logs, content stores.
    \<^verbatim>\<open>Persistence\<close> extends hash chains to logs that are read from a file.
  \<^item> \<^verbatim>\<open>Persistence\<close>, \<^verbatim>\<open>Ledger\<close>, \<^verbatim>\<open>Artifacts\<close>, \<^verbatim>\<open>Lineage\<close>: the three stores, each on its files, with the abstract
    store that it implements (a list of events, a map from identities, a list of relations); they interpret
    the contracts.
  \<^item> \<^verbatim>\<open>Runs\<close>, \<^verbatim>\<open>Tools\<close>, \<^verbatim>\<open>Approvals\<close>, \<^verbatim>\<open>Reviews\<close>: the records of their modules, with their constructors as functions
    that normalise or raise, their JSON forms and digests; \<^verbatim>\<open>Tools\<close> has the registry, the policy and the actions.
  \<^item> \<^verbatim>\<open>AgentLoop\<close>: \<^verbatim>\<open>agent_loop.py\<close>. \<open>project\<close> is \<^verbatim>\<open>_project\<close>, \<open>append_run_event\<close> is \<^verbatim>\<open>_append\<close>, \<open>execute_call\<close> is
    \<^verbatim>\<open>_execute_call\<close>, \<open>run\<close> and \<open>status\<close> are the public methods; one round of \<^verbatim>\<open>while True\<close> is \<open>loop_round\<close>, which ends
    with a result or goes on.
  \<^item> \<^verbatim>\<open>RunProtocol\<close>: the abstract specification of the loop, a step relation that says which event may follow which
    history, and the invariants of its reachable histories.
  \<^item> \<^verbatim>\<open>LoopRefinement\<close>: the loop takes protocol steps only, whatever it is answered and wherever an exception
    ends it, and every round makes progress. \<^verbatim>\<open>LoopExamples\<close> and \<^verbatim>\<open>LoopProperties\<close>: the concrete runs of the
    witnesses and the properties.
  \<^item> \<^verbatim>\<open>Inspection\<close>: \<^verbatim>\<open>inspection.py\<close>, the operator's read-only view. \<open>inspect_run\<close> validates (\<open>inspected_facts\<close>) and
    derives (\<open>derived_view\<close>); the dicts of \<^verbatim>\<open>_project_calls\<close> are a list of groups. \<^verbatim>\<open>InspectionLemmas\<close> relates its
    projection to the loop's, \<^verbatim>\<open>InspectionExamples\<close> and \<^verbatim>\<open>InspectionProperties\<close> hold witnesses and properties.
  \<^item> \<^verbatim>\<open>Urls\<close>: \<^verbatim>\<open>urllib.parse\<close> of the standard library as acquisition calls it (splitting, joining, query strings, percent
    encoding), with the round trips that its policy relies on. Addresses are a parameter.
  \<^item> \<^verbatim>\<open>AcquisitionModels\<close>: \<^verbatim>\<open>models.py\<close>, a function \<open>..._init\<close> per \<^verbatim>\<open>__post_init__\<close>: routes, providers, the configuration,
    access material, records, provenance. \<^verbatim>\<open>AcquisitionPolicy\<close>: \<^verbatim>\<open>policy.py\<close>, \<open>canonicalize_on_route\<close> being \<^verbatim>\<open>canonicalize_url\<close> with
    the arguments that callers take from a route. \<^verbatim>\<open>AcquisitionCache\<close>: \<^verbatim>\<open>cache.py\<close>; \<open>cache_put_in I\<close> is \<^verbatim>\<open>put\<close> where \<open>I\<close> is what other
    processes do between its steps. \<^verbatim>\<open>AcquisitionExamples\<close>: the witnesses.

  State and effects. The file-backed ledger, store and lineage are proved to implement their abstract forms;
  the loop works on those. Its state \<open>loop_state\<close> is the store, the list of events, the lineage and a counter
  of the readings of the surroundings; the \<open>world\<close> answers the \<open>n\<close>th reading: the UUID, the clock, the
  provider, the executor. An exception is a value, and the state at the moment it is raised remains, so that
  what a failed call left behind is part of every statement. A process that stops between two appends leaves
  a prefix of a history, and the reachable histories are closed under prefixes and under processes with other
  registries and policies.

  What the lemmas show. Codecs: a record that goes through canonical JSON text is the same record up to the
  order of its dicts' keys, with the same digest. Logs: readable logs are sealed, chained and free of repeated IDs;
  appends keep that; a torn or altered line is noticed. Store: publication never changes what was verifiable,
  also among other publishers. Tools: actions are closed, resolution does not depend on the order of registration.
  Approvals and reviews bind one call and one content. Loop: protocol steps only; at most one start per call; no start of
  an announced call without its approval; the server's limits; isolation of runs; termination; results are projections
  of the ledger; settled runs stay as they are. Inspection: on the loop's histories it answers as the loop projects, and
  it shows verified artifacts only. Acquisition: accepted URLs are on their route and stable, redaction removes the credential
  fields only, admitted addresses are public, a filled response is found again, a hit is bound to its request, nothing in the cache
  is replaced, and what an interrupted fill leaves behind.

  Bounds. The JSON scanner's fuel is the length of the text, which \<^verbatim>\<open>JsonCodec\<close> shows to be enough. The search
  for an unused ID has as many rounds as there are used IDs and one more, enough when no UUID repeats. The loop
  has \<open>15\<close> rounds and one per event of the ledger: a round that goes on uses up one of at most twelve decisions, one call that was
  materialized and not started, or the approval.

  Not modelled. Text beyond Latin-1, messages of exceptions, type checks of arguments that Python callers cannot
  reach with the modelled types, \<^verbatim>\<open>fsync\<close>, temporary files and permissions. The lock makes an append atomic; other processes
  interleave with publications to the store and between the calls of \<^verbatim>\<open>run\<close>, not between the appends of one call. Executors, providers and JSON
  schema validation are parameters. In acquisition a float is a rational and \<^verbatim>\<open>ipaddress\<close>, Unicode normalisation and the \<^verbatim>\<open>repr\<close> of a
  float are parameters; the transport, the provider adapters and the service are not modelled. The packages documents, evidence,
  domains, llm, observability, runtime, web, plugins and the command line are not modelled: they are glue around parsers,
  model providers, exporters and HTTP, or records of one scientific domain.
\<close>

end
